(* ===== verification/Prelude.thy ===== *)
theory Prelude
  imports Main "HOL-Library.Word"
begin

text \<open>
  What every theory of the development shares: the names of the machine types, the
  named collections the component proofs rewrite with, and the generic facts on lists,
  maps and words that more than one component needs.
\<close>

unbundle bit_operations_syntax

section \<open>Types\<close>

text \<open>
  The widths are those of the 64-bit targets the library is built for: \<open>int\<close> and
  \<open>nng_duration\<close> are 32-bit, \<open>size_t\<close>, \<open>uint64_t\<close> and pointers are 64-bit.
\<close>

type_synonym byte = "8 word"
type_synonym i32 = "32 word"
type_synonym w64 = "64 word"
type_synonym ptr = "64 word"
type_synonym mem = "64 word \<Rightarrow> 8 word option"

abbreviation null :: "64 word" where "null \<equiv> 0"

section \<open>Collections\<close>

named_theorems call_simps \<open>unfolding of the primitives that call nng and check its result\<close>
named_theorems member_simps \<open>definitions of the member functions shared by the owner classes\<close>
named_theorems view_defs \<open>definitions of the thin methods of the view classes\<close>

section \<open>Maps\<close>

lemma map_upd_some_cases:
  "(m(k \<mapsto> v)) x = Some y \<Longrightarrow> (x = k \<and> y = v) \<or> (x \<noteq> k \<and> m x = Some y)"
  by (auto split: if_splits)

section \<open>Flags\<close>

lemma and_not_and_zero [simp]: "((x::'a::len word) AND NOT y) AND y = 0"
  by (rule bit_word_eqI) (auto simp: bit_simps)

lemma or_and_absorb [simp]: "((x::'a::len word) OR y) AND y = y"
  by (rule bit_word_eqI) (auto simp: bit_simps)

section \<open>Byte lists in memory\<close>

text \<open>\<open>read_bytes m p n\<close> are the \<open>n\<close> bytes at \<open>p\<close>, or \<open>None\<close> when one of them is
  not mapped.\<close>

definition read_bytes :: "mem \<Rightarrow> ptr \<Rightarrow> nat \<Rightarrow> byte list option" where
  "read_bytes m p n = those (map (\<lambda>i. m (p + of_nat i)) [0..<n])"

primrec write_bytes :: "mem \<Rightarrow> ptr \<Rightarrow> byte list \<Rightarrow> mem" where
  "write_bytes m p [] = m"
| "write_bytes m p (b # bs) = write_bytes (m(p \<mapsto> b)) (p + 1) bs"

text \<open>The addresses of a block.\<close>

definition block :: "ptr \<Rightarrow> nat \<Rightarrow> ptr set" where
  "block p n = (\<lambda>i. p + of_nat i) ` {0..<n}"

lemma block_0 [simp]: "block p 0 = {}"
  by (simp add: block_def)

lemma block_Suc: "block p (Suc n) = insert p (block (p + 1) n)"
proof -
  have "{0..<Suc n} = insert 0 (Suc ` {0..<n})"
    by (auto simp: image_iff gr0_conv_Suc)
  then show ?thesis
    unfolding block_def by (simp only: image_insert image_image) (simp add: algebra_simps)
qed

lemma those_map_cong:
  "(\<And>x. x \<in> set xs \<Longrightarrow> f x = g x) \<Longrightarrow> those (map f xs) = those (map g xs)"
  by (metis map_cong)

lemma those_map_Some_iff:
  "those (map f xs) = Some ys \<longleftrightarrow> map f xs = map Some ys"
proof (induction xs arbitrary: ys)
  case Nil
  then show ?case by (cases ys) auto
next
  case (Cons x xs)
  then show ?case by (cases ys) (auto split: option.splits)
qed

lemma those_map_ne_None:
  "those (map f xs) \<noteq> None \<longleftrightarrow> (\<forall>x \<in> set xs. f x \<noteq> None)"
  by (induction xs) (auto split: option.splits)

lemma read_bytes_0 [simp]: "read_bytes m p 0 = Some []"
  by (simp add: read_bytes_def)

lemma read_bytes_length: "read_bytes m p n = Some bs \<Longrightarrow> length bs = n"
  unfolding read_bytes_def those_map_Some_iff by (metis diff_zero length_map length_upt)

lemma read_bytes_cong:
  assumes "\<And>a. a \<in> block p n \<Longrightarrow> m a = m' a"
  shows "read_bytes m p n = read_bytes m' p n"
  unfolding read_bytes_def using assms by (intro those_map_cong) (auto simp: block_def)

lemma read_bytes_mapped:
  "read_bytes m p n \<noteq> None \<longleftrightarrow> block p n \<subseteq> dom m"
  unfolding read_bytes_def those_map_ne_None by (auto simp: block_def)

lemma read_bytes_Suc:
  "read_bytes m p (Suc n) =
     (case m p of None \<Rightarrow> None | Some b \<Rightarrow> map_option ((#) b) (read_bytes m (p + 1) n))"
proof -
  have "[0..<Suc n] = 0 # map Suc [0..<n]"
    by (simp add: map_Suc_upt upt_conv_Cons del: upt_Suc)
  then show ?thesis
    by (simp add: read_bytes_def o_def algebra_simps del: upt_Suc split: option.splits)
qed

lemma write_bytes_outside:
  "a \<notin> block p (length bs) \<Longrightarrow> write_bytes m p bs a = m a"
  by (induction bs arbitrary: m p) (auto simp: block_Suc)

lemma dom_write_bytes: "dom (write_bytes m p bs) = dom m \<union> block p (length bs)"
  by (induction bs arbitrary: m p) (auto simp: block_Suc)

text \<open>A block that does not wrap around the address space has distinct addresses.\<close>

lemma block_no_wrap_fresh:
  assumes "Suc n \<le> 2 ^ 64"
  shows "p \<notin> block (p + 1) n"
proof
  assume "p \<in> block (p + 1) n"
  then obtain i where i: "i < n" and "p = p + 1 + of_nat i"
    by (auto simp: block_def)
  then have "p + (of_nat (Suc i) :: 64 word) = p + 0"
    by (simp add: algebra_simps)
  then have "(of_nat (Suc i) :: 64 word) = 0"
    by (simp only: add_left_cancel)
  then have "2 ^ 64 dvd Suc i"
    by (simp only: word_of_nat_eq_0_iff) simp
  moreover have "Suc i < 2 ^ 64" using i assms by linarith
  ultimately show False by (auto dest: dvd_imp_le)
qed

lemma read_write_bytes:
  "length bs \<le> 2 ^ 64 \<Longrightarrow> read_bytes (write_bytes m p bs) p (length bs) = Some bs"
proof (induction bs arbitrary: m p)
  case Nil
  then show ?case by simp
next
  case (Cons b bs)
  have fresh: "p \<notin> block (p + 1) (length bs)"
    using Cons.prems by (intro block_no_wrap_fresh) simp
  have "read_bytes (write_bytes (m(p \<mapsto> b)) (p + 1) bs) (p + 1) (length bs) = Some bs"
    using Cons.prems by (intro Cons.IH) simp
  moreover have "write_bytes (m(p \<mapsto> b)) (p + 1) bs p = Some b"
    using fresh by (simp add: write_bytes_outside)
  ultimately show ?case by (simp add: read_bytes_Suc)
qed

section \<open>Integers in network byte order\<close>

text \<open>The \<open>n\<close> low bytes of a word, most significant first, and the word of a list of bytes.\<close>

fun be_bytes :: "nat \<Rightarrow> 'a::len word \<Rightarrow> byte list" where
  "be_bytes 0 w = []"
| "be_bytes (Suc n) w = ucast (drop_bit (8 * n) w) # be_bytes n w"

definition be_word :: "byte list \<Rightarrow> 'a::len word" where
  "be_word = foldl (\<lambda>a b. push_bit 8 a OR ucast b) 0"

lemma length_be_bytes [simp]: "length (be_bytes n w) = n"
  by (induction n) auto

lemma be_step:
  "push_bit (8 * n) (push_bit 8 a OR ucast (ucast (drop_bit (8 * n) w) :: byte)) OR take_bit (8 * n) w
     = push_bit (8 * Suc n) a OR take_bit (8 * Suc n) (w :: 'a::len word)"
proof (rule bit_word_eqI)
  fix i assume i: "i < LENGTH('a)"
  consider "i < 8 * n" | "8 * n \<le> i" "i < 8 * n + 8" | "8 * n + 8 \<le> i" by linarith
  then show "bit (push_bit (8 * n) (push_bit 8 a OR ucast (ucast (drop_bit (8 * n) w) :: byte)) OR take_bit (8 * n) w) i
    = bit (push_bit (8 * Suc n) a OR take_bit (8 * Suc n) w) i"
    using i by cases (auto simp: bit_simps algebra_simps)
qed

lemma be_word_acc:
  "foldl (\<lambda>a b. push_bit 8 a OR ucast b) a (be_bytes n (w :: 'a::len word)) =
     push_bit (8 * n) a OR take_bit (8 * n) w"
proof (induction n arbitrary: a)
  case (Suc n)
  then show ?case by (simp only: be_bytes.simps foldl_Cons be_step)
qed simp

lemma be_word_bytes: "be_word (be_bytes n w) = take_bit (8 * n) (w :: 'a::len word)"
  by (simp add: be_word_def be_word_acc)

lemma be_word_bytes_id [simp]:
  "be_word (be_bytes 2 (w :: 16 word)) = w"
  "be_word (be_bytes 4 (v :: 32 word)) = v"
  "be_word (be_bytes 8 (u :: 64 word)) = u"
  by (simp_all add: be_word_bytes take_bit_word_eq_self)

text \<open>A 16-bit value travels in a 32-bit slot.\<close>

lemma be_word_bytes_u16 [simp]:
  "ucast (be_word (be_bytes 2 (ucast (w :: 16 word) :: i32)) :: i32) = w"
  by (simp add: be_word_bytes, rule bit_word_eqI) (auto simp: bit_simps)

end
