(* ===== verification/Nng_State.thy ===== *)
theory Nng_State
  imports Prelude
begin

text \<open>
  The state the wrappers run in and the nng C API they call. nng itself is not part of
  this repository (\<open>#include <nng/nng.h>\<close>), so it is the parameter \<open>nng\<close> of every
  definition: a record with one field per shape of C signature, each taking the name of the C
  function, its arguments and the world. The state keeps the library's own world
  (\<open>'w\<close>, arbitrary), the byte memory that nng and the C++ objects share, and the log of
  the calls made so far, oldest first.

  The second half is \<open>include/nngpp/error.h\<close>: the error codes, \<open>exception\<close> and
  the shape \<open>int r = f(..); if( r != 0 ) throw exception(r,"f");\<close> every method has.
\<close>

section \<open>The C boundary\<close>

text \<open>
  Argument and result values: \<open>VI\<close> a 32-bit integer (an \<open>int\<close>, a
  \<open>uint16_t\<close> or \<open>uint32_t\<close> after promotion, an \<open>nng_duration\<close>), \<open>VW\<close> a
  64-bit one (a pointer, \<open>size_t\<close> or \<open>uint64_t\<close>), \<open>VB\<close> a
  \<open>bool\<close>, \<open>VS\<close> a C string argument, \<open>VId\<close> one of the structs
  \<open>nng_socket\<close>, \<open>nng_ctx\<close>, \<open>nng_dialer\<close>, \<open>nng_listener\<close>,
  \<open>nng_pipe\<close> (which the code reads through their \<open>id\<close>), \<open>VA\<close> the
  object representation of a struct passed by value or written through a pointer
  (\<open>nng_sockaddr\<close>, \<open>nng_iov\<close>).
\<close>

datatype val = VI i32 | VW w64 | VB bool | VS string | VId i32 | VA "byte list"

record call =
  c_fn   :: string
  c_args :: "val list"
  c_ret  :: "val list"   \<comment> \<open>the returned value first, then what was stored through pointers\<close>

record 'w st =
  st_lib :: 'w
  st_mem :: mem
  st_log :: "call list"

type_synonym ('w, 'r) cfun = "string \<Rightarrow> val list \<Rightarrow> 'w \<times> mem \<Rightarrow> 'r \<times> 'w \<times> mem"

text \<open>
  The fields \<open>f_T\<close> are the functions that return a \<open>T\<close>, the fields \<open>s_T\<close>
  those that return a status and store a \<open>T\<close> through their last pointer argument.
  The macros of the nng headers are read by name.
\<close>

record 'w nng =
  macro_int :: "string \<Rightarrow> i32"
  macro_str :: "string \<Rightarrow> string"
  strerror  :: "i32 \<Rightarrow> string"
  f_unit :: "('w, unit) cfun"
  f_int  :: "('w, i32) cfun"
  f_bool :: "('w, bool) cfun"
  f_w64  :: "('w, w64) cfun"
  f_id   :: "('w, i32) cfun"
  f_buf  :: "('w, w64 \<times> w64) cfun"
  s_bool :: "('w, i32 \<times> bool) cfun"
  s_int  :: "('w, i32 \<times> i32) cfun"
  s_w64  :: "('w, i32 \<times> w64) cfun"
  s_id   :: "('w, i32 \<times> i32) cfun"
  s_addr :: "('w, i32 \<times> byte list) cfun"
  s_buf  :: "('w, i32 \<times> w64 \<times> w64) cfun"

definition invoke ::
  "('w, 'r) cfun \<Rightarrow> ('r \<Rightarrow> val list) \<Rightarrow> string \<Rightarrow> val list \<Rightarrow> 'w st \<Rightarrow> 'r \<times> 'w st" where
  "invoke f enc fn args s =
     (case f fn args (st_lib s, st_mem s) of (r, l, m) \<Rightarrow>
        (r, \<lparr>st_lib = l, st_mem = m,
             st_log = st_log s @ [\<lparr>c_fn = fn, c_args = args, c_ret = enc r\<rparr>]\<rparr>))"

definition call_unit where "call_unit nng fn args s = snd (invoke (f_unit nng) (\<lambda>_. []) fn args s)"
definition call_int where "call_int nng = invoke (f_int nng) (\<lambda>r. [VI r])"
definition call_bool where "call_bool nng = invoke (f_bool nng) (\<lambda>r. [VB r])"
definition call_w64 where "call_w64 nng = invoke (f_w64 nng) (\<lambda>r. [VW r])"
definition call_id where "call_id nng = invoke (f_id nng) (\<lambda>r. [VId r])"
definition call_buf where "call_buf nng = invoke (f_buf nng) (\<lambda>(p, n). [VW p, VW n])"
definition get_bool where "get_bool nng = invoke (s_bool nng) (\<lambda>(r, x). [VI r, VB x])"
definition get_int where "get_int nng = invoke (s_int nng) (\<lambda>(r, x). [VI r, VI x])"
definition get_w64 where "get_w64 nng = invoke (s_w64 nng) (\<lambda>(r, x). [VI r, VW x])"
definition get_id where "get_id nng = invoke (s_id nng) (\<lambda>(r, x). [VI r, VId x])"
definition get_addr where "get_addr nng = invoke (s_addr nng) (\<lambda>(r, x). [VI r, VA x])"
definition get_buf where "get_buf nng = invoke (s_buf nng) (\<lambda>(r, p, n). [VI r, VW p, VW n])"

declare call_unit_def [call_simps] call_int_def [call_simps] call_bool_def [call_simps]
  call_w64_def [call_simps] call_id_def [call_simps] call_buf_def [call_simps]
  get_bool_def [call_simps] get_int_def [call_simps] get_w64_def [call_simps]
  get_id_def [call_simps] get_addr_def [call_simps] get_buf_def [call_simps]

section \<open>Error codes and exceptions\<close>

datatype error =
    success | intr | nomem | inval | busy | timedout | connrefused | closed | again | notsup
  | addrinuse | state | noent | proto | unreachable | addrinval | perm | msgsize | connaborted
  | connreset | canceled | nofiles | nospc | exist | readonly | writeonly | crypto | peerauth
  | noarg | ambiguous | badtype | connshut | internal | syserr | tranerr

text \<open>\<open>(int)e\<close>: the enumerators take their values from the macros of nng.\<close>

fun error_val :: "'w nng \<Rightarrow> error \<Rightarrow> i32" where
  "error_val nng success = 0"
| "error_val nng intr = macro_int nng ''NNG_EINTR''"
| "error_val nng nomem = macro_int nng ''NNG_ENOMEM''"
| "error_val nng inval = macro_int nng ''NNG_EINVAL''"
| "error_val nng busy = macro_int nng ''NNG_EBUSY''"
| "error_val nng timedout = macro_int nng ''NNG_ETIMEDOUT''"
| "error_val nng connrefused = macro_int nng ''NNG_ECONNREFUSED''"
| "error_val nng closed = macro_int nng ''NNG_ECLOSED''"
| "error_val nng again = macro_int nng ''NNG_EAGAIN''"
| "error_val nng notsup = macro_int nng ''NNG_ENOTSUP''"
| "error_val nng addrinuse = macro_int nng ''NNG_EADDRINUSE''"
| "error_val nng state = macro_int nng ''NNG_ESTATE''"
| "error_val nng noent = macro_int nng ''NNG_ENOENT''"
| "error_val nng proto = macro_int nng ''NNG_EPROTO''"
| "error_val nng unreachable = macro_int nng ''NNG_EUNREACHABLE''"
| "error_val nng addrinval = macro_int nng ''NNG_EADDRINVAL''"
| "error_val nng perm = macro_int nng ''NNG_EPERM''"
| "error_val nng msgsize = macro_int nng ''NNG_EMSGSIZE''"
| "error_val nng connaborted = macro_int nng ''NNG_ECONNABORTED''"
| "error_val nng connreset = macro_int nng ''NNG_ECONNRESET''"
| "error_val nng canceled = macro_int nng ''NNG_ECANCELED''"
| "error_val nng nofiles = macro_int nng ''NNG_ENOFILES''"
| "error_val nng nospc = macro_int nng ''NNG_ENOSPC''"
| "error_val nng exist = macro_int nng ''NNG_EEXIST''"
| "error_val nng readonly = macro_int nng ''NNG_EREADONLY''"
| "error_val nng writeonly = macro_int nng ''NNG_EWRITEONLY''"
| "error_val nng crypto = macro_int nng ''NNG_ECRYPTO''"
| "error_val nng peerauth = macro_int nng ''NNG_EPEERAUTH''"
| "error_val nng noarg = macro_int nng ''NNG_ENOARG''"
| "error_val nng ambiguous = macro_int nng ''NNG_EAMBIGUOUS''"
| "error_val nng badtype = macro_int nng ''NNG_EBADTYPE''"
| "error_val nng connshut = macro_int nng ''NNG_ECONNSHUT''"
| "error_val nng internal = macro_int nng ''NNG_EINTERNAL''"
| "error_val nng syserr = macro_int nng ''NNG_ESYSERR''"
| "error_val nng tranerr = macro_int nng ''NNG_ETRANERR''"

definition to_string :: "'w nng \<Rightarrow> error \<Rightarrow> string" where
  "to_string nng e = strerror nng (error_val nng e)"

record exn =
  ex_source :: string
  ex_err    :: i32

definition exception :: "i32 \<Rightarrow> string \<Rightarrow> exn" where
  "exception e s = \<lparr>ex_source = s, ex_err = e\<rparr>"

definition exception_of :: "'w nng \<Rightarrow> error \<Rightarrow> string \<Rightarrow> exn" where
  "exception_of nng e s = exception (error_val nng e) s"

text \<open>\<open>get_error\<close> casts back to the enumeration, whose values are the integers themselves.\<close>

definition get_error :: "exn \<Rightarrow> i32" where "get_error e = ex_err e"
definition who :: "exn \<Rightarrow> string" where "who e = ex_source e"
definition what :: "'w nng \<Rightarrow> exn \<Rightarrow> string" where "what nng e = strerror nng (ex_err e)"

text \<open>
  How a C++ function ends: with a value, with an exception, or not at all because it ran
  into undefined behaviour (a read of unmapped memory, an object that does not exist).
\<close>

datatype 'a result = Ok 'a | Throw exn | Ub

text \<open>\<open>int r = f(...); if( r != 0 ) throw exception(r,"f"); return out;\<close>\<close>

definition check :: "string \<Rightarrow> i32 \<times> 'w st \<Rightarrow> unit result \<times> 'w st" where
  "check src = (\<lambda>(r, s). (if r \<noteq> 0 then Throw (exception r src) else Ok (), s))"

definition check_out :: "string \<Rightarrow> (i32 \<times> 'a) \<times> 'w st \<Rightarrow> 'a result \<times> 'w st" where
  "check_out src = (\<lambda>((r, x), s). (if r \<noteq> 0 then Throw (exception r src) else Ok x, s))"

declare check_def [call_simps] check_out_def [call_simps]

section \<open>C library functions on the shared memory\<close>

partial_function (option) strlen_from :: "mem \<Rightarrow> ptr \<Rightarrow> w64 \<Rightarrow> w64 option" where
  "strlen_from m p n =
     (case m p of None \<Rightarrow> None | Some b \<Rightarrow> if b = 0 then Some n else strlen_from m (p + 1) (n + 1))"

definition strlen :: "mem \<Rightarrow> ptr \<Rightarrow> w64 option" where
  "strlen m p = strlen_from m p 0"

text \<open>\<open>memcmp(p,q,n) == 0\<close>: undefined for a null pointer, also when \<open>n\<close> is 0.\<close>

definition memcmp_eq :: "mem \<Rightarrow> ptr \<Rightarrow> ptr \<Rightarrow> w64 \<Rightarrow> bool option" where
  "memcmp_eq m p q n =
     (if p = null \<or> q = null then None
      else case (read_bytes m p (unat n), read_bytes m q (unat n)) of
        (Some xs, Some ys) \<Rightarrow> Some (xs = ys) | _ \<Rightarrow> None)"

text \<open>
  \<open>memcpy(d,p,n)\<close>: undefined when a byte is not mapped, when the regions overlap, and for a null pointer, also
  when \<open>n\<close> is 0.
\<close>

definition memcpy :: "mem \<Rightarrow> ptr \<Rightarrow> ptr \<Rightarrow> w64 \<Rightarrow> mem option" where
  "memcpy m d p n =
     (if d = null \<or> p = null then None
      else case (read_bytes m d (unat n), read_bytes m p (unat n)) of
        (Some _, Some xs) \<Rightarrow>
           if \<exists>i\<in>set [0..<unat n]. \<exists>j\<in>set [0..<unat n]. d + of_nat i = p + of_nat j
           then None else Some (write_bytes m d xs)
      | _ \<Rightarrow> None)"

section \<open>What a call leaves behind\<close>

lemma invoke_log:
  "invoke f enc fn args s = (r, s') \<Longrightarrow>
     st_log s' = st_log s @ [\<lparr>c_fn = fn, c_args = args, c_ret = enc r\<rparr>]"
  by (auto simp: invoke_def split: prod.splits)

lemma invoke_snd_log:
  "st_log (snd (invoke f enc fn args s)) =
     st_log s @ [\<lparr>c_fn = fn, c_args = args, c_ret = enc (fst (invoke f enc fn args s))\<rparr>]"
  by (simp add: invoke_def split: prod.splits)

lemma call_unit_log [simp]:
  "st_log (call_unit nng fn args s) = st_log s @ [\<lparr>c_fn = fn, c_args = args, c_ret = []\<rparr>]"
  by (auto simp: call_unit_def invoke_def split: prod.splits)

text \<open>
  The contract of \<open>exception\<close> the documentation states: a method that throws does so
  because the last nng call it made returned a nonzero status, and the exception carries that
  status and the name of that function; a method that returns made calls that all succeeded.
\<close>

definition reports_failure :: "('w st \<Rightarrow> 'a result \<times> 'w st) \<Rightarrow> bool" where
  "reports_failure m \<longleftrightarrow> (\<forall>s. \<exists>c r outs.
     st_log (snd (m s)) = st_log s @ [c] \<and> c_ret c = VI r # outs \<and>
     (case fst (m s) of
        Throw e \<Rightarrow> r \<noteq> 0 \<and> get_error e = r \<and> who e = c_fn c
      | _ \<Rightarrow> r = 0))"

lemma reports_check [intro!]: "reports_failure (\<lambda>s. check fn (call_int nng fn args s))"
  by (auto simp: reports_failure_def call_simps invoke_def exception_def get_error_def who_def
      split: prod.splits)

lemma reports_check_out:
  assumes "\<And>r x. enc (r, x) = VI r # outs x"
  shows "reports_failure (\<lambda>s. check_out fn (invoke f enc fn args s))"
  using assms
  by (auto simp: reports_failure_def check_out_def invoke_def exception_def get_error_def who_def
      split: prod.splits)

lemma reports_get [intro!]:
  "reports_failure (\<lambda>s. check_out fn (get_bool nng fn args s))"
  "reports_failure (\<lambda>s. check_out fn (get_int nng fn args s))"
  "reports_failure (\<lambda>s. check_out fn (get_w64 nng fn args s))"
  "reports_failure (\<lambda>s. check_out fn (get_id nng fn args s))"
  "reports_failure (\<lambda>s. check_out fn (get_addr nng fn args s))"
  unfolding get_bool_def get_int_def get_w64_def get_id_def get_addr_def
  by (rule reports_check_out; auto)+

lemma reports_get_buf [intro!]: "reports_failure (\<lambda>s. check_out fn (get_buf nng fn args s))"
  unfolding get_buf_def
  by (rule reports_check_out [where outs = "\<lambda>(p, n). [VW p, VW n]"]) auto

section \<open>An instance\<close>

text \<open>
  A library in which every call returns zero and changes nothing. The concrete instances the
  examples of the other theories run on differ from it in the functions they need.
\<close>

definition idle_nng :: "'w nng" where
  "idle_nng =
     \<lparr>macro_int = (\<lambda>_. 0), macro_str = (\<lambda>n. n), strerror = (\<lambda>_. ''''),
      f_unit = (\<lambda>_ _ w. ((), w)), f_int = (\<lambda>_ _ w. (0, w)), f_bool = (\<lambda>_ _ w. (False, w)),
      f_w64 = (\<lambda>_ _ w. (0, w)), f_id = (\<lambda>_ _ w. (0, w)), f_buf = (\<lambda>_ _ w. ((0, 0), w)),
      s_bool = (\<lambda>_ _ w. ((0, False), w)), s_int = (\<lambda>_ _ w. ((0, 0), w)),
      s_w64 = (\<lambda>_ _ w. ((0, 0), w)), s_id = (\<lambda>_ _ w. ((0, 0), w)),
      s_addr = (\<lambda>_ _ w. ((0, []), w)), s_buf = (\<lambda>_ _ w. ((0, 0, 0), w))\<rparr>"

definition start :: "'w \<Rightarrow> 'w st" where
  "start w = \<lparr>st_lib = w, st_mem = Map.empty, st_log = []\<rparr>"

lemma idle_nng_simps [simp]:
  "macro_int idle_nng = (\<lambda>_. 0)" "macro_str idle_nng = (\<lambda>n. n)" "strerror idle_nng = (\<lambda>_. '''')"
  "f_unit idle_nng = (\<lambda>_ _ w. ((), w))" "f_int idle_nng = (\<lambda>_ _ w. (0, w))"
  "f_bool idle_nng = (\<lambda>_ _ w. (False, w))" "f_w64 idle_nng = (\<lambda>_ _ w. (0, w))"
  "f_id idle_nng = (\<lambda>_ _ w. (0, w))" "f_buf idle_nng = (\<lambda>_ _ w. ((0, 0), w))"
  "s_bool idle_nng = (\<lambda>_ _ w. ((0, False), w))" "s_int idle_nng = (\<lambda>_ _ w. ((0, 0), w))"
  "s_w64 idle_nng = (\<lambda>_ _ w. ((0, 0), w))" "s_id idle_nng = (\<lambda>_ _ w. ((0, 0), w))"
  "s_addr idle_nng = (\<lambda>_ _ w. ((0, []), w))" "s_buf idle_nng = (\<lambda>_ _ w. ((0, 0, 0), w))"
  by (simp_all add: idle_nng_def)

end
