(* ===== verification/Options.thy ===== *)
theory Options
  imports Nng_State
begin

text \<open>
  \<open>include/nngpp/option.h\<close>: the generic options, the type each has, and the two tables
  indexed by the enumerators. The tables are lists read by position, as the code reads its
  arrays; that no index is out of range is a lemma. Enumerators that clash with a name of
  Isabelle's library carry a suffix.
\<close>

datatype option_type =
    bool_opt | int_opt | ms_opt | size_opt | uint64_opt | ptr_opt | string_opt | addr_opt

datatype nng_option =
    socket_name | raw | protocol | protocol_name | peer | peer_name | recv_buffer | send_buffer
  | recv_fd | send_fd | recv_timeout | send_timeout | local_address | remote_address | url_opt
  | ttl_max | recv_size_max | reconnect_time_min | reconnect_time_max

text \<open>\<open>(int)o\<close>\<close>

fun option_index :: "nng_option \<Rightarrow> nat" where
  "option_index socket_name = 0"
| "option_index raw = 1"
| "option_index protocol = 2"
| "option_index protocol_name = 3"
| "option_index peer = 4"
| "option_index peer_name = 5"
| "option_index recv_buffer = 6"
| "option_index send_buffer = 7"
| "option_index recv_fd = 8"
| "option_index send_fd = 9"
| "option_index recv_timeout = 10"
| "option_index send_timeout = 11"
| "option_index local_address = 12"
| "option_index remote_address = 13"
| "option_index url_opt = 14"
| "option_index ttl_max = 15"
| "option_index recv_size_max = 16"
| "option_index reconnect_time_min = 17"
| "option_index reconnect_time_max = 18"

definition option_names :: "'w nng \<Rightarrow> string list" where
  "option_names nng = map (macro_str nng)
     [''NNG_OPT_SOCKNAME'',
      ''NNG_OPT_RAW'',
      ''NNG_OPT_PROTO'',
      ''NNG_OPT_PROTONAME'',
      ''NNG_OPT_PEER'',
      ''NNG_OPT_PEERNAME'',
      ''NNG_OPT_RECVBUF'',
      ''NNG_OPT_SENDBUF'',
      ''NNG_OPT_RECVFD'',
      ''NNG_OPT_SENDFD'',
      ''NNG_OPT_RECVTIMEO'',
      ''NNG_OPT_SENDTIMEO'',
      ''NNG_OPT_LOCADDR'',
      ''NNG_OPT_REMADDR'',
      ''NNG_OPT_URL'',
      ''NNG_OPT_MAXTTL'',
      ''NNG_OPT_RECVMAXSZ'',
      ''NNG_OPT_RECONNMINT'',
      ''NNG_OPT_RECONNMAXT'']"

definition option_types :: "option_type list" where
  "option_types =
     [string_opt,
      bool_opt,
      int_opt,
      string_opt,
      int_opt,
      string_opt,
      int_opt,
      int_opt,
      int_opt,
      int_opt,
      ms_opt,
      ms_opt,
      addr_opt,
      addr_opt,
      string_opt,
      int_opt,
      size_opt,
      ms_opt,
      ms_opt]"

definition to_name :: "'w nng \<Rightarrow> nng_option \<Rightarrow> string" where
  "to_name nng o1 = option_names nng ! option_index o1"

definition to_type :: "nng_option \<Rightarrow> option_type" where
  "to_type o1 = option_types ! option_index o1"

text \<open>The type each enumerator of \<open>enum class option\<close> carries in its comment.\<close>

fun documented_type :: "nng_option \<Rightarrow> option_type" where
  "documented_type socket_name = string_opt"
| "documented_type raw = bool_opt"
| "documented_type protocol = int_opt"
| "documented_type protocol_name = string_opt"
| "documented_type peer = int_opt"
| "documented_type peer_name = string_opt"
| "documented_type recv_buffer = int_opt"
| "documented_type send_buffer = int_opt"
| "documented_type recv_fd = int_opt"
| "documented_type send_fd = int_opt"
| "documented_type recv_timeout = ms_opt"
| "documented_type send_timeout = ms_opt"
| "documented_type local_address = addr_opt"
| "documented_type remote_address = addr_opt"
| "documented_type url_opt = string_opt"
| "documented_type ttl_max = int_opt"
| "documented_type recv_size_max = size_opt"
| "documented_type reconnect_time_min = ms_opt"
| "documented_type reconnect_time_max = ms_opt"

text \<open>
  The suffix of the nng accessor for a type: \<open>nng_socket_get_bool\<close>,
  \<open>nng_socket_get_int\<close> and so on.
\<close>

fun type_suffix :: "option_type \<Rightarrow> string" where
  "type_suffix bool_opt = ''_bool''"
| "type_suffix int_opt = ''_int''"
| "type_suffix ms_opt = ''_ms''"
| "type_suffix size_opt = ''_size''"
| "type_suffix uint64_opt = ''_uint64''"
| "type_suffix ptr_opt = ''_ptr''"
| "type_suffix string_opt = ''_string''"
| "type_suffix addr_opt = ''_addr''"

lemma option_index_in_range:
  "option_index o1 < length (option_names nng)" "option_index o1 < length option_types"
  by (cases o1; simp add: option_names_def option_types_def)+

lemma option_index_inj: "option_index o1 = option_index o2 \<longleftrightarrow> o1 = o2"
  by (cases o1; cases o2; simp)

lemma type_suffix_inj: "type_suffix a = type_suffix b \<longleftrightarrow> a = b"
  by (cases a; cases b; simp)

text \<open>Both tables, entry by entry: what the accessors of the views rewrite with.\<close>

lemma to_name_simps [simp]:
  "to_name nng socket_name = macro_str nng ''NNG_OPT_SOCKNAME''"
  "to_name nng raw = macro_str nng ''NNG_OPT_RAW''"
  "to_name nng protocol = macro_str nng ''NNG_OPT_PROTO''"
  "to_name nng protocol_name = macro_str nng ''NNG_OPT_PROTONAME''"
  "to_name nng peer = macro_str nng ''NNG_OPT_PEER''"
  "to_name nng peer_name = macro_str nng ''NNG_OPT_PEERNAME''"
  "to_name nng recv_buffer = macro_str nng ''NNG_OPT_RECVBUF''"
  "to_name nng send_buffer = macro_str nng ''NNG_OPT_SENDBUF''"
  "to_name nng recv_fd = macro_str nng ''NNG_OPT_RECVFD''"
  "to_name nng send_fd = macro_str nng ''NNG_OPT_SENDFD''"
  "to_name nng recv_timeout = macro_str nng ''NNG_OPT_RECVTIMEO''"
  "to_name nng send_timeout = macro_str nng ''NNG_OPT_SENDTIMEO''"
  "to_name nng local_address = macro_str nng ''NNG_OPT_LOCADDR''"
  "to_name nng remote_address = macro_str nng ''NNG_OPT_REMADDR''"
  "to_name nng url_opt = macro_str nng ''NNG_OPT_URL''"
  "to_name nng ttl_max = macro_str nng ''NNG_OPT_MAXTTL''"
  "to_name nng recv_size_max = macro_str nng ''NNG_OPT_RECVMAXSZ''"
  "to_name nng reconnect_time_min = macro_str nng ''NNG_OPT_RECONNMINT''"
  "to_name nng reconnect_time_max = macro_str nng ''NNG_OPT_RECONNMAXT''"
  by (simp_all add: to_name_def option_names_def)

lemma to_type_documented [simp]: "to_type o1 = documented_type o1"
  by (cases o1; simp add: to_type_def option_types_def)

end
