(* ===== verification/Raii.thy ===== *)
theory Raii
  imports Nng_State "HOL-Library.Multiset"
begin

text \<open>
  What the owner classes of the library (\<open>nng::msg\<close>, \<open>nng::socket\<close>,
  \<open>nng::http::req\<close>, ...) have in common: the member functions, as operations on a store of
  objects; the ownership discipline they are meant to implement, as the step relation
  \<open>own_step\<close>; and the interface \<open>owner_class\<close>, in which the safety of whole programs is
  proved once. Each class is written out and interpreted in the theory of its headers.

  An object is an address; the store gives the handle it holds. Addresses make the test
  \<open>this != &rhs\<close> what it is in the code.
\<close>

section \<open>Member functions\<close>

type_synonym 'h store = "nat \<Rightarrow> 'h option"
type_synonym ('h, 'w) cfg = "'h store \<times> 'w st"
type_synonym ('h, 'w) outcome = "'h option result \<times> ('h, 'w) cfg"

text \<open>
  The special members, the acquiring constructors (their arguments are the type \<open>'a\<close> of
  the class) and \<open>release\<close>, the only one that returns a handle.
\<close>

datatype ('h, 'a) raii_op =
    Default nat
  | Adopt nat 'h
  | Acquire nat 'a
  | Copy_ctor nat nat
  | Move_ctor nat nat
  | Copy_assign nat nat
  | Move_assign nat nat
  | Dtor nat
  | Release nat

definition m_default :: "nat \<Rightarrow> ('h::zero, 'w) cfg \<Rightarrow> ('h, 'w) outcome" where
  "m_default this = (\<lambda>(S, s). (Ok None, S(this \<mapsto> 0), s))"

definition m_adopt :: "nat \<Rightarrow> 'h \<Rightarrow> ('h, 'w) cfg \<Rightarrow> ('h, 'w) outcome" where
  "m_adopt this h = (\<lambda>(S, s). (Ok None, S(this \<mapsto> h), s))"

text \<open>A constructor that throws leaves no object behind.\<close>

definition m_acquire ::
  "nat \<Rightarrow> ('w st \<Rightarrow> 'h result \<times> 'w st) \<Rightarrow> ('h, 'w) cfg \<Rightarrow> ('h, 'w) outcome" where
  "m_acquire this acq = (\<lambda>(S, s).
     (case acq s of
        (Ok h, s') \<Rightarrow> (Ok None, S(this \<mapsto> h), s')
      | (Throw e, s') \<Rightarrow> (Throw e, S, s')
      | (Ub, s') \<Rightarrow> (Ub, S, s')))"

definition m_move_ctor :: "nat \<Rightarrow> nat \<Rightarrow> ('h::zero, 'w) cfg \<Rightarrow> ('h, 'w) outcome" where
  "m_move_ctor this rhs = (\<lambda>(S, s).
     (case S rhs of
        Some h \<Rightarrow> (Ok None, S(this \<mapsto> h, rhs \<mapsto> 0), s)
      | None \<Rightarrow> (Ub, S, s)))"

definition m_move_assign ::
  "('h::zero \<Rightarrow> 'w st \<Rightarrow> 'w st) \<Rightarrow> nat \<Rightarrow> nat \<Rightarrow> ('h, 'w) cfg \<Rightarrow> ('h, 'w) outcome" where
  "m_move_assign free this rhs = (\<lambda>(S, s).
     (case (S this, S rhs) of
        (Some h, Some h') \<Rightarrow>
          if this \<noteq> rhs then
            (Ok None, S(this \<mapsto> h', rhs \<mapsto> 0), if h \<noteq> 0 then free h s else s)
          else (Ok None, S, s)
      | _ \<Rightarrow> (Ub, S, s)))"

text \<open>
  The classes over an integer id close it with a function that can fail; the codes in
  \<open>accepted\<close> are not errors.
\<close>

definition m_close_move_assign ::
  "('h::zero \<Rightarrow> 'w st \<Rightarrow> i32 \<times> 'w st) \<Rightarrow> string \<Rightarrow> i32 list \<Rightarrow> nat \<Rightarrow> nat \<Rightarrow>
     ('h, 'w) cfg \<Rightarrow> ('h, 'w) outcome" where
  "m_close_move_assign cls src accepted this rhs = (\<lambda>(S, s).
     (case (S this, S rhs) of
        (Some h, Some h') \<Rightarrow>
          if this \<noteq> rhs then
            if h \<noteq> 0 then
              (case cls h s of (r, s') \<Rightarrow>
                 if r \<noteq> 0 \<and> r \<notin> set accepted then (Throw (exception r src), S, s')
                 else (Ok None, S(this \<mapsto> h', rhs \<mapsto> 0), s'))
            else (Ok None, S(this \<mapsto> h', rhs \<mapsto> 0), s)
          else (Ok None, S, s)
      | _ \<Rightarrow> (Ub, S, s)))"

definition m_dtor ::
  "('h::zero \<Rightarrow> 'w st \<Rightarrow> 'w st) \<Rightarrow> nat \<Rightarrow> ('h, 'w) cfg \<Rightarrow> ('h, 'w) outcome" where
  "m_dtor free this = (\<lambda>(S, s).
     (case S this of
        Some h \<Rightarrow> (Ok None, S(this := None), if h \<noteq> 0 then free h s else s)
      | None \<Rightarrow> (Ub, S, s)))"

definition m_release :: "nat \<Rightarrow> ('h::zero, 'w) cfg \<Rightarrow> ('h, 'w) outcome" where
  "m_release this = (\<lambda>(S, s).
     (case S this of
        Some h \<Rightarrow> (Ok (Some h), S(this \<mapsto> 0), s)
      | None \<Rightarrow> (Ub, S, s)))"

text \<open>
  Copying, for the two classes that can: \<open>dup h old\<close> duplicates the handle \<open>h\<close> into a
  variable that holds \<open>old\<close>, and returns the status and what the variable then holds.
\<close>

definition m_copy_ctor ::
  "('h::zero \<Rightarrow> 'h \<Rightarrow> 'w st \<Rightarrow> (i32 \<times> 'h) \<times> 'w st) \<Rightarrow> string \<Rightarrow> nat \<Rightarrow> nat \<Rightarrow>
     ('h, 'w) cfg \<Rightarrow> ('h, 'w) outcome" where
  "m_copy_ctor dup src this rhs = (\<lambda>(S, s).
     (case S rhs of
        Some h \<Rightarrow> m_acquire this (\<lambda>s. check_out src (dup h 0 s)) (S, s)
      | None \<Rightarrow> (Ub, S, s)))"

definition m_copy_assign ::
  "('h::zero \<Rightarrow> 'w st \<Rightarrow> 'w st) \<Rightarrow> ('h \<Rightarrow> 'h \<Rightarrow> 'w st \<Rightarrow> (i32 \<times> 'h) \<times> 'w st) \<Rightarrow> string \<Rightarrow>
     nat \<Rightarrow> nat \<Rightarrow> ('h, 'w) cfg \<Rightarrow> ('h, 'w) outcome" where
  "m_copy_assign free dup src this rhs = (\<lambda>(S, s).
     (case (S this, S rhs) of
        (Some h, Some h') \<Rightarrow>
          if this \<noteq> rhs then
            (case dup h' h (if h \<noteq> 0 then free h s else s) of
               ((r, x), s') \<Rightarrow>
                 (if r \<noteq> 0 then Throw (exception r src) else Ok None, S(this \<mapsto> x), s'))
          else (Ok None, S, s)
      | _ \<Rightarrow> (Ub, S, s)))"

text \<open>\<open>= delete\<close>: no program has such a call.\<close>

definition m_deleted :: "('h, 'w) cfg \<Rightarrow> ('h, 'w) outcome" where
  "m_deleted = (\<lambda>c. (Ub, c))"

declare m_default_def [member_simps] m_adopt_def [member_simps] m_acquire_def [member_simps]
  m_move_ctor_def [member_simps] m_move_assign_def [member_simps]
  m_close_move_assign_def [member_simps] m_dtor_def [member_simps] m_release_def [member_simps]
  m_copy_ctor_def [member_simps] m_copy_assign_def [member_simps] m_deleted_def [member_simps]

section \<open>Ownership\<close>

text \<open>
  What a call means to the owner of a handle: it delivered a reference to one, or it gave a
  reference back. References are counted, because nng counts those of some handles (a held HTTP
  server, a TLS configuration); for the others the count is one while the handle is in use.
  \<open>live\<close> is the multiset of references that are out after a sequence of events; giving
  back is \<open>proper\<close> when there is a reference to give back, so a double free is one that is
  not. The null handle is no reference.
\<close>

datatype 'h event = Give 'h | Kill 'h

definition held :: "'h::zero option \<Rightarrow> 'h multiset" where
  "held x = (case x of None \<Rightarrow> {#} | Some h \<Rightarrow> if h = 0 then {#} else {#h#})"

fun live :: "'h::zero event list \<Rightarrow> 'h multiset \<Rightarrow> 'h multiset" where
  "live [] L = L"
| "live (Give h # es) L = live es (held (Some h) + L)"
| "live (Kill h # es) L = live es (L - {#h#})"

fun proper :: "'h::zero event list \<Rightarrow> 'h multiset \<Rightarrow> bool" where
  "proper [] L = True"
| "proper (Give h # es) L = proper es (held (Some h) + L)"
| "proper (Kill h # es) L = (h \<in># L \<and> proper es (L - {#h#}))"

definition events :: "(call \<Rightarrow> 'h event option) \<Rightarrow> call list \<Rightarrow> 'h event list" where
  "events ev cs = concat (map (\<lambda>c. case ev c of None \<Rightarrow> [] | Some e \<Rightarrow> [e]) cs)"

lemma held_simps [simp]: "held None = {#}" "held (Some 0) = {#}" "h \<noteq> 0 \<Longrightarrow> held (Some h) = {#h#}"
  by (simp_all add: held_def)

lemma events_simps [simp]:
  "events ev [] = []"
  "events ev (c # cs) = (case ev c of None \<Rightarrow> [] | Some e \<Rightarrow> [e]) @ events ev cs"
  "events ev (cs @ cs') = events ev cs @ events ev cs'"
  by (simp_all add: events_def)

lemma live_append [simp]: "live (es @ es') L = live es' (live es L)"
  by (induction es L rule: live.induct) auto

lemma proper_append [simp]: "proper (es @ es') L \<longleftrightarrow> proper es L \<and> proper es' (live es L)"
  by (induction es L rule: proper.induct) auto

text \<open>Where giving back is proper, deliveries and returns of a handle differ by what is out.\<close>

lemma balance:
  "proper es L \<Longrightarrow> h \<noteq> 0 \<Longrightarrow>
     count_list es (Give h) + count L h = count_list es (Kill h) + count (live es L) h"
  by (induction es L rule: proper.induct) (auto simp: held_def simp flip: count_greater_zero_iff)

section \<open>The ownership discipline\<close>

text \<open>The references the objects of a store hold.\<close>

definition owned :: "'h::zero store \<Rightarrow> 'h multiset" where
  "owned S = (\<Sum>a \<in> dom S. held (S a))"

text \<open>
  The invariant: the objects hold no more references than are out. Where only one reference to
  a handle is out, no two objects hold it.
\<close>

definition store_ok :: "'h::zero store \<Rightarrow> 'h multiset \<Rightarrow> bool" where
  "store_ok S L \<longleftrightarrow> finite (dom S) \<and> owned S \<subseteq># L"

lemma owned_empty [simp]: "owned Map.empty = {#}"
  by (simp add: owned_def)

lemma store_ok_empty [simp]: "store_ok Map.empty L"
  by (simp add: store_ok_def)

lemma owned_split:
  assumes "finite (dom S)"
  shows "owned S = held (S a) + owned (S(a := None))"
proof (cases "S a")
  case None
  then show ?thesis by (simp add: fun_upd_idem)
next
  case (Some h)
  then have "owned S = held (S a) + (\<Sum>b \<in> dom S - {a}. held (S b))"
    unfolding owned_def using assms by (intro sum.remove) auto
  also have "(\<Sum>b \<in> dom S - {a}. held (S b)) = owned (S(a := None))"
    unfolding owned_def by (intro sum.cong) auto
  finally show ?thesis .
qed

lemma owned_upd:
  "finite (dom S) \<Longrightarrow> owned (S(a \<mapsto> h)) = held (Some h) + owned (S(a := None))"
  using owned_split [of "S(a \<mapsto> h)" a] by simp

lemma owned_new:
  "finite (dom S) \<Longrightarrow> S a = None \<Longrightarrow> owned (S(a \<mapsto> h)) = held (Some h) + owned S"
  by (simp add: owned_upd fun_upd_idem)

lemma unique_owner:
  assumes "store_ok S L" "count L h \<le> 1" "h \<noteq> 0" "S a = Some h" "S b = Some h"
  shows "a = b"
proof (rule ccontr)
  assume "a \<noteq> b"
  have "owned S = held (S a) + (held (S b) + owned (S(a := None, b := None)))"
    using assms(1) \<open>a \<noteq> b\<close> owned_split [of S a] owned_split [of "S(a := None)" b]
    by (simp add: store_ok_def)
  then have "count (owned S) h \<ge> 2" using assms(3-5) by simp
  with assms(1,2) show False unfolding store_ok_def
    by (metis mset_subset_eq_count not_less_eq_eq numeral_2_eq_2 One_nat_def order_trans)
qed

text \<open>
  What a program may do in C++: construct where there is no object, adopt only a handle with a
  reference that no object holds, use objects that exist, copy only from an object that holds a
  handle, and call only the members the class has: \<open>cp\<close> says whether it can be copied and
  whether it has constructors that acquire.
\<close>

datatype member = Copying | Acquiring

fun op_ok :: "member set \<Rightarrow> ('h::zero, 'a) raii_op \<Rightarrow> 'h store \<Rightarrow> 'h multiset \<Rightarrow> bool" where
  "op_ok cp (Default this) S L = (S this = None)"
| "op_ok cp (Adopt this h) S L = (S this = None \<and> (h = 0 \<or> h \<in># L - owned S))"
| "op_ok cp (Acquire this a) S L = (Acquiring \<in> cp \<and> S this = None)"
| "op_ok cp (Copy_ctor this rhs) S L = (Copying \<in> cp \<and> S this = None \<and> S rhs \<noteq> None \<and> S rhs \<noteq> Some 0)"
| "op_ok cp (Move_ctor this rhs) S L = (S this = None \<and> S rhs \<noteq> None)"
| "op_ok cp (Copy_assign this rhs) S L = (Copying \<in> cp \<and> S this \<noteq> None \<and> S rhs \<noteq> None \<and> S rhs \<noteq> Some 0)"
| "op_ok cp (Move_assign this rhs) S L = (S this \<noteq> None \<and> S rhs \<noteq> None)"
| "op_ok cp (Dtor this) S L = (S this \<noteq> None)"
| "op_ok cp (Release this) S L = (S this \<noteq> None)"

text \<open>
  The steps an owner class may take: the result, the new store and the events of the calls
  made. A class is \<open>strict\<close> when releasing a handle cannot fail.
\<close>

inductive own_step ::
  "bool \<Rightarrow> ('h::zero, 'a) raii_op \<Rightarrow> 'h store \<Rightarrow> 'h option result \<Rightarrow> 'h store \<Rightarrow> 'h event list \<Rightarrow> bool"
  for strict :: bool where
  default: "own_step strict (Default this) S (Ok None) (S(this \<mapsto> 0)) []"
| adopt: "own_step strict (Adopt this h) S (Ok None) (S(this \<mapsto> h)) []"
| acquire: "own_step strict (Acquire this a) S (Ok None) (S(this \<mapsto> h)) [Give h]"
| acquire_fails: "own_step strict (Acquire this a) S (Throw e) S []"
| copy: "own_step strict (Copy_ctor this rhs) S (Ok None) (S(this \<mapsto> h)) [Give h]"
| copy_fails: "own_step strict (Copy_ctor this rhs) S (Throw e) S []"
| move: "S rhs = Some h \<Longrightarrow> own_step strict (Move_ctor this rhs) S (Ok None) (S(this \<mapsto> h, rhs \<mapsto> 0)) []"
| copy_assign_self: "own_step strict (Copy_assign this this) S (Ok None) S []"
| copy_assign_empty: "this \<noteq> rhs \<Longrightarrow> S this = Some 0 \<Longrightarrow>
    own_step strict (Copy_assign this rhs) S (Ok None) (S(this \<mapsto> x)) [Give x]"
| copy_assign: "this \<noteq> rhs \<Longrightarrow> S this = Some h \<Longrightarrow> h \<noteq> 0 \<Longrightarrow>
    own_step strict (Copy_assign this rhs) S (Ok None) (S(this \<mapsto> x)) [Kill h, Give x]"
| copy_assign_empty_fails: "this \<noteq> rhs \<Longrightarrow> S this = Some 0 \<Longrightarrow>
    own_step strict (Copy_assign this rhs) S (Throw e) (S(this \<mapsto> x)) []"
| copy_assign_fails: "this \<noteq> rhs \<Longrightarrow> S this = Some h \<Longrightarrow> h \<noteq> 0 \<Longrightarrow>
    own_step strict (Copy_assign this rhs) S (Throw e) (S(this \<mapsto> x)) [Kill h]"
| assign_self: "own_step strict (Move_assign this this) S (Ok None) S []"
| assign_empty: "this \<noteq> rhs \<Longrightarrow> S this = Some 0 \<Longrightarrow> S rhs = Some h' \<Longrightarrow>
    own_step strict (Move_assign this rhs) S (Ok None) (S(this \<mapsto> h', rhs \<mapsto> 0)) []"
| assign: "this \<noteq> rhs \<Longrightarrow> S this = Some h \<Longrightarrow> h \<noteq> 0 \<Longrightarrow> S rhs = Some h' \<Longrightarrow>
    own_step strict (Move_assign this rhs) S (Ok None) (S(this \<mapsto> h', rhs \<mapsto> 0)) [Kill h]"
| assign_fails: "\<not> strict \<Longrightarrow> this \<noteq> rhs \<Longrightarrow> S this = Some h \<Longrightarrow> h \<noteq> 0 \<Longrightarrow>
    own_step strict (Move_assign this rhs) S (Throw e) S []"
| dtor_empty: "S this = Some 0 \<Longrightarrow> own_step strict (Dtor this) S (Ok None) (S(this := None)) []"
| dtor: "S this = Some h \<Longrightarrow> h \<noteq> 0 \<Longrightarrow>
    own_step strict (Dtor this) S (Ok None) (S(this := None)) [Kill h]"
| dtor_fails: "\<not> strict \<Longrightarrow> S this = Some h \<Longrightarrow> h \<noteq> 0 \<Longrightarrow>
    own_step strict (Dtor this) S (Ok None) (S(this := None)) []"
| release: "S this = Some h \<Longrightarrow> own_step strict (Release this) S (Ok (Some h)) (S(this \<mapsto> 0)) []"

inductive_cases own_step_copy_assignE:
  "own_step strict (Copy_assign this rhs) S r S' es"

definition copy_assign_succeeds :: "('h, 'a) raii_op \<Rightarrow> 'r result \<Rightarrow> bool" where
  "copy_assign_succeeds op r =
     (case op of Copy_assign _ _ \<Rightarrow> (case r of Throw _ \<Rightarrow> False | _ \<Rightarrow> True) | _ \<Rightarrow> True)"

text \<open>The references that \<open>release\<close> handed to the program.\<close>

fun released :: "'h::zero option result list \<Rightarrow> 'h multiset" where
  "released [] = {#}"
| "released (Ok x # rs) = held x + released rs"
| "released (_ # rs) = released rs"

lemma released_Cons: "released (r # rs) = released [r] + released rs"
  by (cases r) auto

text \<open>
  A transfer between two objects, in terms of the objects that take no part: the references of
  both before are those of the target and the source, afterwards those of the source.
\<close>

lemma owned_transfer:
  assumes "finite (dom S)" "S rhs = Some h" "this \<noteq> rhs"
  obtains R where "owned S = held (S this) + held (Some h) + R"
    "owned (S(this \<mapsto> h, rhs \<mapsto> 0)) = held (Some h) + R"
proof
  let ?B = "S(this := None, rhs := None)"
  have "owned S = held (S this) + (held (S rhs) + owned ?B)"
    using assms owned_split [of S this] owned_split [of "S(this := None)" rhs] by simp
  then show "owned S = held (S this) + held (Some h) + owned ?B"
    using assms(2) by simp
  have "owned (S(this \<mapsto> h, rhs \<mapsto> 0)) = owned (S(rhs \<mapsto> 0, this \<mapsto> h))"
    using assms(3) by (simp add: fun_upd_twist)
  also have "\<dots> = held (Some h) + owned (S(this := None, rhs \<mapsto> 0))"
    using assms(1,3) by (subst owned_upd) (simp_all add: fun_upd_twist)
  also have "\<dots> = held (Some h) + owned ?B"
    using assms(1) by (subst owned_upd) simp_all
  finally show "owned (S(this \<mapsto> h, rhs \<mapsto> 0)) = held (Some h) + owned ?B" .
qed

text \<open>
  A step keeps the books: with \<open>R\<close> the references no object holds, giving back is proper and
  what no object holds afterwards is \<open>R\<close>, less what was adopted, and what was released, and,
  where giving back may fail, what was lost.
\<close>

lemma own_step_safe:
  assumes "own_step strict op S r S' es" "op_ok cp op S L" "store_ok S L" "copy_assign_succeeds op r"
  shows "proper es L \<and> store_ok S' (live es L) \<and>
    (strict \<longrightarrow> live es L - owned S' \<subseteq># (L - owned S) + released [r])"
proof -
  have fin: "finite (dom S)" using assms(3) by (simp add: store_ok_def)
  obtain R where L: "L = owned S + R"
    using assms(3) by (metis store_ok_def subset_mset.le_iff_add)
  show ?thesis
    using assms(1)
  proof cases
    case (move rhs h this)
    then have "this \<noteq> rhs" using assms(2) by auto
    with fin move obtain Q where "owned S = held (S this) + held (Some h) + Q"
      "owned (S(this \<mapsto> h, rhs \<mapsto> 0)) = held (Some h) + Q"
      by (blast elim: owned_transfer)
    then show ?thesis using move assms(2) fin by (auto simp: store_ok_def L)
  next
    case (assign_empty this rhs h)
    with fin obtain Q where "owned S = held (S this) + held (Some h) + Q"
      "owned (S(this \<mapsto> h, rhs \<mapsto> 0)) = held (Some h) + Q"
      by (blast elim: owned_transfer)
    then show ?thesis using assign_empty fin by (auto simp: store_ok_def L)
  next
    case (assign this rhs k h)
    with fin obtain Q where "owned S = held (S this) + held (Some h) + Q"
      "owned (S(this \<mapsto> h, rhs \<mapsto> 0)) = held (Some h) + Q"
      by (blast elim: owned_transfer)
    then show ?thesis using assign fin by (auto simp: store_ok_def L)
  next
    case (adopt this h)
    then show ?thesis using assms(2) fin
      by (auto simp: store_ok_def L owned_new held_def)
  next
    case (copy_assign_empty this rhs x)
    then show ?thesis using fin owned_split [OF fin, of this]
      by (auto simp: store_ok_def L owned_upd [OF fin])
  next
    case (copy_assign this rhs h x)
    then show ?thesis using fin owned_split [OF fin, of this]
      by (auto simp: store_ok_def L owned_upd [OF fin])
  next
    case (dtor_empty this)
    then show ?thesis using fin owned_split [OF fin, of this]
      by (auto simp: store_ok_def L)
  next
    case (dtor this h)
    then show ?thesis using fin owned_split [OF fin, of this]
      by (auto simp: store_ok_def L)
  next
    case (dtor_fails this h)
    then show ?thesis using fin owned_split [OF fin, of this]
      by (auto simp: store_ok_def L)
  next
    case (release this h)
    then show ?thesis using fin owned_split [OF fin, of this]
      by (auto simp: store_ok_def L owned_upd [OF fin])
  qed (use assms(2,4) fin in
      \<open>auto simp: store_ok_def L owned_new copy_assign_succeeds_def\<close>)
qed

section \<open>Programs\<close>

text \<open>
  A program over one class: a list of operations, run in order; an operation that throws is
  caught by its caller and the program goes on. \<open>legal\<close> asks of each operation
  what \<open>ok\<close> says of it, in the state it runs in, with the references that are out then,
  and with its result.
\<close>

fun run :: "('op \<Rightarrow> 'c \<Rightarrow> 'r \<times> 'c) \<Rightarrow> 'op list \<Rightarrow> 'c \<Rightarrow> 'r list \<times> 'c" where
  "run exec [] c = ([], c)"
| "run exec (op # ops) c =
     (case exec op c of (r, c') \<Rightarrow> (case run exec ops c' of (rs, c'') \<Rightarrow> (r # rs, c'')))"

definition new_calls :: "'w st \<Rightarrow> 'w st \<Rightarrow> call list" where
  "new_calls s s' = drop (length (st_log s)) (st_log s')"

fun legal ::
  "('op \<Rightarrow> 'h store \<Rightarrow> 'h multiset \<Rightarrow> 'r \<Rightarrow> bool) \<Rightarrow> ('op \<Rightarrow> ('h::zero, 'w) cfg \<Rightarrow> 'r \<times> ('h, 'w) cfg) \<Rightarrow>
     (call \<Rightarrow> 'h event option) \<Rightarrow> 'op list \<Rightarrow> ('h, 'w) cfg \<Rightarrow> 'h multiset \<Rightarrow> bool" where
  "legal ok exec ev [] c L = True"
| "legal ok exec ev (op # ops) c L =
     (case exec op c of (r, c') \<Rightarrow>
        ok op (fst c) L r \<and>
        legal ok exec ev ops c' (live (events ev (new_calls (snd c) (snd c'))) L))"

section \<open>The interface of a flow of references\<close>

text \<open>
  Operations over a store that keep the books: what is given back was out, the objects hold no
  more than is out, and what no object holds afterwards was loose before or is in the result.
  From one operation this extends to programs.
\<close>

definition books ::
  "bool \<Rightarrow> 'h::zero store \<Rightarrow> 'h multiset \<Rightarrow> 'h event list \<Rightarrow> 'h store \<Rightarrow> 'h multiset \<Rightarrow> bool" where
  "books strict S L es S' R \<longleftrightarrow>
     proper es L \<and> store_ok S' (live es L) \<and>
     (strict \<longrightarrow> live es L - owned S' \<subseteq># (L - owned S) + R)"

lemma books_nil: "store_ok S L \<Longrightarrow> books strict S L [] S {#}"
  by (simp add: books_def)

lemma books_send:
  assumes "store_ok S L" "S m = Some h" "h \<noteq> 0"
  shows "books True S L [Kill h] (S(m \<mapsto> 0)) {#}"
proof -
  have fin: "finite (dom S)" using assms(1) by (simp add: store_ok_def)
  obtain R where L: "L = owned S + R" using assms(1) by (metis store_ok_def subset_mset.le_iff_add)
  then show ?thesis using owned_split [OF fin, of m] assms(2,3) fin
    by (simp add: books_def store_ok_def owned_upd)
qed

lemma books_append:
  assumes "books strict S L es S1 R" "books strict S1 (live es L) es' S2 R'"
  shows "books strict S L (es @ es') S2 (R + R')"
proof -
  have "live es' (live es L) - owned S2 \<subseteq># (L - owned S) + (R + R')" if strict
  proof -
    have "live es' (live es L) - owned S2 \<subseteq># (live es L - owned S1) + R'"
      using assms(2) that by (simp add: books_def)
    also have "\<dots> \<subseteq># ((L - owned S) + R) + R'"
      using assms(1) that by (intro subset_mset.add_right_mono) (simp add: books_def)
    finally show ?thesis by (simp add: add.assoc)
  qed
  with assms show ?thesis by (simp add: books_def)
qed

locale flow =
  fixes strict :: bool
    and ok :: "'op \<Rightarrow> 'h::zero store \<Rightarrow> 'h multiset \<Rightarrow> 'h option result \<Rightarrow> bool"
    and exec :: "'op \<Rightarrow> ('h, 'w) cfg \<Rightarrow> ('h, 'w) outcome"
    and ev :: "call \<Rightarrow> 'h event option"
  assumes step: "exec op (S, s) = (r, S', s') \<Longrightarrow> ok op S L r \<Longrightarrow> store_ok S L \<Longrightarrow>
    \<exists>cs. st_log s' = st_log s @ cs \<and> books strict S L (events ev cs) S' (released [r])"
begin

lemma run_safe:
  assumes "run exec ops (S, s) = (rs, S', s')" "legal ok exec ev ops (S, s) L" "store_ok S L"
  shows "\<exists>cs. st_log s' = st_log s @ cs \<and> books strict S L (events ev cs) S' (released rs)"
  using assms
proof (induction ops arbitrary: S s rs L)
  case Nil
  then show ?case by (auto intro: books_nil)
next
  case (Cons op ops)
  obtain r S1 s1 where e: "exec op (S, s) = (r, S1, s1)" by (metis prod_cases3)
  with Cons.prems(1) obtain rs1 where rest: "run exec ops (S1, s1) = (rs1, S', s')"
    and rs: "rs = r # rs1"
    by (auto split: prod.splits)
  from e Cons.prems(2) have "ok op S L r"
    and lg: "legal ok exec ev ops (S1, s1) (live (events ev (new_calls s s1)) L)"
    by auto
  from step [OF e this(1) Cons.prems(3)] obtain cs where cs: "st_log s1 = st_log s @ cs"
    and b: "books strict S L (events ev cs) S1 (released [r])" by blast
  with lg Cons.IH [OF rest] obtain cs1 where cs1: "st_log s' = st_log s1 @ cs1"
    and b1: "books strict S1 (live (events ev cs) L) (events ev cs1) S' (released rs1)"
    by (auto simp: new_calls_def books_def)
  from books_append [OF b b1] have "books strict S L (events ev (cs @ cs1)) S' (released rs)"
    by (simp add: rs released_Cons [of r rs1])
  then show ?case using cs cs1 by (intro exI [of _ "cs @ cs1"]) simp
qed

text \<open>
  A program that starts and ends without objects and detaches no handle has given back
  every reference it acquired, each handle as often as it was delivered.
\<close>

lemma run_balanced:
  assumes "run exec ops (Map.empty, s) = (rs, Map.empty, s')"
    and "legal ok exec ev ops (Map.empty, s) {#}"
    and "strict" "released rs = {#}"
  shows "live (events ev (new_calls s s')) {#} = {#}"
    and "h \<noteq> 0 \<Longrightarrow>
      count_list (events ev (new_calls s s')) (Give h) = count_list (events ev (new_calls s s')) (Kill h)"
proof -
  from run_safe [OF assms(1,2) store_ok_empty] obtain cs where
    cs: "st_log s' = st_log s @ cs" "proper (events ev cs) {#}" "live (events ev cs) {#} \<subseteq># {#}"
    using assms(3,4) by (auto simp: books_def)
  then have nc: "new_calls s s' = cs" by (simp add: new_calls_def)
  show l: "live (events ev (new_calls s s')) {#} = {#}"
    using cs(3) by (simp add: nc)
  show "h \<noteq> 0 \<Longrightarrow>
      count_list (events ev (new_calls s s')) (Give h) = count_list (events ev (new_calls s s')) (Kill h)"
    using balance [OF cs(2), of h] l by (simp add: nc)
qed

end

section \<open>The interface of an owner class\<close>

text \<open>
  A member function conforms when, called as C++ allows, it appends to the log calls whose
  events are those of a step of the discipline, with the step's result and store.
\<close>

definition conforms ::
  "bool \<Rightarrow> member set \<Rightarrow> (call \<Rightarrow> 'h event option) \<Rightarrow> ('h::zero, 'a) raii_op \<Rightarrow>
     (('h, 'w) cfg \<Rightarrow> ('h, 'w) outcome) \<Rightarrow> bool" where
  "conforms strict cp ev op f \<longleftrightarrow>
     (\<forall>S L s r S' s'. op_ok cp op S L \<longrightarrow> f (S, s) = (r, S', s') \<longrightarrow>
        (\<exists>cs. st_log s' = st_log s @ cs \<and> own_step strict op S r S' (events ev cs)))"

locale owner_class =
  fixes strict :: bool
    and members :: "member set"
    and exec :: "('h::zero, 'a) raii_op \<Rightarrow> ('h, 'w) cfg \<Rightarrow> ('h, 'w) outcome"
    and ev :: "call \<Rightarrow> 'h event option"
  assumes implements: "conforms strict members ev op (exec op)"
begin

lemma own_steps:
  assumes "exec op (S, s) = (r, S', s')" "op_ok members op S L"
  shows "\<exists>cs. st_log s' = st_log s @ cs \<and> own_step strict op S r S' (events ev cs)"
  using assms implements [of op] unfolding conforms_def by blast

end

text \<open>
  An owner class is a flow, where a copy assignment that fails is ruled out: it leaves a
  handle that it freed in its target.
\<close>

definition class_ok ::
  "member set \<Rightarrow> ('h::zero, 'a) raii_op \<Rightarrow> 'h store \<Rightarrow> 'h multiset \<Rightarrow> 'h option result \<Rightarrow> bool" where
  "class_ok members op S L r \<longleftrightarrow> op_ok members op S L \<and> copy_assign_succeeds op r"

sublocale owner_class \<subseteq> flow strict "class_ok members" exec ev
proof
  fix op S s r S' s' L
  assume "exec op (S, s) = (r, S', s')" "class_ok members op S L r" "store_ok S L"
  then show "\<exists>cs. st_log s' = st_log s @ cs \<and> books strict S L (events ev cs) S' (released [r])"
    using own_steps own_step_safe unfolding class_ok_def books_def by meson
qed

section \<open>Members that conform\<close>

text \<open>What a class has to say of the nng functions it calls.\<close>

definition releases :: "(call \<Rightarrow> 'h event option) \<Rightarrow> ('h \<Rightarrow> 'w st \<Rightarrow> 'w st) \<Rightarrow> bool" where
  "releases ev free \<longleftrightarrow>
     (\<forall>h s. \<exists>c. st_log (free h s) = st_log s @ [c] \<and> ev c = Some (Kill h))"

definition may_release :: "(call \<Rightarrow> 'h event option) \<Rightarrow> ('h \<Rightarrow> 'w st \<Rightarrow> 'w st) \<Rightarrow> bool" where
  "may_release ev free \<longleftrightarrow>
     (\<forall>h s. \<exists>c. st_log (free h s) = st_log s @ [c] \<and> ev c \<in> {None, Some (Kill h)})"

definition closes ::
  "(call \<Rightarrow> 'h event option) \<Rightarrow> i32 list \<Rightarrow> ('h \<Rightarrow> 'w st \<Rightarrow> i32 \<times> 'w st) \<Rightarrow> bool" where
  "closes ev accepted cls \<longleftrightarrow>
     (\<forall>h s. \<exists>c. st_log (snd (cls h s)) = st_log s @ [c] \<and>
        ev c = (if fst (cls h s) = 0 \<or> fst (cls h s) \<in> set accepted then Some (Kill h) else None))"

definition acquires ::
  "(call \<Rightarrow> 'h event option) \<Rightarrow> ('w st \<Rightarrow> 'h result \<times> 'w st) \<Rightarrow> bool" where
  "acquires ev acq \<longleftrightarrow>
     (\<forall>s. \<exists>c. st_log (snd (acq s)) = st_log s @ [c] \<and>
        (case fst (acq s) of
           Ok h \<Rightarrow> ev c = Some (Give h) | Throw _ \<Rightarrow> ev c = None | Ub \<Rightarrow> False))"

definition duplicates ::
  "(call \<Rightarrow> 'h event option) \<Rightarrow> ('h \<Rightarrow> 'h \<Rightarrow> 'w st \<Rightarrow> (i32 \<times> 'h) \<times> 'w st) \<Rightarrow> bool" where
  "duplicates ev dup \<longleftrightarrow>
     (\<forall>h x s. \<exists>c. st_log (snd (dup h x s)) = st_log s @ [c] \<and>
        ev c = (if fst (fst (dup h x s)) = 0 then Some (Give (snd (fst (dup h x s)))) else None))"

named_theorems conforming \<open>the members that conform, for the interpretations\<close>

lemma conforms_plain [conforming]:
  "conforms strict cp ev (Default this) (m_default this)"
  "conforms strict cp ev (Adopt this h) (m_adopt this h)"
  "conforms strict cp ev (Move_ctor this rhs) (m_move_ctor this rhs)"
  "conforms strict cp ev (Release this) (m_release this)"
  "Copying \<notin> cp \<Longrightarrow> conforms strict cp ev (Copy_ctor this rhs) m_deleted"
  "Copying \<notin> cp \<Longrightarrow> conforms strict cp ev (Copy_assign this rhs) m_deleted"
  "Acquiring \<notin> cp \<Longrightarrow> conforms strict cp ev (Acquire this a) m_deleted"
  unfolding conforms_def by (auto simp: member_simps intro: own_step.intros split: option.splits)

lemma conforms_acquire [conforming]:
  assumes "acquires ev acq"
  shows "conforms strict cp ev (Acquire this a) (m_acquire this acq)"
  unfolding conforms_def
proof (intro allI impI)
  fix S L s r S' s'
  assume ex: "m_acquire this acq (S, s) = (r, S', s')"
  obtain x s1 where acq: "acq s = (x, s1)" by fastforce
  with assms obtain c where c: "st_log s1 = st_log s @ [c]"
    and x: "case x of Ok h \<Rightarrow> ev c = Some (Give h) | Throw _ \<Rightarrow> ev c = None | Ub \<Rightarrow> False"
    unfolding acquires_def by (metis fst_conv snd_conv)
  show "\<exists>cs. st_log s' = st_log s @ cs \<and> own_step strict (Acquire this a) S r S' (events ev cs)"
    using ex c x by (cases x) (auto simp: m_acquire_def acq intro!: exI [of _ "[c]"] intro: own_step.intros)
qed

lemma conforms_move_assign [conforming]:
  assumes "releases ev free"
  shows "conforms strict cp ev (Move_assign this rhs) (m_move_assign free this rhs)"
  unfolding conforms_def
proof (intro allI impI)
  fix S L s r S' s'
  assume ok: "op_ok cp (Move_assign this rhs) S L"
    and ex: "m_move_assign free this rhs (S, s) = (r, S', s')"
  from ok obtain h h' where S: "S this = Some h" "S rhs = Some h'" by auto
  from assms obtain c where c: "st_log (free h s) = st_log s @ [c]" "ev c = Some (Kill h)"
    unfolding releases_def by blast
  show "\<exists>cs. st_log s' = st_log s @ cs \<and> own_step strict (Move_assign this rhs) S r S' (events ev cs)"
  proof (cases "this = rhs \<or> h = 0")
    case True
    with ex S show ?thesis by (auto simp: m_move_assign_def intro: own_step.intros split: if_splits)
  next
    case False
    with ex S c show ?thesis
      by (auto simp: m_move_assign_def intro!: exI [of _ "[c]"] own_step.assign)
  qed
qed

lemma conforms_close_move_assign [conforming]:
  assumes "closes ev accepted cls"
  shows "conforms False cp ev (Move_assign this rhs) (m_close_move_assign cls src accepted this rhs)"
  unfolding conforms_def
proof (intro allI impI)
  fix S L s r S' s'
  assume ok: "op_ok cp (Move_assign this rhs) S L"
    and ex: "m_close_move_assign cls src accepted this rhs (S, s) = (r, S', s')"
  from ok obtain h h' where S: "S this = Some h" "S rhs = Some h'" by auto
  obtain x s1 where x: "cls h s = (x, s1)" by fastforce
  with assms obtain c where c: "st_log s1 = st_log s @ [c]"
    "ev c = (if x = 0 \<or> x \<in> set accepted then Some (Kill h) else None)"
    unfolding closes_def by (metis fst_conv snd_conv)
  show "\<exists>cs. st_log s' = st_log s @ cs \<and> own_step False (Move_assign this rhs) S r S' (events ev cs)"
  proof (cases "this = rhs \<or> h = 0")
    case True
    with ex S show ?thesis
      by (auto simp: m_close_move_assign_def intro: own_step.intros split: if_splits)
  next
    case False
    with ex S c x show ?thesis
      by (auto simp: m_close_move_assign_def intro!: exI [of _ "[c]"]
          intro: own_step.assign own_step.assign_fails split: if_splits)
  qed
qed

lemma conforms_dtor [conforming]:
  assumes "releases ev free"
  shows "conforms strict cp ev (Dtor this) (m_dtor free this)"
  unfolding conforms_def
proof (intro allI impI)
  fix S L s r S' s'
  assume ok: "op_ok cp (Dtor this) S L" and ex: "m_dtor free this (S, s) = (r, S', s')"
  from ok obtain h where S: "S this = Some h" by auto
  from assms obtain c where c: "st_log (free h s) = st_log s @ [c]" "ev c = Some (Kill h)"
    unfolding releases_def by blast
  show "\<exists>cs. st_log s' = st_log s @ cs \<and> own_step strict (Dtor this) S r S' (events ev cs)"
  proof (cases "h = 0")
    case True
    with ex S show ?thesis by (auto simp: m_dtor_def intro: own_step.intros)
  next
    case False
    with ex S c show ?thesis
      by (auto simp: m_dtor_def intro!: exI [of _ "[c]"] intro: own_step.intros)
  qed
qed

lemma conforms_dtor_may_fail [conforming]:
  assumes "may_release ev free"
  shows "conforms False cp ev (Dtor this) (m_dtor free this)"
  unfolding conforms_def
proof (intro allI impI)
  fix S L s r S' s'
  assume ok: "op_ok cp (Dtor this) S L" and ex: "m_dtor free this (S, s) = (r, S', s')"
  from ok obtain h where S: "S this = Some h" by auto
  from assms obtain c where c: "st_log (free h s) = st_log s @ [c]" "ev c \<in> {None, Some (Kill h)}"
    unfolding may_release_def by blast
  show "\<exists>cs. st_log s' = st_log s @ cs \<and> own_step False (Dtor this) S r S' (events ev cs)"
  proof (cases "h = 0")
    case True
    with ex S show ?thesis by (auto simp: m_dtor_def intro: own_step.intros)
  next
    case False
    with ex S c show ?thesis
      by (auto simp: m_dtor_def intro!: exI [of _ "[c]"] intro: own_step.intros)
  qed
qed

lemma conforms_copy_ctor [conforming]:
  assumes "duplicates ev dup"
  shows "conforms strict cp ev (Copy_ctor this rhs) (m_copy_ctor dup src this rhs)"
  unfolding conforms_def
proof (intro allI impI)
  fix S L s r S' s'
  assume ok: "op_ok cp (Copy_ctor this rhs) S L"
    and ex: "m_copy_ctor dup src this rhs (S, s) = (r, S', s')"
  from ok obtain h where S: "S rhs = Some h" by auto
  obtain x y s1 where d: "dup h 0 s = ((x, y), s1)" by (metis prod.exhaust)
  with assms obtain c where c: "st_log s1 = st_log s @ [c]"
    "ev c = (if x = 0 then Some (Give y) else None)"
    unfolding duplicates_def by (metis fst_conv snd_conv)
  show "\<exists>cs. st_log s' = st_log s @ cs \<and> own_step strict (Copy_ctor this rhs) S r S' (events ev cs)"
    using ex S c d
    by (auto simp: m_copy_ctor_def m_acquire_def check_out_def intro!: exI [of _ "[c]"]
        intro: own_step.copy own_step.copy_fails split: if_splits)
qed

lemma conforms_copy_assign [conforming]:
  assumes "releases ev free" "duplicates ev dup"
  shows "conforms strict cp ev (Copy_assign this rhs) (m_copy_assign free dup src this rhs)"
  unfolding conforms_def
proof (intro allI impI)
  fix S L s r S' s'
  assume ok: "op_ok cp (Copy_assign this rhs) S L"
    and ex: "m_copy_assign free dup src this rhs (S, s) = (r, S', s')"
  from ok obtain h h' where S: "S this = Some h" "S rhs = Some h'" by auto
  from assms(1) obtain c where c: "st_log (free h s) = st_log s @ [c]" "ev c = Some (Kill h)"
    unfolding releases_def by blast
  let ?s = "if h \<noteq> 0 then free h s else s"
  obtain x y s1 where d: "dup h' h ?s = ((x, y), s1)" by (metis prod.exhaust)
  with assms(2) obtain c1 where c1: "st_log s1 = st_log ?s @ [c1]"
    "ev c1 = (if x = 0 then Some (Give y) else None)"
    unfolding duplicates_def by (metis fst_conv snd_conv)
  show "\<exists>cs. st_log s' = st_log s @ cs \<and> own_step strict (Copy_assign this rhs) S r S' (events ev cs)"
  proof (cases "this = rhs")
    case True
    with ex S show ?thesis by (auto simp: m_copy_assign_def intro: own_step.intros)
  next
    case False
    show ?thesis
    proof (cases "h = 0")
      case True
      with ex S c1 d False show ?thesis
        by (auto simp: m_copy_assign_def intro!: exI [of _ "[c1]"]
            intro: own_step.copy_assign_empty own_step.copy_assign_empty_fails split: if_splits)
    next
      case h: False
      with ex S c c1 d False show ?thesis
        by (auto simp: m_copy_assign_def intro!: exI [of _ "[c, c1]"]
            intro: own_step.copy_assign own_step.copy_assign_fails split: if_splits)
    qed
  qed
qed

text \<open>
  The classes over a pointer: the functions in \<open>acq\<close> store the new handle through a pointer
  when they return 0, \<open>fr\<close> takes a handle back.
\<close>

definition ptr_ev :: "string list \<Rightarrow> string \<Rightarrow> call \<Rightarrow> ptr event option" where
  "ptr_ev acq fr c =
     (if c_fn c = fr then (case c_args c of [VW h] \<Rightarrow> Some (Kill h) | _ \<Rightarrow> None)
      else if c_fn c \<in> set acq then
        (case c_ret c of [VI r, VW h] \<Rightarrow> if r = 0 then Some (Give h) else None | _ \<Rightarrow> None)
      else None)"

lemma ptr_releases [conforming]: "releases (ptr_ev acq fr) (\<lambda>h. call_unit nng fr [VW h])"
  by (auto simp: releases_def ptr_ev_def)

lemma ptr_acquires [conforming]:
  "fn \<in> set acq \<Longrightarrow> fn \<noteq> fr \<Longrightarrow>
     acquires (ptr_ev acq fr) (\<lambda>s. check_out src (get_w64 nng fn args s))"
  by (auto simp: acquires_def ptr_ev_def call_simps invoke_def split: prod.splits)

lemma ptr_duplicates [conforming]:
  "fn \<in> set acq \<Longrightarrow> fn \<noteq> fr \<Longrightarrow>
     duplicates (ptr_ev acq fr) (\<lambda>h old. get_w64 nng fn [VW old, VW h])"
  by (auto simp: duplicates_def ptr_ev_def call_simps invoke_def split: prod.splits)

text \<open>
  The classes over an id: \<open>cl\<close> closes it and returns a status; the statuses in
  \<open>accepted\<close> mean that it is closed already.
\<close>

definition id_ev :: "string list \<Rightarrow> string \<Rightarrow> i32 list \<Rightarrow> call \<Rightarrow> i32 event option" where
  "id_ev acq cl accepted c =
     (if c_fn c = cl then
        (case (c_args c, c_ret c) of
           ([VId h], [VI r]) \<Rightarrow> if r = 0 \<or> r \<in> set accepted then Some (Kill h) else None
         | _ \<Rightarrow> None)
      else if c_fn c \<in> set acq then
        (case c_ret c of [VI r, VId h] \<Rightarrow> if r = 0 then Some (Give h) else None | _ \<Rightarrow> None)
      else None)"

lemma id_may_release [conforming]:
  "may_release (id_ev acq cl accepted) (\<lambda>h s. snd (call_int nng cl [VId h] s))"
  unfolding may_release_def call_int_def invoke_snd_log by (simp add: id_ev_def)

lemma id_closes [conforming]:
  "closes (id_ev acq cl accepted) accepted (\<lambda>h. call_int nng cl [VId h])"
  unfolding closes_def call_int_def invoke_snd_log by (simp add: id_ev_def)

lemma id_acquires [conforming]:
  "fn \<in> set acq \<Longrightarrow> fn \<noteq> cl \<Longrightarrow>
     acquires (id_ev acq cl accepted) (\<lambda>s. check_out src (get_id nng fn args s))"
  by (auto simp: acquires_def id_ev_def call_simps invoke_def split: prod.splits)

end
