(* ===== verification/Buffers.thy ===== *)
theory Buffers
  imports Raii
begin

text \<open>
  \<open>include/nngpp/view.h\<close> and \<open>buffer.h\<close>: a view is a pointer and a size into the
  shared memory; a buffer is a view that owns memory of \<open>nng_alloc\<close>. The buffers live in a
  store indexed by their address, as the objects of the other owner classes do.
\<close>

section \<open>Views\<close>

record view =
  v_data :: ptr
  v_size :: w64

definition view_default :: view where
  "view_default = \<lparr>v_data = null, v_size = 0\<rparr>"

definition view_of :: "ptr \<Rightarrow> w64 \<Rightarrow> view" where
  "view_of d s = \<lparr>v_data = d, v_size = s\<rparr>"

text \<open>From an array of \<open>n\<close> elements of \<open>sizeof(T)\<close> bytes.\<close>

definition view_of_array :: "ptr \<Rightarrow> w64 \<Rightarrow> w64 \<Rightarrow> view" where
  "view_of_array d n sizeof_T = \<lparr>v_data = d, v_size = n * sizeof_T\<rparr>"

record nng_iov =
  iov_buf :: ptr
  iov_len :: w64

definition view_of_iov :: "nng_iov \<Rightarrow> view" where
  "view_of_iov x = view_of (iov_buf x) (iov_len x)"

definition view_bool :: "view \<Rightarrow> bool" where
  "view_bool v \<longleftrightarrow> v_data v \<noteq> null"

text \<open>\<open>None\<close> when the comparison reads memory that is not mapped.\<close>

definition view_eq :: "mem \<Rightarrow> view \<Rightarrow> view \<Rightarrow> bool option" where
  "view_eq m v rhs =
     (if v_size v = v_size rhs then memcmp_eq m (v_data v) (v_data rhs) (v_size v) else Some False)"

definition view_ne :: "mem \<Rightarrow> view \<Rightarrow> view \<Rightarrow> bool option" where
  "view_ne m v rhs = map_option Not (view_eq m v rhs)"

definition iov_of_view :: "view \<Rightarrow> nng_iov" where
  "iov_of_view v = \<lparr>iov_buf = v_data v, iov_len = v_size v\<rparr>"

text \<open>The bytes a view stands for.\<close>

definition view_bytes :: "mem \<Rightarrow> view \<Rightarrow> byte list option" where
  "view_bytes m v = read_bytes m (v_data v) (unat (v_size v))"

lemma view_bytes_length: "view_bytes m v = Some xs \<Longrightarrow> length xs = unat (v_size v)"
  by (auto simp: view_bytes_def dest: read_bytes_length)

section \<open>Buffers\<close>

type_synonym 'w bufs = "(nat \<Rightarrow> view option) \<times> 'w st"

definition nng_alloc :: "'w nng \<Rightarrow> w64 \<Rightarrow> 'w st \<Rightarrow> ptr \<times> 'w st" where
  "nng_alloc nng sz = call_w64 nng ''nng_alloc'' [VW sz]"

definition nng_free :: "'w nng \<Rightarrow> ptr \<Rightarrow> w64 \<Rightarrow> 'w st \<Rightarrow> 'w st" where
  "nng_free nng d sz = call_unit nng ''nng_free'' [VW d, VW sz]"

definition nomem_exn :: "'w nng \<Rightarrow> exn" where
  "nomem_exn nng = exception (macro_int nng ''NNG_ENOMEM'') ''nng_alloc''"

definition buffer_default :: "nat \<Rightarrow> 'w bufs \<Rightarrow> unit result \<times> 'w bufs" where
  "buffer_default this = (\<lambda>(S, s). (Ok (), S(this \<mapsto> view_default), s))"

definition buffer_adopt :: "nat \<Rightarrow> ptr \<Rightarrow> w64 \<Rightarrow> 'w bufs \<Rightarrow> unit result \<times> 'w bufs" where
  "buffer_adopt this d sz = (\<lambda>(S, s). (Ok (), S(this \<mapsto> view_of d sz), s))"

definition buffer_alloc :: "'w nng \<Rightarrow> nat \<Rightarrow> w64 \<Rightarrow> 'w bufs \<Rightarrow> unit result \<times> 'w bufs" where
  "buffer_alloc nng this sz = (\<lambda>(S, s).
     (case nng_alloc nng sz s of (d, s') \<Rightarrow>
        if d = null then (Throw (nomem_exn nng), S, s')
        else (Ok (), S(this \<mapsto> view_of d sz), s')))"

definition buffer_copy_ctor :: "'w nng \<Rightarrow> nat \<Rightarrow> nat \<Rightarrow> 'w bufs \<Rightarrow> unit result \<times> 'w bufs" where
  "buffer_copy_ctor nng this rhs = (\<lambda>(S, s).
     (case S rhs of
        None \<Rightarrow> (Ub, S, s)
      | Some r \<Rightarrow>
          (case buffer_alloc nng this (v_size r) (S, s) of
             (Ok _, S', s') \<Rightarrow>
               (case S' this of
                  None \<Rightarrow> (Ub, S', s')
                | Some b \<Rightarrow>
                    (case memcpy (st_mem s') (v_data b) (v_data r) (v_size b) of
                       None \<Rightarrow> (Ub, S', s')
                     | Some m \<Rightarrow> (Ok (), S', s'\<lparr>st_mem := m\<rparr>)))
           | (Throw e, S', s') \<Rightarrow> (Throw e, S', s')
           | (Ub, S', s') \<Rightarrow> (Ub, S', s'))))"

definition buffer_move_ctor :: "nat \<Rightarrow> nat \<Rightarrow> 'w bufs \<Rightarrow> unit result \<times> 'w bufs" where
  "buffer_move_ctor this rhs = (\<lambda>(S, s).
     (case S rhs of
        None \<Rightarrow> (Ub, S, s)
      | Some r \<Rightarrow> (Ok (), S(this \<mapsto> r, rhs \<mapsto> view_default), s)))"

definition buffer_copy_assign :: "'w nng \<Rightarrow> nat \<Rightarrow> nat \<Rightarrow> 'w bufs \<Rightarrow> unit result \<times> 'w bufs" where
  "buffer_copy_assign nng this rhs = (\<lambda>(S, s).
     (case (S this, S rhs) of
        (Some b, Some r) \<Rightarrow>
          if this \<noteq> rhs then
            let (d, s1) =
              (if v_size b \<noteq> v_size r then
                 nng_alloc nng (v_size r)
                   (if v_data b \<noteq> null then nng_free nng (v_data b) (v_size b) s else s)
               else (v_data b, s))
            in if v_size b \<noteq> v_size r \<and> d = null then
                 (Throw (nomem_exn nng), S(this \<mapsto> view_of null 0), s1)
               else
                 (case memcpy (st_mem s1) d (v_data r) (v_size r) of
                    None \<Rightarrow> (Ub, S(this \<mapsto> view_of d (v_size r)), s1)
                  | Some m \<Rightarrow> (Ok (), S(this \<mapsto> view_of d (v_size r)), s1\<lparr>st_mem := m\<rparr>))
          else (Ok (), S, s)
      | _ \<Rightarrow> (Ub, S, s)))"

definition buffer_move_assign :: "'w nng \<Rightarrow> nat \<Rightarrow> nat \<Rightarrow> 'w bufs \<Rightarrow> unit result \<times> 'w bufs" where
  "buffer_move_assign nng this rhs = (\<lambda>(S, s).
     (case (S this, S rhs) of
        (Some b, Some r) \<Rightarrow>
          if this \<noteq> rhs then
            (Ok (), S(this \<mapsto> r, rhs \<mapsto> view_default),
             if v_data b \<noteq> null then nng_free nng (v_data b) (v_size b) s else s)
          else (Ok (), S, s)
      | _ \<Rightarrow> (Ub, S, s)))"

definition buffer_dtor :: "'w nng \<Rightarrow> nat \<Rightarrow> 'w bufs \<Rightarrow> unit result \<times> 'w bufs" where
  "buffer_dtor nng this = (\<lambda>(S, s).
     (case S this of
        None \<Rightarrow> (Ub, S, s)
      | Some b \<Rightarrow>
          (Ok (), S(this := None),
           if v_data b \<noteq> null then nng_free nng (v_data b) (v_size b) s else s)))"

definition buffer_release :: "nat \<Rightarrow> 'w bufs \<Rightarrow> ptr result \<times> 'w bufs" where
  "buffer_release this = (\<lambda>(S, s).
     (case S this of
        None \<Rightarrow> (Ub, S, s)
      | Some b \<Rightarrow> (Ok (v_data b), S(this \<mapsto> view_default), s)))"

text \<open>
  A method that returns a C string of nng as a buffer over it and its terminator:
  \<open>return buffer(data,strlen(data)+1);\<close>
\<close>

definition string_buffer :: "ptr result \<times> 'w st \<Rightarrow> view result \<times> 'w st" where
  "string_buffer = (\<lambda>(x, s).
     (case x of
        Ok p \<Rightarrow> (case strlen (st_mem s) p of
                  None \<Rightarrow> (Ub, s) | Some n \<Rightarrow> (Ok (view_of p (n + 1)), s))
      | Throw e \<Rightarrow> (Throw e, s)
      | Ub \<Rightarrow> (Ub, s)))"

lemma reports_string [intro!]:
  "reports_failure (\<lambda>s. string_buffer (check_out fn (get_w64 nng fn args s)))"
proof (unfold reports_failure_def, intro allI)
  fix s
  obtain r p s' where c: "get_w64 nng fn args s = ((r, p), s')" by (metis prod.exhaust)
  then have "st_log s' = st_log s @ [\<lparr>c_fn = fn, c_args = args, c_ret = [VI r, VW p]\<rparr>]"
    unfolding get_w64_def by (drule_tac invoke_log) simp
  then show "\<exists>c r outs. st_log (snd (string_buffer (check_out fn (get_w64 nng fn args s)))) = st_log s @ [c] \<and>
      c_ret c = VI r # outs \<and>
      (case fst (string_buffer (check_out fn (get_w64 nng fn args s))) of
         Throw e \<Rightarrow> r \<noteq> 0 \<and> get_error e = r \<and> who e = c_fn c | _ \<Rightarrow> r = 0)"
    by (auto simp: c string_buffer_def check_out_def exception_def get_error_def who_def
        split: option.splits)
qed

text \<open>A C string of the bytes \<open>xs\<close> at \<open>p\<close>.\<close>

definition c_string :: "mem \<Rightarrow> ptr \<Rightarrow> byte list \<Rightarrow> bool" where
  "c_string m p xs \<longleftrightarrow>
     p \<noteq> null \<and> read_bytes m p (Suc (length xs)) = Some (xs @ [0]) \<and> 0 \<notin> set xs \<and> Suc (length xs) < 2 ^ 64"

lemma strlen_from_c_string:
  "read_bytes m p (Suc (length xs)) = Some (xs @ [0]) \<Longrightarrow> 0 \<notin> set xs \<Longrightarrow>
     strlen_from m p n = Some (n + of_nat (length xs))"
proof (induction xs arbitrary: p n)
  case Nil
  then show ?case by (subst strlen_from.simps) (auto simp: read_bytes_Suc split: option.splits)
next
  case (Cons x xs)
  then have "m p = Some x" "read_bytes m (p + 1) (Suc (length xs)) = Some (xs @ [0])"
    by (auto simp: read_bytes_Suc [of m p "Suc (length xs)"] split: option.splits)
  with Cons show ?case by (subst strlen_from.simps) (simp add: add.assoc)
qed

lemma strlen_c_string: "c_string m p xs \<Longrightarrow> strlen m p = Some (of_nat (length xs))"
  using strlen_from_c_string [of m p xs 0] by (simp add: c_string_def strlen_def)

lemma c_string_bytes:
  assumes "c_string m p xs"
  shows "view_bytes m (view_of p (of_nat (length xs))) = Some xs"
    and "view_bytes m (view_of p (of_nat (length xs) + 1)) = Some (xs @ [0])"
proof -
  have u: "unat (of_nat k :: w64) = k" if "k < 2 ^ 64" for k
    using that by (simp add: unat_of_nat take_bit_nat_eq_self_iff)
  have n: "unat (of_nat (length xs) :: w64) = length xs"
    "unat (of_nat (length xs) + 1 :: w64) = Suc (length xs)"
    using assms u [of "length xs"] u [of "Suc (length xs)"] by (simp_all add: c_string_def add.commute)
  show "view_bytes m (view_of p (of_nat (length xs) + 1)) = Some (xs @ [0])"
    using assms by (simp add: view_bytes_def view_of_def n c_string_def)
  have "read_bytes m p (length xs) = Some xs"
    if "read_bytes m p (Suc (length xs)) = Some (xs @ [z])" for z
    using that unfolding read_bytes_def those_map_Some_iff by simp
  with assms show "view_bytes m (view_of p (of_nat (length xs))) = Some xs"
    by (simp add: view_bytes_def view_of_def n c_string_def)
qed

lemma string_buffer_c_string:
  "c_string (st_mem s) p xs \<Longrightarrow>
     string_buffer (Ok p, s) = (Ok (view_of p (of_nat (length xs) + 1)), s)"
  by (simp add: string_buffer_def strlen_c_string)

section \<open>Copies\<close>

text \<open>
  The contract of the allocator: memory it returns was not mapped before, and nothing else
  changes; \<open>nng_free\<close> touches the block it is given only.
\<close>

definition alloc_contract :: "'w nng \<Rightarrow> bool" where
  "alloc_contract nng \<longleftrightarrow>
     (\<forall>sz w m p w' m'. f_w64 nng ''nng_alloc'' [VW sz] (w, m) = (p, w', m') \<longrightarrow>
        (\<forall>a\<in>dom m. m' a = m a) \<and>
        (p \<noteq> null \<longrightarrow> block p (unat sz) \<inter> dom m = {} \<and> block p (unat sz) \<subseteq> dom m'))"

definition free_contract :: "'w nng \<Rightarrow> bool" where
  "free_contract nng \<longleftrightarrow>
     (\<forall>d sz w m w' m'. f_unit nng ''nng_free'' [VW d, VW sz] (w, m) = ((), w', m') \<longrightarrow>
        (\<forall>a. a \<notin> block d (unat sz) \<longrightarrow> m' a = m a))"

text \<open>What holds of a buffer: its bytes are mapped, and it has none when it has no memory.\<close>

definition buffer_ok :: "mem \<Rightarrow> view \<Rightarrow> bool" where
  "buffer_ok m b \<longleftrightarrow> view_bytes m b \<noteq> None \<and> (v_data b = null \<longrightarrow> v_size b = 0)"

definition view_block :: "view \<Rightarrow> ptr set" where
  "view_block v = block (v_data v) (unat (v_size v))"

lemma view_block_default [simp]: "view_block view_default = {}"
  by (simp add: view_block_def view_default_def)

lemma view_of_simps [simp]:
  "v_data (view_of d n) = d" "v_size (view_of d n) = n"
  "view_block (view_of d n) = block d (unat n)"
  by (simp_all add: view_of_def view_block_def)

lemma view_bytes_mapped: "view_bytes m v \<noteq> None \<longleftrightarrow> view_block v \<subseteq> dom m"
  unfolding view_bytes_def view_block_def by (rule read_bytes_mapped)

lemma view_bytes_cong:
  "(\<And>a. a \<in> view_block v \<Longrightarrow> m a = m' a) \<Longrightarrow> view_bytes m v = view_bytes m' v"
  unfolding view_bytes_def view_block_def by (rule read_bytes_cong)

lemma memcpy_disjoint:
  assumes "view_bytes m (view_of p n) = Some xs" "block d (unat n) \<subseteq> dom m"
    "block d (unat n) \<inter> block p (unat n) = {}" "d \<noteq> null" "p \<noteq> null"
  shows "\<exists>m'. memcpy m d p n = Some m' \<and> view_bytes m' (view_of d n) = Some xs \<and>
    (\<forall>a. a \<notin> block d (unat n) \<longrightarrow> m' a = m a)"
proof -
  from assms(2) obtain ys where ys: "read_bytes m d (unat n) = Some ys"
    using read_bytes_mapped [of m d "unat n"] by blast
  from assms(1) have xs: "read_bytes m p (unat n) = Some xs" by (simp add: view_bytes_def)
  then have len: "length xs = unat n" by (rule read_bytes_length)
  have "\<not> (\<exists>i\<in>set [0..<unat n]. \<exists>j\<in>set [0..<unat n]. d + of_nat i = p + of_nat j)"
    using assms(3) by (auto simp: block_def)
  then have "memcpy m d p n = Some (write_bytes m d xs)"
    using assms(4,5) by (simp add: memcpy_def xs ys)
  moreover have "length xs \<le> 2 ^ 64" using unsigned_less [of n, where 'a = nat] by (simp add: len)
  then have "view_bytes (write_bytes m d xs) (view_of d n) = Some xs"
    using read_write_bytes [of xs m d] by (simp add: view_bytes_def len)
  ultimately show ?thesis by (auto simp: write_bytes_outside len)
qed

lemma nng_alloc_fresh:
  assumes "alloc_contract nng" "nng_alloc nng sz s = (p, s')"
  shows "\<forall>a\<in>dom (st_mem s). st_mem s' a = st_mem s a"
    and "p \<noteq> null \<Longrightarrow> block p (unat sz) \<inter> dom (st_mem s) = {} \<and> block p (unat sz) \<subseteq> dom (st_mem s')"
proof -
  obtain m' where "f_w64 nng ''nng_alloc'' [VW sz] (st_lib s, st_mem s) = (p, st_lib s', m')" "st_mem s' = m'"
    using assms(2) by (auto simp: nng_alloc_def call_w64_def invoke_def split: prod.splits)
  with assms(1) show "\<forall>a\<in>dom (st_mem s). st_mem s' a = st_mem s a"
    "p \<noteq> null \<Longrightarrow> block p (unat sz) \<inter> dom (st_mem s) = {} \<and> block p (unat sz) \<subseteq> dom (st_mem s')"
    unfolding alloc_contract_def by blast+
qed

lemma nng_free_outside:
  assumes "free_contract nng" "a \<notin> block d (unat sz)"
  shows "st_mem (nng_free nng d sz s) a = st_mem s a"
proof -
  obtain w' m' where "f_unit nng ''nng_free'' [VW d, VW sz] (st_lib s, st_mem s) = ((), w', m')"
    by (cases "f_unit nng ''nng_free'' [VW d, VW sz] (st_lib s, st_mem s)") auto
  moreover from this assms have "m' a = st_mem s a" unfolding free_contract_def by blast
  ultimately show ?thesis by (simp add: nng_free_def call_unit_def invoke_def)
qed

text \<open>C29: the copy constructor of a buffer that has memory never runs into undefined behaviour. It makes a
  buffer with the same bytes in memory of its own, or throws \<open>NNG_ENOMEM\<close> and makes no object. Copying a buffer
  without memory makes no object either: it throws, or it is undefined, when \<open>nng_alloc(0)\<close> is not
  null and \<open>memcpy\<close> gets the null pointer of the source. The source and everything else that was mapped
  stays as it was.\<close>

theorem buffer_copy_deep:
  assumes "alloc_contract nng" "S rhs = Some r" "view_bytes (st_mem s) r = Some xs"
    "buffer_copy_ctor nng this rhs (S, s) = (x, S', s')"
  shows "(case x of
        Ok _ \<Rightarrow> v_data r \<noteq> null \<and> (\<exists>b. S' = S(this \<mapsto> b) \<and> v_data b \<noteq> null \<and> v_size b = v_size r \<and>
            view_bytes (st_mem s') b = Some xs \<and> view_block b \<inter> dom (st_mem s) = {})
      | Throw e \<Rightarrow> e = nomem_exn nng \<and> fst (nng_alloc nng (v_size r) s) = null \<and> S' = S
      | Ub \<Rightarrow> v_data r = null \<and> fst (nng_alloc nng (v_size r) s) \<noteq> null) \<and>
    (\<forall>a\<in>dom (st_mem s). st_mem s' a = st_mem s a)"
proof -
  obtain d s1 where al: "nng_alloc nng (v_size r) s = (d, s1)" by fastforce
  note fresh = nng_alloc_fresh [OF assms(1) al]
  consider "d = null" | "d \<noteq> null" "v_data r = null" | "d \<noteq> null" "v_data r \<noteq> null" by blast
  then show ?thesis
  proof cases
    case 3
    let ?p = "v_data r" and ?n = "v_size r"
    have src: "block ?p (unat ?n) \<subseteq> dom (st_mem s)"
      using assms(3) view_bytes_mapped [of "st_mem s" r] by (simp add: view_block_def)
    have "view_bytes (st_mem s1) r = view_bytes (st_mem s) r"
      using fresh(1) src by (intro view_bytes_cong) (auto simp: view_block_def)
    then have "view_bytes (st_mem s1) (view_of ?p ?n) = Some xs"
      using assms(3) by (simp add: view_bytes_def)
    from memcpy_disjoint [OF this _ _ 3] fresh(2) [OF 3(1)] src obtain m' where
      m': "memcpy (st_mem s1) d ?p ?n = Some m'" "view_bytes m' (view_of d ?n) = Some xs"
      "\<forall>a. a \<notin> block d (unat ?n) \<longrightarrow> m' a = st_mem s1 a" by blast
    then have "x = Ok ()" "S' = S(this \<mapsto> view_of d ?n)" "s' = s1\<lparr>st_mem := m'\<rparr>"
      using assms(2,4) al 3 by (auto simp: buffer_copy_ctor_def buffer_alloc_def)
    moreover have "\<forall>a\<in>dom (st_mem s). m' a = st_mem s a"
      using m'(3) fresh(1) fresh(2) [OF 3(1)] by (metis disjoint_iff)
    ultimately show ?thesis using m'(2) 3 fresh(2) [OF 3(1)]
      by (auto intro!: exI [of _ "view_of d ?n"])
  qed (use assms(2,4) al fresh(1) in \<open>auto simp: buffer_copy_ctor_def buffer_alloc_def memcpy_def\<close>)
qed

text \<open>Copying the bytes of a view to another block leaves the view as it was.\<close>

lemma memcpy_view:
  assumes "view_bytes m r = Some xs" "block d (unat (v_size r)) \<subseteq> dom m" "block d (unat (v_size r)) \<inter> view_block r = {}"
    "d \<noteq> null" "v_data r \<noteq> null"
  obtains m' where "memcpy m d (v_data r) (v_size r) = Some m'"
    "view_bytes m' (view_of d (v_size r)) = Some xs" "view_bytes m' r = Some xs"
proof -
  have "view_bytes m (view_of (v_data r) (v_size r)) = Some xs" using assms(1) by (simp add: view_bytes_def)
  from memcpy_disjoint [OF this assms(2)] assms(3-5) obtain m' where
    m': "memcpy m d (v_data r) (v_size r) = Some m'" "view_bytes m' (view_of d (v_size r)) = Some xs"
    "\<forall>a. a \<notin> block d (unat (v_size r)) \<longrightarrow> m' a = m a" unfolding view_block_def by blast
  have "view_bytes m' r = view_bytes m r" using m'(3) assms(3) by (intro view_bytes_cong) auto
  with m'(1,2) assms(1) show ?thesis by (intro that [of m']) simp_all
qed

text \<open>The copy assignment between buffers that have memory never runs into undefined behaviour, whatever the sizes:
  the target ends up with the bytes of the source, or, when there is no memory, empty with
  \<open>NNG_ENOMEM\<close> thrown, never with memory it freed; the source keeps its bytes. It is undefined only where
  \<open>memcpy\<close> gets a null pointer, from an empty source or to an empty target of the same size.\<close>

theorem buffer_copy_assign_safe:
  assumes "alloc_contract nng" "free_contract nng" "this \<noteq> rhs"
    "S this = Some b" "S rhs = Some r" "buffer_ok (st_mem s) b" "view_bytes (st_mem s) r = Some xs"
    "view_block b \<inter> view_block r = {}"
    "buffer_copy_assign nng this rhs (S, s) = (x, S', s')"
  shows "(case x of
        Ok _ \<Rightarrow> (\<exists>b'. S' = S(this \<mapsto> b') \<and> v_size b' = v_size r \<and>
            view_bytes (st_mem s') b' = Some xs \<and> view_block b' \<inter> view_block r = {})
      | Throw e \<Rightarrow> e = nomem_exn nng \<and> S' = S(this \<mapsto> view_default)
      | Ub \<Rightarrow> v_data r = null \<or> v_data b = null \<and> v_size b = v_size r) \<and>
    view_bytes (st_mem s') r = Some xs"
proof (cases "v_size b = v_size r")
  case True
  note same = True
  show ?thesis
  proof (cases "v_data b = null \<or> v_data r = null")
    case True
    then show ?thesis using assms(3,4,5,7,9) same by (auto simp: buffer_copy_assign_def memcpy_def)
  next
    case False
    have "block (v_data b) (unat (v_size r)) \<subseteq> dom (st_mem s)" "block (v_data b) (unat (v_size r)) \<inter> view_block r = {}"
      using assms(6,8) same view_bytes_mapped [of "st_mem s" b] by (simp_all add: buffer_ok_def view_block_def)
    from memcpy_view [OF assms(7) this] False obtain m' where
      m': "memcpy (st_mem s) (v_data b) (v_data r) (v_size r) = Some m'"
      "view_bytes m' (view_of (v_data b) (v_size r)) = Some xs" "view_bytes m' r = Some xs" by blast
    then have "x = Ok ()" "S' = S(this \<mapsto> view_of (v_data b) (v_size r))" "s' = s\<lparr>st_mem := m'\<rparr>"
      using assms(3,4,5,9) same by (auto simp: buffer_copy_assign_def)
    with m' assms(8) same show ?thesis
      by (auto simp: view_block_def intro!: exI [of _ "view_of (v_data b) (v_size r)"])
  qed
next
  case False
  let ?s = "if v_data b \<noteq> null then nng_free nng (v_data b) (v_size b) s else s"
  obtain d s1 where al: "nng_alloc nng (v_size r) ?s = (d, s1)" by fastforce
  note fresh = nng_alloc_fresh [OF assms(1) al]
  have same: "st_mem ?s a = st_mem s a" if "a \<in> view_block r" for a
    using that assms(2,8) nng_free_outside [of nng a "v_data b" "v_size b" s]
    by (auto simp: view_block_def)
  then have r0: "view_bytes (st_mem ?s) r = Some xs"
    using assms(7) view_bytes_cong [of r "st_mem ?s" "st_mem s"] by simp
  then have src: "view_block r \<subseteq> dom (st_mem ?s)"
    using view_bytes_mapped [of "st_mem ?s" r] by simp
  have "view_bytes (st_mem s1) r = view_bytes (st_mem ?s) r"
    using fresh(1) src by (intro view_bytes_cong) auto
  with r0 have r1: "view_bytes (st_mem s1) r = Some xs" by simp
  consider "d = null" | "d \<noteq> null" "v_data r = null" | "d \<noteq> null" "v_data r \<noteq> null" by blast
  then show ?thesis
  proof cases
    case 1
    then show ?thesis using assms(3,4,5,9) False al r1
      by (auto simp: buffer_copy_assign_def view_default_def view_of_def)
  next
    case 2
    then show ?thesis using assms(3,4,5,9) False al r1
      by (auto simp: buffer_copy_assign_def memcpy_def)
  next
    case 3
    have disj: "block d (unat (v_size r)) \<inter> view_block r = {}" using fresh(2) [OF 3(1)] src by blast
    from memcpy_view [OF r1 _ this 3] fresh(2) [OF 3(1)] obtain m' where
      m': "memcpy (st_mem s1) d (v_data r) (v_size r) = Some m'"
      "view_bytes m' (view_of d (v_size r)) = Some xs" "view_bytes m' r = Some xs" by auto
    then have "x = Ok ()" "S' = S(this \<mapsto> view_of d (v_size r))" "s' = s1\<lparr>st_mem := m'\<rparr>"
      using assms(3,4,5,9) False 3 al by (auto simp: buffer_copy_assign_def)
    with m' disj show ?thesis by (auto intro!: exI [of _ "view_of d (v_size r)"])
  qed
qed

text \<open>Copying an empty buffer asks the allocator for zero bytes, so where \<open>nng_alloc(0)\<close> is
  null, as for a C allocator it may be, the copy of an empty buffer throws \<open>NNG_ENOMEM\<close>.\<close>

theorem buffer_copy_empty_throws:
  assumes "\<And>w. \<exists>w'. f_w64 nng ''nng_alloc'' [VW 0] w = (null, w')" "S rhs = Some view_default"
  shows "\<exists>s'. buffer_copy_ctor nng this rhs (S, s) = (Throw (nomem_exn nng), S, s')"
  using assms(1) [of "(st_lib s, st_mem s)"] assms(2)
  by (auto simp: buffer_copy_ctor_def buffer_alloc_def nng_alloc_def call_w64_def invoke_def
      view_default_def)

text \<open>C37: views of different sizes are unequal, and comparing them reads no memory: it is defined whatever they
  point to. Views of the same size, which have to be readable and not null even when the size is 0, are equal
  when they stand for the same bytes.\<close>

theorem view_eq_bytes:
  assumes "v_size v = v_size w \<longrightarrow> v_data v \<noteq> null \<and> v_data w \<noteq> null \<and>
      view_bytes m v = Some xs \<and> view_bytes m w = Some ys"
  shows "view_eq m v w = Some (v_size v = v_size w \<and> xs = ys) \<and>
    view_ne m v w = Some (\<not> (v_size v = v_size w \<and> xs = ys))"
  using assms by (auto simp: view_eq_def view_ne_def memcmp_eq_def view_bytes_def)

text \<open>A one-shot allocator: the first block is at address 4096.\<close>

definition bump_nng :: "nat nng" where
  "bump_nng = idle_nng\<lparr>
     f_w64 := (\<lambda>fn args (w, m).
        (case args of
           [VW sz] \<Rightarrow>
             if block 4096 (unat sz) \<inter> dom m = {} \<and> sz \<noteq> 0
             then (4096, w + 1, write_bytes m 4096 (replicate (unat sz) 0))
             else (0, w, m)
         | _ \<Rightarrow> (0, w, m)))\<rparr>"

lemma bump_nng_contract: "alloc_contract bump_nng" "free_contract bump_nng"
proof -
  have "write_bytes m 4096 bs a = m a" if "block 4096 (length bs) \<inter> dom m = {}" "a \<in> dom m" for m bs a
    using that by (intro write_bytes_outside) auto
  then show "alloc_contract bump_nng"
    by (auto simp: alloc_contract_def bump_nng_def dom_write_bytes split: if_splits)
  show "free_contract bump_nng" by (simp add: free_contract_def bump_nng_def)
qed

definition two_bytes :: "nat st" where
  "two_bytes = \<lparr>st_lib = 0, st_mem = [16 \<mapsto> 1, 17 \<mapsto> 2], st_log = []\<rparr>"

lemma two_bytes_view: "view_bytes (st_mem two_bytes) (view_of 16 2) = Some [1, 2]"
proof -
  have "view_bytes (st_mem two_bytes) (view_of 16 2) = read_bytes (st_mem two_bytes) 16 (Suc (Suc 0))"
    by (simp add: view_bytes_def flip: numeral_2_eq_2)
  then show ?thesis by (simp add: two_bytes_def read_bytes_Suc)
qed

theorem buffer_copy_deep_witness:
  "st_mem (snd (snd (buffer_copy_ctor bump_nng 1 0 ([0 \<mapsto> view_of 16 2], two_bytes)))) 16 = st_mem two_bytes 16 \<and>
   st_mem (snd (snd (buffer_copy_ctor bump_nng 1 0 ([0 \<mapsto> view_of 16 2], two_bytes)))) 17 = st_mem two_bytes 17"
proof -
  have "16 \<in> dom (st_mem two_bytes)" "17 \<in> dom (st_mem two_bytes)"
    by (auto simp: two_bytes_def)
  then show ?thesis
    using buffer_copy_deep [OF bump_nng_contract(1) _ two_bytes_view, of "[0 \<mapsto> view_of 16 2]" 0 1]
    by (cases "buffer_copy_ctor bump_nng 1 0 ([0 \<mapsto> view_of 16 2], two_bytes)") auto
qed

theorem buffer_copy_assign_safe_witness:
  "view_bytes (st_mem (snd (snd (buffer_copy_assign bump_nng 1 0
     ([0 \<mapsto> view_of 16 2, 1 \<mapsto> view_default], two_bytes))))) (view_of 16 2) = Some [1, 2]"
proof -
  obtain x S' s' where e: "buffer_copy_assign bump_nng 1 0 ([0 \<mapsto> view_of 16 2, 1 \<mapsto> view_default], two_bytes) = (x, S', s')"
    by (metis prod_cases3)
  have "buffer_ok (st_mem two_bytes) view_default"
    by (simp add: buffer_ok_def view_default_def view_bytes_def)
  from buffer_copy_assign_safe [OF bump_nng_contract _ _ _ this two_bytes_view _ e] e
  show ?thesis by simp
qed

theorem buffer_copy_empty_throws_witness:
  "\<exists>s'. buffer_copy_ctor idle_nng 1 0 ([0 \<mapsto> view_default], start ()) =
     (Throw (nomem_exn (idle_nng :: unit nng)), [0 \<mapsto> view_default], s')"
  using buffer_copy_empty_throws [of idle_nng "[0 \<mapsto> view_default]" 0 1 "start ()"] by auto

theorem view_eq_bytes_witness:
  "view_eq (st_mem two_bytes) (view_of 16 2) (view_of 16 2) = Some True \<and>
   view_eq (st_mem two_bytes) (view_of 16 2) (view_of 0 7) = Some False"
  using view_eq_bytes [of "view_of 16 2" "view_of 16 2" "st_mem two_bytes" "[1, 2]" "[1, 2]"] two_bytes_view
    view_eq_bytes [of "view_of 16 2" "view_of 0 7" "st_mem two_bytes"]
  by simp

end
