(* ===== verification/Core.thy ===== *)
theory Core
  imports Options Buffers
begin

text \<open>
  \<open>include/nngpp/core.h\<close> and \<open>platform/platform.h\<close>: the enumerations shared by the
  classes, the send and receive flags, the global functions. The last section says what it is
  for an accessor to read or write an option of a table, which the views and the transports use.
\<close>

section \<open>Enumerations and flags\<close>

datatype sockaddr_family = af_unspec | af_inproc | af_ipc | af_inet | af_inet6 | af_zt

fun sockaddr_family_val :: "'w nng \<Rightarrow> sockaddr_family \<Rightarrow> i32" where
  "sockaddr_family_val nng af_unspec = macro_int nng ''NNG_AF_UNSPEC''"
| "sockaddr_family_val nng af_inproc = macro_int nng ''NNG_AF_INPROC''"
| "sockaddr_family_val nng af_ipc = macro_int nng ''NNG_AF_IPC''"
| "sockaddr_family_val nng af_inet = macro_int nng ''NNG_AF_INET''"
| "sockaddr_family_val nng af_inet6 = macro_int nng ''NNG_AF_INET6''"
| "sockaddr_family_val nng af_zt = macro_int nng ''NNG_AF_ZT''"
datatype pipe_ev = ev_add_pre | ev_add_post | ev_rem_post | ev_num

fun pipe_ev_val :: "'w nng \<Rightarrow> pipe_ev \<Rightarrow> i32" where
  "pipe_ev_val nng ev_add_pre = macro_int nng ''NNG_PIPE_EV_ADD_PRE''"
| "pipe_ev_val nng ev_add_post = macro_int nng ''NNG_PIPE_EV_ADD_POST''"
| "pipe_ev_val nng ev_rem_post = macro_int nng ''NNG_PIPE_EV_REM_POST''"
| "pipe_ev_val nng ev_num = macro_int nng ''NNG_PIPE_EV_NUM''"
definition flag_alloc :: "'w nng \<Rightarrow> i32" where
  "flag_alloc nng = macro_int nng ''NNG_FLAG_ALLOC''"

definition flag_nonblock :: "'w nng \<Rightarrow> i32" where
  "flag_nonblock nng = macro_int nng ''NNG_FLAG_NONBLOCK''"

text \<open>A \<open>const char*\<close> argument whose default is \<open>nullptr\<close>.\<close>

definition opt_str :: "string option \<Rightarrow> val" where
  "opt_str s = (case s of None \<Rightarrow> VW null | Some t \<Rightarrow> VS t)"

text \<open>A \<open>uint16_t\<close> stored through a pointer: the low half of what \<open>s_int\<close> stores.\<close>

definition as_u16 :: "i32 result \<times> 'w st \<Rightarrow> 16 word result \<times> 'w st" where
  "as_u16 = (\<lambda>(x, \<sigma>). (case x of Ok v \<Rightarrow> Ok (ucast v) | Throw e \<Rightarrow> Throw e | Ub \<Rightarrow> Ub, \<sigma>))"

section \<open>Global functions\<close>

definition nng_version :: "'w nng \<Rightarrow> 'w st \<Rightarrow> ptr \<times> 'w st" where
  "nng_version nng = (\<lambda>\<sigma>. call_w64 nng ''nng_version'' [] \<sigma>)"

definition nng_fini :: "'w nng \<Rightarrow> 'w st \<Rightarrow> 'w st" where
  "nng_fini nng = (\<lambda>\<sigma>. call_unit nng ''nng_fini'' [] \<sigma>)"

definition nng_close_all :: "'w nng \<Rightarrow> 'w st \<Rightarrow> 'w st" where
  "nng_close_all nng = (\<lambda>\<sigma>. call_unit nng ''nng_closeall'' [] \<sigma>)"
definition nng_clock :: "'w nng \<Rightarrow> 'w st \<Rightarrow> w64 \<times> 'w st" where
  "nng_clock nng = (\<lambda>\<sigma>. call_w64 nng ''nng_clock'' [] \<sigma>)"

definition nng_msleep :: "'w nng \<Rightarrow> i32 \<Rightarrow> 'w st \<Rightarrow> 'w st" where
  "nng_msleep nng dt = (\<lambda>\<sigma>. call_unit nng ''nng_msleep'' [VI dt] \<sigma>)"

definition nng_random :: "'w nng \<Rightarrow> 'w st \<Rightarrow> i32 \<times> 'w st" where
  "nng_random nng = (\<lambda>\<sigma>. call_int nng ''nng_random'' [] \<sigma>)"
section \<open>Options read and written\<close>

text \<open>
  \<open>m\<close> reads the option \<open>nm\<close> of type \<open>ty\<close> from the object \<open>h\<close>: it makes one call,
  of the getter of that type of the class with prefix \<open>pre\<close>.
\<close>

definition reads_option ::
  "string \<Rightarrow> val \<Rightarrow> string \<Rightarrow> option_type \<Rightarrow> ('w st \<Rightarrow> 'a result \<times> 'w st) \<Rightarrow> bool" where
  "reads_option pre h nm ty m \<longleftrightarrow>
     (\<forall>\<sigma>. \<exists>ret. st_log (snd (m \<sigma>)) =
        st_log \<sigma> @ [\<lparr>c_fn = pre @ ''_get'' @ type_suffix ty, c_args = [h, VS nm], c_ret = ret\<rparr>])"

definition writes_option ::
  "string \<Rightarrow> val \<Rightarrow> string \<Rightarrow> option_type \<Rightarrow> val \<Rightarrow> ('w st \<Rightarrow> 'a result \<times> 'w st) \<Rightarrow> bool" where
  "writes_option pre h nm ty v m \<longleftrightarrow>
     (\<forall>\<sigma>. \<exists>ret. st_log (snd (m \<sigma>)) =
        st_log \<sigma> @ [\<lparr>c_fn = pre @ ''_set'' @ type_suffix ty, c_args = [h, VS nm, v], c_ret = ret\<rparr>])"

lemma check_log: "st_log (snd (check src x)) = st_log (snd x)"
  by (simp add: check_def split: prod.splits)

lemma check_out_log: "st_log (snd (check_out src x)) = st_log (snd x)"
  by (auto simp: check_out_def split: prod.splits)

lemma string_buffer_log: "st_log (snd (string_buffer x)) = st_log (snd x)"
  by (auto simp: string_buffer_def split: prod.splits result.splits option.splits)

lemma as_u16_log: "st_log (snd (as_u16 x)) = st_log (snd x)"
  by (auto simp: as_u16_def split: prod.splits)

lemmas call_logs = check_log check_out_log string_buffer_log as_u16_log
  call_int_def call_bool_def call_w64_def call_id_def call_buf_def get_bool_def get_int_def
  get_w64_def get_id_def get_addr_def get_buf_def invoke_snd_log

lemmas option_access = reads_option_def writes_option_def call_logs

lemma reports_as_u16 [intro!]:
  "reports_failure (\<lambda>\<sigma>. as_u16 (check_out fn (get_int nng fn args \<sigma>)))"
proof (unfold reports_failure_def, intro allI)
  fix \<sigma>
  obtain r x s' where c: "get_int nng fn args \<sigma> = ((r, x), s')" by (metis prod.exhaust)
  then have "st_log s' = st_log \<sigma> @ [\<lparr>c_fn = fn, c_args = args, c_ret = [VI r, VI x]\<rparr>]"
    unfolding get_int_def by (drule_tac invoke_log) simp
  then show "\<exists>c r outs. st_log (snd (as_u16 (check_out fn (get_int nng fn args \<sigma>)))) = st_log \<sigma> @ [c] \<and>
      c_ret c = VI r # outs \<and>
      (case fst (as_u16 (check_out fn (get_int nng fn args \<sigma>))) of
         Throw e \<Rightarrow> r \<noteq> 0 \<and> get_error e = r \<and> who e = c_fn c | _ \<Rightarrow> r = 0)"
    by (auto simp: c as_u16_def check_out_def exception_def get_error_def who_def)
qed

end
