(* ===== verification/Messages.thy ===== *)
theory Messages
  imports Core
begin

text \<open>
  \<open>include/nngpp/msg.h\<close>, \<open>msg_view.h\<close>, \<open>msg_header.h\<close> and \<open>msg_body.h\<close>: the owner
  class \<open>nng::msg\<close>, and the header and the body of a message, two views with the same
  operations over the same handle. What those two share is the locale \<open>msg_part\<close>; the
  effect of the nng functions on the content of a message, which the documentation of nng
  states and the code relies on, is the predicate \<open>part_contract\<close>.
\<close>

section \<open>The owner class\<close>

datatype msg_args =
    Msg_alloc w64

fun msg_exec ::
  "'w nng \<Rightarrow> (ptr, msg_args) raii_op \<Rightarrow> (ptr, 'w) cfg \<Rightarrow> (ptr, 'w) outcome" where
  "msg_exec nng (Default this) = m_default this"
| "msg_exec nng (Adopt this h) = m_adopt this h"
| "msg_exec nng (Acquire this (Msg_alloc sz)) =
     m_acquire this (\<lambda>s. check_out ''nng_msg_alloc'' (get_w64 nng ''nng_msg_alloc'' [VW sz] s))"
| "msg_exec nng (Copy_ctor this rhs) =
     m_copy_ctor (\<lambda>h old. get_w64 nng ''nng_msg_dup'' [VW old, VW h]) ''nng_msg_dup'' this rhs"
| "msg_exec nng (Move_ctor this rhs) = m_move_ctor this rhs"
| "msg_exec nng (Copy_assign this rhs) =
     m_copy_assign (\<lambda>h. call_unit nng ''nng_msg_free'' [VW h])
       (\<lambda>h old. get_w64 nng ''nng_msg_dup'' [VW old, VW h]) ''nng_msg_dup'' this rhs"
| "msg_exec nng (Move_assign this rhs) =
     m_move_assign (\<lambda>h. call_unit nng ''nng_msg_free'' [VW h]) this rhs"
| "msg_exec nng (Dtor this) =
     m_dtor (\<lambda>h. call_unit nng ''nng_msg_free'' [VW h]) this"
| "msg_exec nng (Release this) = m_release this"

definition msg_ev :: "call \<Rightarrow> ptr event option" where
  "msg_ev = ptr_ev [''nng_msg_alloc'', ''nng_msg_dup''] ''nng_msg_free''"

lemma msg_calls [conforming]:
  "releases msg_ev (\<lambda>h. call_unit nng ''nng_msg_free'' [VW h])"
  "acquires msg_ev (\<lambda>s. check_out ''nng_msg_alloc'' (get_w64 nng ''nng_msg_alloc'' [VW sz] s))"
  "duplicates msg_ev (\<lambda>h old. get_w64 nng ''nng_msg_dup'' [VW old, VW h])"
  unfolding msg_ev_def by (intro conforming; simp)+

interpretation msg: owner_class True "{Copying, Acquiring}" "msg_exec nng" "msg_ev" for nng :: "'w nng"
proof
  fix op
  show "conforms True {Copying, Acquiring} msg_ev op (msg_exec nng op)"
    by (cases "(nng, op)" rule: msg_exec.cases; simp only: msg_exec.simps prod.inject; intro conforming; simp)
qed

section \<open>Views\<close>

definition msg_view_realloc ::
  "'w nng \<Rightarrow> ptr \<Rightarrow> w64 \<Rightarrow> 'w st \<Rightarrow> unit result \<times> 'w st" where
  "msg_view_realloc nng m sz = (\<lambda>\<sigma>.
     check ''nng_msg_realloc'' (call_int nng ''nng_msg_realloc'' [VW m, VW sz] \<sigma>))"

definition msg_view_set_pipe ::
  "'w nng \<Rightarrow> ptr \<Rightarrow> i32 \<Rightarrow> 'w st \<Rightarrow> 'w st" where
  "msg_view_set_pipe nng m p = (\<lambda>\<sigma>. call_unit nng ''nng_msg_set_pipe'' [VW m, VId p] \<sigma>)"

definition msg_view_get_pipe ::
  "'w nng \<Rightarrow> ptr \<Rightarrow> 'w st \<Rightarrow> i32 \<times> 'w st" where
  "msg_view_get_pipe nng m = (\<lambda>\<sigma>. call_id nng ''nng_msg_get_pipe'' [VW m] \<sigma>)"

definition msg_body_data ::
  "'w nng \<Rightarrow> ptr \<Rightarrow> 'w st \<Rightarrow> ptr \<times> 'w st" where
  "msg_body_data nng m = (\<lambda>\<sigma>. call_w64 nng ''nng_msg_body'' [VW m] \<sigma>)"

definition msg_body_size ::
  "'w nng \<Rightarrow> ptr \<Rightarrow> 'w st \<Rightarrow> w64 \<times> 'w st" where
  "msg_body_size nng m = (\<lambda>\<sigma>. call_w64 nng ''nng_msg_len'' [VW m] \<sigma>)"

definition msg_body_clear ::
  "'w nng \<Rightarrow> ptr \<Rightarrow> 'w st \<Rightarrow> 'w st" where
  "msg_body_clear nng m = (\<lambda>\<sigma>. call_unit nng ''nng_msg_clear'' [VW m] \<sigma>)"

definition msg_body_append ::
  "'w nng \<Rightarrow> ptr \<Rightarrow> view \<Rightarrow> 'w st \<Rightarrow> unit result \<times> 'w st" where
  "msg_body_append nng m v = (\<lambda>\<sigma>.
     check ''nng_msg_append''
       (call_int nng ''nng_msg_append'' [VW m, VW (v_data v), VW (v_size v)] \<sigma>))"

definition msg_body_insert ::
  "'w nng \<Rightarrow> ptr \<Rightarrow> view \<Rightarrow> 'w st \<Rightarrow> unit result \<times> 'w st" where
  "msg_body_insert nng m v = (\<lambda>\<sigma>.
     check ''nng_msg_insert''
       (call_int nng ''nng_msg_insert'' [VW m, VW (v_data v), VW (v_size v)] \<sigma>))"

definition msg_body_trim ::
  "'w nng \<Rightarrow> ptr \<Rightarrow> w64 \<Rightarrow> 'w st \<Rightarrow> unit result \<times> 'w st" where
  "msg_body_trim nng m sz = (\<lambda>\<sigma>.
     check ''nng_msg_trim'' (call_int nng ''nng_msg_trim'' [VW m, VW sz] \<sigma>))"

definition msg_body_chop ::
  "'w nng \<Rightarrow> ptr \<Rightarrow> w64 \<Rightarrow> 'w st \<Rightarrow> unit result \<times> 'w st" where
  "msg_body_chop nng m sz = (\<lambda>\<sigma>.
     check ''nng_msg_chop'' (call_int nng ''nng_msg_chop'' [VW m, VW sz] \<sigma>))"

definition msg_body_append_u16 ::
  "'w nng \<Rightarrow> ptr \<Rightarrow> 16 word \<Rightarrow> 'w st \<Rightarrow> unit result \<times> 'w st" where
  "msg_body_append_u16 nng m v = (\<lambda>\<sigma>.
     check ''nng_msg_append_u16''
       (call_int nng ''nng_msg_append_u16'' [VW m, VI (ucast v)] \<sigma>))"

definition msg_body_append_u32 ::
  "'w nng \<Rightarrow> ptr \<Rightarrow> i32 \<Rightarrow> 'w st \<Rightarrow> unit result \<times> 'w st" where
  "msg_body_append_u32 nng m v = (\<lambda>\<sigma>.
     check ''nng_msg_append_u32''
       (call_int nng ''nng_msg_append_u32'' [VW m, VI v] \<sigma>))"

definition msg_body_append_u64 ::
  "'w nng \<Rightarrow> ptr \<Rightarrow> w64 \<Rightarrow> 'w st \<Rightarrow> unit result \<times> 'w st" where
  "msg_body_append_u64 nng m v = (\<lambda>\<sigma>.
     check ''nng_msg_append_u64''
       (call_int nng ''nng_msg_append_u64'' [VW m, VW v] \<sigma>))"

definition msg_body_insert_u16 ::
  "'w nng \<Rightarrow> ptr \<Rightarrow> 16 word \<Rightarrow> 'w st \<Rightarrow> unit result \<times> 'w st" where
  "msg_body_insert_u16 nng m v = (\<lambda>\<sigma>.
     check ''nng_msg_insert_u16''
       (call_int nng ''nng_msg_insert_u16'' [VW m, VI (ucast v)] \<sigma>))"

definition msg_body_insert_u32 ::
  "'w nng \<Rightarrow> ptr \<Rightarrow> i32 \<Rightarrow> 'w st \<Rightarrow> unit result \<times> 'w st" where
  "msg_body_insert_u32 nng m v = (\<lambda>\<sigma>.
     check ''nng_msg_insert_u32''
       (call_int nng ''nng_msg_insert_u32'' [VW m, VI v] \<sigma>))"

definition msg_body_insert_u64 ::
  "'w nng \<Rightarrow> ptr \<Rightarrow> w64 \<Rightarrow> 'w st \<Rightarrow> unit result \<times> 'w st" where
  "msg_body_insert_u64 nng m v = (\<lambda>\<sigma>.
     check ''nng_msg_insert_u64''
       (call_int nng ''nng_msg_insert_u64'' [VW m, VW v] \<sigma>))"

definition msg_body_trim_u16 ::
  "'w nng \<Rightarrow> ptr \<Rightarrow> 'w st \<Rightarrow> 16 word result \<times> 'w st" where
  "msg_body_trim_u16 nng m = (\<lambda>\<sigma>.
     as_u16 (check_out ''nng_msg_trim_u16''
       (get_int nng ''nng_msg_trim_u16'' [VW m] \<sigma>)))"

definition msg_body_trim_u32 ::
  "'w nng \<Rightarrow> ptr \<Rightarrow> 'w st \<Rightarrow> i32 result \<times> 'w st" where
  "msg_body_trim_u32 nng m = (\<lambda>\<sigma>.
     check_out ''nng_msg_trim_u32'' (get_int nng ''nng_msg_trim_u32'' [VW m] \<sigma>))"

definition msg_body_trim_u64 ::
  "'w nng \<Rightarrow> ptr \<Rightarrow> 'w st \<Rightarrow> w64 result \<times> 'w st" where
  "msg_body_trim_u64 nng m = (\<lambda>\<sigma>.
     check_out ''nng_msg_trim_u64'' (get_w64 nng ''nng_msg_trim_u64'' [VW m] \<sigma>))"

definition msg_body_chop_u16 ::
  "'w nng \<Rightarrow> ptr \<Rightarrow> 'w st \<Rightarrow> 16 word result \<times> 'w st" where
  "msg_body_chop_u16 nng m = (\<lambda>\<sigma>.
     as_u16 (check_out ''nng_msg_chop_u16''
       (get_int nng ''nng_msg_chop_u16'' [VW m] \<sigma>)))"

definition msg_body_chop_u32 ::
  "'w nng \<Rightarrow> ptr \<Rightarrow> 'w st \<Rightarrow> i32 result \<times> 'w st" where
  "msg_body_chop_u32 nng m = (\<lambda>\<sigma>.
     check_out ''nng_msg_chop_u32'' (get_int nng ''nng_msg_chop_u32'' [VW m] \<sigma>))"

definition msg_body_chop_u64 ::
  "'w nng \<Rightarrow> ptr \<Rightarrow> 'w st \<Rightarrow> w64 result \<times> 'w st" where
  "msg_body_chop_u64 nng m = (\<lambda>\<sigma>.
     check_out ''nng_msg_chop_u64'' (get_w64 nng ''nng_msg_chop_u64'' [VW m] \<sigma>))"

definition msg_header_data ::
  "'w nng \<Rightarrow> ptr \<Rightarrow> 'w st \<Rightarrow> ptr \<times> 'w st" where
  "msg_header_data nng m = (\<lambda>\<sigma>. call_w64 nng ''nng_msg_header'' [VW m] \<sigma>)"

definition msg_header_size ::
  "'w nng \<Rightarrow> ptr \<Rightarrow> 'w st \<Rightarrow> w64 \<times> 'w st" where
  "msg_header_size nng m = (\<lambda>\<sigma>. call_w64 nng ''nng_msg_header_len'' [VW m] \<sigma>)"

definition msg_header_clear ::
  "'w nng \<Rightarrow> ptr \<Rightarrow> 'w st \<Rightarrow> 'w st" where
  "msg_header_clear nng m = (\<lambda>\<sigma>. call_unit nng ''nng_msg_header_clear'' [VW m] \<sigma>)"

definition msg_header_append ::
  "'w nng \<Rightarrow> ptr \<Rightarrow> view \<Rightarrow> 'w st \<Rightarrow> unit result \<times> 'w st" where
  "msg_header_append nng m v = (\<lambda>\<sigma>.
     check ''nng_msg_header_append''
       (call_int nng ''nng_msg_header_append'' [VW m, VW (v_data v), VW (v_size v)] \<sigma>))"

definition msg_header_insert ::
  "'w nng \<Rightarrow> ptr \<Rightarrow> view \<Rightarrow> 'w st \<Rightarrow> unit result \<times> 'w st" where
  "msg_header_insert nng m v = (\<lambda>\<sigma>.
     check ''nng_msg_header_insert''
       (call_int nng ''nng_msg_header_insert'' [VW m, VW (v_data v), VW (v_size v)] \<sigma>))"

definition msg_header_trim ::
  "'w nng \<Rightarrow> ptr \<Rightarrow> w64 \<Rightarrow> 'w st \<Rightarrow> unit result \<times> 'w st" where
  "msg_header_trim nng m sz = (\<lambda>\<sigma>.
     check ''nng_msg_header_trim''
       (call_int nng ''nng_msg_header_trim'' [VW m, VW sz] \<sigma>))"

definition msg_header_chop ::
  "'w nng \<Rightarrow> ptr \<Rightarrow> w64 \<Rightarrow> 'w st \<Rightarrow> unit result \<times> 'w st" where
  "msg_header_chop nng m sz = (\<lambda>\<sigma>.
     check ''nng_msg_header_chop''
       (call_int nng ''nng_msg_header_chop'' [VW m, VW sz] \<sigma>))"

definition msg_header_append_u16 ::
  "'w nng \<Rightarrow> ptr \<Rightarrow> 16 word \<Rightarrow> 'w st \<Rightarrow> unit result \<times> 'w st" where
  "msg_header_append_u16 nng m v = (\<lambda>\<sigma>.
     check ''nng_msg_header_append_u16''
       (call_int nng ''nng_msg_header_append_u16'' [VW m, VI (ucast v)] \<sigma>))"

definition msg_header_append_u32 ::
  "'w nng \<Rightarrow> ptr \<Rightarrow> i32 \<Rightarrow> 'w st \<Rightarrow> unit result \<times> 'w st" where
  "msg_header_append_u32 nng m v = (\<lambda>\<sigma>.
     check ''nng_msg_header_append_u32''
       (call_int nng ''nng_msg_header_append_u32'' [VW m, VI v] \<sigma>))"

definition msg_header_append_u64 ::
  "'w nng \<Rightarrow> ptr \<Rightarrow> w64 \<Rightarrow> 'w st \<Rightarrow> unit result \<times> 'w st" where
  "msg_header_append_u64 nng m v = (\<lambda>\<sigma>.
     check ''nng_msg_header_append_u64''
       (call_int nng ''nng_msg_header_append_u64'' [VW m, VW v] \<sigma>))"

definition msg_header_insert_u16 ::
  "'w nng \<Rightarrow> ptr \<Rightarrow> 16 word \<Rightarrow> 'w st \<Rightarrow> unit result \<times> 'w st" where
  "msg_header_insert_u16 nng m v = (\<lambda>\<sigma>.
     check ''nng_msg_header_insert_u16''
       (call_int nng ''nng_msg_header_insert_u16'' [VW m, VI (ucast v)] \<sigma>))"

definition msg_header_insert_u32 ::
  "'w nng \<Rightarrow> ptr \<Rightarrow> i32 \<Rightarrow> 'w st \<Rightarrow> unit result \<times> 'w st" where
  "msg_header_insert_u32 nng m v = (\<lambda>\<sigma>.
     check ''nng_msg_header_insert_u32''
       (call_int nng ''nng_msg_header_insert_u32'' [VW m, VI v] \<sigma>))"

definition msg_header_insert_u64 ::
  "'w nng \<Rightarrow> ptr \<Rightarrow> w64 \<Rightarrow> 'w st \<Rightarrow> unit result \<times> 'w st" where
  "msg_header_insert_u64 nng m v = (\<lambda>\<sigma>.
     check ''nng_msg_header_insert_u64''
       (call_int nng ''nng_msg_header_insert_u64'' [VW m, VW v] \<sigma>))"

definition msg_header_trim_u16 ::
  "'w nng \<Rightarrow> ptr \<Rightarrow> 'w st \<Rightarrow> 16 word result \<times> 'w st" where
  "msg_header_trim_u16 nng m = (\<lambda>\<sigma>.
     as_u16 (check_out ''nng_msg_header_trim_u16''
       (get_int nng ''nng_msg_header_trim_u16'' [VW m] \<sigma>)))"

definition msg_header_trim_u32 ::
  "'w nng \<Rightarrow> ptr \<Rightarrow> 'w st \<Rightarrow> i32 result \<times> 'w st" where
  "msg_header_trim_u32 nng m = (\<lambda>\<sigma>.
     check_out ''nng_msg_header_trim_u32''
       (get_int nng ''nng_msg_header_trim_u32'' [VW m] \<sigma>))"

definition msg_header_trim_u64 ::
  "'w nng \<Rightarrow> ptr \<Rightarrow> 'w st \<Rightarrow> w64 result \<times> 'w st" where
  "msg_header_trim_u64 nng m = (\<lambda>\<sigma>.
     check_out ''nng_msg_header_trim_u64''
       (get_w64 nng ''nng_msg_header_trim_u64'' [VW m] \<sigma>))"

definition msg_header_chop_u16 ::
  "'w nng \<Rightarrow> ptr \<Rightarrow> 'w st \<Rightarrow> 16 word result \<times> 'w st" where
  "msg_header_chop_u16 nng m = (\<lambda>\<sigma>.
     as_u16 (check_out ''nng_msg_header_chop_u16''
       (get_int nng ''nng_msg_header_chop_u16'' [VW m] \<sigma>)))"

definition msg_header_chop_u32 ::
  "'w nng \<Rightarrow> ptr \<Rightarrow> 'w st \<Rightarrow> i32 result \<times> 'w st" where
  "msg_header_chop_u32 nng m = (\<lambda>\<sigma>.
     check_out ''nng_msg_header_chop_u32''
       (get_int nng ''nng_msg_header_chop_u32'' [VW m] \<sigma>))"

definition msg_header_chop_u64 ::
  "'w nng \<Rightarrow> ptr \<Rightarrow> 'w st \<Rightarrow> w64 result \<times> 'w st" where
  "msg_header_chop_u64 nng m = (\<lambda>\<sigma>.
     check_out ''nng_msg_header_chop_u64''
       (get_w64 nng ''nng_msg_header_chop_u64'' [VW m] \<sigma>))"

text \<open>
  \<open>get()\<close> is \<open>view(nng_msg_body(m),nng_msg_len(m))\<close>. C++ leaves the order of the two
  calls open; neither changes the message, and the model makes the first one first.
\<close>

definition msg_body_get :: "'w nng \<Rightarrow> ptr \<Rightarrow> 'w st \<Rightarrow> view \<times> 'w st" where
  "msg_body_get nng m = (\<lambda>\<sigma>.
     (case msg_body_data nng m \<sigma> of (d, \<sigma>1) \<Rightarrow>
        case msg_body_size nng m \<sigma>1 of (n, \<sigma>2) \<Rightarrow> (view_of d n, \<sigma>2)))"

definition msg_header_get :: "'w nng \<Rightarrow> ptr \<Rightarrow> 'w st \<Rightarrow> view \<times> 'w st" where
  "msg_header_get nng m = (\<lambda>\<sigma>.
     (case msg_header_data nng m \<sigma> of (d, \<sigma>1) \<Rightarrow>
        case msg_header_size nng m \<sigma>1 of (n, \<sigma>2) \<Rightarrow> (view_of d n, \<sigma>2)))"

section \<open>The integers of a message\<close>

text \<open>
  The contract of nng: \<open>content w h\<close> are the bytes of the part (body or header) of message
  \<open>h\<close>. A value takes \<open>k\<close> bytes in network order; an append goes to the end, an insert
  to the front, trim takes from the front, chop from the end, and both refuse when there are
  fewer than \<open>k\<close>. A call that fails leaves the content as it was.
\<close>

fun be_val :: "nat \<Rightarrow> val \<Rightarrow> byte list" where
  "be_val k (VI x) = be_bytes k x"
| "be_val k (VW x) = be_bytes k x"
| "be_val k _ = []"

definition puts ::
  "('w, i32) cfun \<Rightarrow> ('w \<Rightarrow> ptr \<Rightarrow> byte list) \<Rightarrow> string \<Rightarrow> (val \<Rightarrow> byte list \<Rightarrow> byte list) \<Rightarrow> bool" where
  "puts f content fn upd \<longleftrightarrow>
     (\<forall>h v w m r w' m'. f fn [VW h, v] (w, m) = (r, w', m') \<longrightarrow>
        content w' h = (if r = 0 then upd v (content w h) else content w h))"

definition takes ::
  "('w, i32 \<times> 'a) cfun \<Rightarrow> ('w \<Rightarrow> ptr \<Rightarrow> byte list) \<Rightarrow> string \<Rightarrow> nat \<Rightarrow> (byte list \<Rightarrow> 'a) \<Rightarrow>
     (byte list \<Rightarrow> byte list) \<Rightarrow> bool" where
  "takes f content fn k out upd \<longleftrightarrow>
     (\<forall>h w m r x w' m'. f fn [VW h] (w, m) = ((r, x), w', m') \<longrightarrow>
        (if length (content w h) < k then r \<noteq> 0 \<and> content w' h = content w h
         else r = 0 \<and> x = out (content w h) \<and> content w' h = upd (content w h)))"

definition front :: "nat \<Rightarrow> byte list \<Rightarrow> 'a::len word" where
  "front k bs = be_word (take k bs)"

definition rear :: "nat \<Rightarrow> byte list \<Rightarrow> 'a::len word" where
  "rear k bs = be_word (drop (length bs - k) bs)"

definition chopped :: "nat \<Rightarrow> byte list \<Rightarrow> byte list" where
  "chopped k bs = take (length bs - k) bs"

definition part_contract :: "'w nng \<Rightarrow> string \<Rightarrow> ('w \<Rightarrow> ptr \<Rightarrow> byte list) \<Rightarrow> bool" where
  "part_contract nng pre content \<longleftrightarrow>
     puts (f_int nng) content (pre @ ''_append_u16'') (\<lambda>v c. c @ be_val 2 v) \<and>
     puts (f_int nng) content (pre @ ''_append_u32'') (\<lambda>v c. c @ be_val 4 v) \<and>
     puts (f_int nng) content (pre @ ''_append_u64'') (\<lambda>v c. c @ be_val 8 v) \<and>
     puts (f_int nng) content (pre @ ''_insert_u16'') (\<lambda>v c. be_val 2 v @ c) \<and>
     puts (f_int nng) content (pre @ ''_insert_u32'') (\<lambda>v c. be_val 4 v @ c) \<and>
     puts (f_int nng) content (pre @ ''_insert_u64'') (\<lambda>v c. be_val 8 v @ c) \<and>
     takes (s_int nng) content (pre @ ''_trim_u16'') 2 (front 2) (drop 2) \<and>
     takes (s_int nng) content (pre @ ''_trim_u32'') 4 (front 4) (drop 4) \<and>
     takes (s_w64 nng) content (pre @ ''_trim_u64'') 8 (front 8) (drop 8) \<and>
     takes (s_int nng) content (pre @ ''_chop_u16'') 2 (rear 2) (chopped 2) \<and>
     takes (s_int nng) content (pre @ ''_chop_u32'') 4 (rear 4) (chopped 4) \<and>
     takes (s_w64 nng) content (pre @ ''_chop_u64'') 8 (rear 8) (chopped 8)"

lemma front_append [simp]: "length bs = k \<Longrightarrow> front k (bs @ c) = be_word bs"
  by (simp add: front_def)

lemma rear_append [simp]: "length bs = k \<Longrightarrow> rear k (c @ bs) = be_word bs"
  by (simp add: rear_def)

lemma chopped_append [simp]: "length bs = k \<Longrightarrow> chopped k (c @ bs) = c"
  by (simp add: chopped_def)

text \<open>What the two shapes of method do to the content, under the contract.\<close>

lemma put_content:
  assumes "puts (f_int nng) content fn upd" "check src (call_int nng fn [VW m, v] \<sigma>) = (x, \<sigma>')"
  shows "content (st_lib \<sigma>') m = (if x = Ok () then upd v (content (st_lib \<sigma>) m) else content (st_lib \<sigma>) m)"
proof -
  obtain r w mm where call: "f_int nng fn [VW m, v] (st_lib \<sigma>, st_mem \<sigma>) = (r, w, mm)"
    by (metis prod.exhaust)
  then have "content w m = (if r = 0 then upd v (content (st_lib \<sigma>) m) else content (st_lib \<sigma>) m)"
    using assms(1) unfolding puts_def by blast
  with call assms(2) show ?thesis by (auto simp: check_def call_int_def invoke_def)
qed

lemma take_content:
  assumes "takes (s_int nng) content fn k out upd" "content (st_lib \<sigma>) m = c" "k \<le> length c"
    "out c = x" "upd c = c'"
  shows "\<exists>\<sigma>'. check_out src (get_int nng fn [VW m] \<sigma>) = (Ok x, \<sigma>') \<and> content (st_lib \<sigma>') m = c'"
proof -
  obtain r y w mm where call: "s_int nng fn [VW m] (st_lib \<sigma>, st_mem \<sigma>) = ((r, y), w, mm)"
    by (metis prod.exhaust)
  with assms have "r = 0 \<and> y = x \<and> content w m = c'"
    unfolding takes_def by (metis not_less)
  with call show ?thesis by (simp add: check_out_def get_int_def invoke_def)
qed

lemma take_content_u64:
  assumes "takes (s_w64 nng) content fn k out upd" "content (st_lib \<sigma>) m = c" "k \<le> length c"
    "out c = x" "upd c = c'"
  shows "\<exists>\<sigma>'. check_out src (get_w64 nng fn [VW m] \<sigma>) = (Ok x, \<sigma>') \<and> content (st_lib \<sigma>') m = c'"
proof -
  obtain r y w mm where call: "s_w64 nng fn [VW m] (st_lib \<sigma>, st_mem \<sigma>) = ((r, y), w, mm)"
    by (metis prod.exhaust)
  with assms have "r = 0 \<and> y = x \<and> content w m = c'"
    unfolding takes_def by (metis not_less)
  with call show ?thesis by (simp add: check_out_def get_w64_def invoke_def)
qed

text \<open>
  What the header and the body promise: each operation is the checked call of the nng function
  of its name, on the part with prefix \<open>pre\<close>.
\<close>

locale msg_part =
  fixes nng :: "'w nng" and pre :: string
    and append_u16 insert_u16 :: "ptr \<Rightarrow> 16 word \<Rightarrow> 'w st \<Rightarrow> unit result \<times> 'w st"
    and append_u32 insert_u32 :: "ptr \<Rightarrow> i32 \<Rightarrow> 'w st \<Rightarrow> unit result \<times> 'w st"
    and append_u64 insert_u64 :: "ptr \<Rightarrow> w64 \<Rightarrow> 'w st \<Rightarrow> unit result \<times> 'w st"
    and trim_u16 chop_u16 :: "ptr \<Rightarrow> 'w st \<Rightarrow> 16 word result \<times> 'w st"
    and trim_u32 chop_u32 :: "ptr \<Rightarrow> 'w st \<Rightarrow> i32 result \<times> 'w st"
    and trim_u64 chop_u64 :: "ptr \<Rightarrow> 'w st \<Rightarrow> w64 result \<times> 'w st"
  assumes put16:
      "append_u16 m a \<sigma> = check (pre @ ''_append_u16'') (call_int nng (pre @ ''_append_u16'') [VW m, VI (ucast a)] \<sigma>)"
      "insert_u16 m a \<sigma> = check (pre @ ''_insert_u16'') (call_int nng (pre @ ''_insert_u16'') [VW m, VI (ucast a)] \<sigma>)"
    and put32:
      "append_u32 m b \<sigma> = check (pre @ ''_append_u32'') (call_int nng (pre @ ''_append_u32'') [VW m, VI b] \<sigma>)"
      "insert_u32 m b \<sigma> = check (pre @ ''_insert_u32'') (call_int nng (pre @ ''_insert_u32'') [VW m, VI b] \<sigma>)"
    and put64:
      "append_u64 m c \<sigma> = check (pre @ ''_append_u64'') (call_int nng (pre @ ''_append_u64'') [VW m, VW c] \<sigma>)"
      "insert_u64 m c \<sigma> = check (pre @ ''_insert_u64'') (call_int nng (pre @ ''_insert_u64'') [VW m, VW c] \<sigma>)"
    and take16:
      "trim_u16 m \<sigma> = as_u16 (check_out (pre @ ''_trim_u16'') (get_int nng (pre @ ''_trim_u16'') [VW m] \<sigma>))"
      "chop_u16 m \<sigma> = as_u16 (check_out (pre @ ''_chop_u16'') (get_int nng (pre @ ''_chop_u16'') [VW m] \<sigma>))"
    and take32:
      "trim_u32 m \<sigma> = check_out (pre @ ''_trim_u32'') (get_int nng (pre @ ''_trim_u32'') [VW m] \<sigma>)"
      "chop_u32 m \<sigma> = check_out (pre @ ''_chop_u32'') (get_int nng (pre @ ''_chop_u32'') [VW m] \<sigma>)"
    and take64:
      "trim_u64 m \<sigma> = check_out (pre @ ''_trim_u64'') (get_w64 nng (pre @ ''_trim_u64'') [VW m] \<sigma>)"
      "chop_u64 m \<sigma> = check_out (pre @ ''_chop_u64'') (get_w64 nng (pre @ ''_chop_u64'') [VW m] \<sigma>)"
begin

lemma puts_content:
  assumes "part_contract nng pre content"
  shows "append_u16 m a \<sigma> = (Ok (), \<sigma>') \<Longrightarrow> content (st_lib \<sigma>') m = content (st_lib \<sigma>) m @ be_bytes 2 (ucast a :: i32)"
    and "append_u32 m b \<sigma> = (Ok (), \<sigma>') \<Longrightarrow> content (st_lib \<sigma>') m = content (st_lib \<sigma>) m @ be_bytes 4 b"
    and "append_u64 m c \<sigma> = (Ok (), \<sigma>') \<Longrightarrow> content (st_lib \<sigma>') m = content (st_lib \<sigma>) m @ be_bytes 8 c"
    and "insert_u16 m a \<sigma> = (Ok (), \<sigma>') \<Longrightarrow> content (st_lib \<sigma>') m = be_bytes 2 (ucast a :: i32) @ content (st_lib \<sigma>) m"
    and "insert_u32 m b \<sigma> = (Ok (), \<sigma>') \<Longrightarrow> content (st_lib \<sigma>') m = be_bytes 4 b @ content (st_lib \<sigma>) m"
    and "insert_u64 m c \<sigma> = (Ok (), \<sigma>') \<Longrightarrow> content (st_lib \<sigma>') m = be_bytes 8 c @ content (st_lib \<sigma>) m"
  using assms unfolding part_contract_def put16 put32 put64 by (auto dest: put_content)

lemma trims_content:
  assumes "part_contract nng pre content"
  shows "content (st_lib \<sigma>) m = be_bytes 2 (ucast a :: i32) @ rest \<Longrightarrow>
      \<exists>\<sigma>'. trim_u16 m \<sigma> = (Ok a, \<sigma>') \<and> content (st_lib \<sigma>') m = rest"
    and "content (st_lib \<sigma>) m = be_bytes 4 b @ rest \<Longrightarrow>
      \<exists>\<sigma>'. trim_u32 m \<sigma> = (Ok b, \<sigma>') \<and> content (st_lib \<sigma>') m = rest"
    and "content (st_lib \<sigma>) m = be_bytes 8 c @ rest \<Longrightarrow>
      \<exists>\<sigma>'. trim_u64 m \<sigma> = (Ok c, \<sigma>') \<and> content (st_lib \<sigma>') m = rest"
proof -
  note contract = assms [unfolded part_contract_def]
  show "\<exists>\<sigma>'. trim_u16 m \<sigma> = (Ok a, \<sigma>') \<and> content (st_lib \<sigma>') m = rest"
    if "content (st_lib \<sigma>) m = be_bytes 2 (ucast a :: i32) @ rest"
  proof -
    from contract that have "\<exists>\<sigma>'. check_out (pre @ ''_trim_u16'') (get_int nng (pre @ ''_trim_u16'') [VW m] \<sigma>)
        = (Ok (be_word (be_bytes 2 (ucast a :: i32))), \<sigma>') \<and> content (st_lib \<sigma>') m = rest"
      by (elim conjE) (rule take_content, assumption, assumption, simp_all)
    then show ?thesis by (auto simp: take16 as_u16_def)
  qed
  show "\<exists>\<sigma>'. trim_u32 m \<sigma> = (Ok b, \<sigma>') \<and> content (st_lib \<sigma>') m = rest"
    if "content (st_lib \<sigma>) m = be_bytes 4 b @ rest"
    using contract that unfolding take32
    by (elim conjE) (rule take_content, assumption, assumption, simp_all)
  show "\<exists>\<sigma>'. trim_u64 m \<sigma> = (Ok c, \<sigma>') \<and> content (st_lib \<sigma>') m = rest"
    if "content (st_lib \<sigma>) m = be_bytes 8 c @ rest"
    using contract that unfolding take64
    by (elim conjE) (rule take_content_u64, assumption, assumption, simp_all)
qed

lemma chops_content:
  assumes "part_contract nng pre content"
  shows "content (st_lib \<sigma>) m = rest @ be_bytes 2 (ucast a :: i32) \<Longrightarrow>
      \<exists>\<sigma>'. chop_u16 m \<sigma> = (Ok a, \<sigma>') \<and> content (st_lib \<sigma>') m = rest"
    and "content (st_lib \<sigma>) m = rest @ be_bytes 4 b \<Longrightarrow>
      \<exists>\<sigma>'. chop_u32 m \<sigma> = (Ok b, \<sigma>') \<and> content (st_lib \<sigma>') m = rest"
    and "content (st_lib \<sigma>) m = rest @ be_bytes 8 c \<Longrightarrow>
      \<exists>\<sigma>'. chop_u64 m \<sigma> = (Ok c, \<sigma>') \<and> content (st_lib \<sigma>') m = rest"
proof -
  note contract = assms [unfolded part_contract_def]
  show "\<exists>\<sigma>'. chop_u16 m \<sigma> = (Ok a, \<sigma>') \<and> content (st_lib \<sigma>') m = rest"
    if "content (st_lib \<sigma>) m = rest @ be_bytes 2 (ucast a :: i32)"
  proof -
    from contract that have "\<exists>\<sigma>'. check_out (pre @ ''_chop_u16'') (get_int nng (pre @ ''_chop_u16'') [VW m] \<sigma>)
        = (Ok (be_word (be_bytes 2 (ucast a :: i32))), \<sigma>') \<and> content (st_lib \<sigma>') m = rest"
      by (elim conjE) (rule take_content, assumption, assumption, simp_all)
    then show ?thesis by (auto simp: take16 as_u16_def)
  qed
  show "\<exists>\<sigma>'. chop_u32 m \<sigma> = (Ok b, \<sigma>') \<and> content (st_lib \<sigma>') m = rest"
    if "content (st_lib \<sigma>) m = rest @ be_bytes 4 b"
    using contract that unfolding take32
    by (elim conjE) (rule take_content, assumption, assumption, simp_all)
  show "\<exists>\<sigma>'. chop_u64 m \<sigma> = (Ok c, \<sigma>') \<and> content (st_lib \<sigma>') m = rest"
    if "content (st_lib \<sigma>) m = rest @ be_bytes 8 c"
    using contract that unfolding take64
    by (elim conjE) (rule take_content_u64, assumption, assumption, simp_all)
qed

text \<open>First in, first out through append and trim; last in, first out through append and chop, and through insert and trim.\<close>

lemma queue_integers:
  assumes "part_contract nng pre content" "content (st_lib \<sigma>0) m = []"
    "append_u16 m a \<sigma>0 = (Ok (), \<sigma>1)" "append_u32 m b \<sigma>1 = (Ok (), \<sigma>2)" "append_u64 m c \<sigma>2 = (Ok (), \<sigma>3)"
  shows "\<exists>\<sigma>4 \<sigma>5 \<sigma>6. trim_u16 m \<sigma>3 = (Ok a, \<sigma>4) \<and> trim_u32 m \<sigma>4 = (Ok b, \<sigma>5) \<and>
    trim_u64 m \<sigma>5 = (Ok c, \<sigma>6) \<and> content (st_lib \<sigma>6) m = []"
proof -
  from assms have "content (st_lib \<sigma>3) m = be_bytes 2 (ucast a :: i32) @ be_bytes 4 b @ be_bytes 8 c @ []"
    by (simp add: puts_content)
  from trims_content(1) [OF assms(1) this] obtain \<sigma>4 where 4: "trim_u16 m \<sigma>3 = (Ok a, \<sigma>4)"
    and c4: "content (st_lib \<sigma>4) m = be_bytes 4 b @ be_bytes 8 c @ []" by blast
  from trims_content(2) [OF assms(1) c4] obtain \<sigma>5 where 5: "trim_u32 m \<sigma>4 = (Ok b, \<sigma>5)"
    and c5: "content (st_lib \<sigma>5) m = be_bytes 8 c @ []" by blast
  from trims_content(3) [OF assms(1) c5] 4 5 show ?thesis by blast
qed

lemma stack_integers:
  assumes "part_contract nng pre content"
    "append_u16 m a \<sigma>0 = (Ok (), \<sigma>1)" "append_u32 m b \<sigma>1 = (Ok (), \<sigma>2)" "append_u64 m c \<sigma>2 = (Ok (), \<sigma>3)"
  shows "\<exists>\<sigma>4 \<sigma>5 \<sigma>6. chop_u64 m \<sigma>3 = (Ok c, \<sigma>4) \<and> chop_u32 m \<sigma>4 = (Ok b, \<sigma>5) \<and>
    chop_u16 m \<sigma>5 = (Ok a, \<sigma>6) \<and> content (st_lib \<sigma>6) m = content (st_lib \<sigma>0) m"
proof -
  from assms have "content (st_lib \<sigma>3) m =
      ((content (st_lib \<sigma>0) m @ be_bytes 2 (ucast a :: i32)) @ be_bytes 4 b) @ be_bytes 8 c"
    by (simp add: puts_content)
  from chops_content(3) [OF assms(1) this] obtain \<sigma>4 where 4: "chop_u64 m \<sigma>3 = (Ok c, \<sigma>4)"
    and c4: "content (st_lib \<sigma>4) m = (content (st_lib \<sigma>0) m @ be_bytes 2 (ucast a :: i32)) @ be_bytes 4 b" by blast
  from chops_content(2) [OF assms(1) c4] obtain \<sigma>5 where 5: "chop_u32 m \<sigma>4 = (Ok b, \<sigma>5)"
    and c5: "content (st_lib \<sigma>5) m = content (st_lib \<sigma>0) m @ be_bytes 2 (ucast a :: i32)" by blast
  from chops_content(1) [OF assms(1) c5] 4 5 show ?thesis by blast
qed

lemma front_integers:
  assumes "part_contract nng pre content"
    "insert_u64 m c \<sigma>0 = (Ok (), \<sigma>1)" "insert_u32 m b \<sigma>1 = (Ok (), \<sigma>2)" "insert_u16 m a \<sigma>2 = (Ok (), \<sigma>3)"
  shows "\<exists>\<sigma>4 \<sigma>5 \<sigma>6. trim_u16 m \<sigma>3 = (Ok a, \<sigma>4) \<and> trim_u32 m \<sigma>4 = (Ok b, \<sigma>5) \<and>
    trim_u64 m \<sigma>5 = (Ok c, \<sigma>6) \<and> content (st_lib \<sigma>6) m = content (st_lib \<sigma>0) m"
proof -
  from assms have "content (st_lib \<sigma>3) m =
      be_bytes 2 (ucast a :: i32) @ be_bytes 4 b @ be_bytes 8 c @ content (st_lib \<sigma>0) m"
    by (simp add: puts_content)
  from trims_content(1) [OF assms(1) this] obtain \<sigma>4 where 4: "trim_u16 m \<sigma>3 = (Ok a, \<sigma>4)"
    and c4: "content (st_lib \<sigma>4) m = be_bytes 4 b @ be_bytes 8 c @ content (st_lib \<sigma>0) m" by blast
  from trims_content(2) [OF assms(1) c4] obtain \<sigma>5 where 5: "trim_u32 m \<sigma>4 = (Ok b, \<sigma>5)"
    and c5: "content (st_lib \<sigma>5) m = be_bytes 8 c @ content (st_lib \<sigma>0) m" by blast
  from trims_content(3) [OF assms(1) c5] 4 5 show ?thesis by blast
qed

end

interpretation msg_body: msg_part nng "''nng_msg''"
    "msg_body_append_u16 nng" "msg_body_insert_u16 nng" "msg_body_append_u32 nng"
    "msg_body_insert_u32 nng" "msg_body_append_u64 nng" "msg_body_insert_u64 nng"
    "msg_body_trim_u16 nng" "msg_body_chop_u16 nng" "msg_body_trim_u32 nng" "msg_body_chop_u32 nng" "msg_body_trim_u64 nng" "msg_body_chop_u64 nng"
  for nng :: "'w nng"
  by unfold_locales
    (simp_all add: msg_body_append_u16_def msg_body_insert_u16_def msg_body_append_u32_def
      msg_body_insert_u32_def msg_body_append_u64_def msg_body_insert_u64_def
      msg_body_trim_u16_def msg_body_chop_u16_def msg_body_trim_u32_def msg_body_chop_u32_def
      msg_body_trim_u64_def msg_body_chop_u64_def)

interpretation msg_header: msg_part nng "''nng_msg_header''"
    "msg_header_append_u16 nng" "msg_header_insert_u16 nng" "msg_header_append_u32 nng"
    "msg_header_insert_u32 nng" "msg_header_append_u64 nng" "msg_header_insert_u64 nng"
    "msg_header_trim_u16 nng" "msg_header_chop_u16 nng" "msg_header_trim_u32 nng"
    "msg_header_chop_u32 nng" "msg_header_trim_u64 nng" "msg_header_chop_u64 nng"
  for nng :: "'w nng"
  by unfold_locales
    (simp_all add: msg_header_append_u16_def msg_header_insert_u16_def
      msg_header_append_u32_def msg_header_insert_u32_def msg_header_append_u64_def
      msg_header_insert_u64_def msg_header_trim_u16_def msg_header_chop_u16_def
      msg_header_trim_u32_def msg_header_chop_u32_def msg_header_trim_u64_def
      msg_header_chop_u64_def)

section \<open>Properties\<close>

text \<open>C3: a program of message operations that keeps to the rules of C++ (constructs where there
  is no object, adopts what nobody owns, does not copy an empty message) and whose copy
  assignments do not fail never frees a message that is not out, keeps every live message in at
  most as many objects as there are references to it, and leaves without owner only messages
  that \<open>release\<close> handed out.\<close>

theorem msg_program_safe:
  assumes "run (msg_exec nng) ops (Map.empty, s) = (rs, S, s')"
    and "legal (class_ok {Copying, Acquiring}) (msg_exec nng) msg_ev ops (Map.empty, s) {#}"
  shows "\<exists>cs. st_log s' = st_log s @ cs \<and> proper (events msg_ev cs) {#} \<and>
    store_ok S (live (events msg_ev cs) {#}) \<and>
    live (events msg_ev cs) {#} - owned S \<subseteq># released rs"
  using msg.run_safe [OF assms store_ok_empty] by (simp add: books_def)

text \<open>A library that hands out the handles 1, 2, 3, ...\<close>

definition count_nng :: "w64 nng" where
  "count_nng = idle_nng\<lparr>s_w64 := (\<lambda>_ _ (w, m). ((0, w + 1), w + 1, m))\<rparr>"

theorem msg_program_safe_witness:
  "\<exists>cs. st_log (snd (snd (run (msg_exec count_nng)
        [Acquire 0 (Msg_alloc 8), Copy_ctor 1 0, Move_ctor 2 0, Move_assign 2 1, Release 2]
        (Map.empty, start 0)))) = st_log (start (0 :: w64)) @ cs \<and> proper (events msg_ev cs) {#}"
  using msg_program_safe [of count_nng
      "[Acquire 0 (Msg_alloc 8), Copy_ctor 1 0, Move_ctor 2 0, Move_assign 2 1, Release 2]" "start 0"
      "fst (run (msg_exec count_nng)
        [Acquire 0 (Msg_alloc 8), Copy_ctor 1 0, Move_ctor 2 0, Move_assign 2 1, Release 2]
        (Map.empty, start 0))"
      "fst (snd (run (msg_exec count_nng)
        [Acquire 0 (Msg_alloc 8), Copy_ctor 1 0, Move_ctor 2 0, Move_assign 2 1, Release 2]
        (Map.empty, start 0)))"
      "snd (snd (run (msg_exec count_nng)
        [Acquire 0 (Msg_alloc 8), Copy_ctor 1 0, Move_ctor 2 0, Move_assign 2 1, Release 2]
        (Map.empty, start 0)))"]
  by (simp add: member_simps call_simps invoke_def count_nng_def start_def copy_assign_succeeds_def
      class_ok_def)

text \<open>C34: when \<open>nng_msg_dup\<close> fails inside the copy assignment, and leaves its output as it
  was, the target still holds the message that was freed just before; its destructor then
  frees it a second time.\<close>

theorem msg_copy_assign_double_free:
  assumes "S a = Some h" "S b = Some h'" "a \<noteq> b" "h \<noteq> 0"
    and "\<And>w. \<exists>r w'. r \<noteq> 0 \<and> s_w64 nng ''nng_msg_dup'' [VW h, VW h'] w = ((r, h), w')"
  shows "\<exists>e s1 S2 s2 cs. msg_exec nng (Copy_assign a b) (S, s) = (Throw e, S, s1) \<and>
    msg_exec nng (Dtor a) (S, s1) = (Ok None, S2, s2) \<and> st_log s2 = st_log s @ cs \<and>
    events msg_ev cs = [Kill h, Kill h] \<and> \<not> proper (events msg_ev cs) {#h#}"
proof -
  let ?s = "call_unit nng ''nng_msg_free'' [VW h] s"
  obtain r w' where dup: "s_w64 nng ''nng_msg_dup'' [VW h, VW h'] (st_lib ?s, st_mem ?s) = ((r, h), w')"
    and r: "r \<noteq> 0" using assms(5) by blast
  obtain s1 where g: "get_w64 nng ''nng_msg_dup'' [VW h, VW h'] ?s = ((r, h), s1)"
    and log: "st_log s1 = st_log ?s @
      [\<lparr>c_fn = ''nng_msg_dup'', c_args = [VW h, VW h'], c_ret = [VI r, VW h]\<rparr>]"
    using dup by (cases w') (simp add: get_w64_def invoke_def)
  have "S(a \<mapsto> h) = S" using assms(1) by (simp add: fun_upd_idem)
  then have 1: "msg_exec nng (Copy_assign a b) (S, s) = (Throw (exception r ''nng_msg_dup''), S, s1)"
    using assms(1-4) g r by (simp add: m_copy_assign_def)
  have 2: "msg_exec nng (Dtor a) (S, s1) = (Ok None, S(a := None), call_unit nng ''nng_msg_free'' [VW h] s1)"
    using assms(1,4) by (simp add: m_dtor_def)
  let ?f = "\<lparr>c_fn = ''nng_msg_free'', c_args = [VW h], c_ret = []\<rparr>"
  let ?cs = "[?f, \<lparr>c_fn = ''nng_msg_dup'', c_args = [VW h, VW h'], c_ret = [VI r, VW h]\<rparr>, ?f]"
  have 3: "st_log (call_unit nng ''nng_msg_free'' [VW h] s1) = st_log s @ ?cs"
    by (simp add: log)
  have 4: "events msg_ev ?cs = [Kill h, Kill h]"
    using r by (simp add: msg_ev_def ptr_ev_def)
  then have "\<not> proper (events msg_ev ?cs) {#h#}" by simp
  with 1 2 3 4 show ?thesis by blast
qed

definition no_memory_nng :: "unit nng" where
  "no_memory_nng = idle_nng\<lparr>s_w64 := (\<lambda>_ args w. (case args of VW old # _ \<Rightarrow> ((2, old), w) | _ \<Rightarrow> ((2, 0), w)))\<rparr>"

theorem msg_copy_assign_double_free_witness:
  "\<exists>e s1 S2 s2 cs. msg_exec no_memory_nng (Copy_assign 0 1) ([0 \<mapsto> 5, 1 \<mapsto> 7], start ()) =
      (Throw e, [0 \<mapsto> 5, 1 \<mapsto> 7], s1) \<and>
    msg_exec no_memory_nng (Dtor 0) ([0 \<mapsto> 5, 1 \<mapsto> 7], s1) = (Ok None, S2, s2) \<and>
    st_log s2 = st_log (start ()) @ cs \<and>
    events msg_ev cs = [Kill 5, Kill 5] \<and> \<not> proper (events msg_ev cs) {#5#}"
  by (rule msg_copy_assign_double_free) (auto simp: no_memory_nng_def)

text \<open>C9: values appended to an empty body are trimmed off in the order they were put there, each
  at its own width, and the body is empty again.\<close>

theorem msg_body_queue:
  assumes "part_contract nng ''nng_msg'' content" "content (st_lib \<sigma>0) m = []"
    "msg_body_append_u16 nng m a \<sigma>0 = (Ok (), \<sigma>1)" "msg_body_append_u32 nng m b \<sigma>1 = (Ok (), \<sigma>2)"
    "msg_body_append_u64 nng m c \<sigma>2 = (Ok (), \<sigma>3)"
  shows "\<exists>\<sigma>4 \<sigma>5 \<sigma>6. msg_body_trim_u16 nng m \<sigma>3 = (Ok a, \<sigma>4) \<and> msg_body_trim_u32 nng m \<sigma>4 = (Ok b, \<sigma>5) \<and>
    msg_body_trim_u64 nng m \<sigma>5 = (Ok c, \<sigma>6) \<and> content (st_lib \<sigma>6) m = []"
  using assms by (rule msg_body.queue_integers)

text \<open>C10: values appended to a header are chopped off in the opposite order, which gives back the
  header as it was.\<close>

theorem msg_header_stack:
  assumes "part_contract nng ''nng_msg_header'' content"
    "msg_header_append_u16 nng m a \<sigma>0 = (Ok (), \<sigma>1)" "msg_header_append_u32 nng m b \<sigma>1 = (Ok (), \<sigma>2)"
    "msg_header_append_u64 nng m c \<sigma>2 = (Ok (), \<sigma>3)"
  shows "\<exists>\<sigma>4 \<sigma>5 \<sigma>6. msg_header_chop_u64 nng m \<sigma>3 = (Ok c, \<sigma>4) \<and> msg_header_chop_u32 nng m \<sigma>4 = (Ok b, \<sigma>5) \<and>
    msg_header_chop_u16 nng m \<sigma>5 = (Ok a, \<sigma>6) \<and> content (st_lib \<sigma>6) m = content (st_lib \<sigma>0) m"
  using assms by (rule msg_header.stack_integers)

text \<open>Values inserted in front of a body are trimmed off in the opposite order.\<close>

theorem msg_body_front:
  assumes "part_contract nng ''nng_msg'' content"
    "msg_body_insert_u64 nng m c \<sigma>0 = (Ok (), \<sigma>1)" "msg_body_insert_u32 nng m b \<sigma>1 = (Ok (), \<sigma>2)"
    "msg_body_insert_u16 nng m a \<sigma>2 = (Ok (), \<sigma>3)"
  shows "\<exists>\<sigma>4 \<sigma>5 \<sigma>6. msg_body_trim_u16 nng m \<sigma>3 = (Ok a, \<sigma>4) \<and> msg_body_trim_u32 nng m \<sigma>4 = (Ok b, \<sigma>5) \<and>
    msg_body_trim_u64 nng m \<sigma>5 = (Ok c, \<sigma>6) \<and> content (st_lib \<sigma>6) m = content (st_lib \<sigma>0) m"
  using assms by (rule msg_body.front_integers)

text \<open>A library whose world is the content of the messages, for either part.\<close>

definition store_int :: "string \<Rightarrow> val list \<Rightarrow> (ptr \<Rightarrow> byte list) \<times> mem \<Rightarrow> i32 \<times> (ptr \<Rightarrow> byte list) \<times> mem" where
  "store_int fn args = (\<lambda>(w, m).
     (case args of
        [VW h, v] \<Rightarrow>
          (case map_of
             [(''_append_u16'', \<lambda>c. c @ be_val 2 v), (''_append_u32'', \<lambda>c. c @ be_val 4 v),
              (''_append_u64'', \<lambda>c. c @ be_val 8 v), (''_insert_u16'', \<lambda>c. be_val 2 v @ c),
              (''_insert_u32'', \<lambda>c. be_val 4 v @ c), (''_insert_u64'', \<lambda>c. be_val 8 v @ c)] fn of
             Some f \<Rightarrow> (0, w(h := f (w h)), m) | None \<Rightarrow> (0, w, m))
      | _ \<Rightarrow> (0, w, m)))"

definition store_get ::
  "(string \<times> nat \<times> (byte list \<Rightarrow> 'a) \<times> (byte list \<Rightarrow> byte list)) list \<Rightarrow> 'a \<Rightarrow>
     string \<Rightarrow> val list \<Rightarrow> (ptr \<Rightarrow> byte list) \<times> mem \<Rightarrow> (i32 \<times> 'a) \<times> (ptr \<Rightarrow> byte list) \<times> mem" where
  "store_get tab d fn args = (\<lambda>(w, m).
     (case (args, map_of tab fn) of
        ([VW h], Some (k, out, upd)) \<Rightarrow>
          if length (w h) < k then ((3, d), w, m) else ((0, out (w h)), w(h := upd (w h)), m)
      | _ \<Rightarrow> ((0, d), w, m)))"

definition store_nng :: "string \<Rightarrow> (ptr \<Rightarrow> byte list) nng" where
  "store_nng pre = idle_nng\<lparr>
     f_int := (\<lambda>fn. store_int (drop (length pre) fn)),
     s_int := (\<lambda>fn. store_get
        [(''_trim_u16'', 2, front 2, drop 2), (''_trim_u32'', 4, front 4, drop 4),
         (''_chop_u16'', 2, rear 2, chopped 2), (''_chop_u32'', 4, rear 4, chopped 4)]
        0 (drop (length pre) fn)),
     s_w64 := (\<lambda>fn. store_get
        [(''_trim_u64'', 8, front 8, drop 8), (''_chop_u64'', 8, rear 8, chopped 8)]
        0 (drop (length pre) fn))\<rparr>"

lemma store_nng_contract: "part_contract (store_nng pre) pre (\<lambda>w. w)"
  by (simp add: part_contract_def puts_def takes_def store_nng_def store_int_def store_get_def)

theorem msg_body_queue_witness:
  "\<exists>\<sigma>3 \<sigma>4 \<sigma>5 \<sigma>6. msg_body_trim_u16 (store_nng ''nng_msg'') 1 \<sigma>3 = (Ok 258, \<sigma>4) \<and>
    msg_body_trim_u32 (store_nng ''nng_msg'') 1 \<sigma>4 = (Ok 7, \<sigma>5) \<and>
    msg_body_trim_u64 (store_nng ''nng_msg'') 1 \<sigma>5 = (Ok 9, \<sigma>6) \<and> st_lib \<sigma>6 1 = []"
proof -
  let ?n = "store_nng ''nng_msg''"
  let ?s1 = "snd (msg_body_append_u16 ?n 1 258 (start (\<lambda>_. [])))"
  let ?s2 = "snd (msg_body_append_u32 ?n 1 7 ?s1)"
  let ?s3 = "snd (msg_body_append_u64 ?n 1 9 ?s2)"
  have "msg_body_append_u16 ?n 1 258 (start (\<lambda>_. [])) = (Ok (), ?s1)"
    "msg_body_append_u32 ?n 1 7 ?s1 = (Ok (), ?s2)" "msg_body_append_u64 ?n 1 9 ?s2 = (Ok (), ?s3)"
    by (simp_all add: msg_body_append_u16_def msg_body_append_u32_def msg_body_append_u64_def
        call_simps invoke_def store_nng_def store_int_def start_def)
  from msg_body_queue [OF store_nng_contract _ this] show ?thesis by (auto simp: start_def)
qed

theorem msg_header_stack_witness:
  "\<exists>\<sigma>3 \<sigma>4 \<sigma>5 \<sigma>6. msg_header_chop_u64 (store_nng ''nng_msg_header'') 1 \<sigma>3 = (Ok 9, \<sigma>4) \<and>
    msg_header_chop_u32 (store_nng ''nng_msg_header'') 1 \<sigma>4 = (Ok 7, \<sigma>5) \<and>
    msg_header_chop_u16 (store_nng ''nng_msg_header'') 1 \<sigma>5 = (Ok 258, \<sigma>6) \<and> st_lib \<sigma>6 1 = [42]"
proof -
  let ?n = "store_nng ''nng_msg_header''"
  let ?s1 = "snd (msg_header_append_u16 ?n 1 258 (start (\<lambda>_. [42])))"
  let ?s2 = "snd (msg_header_append_u32 ?n 1 7 ?s1)"
  let ?s3 = "snd (msg_header_append_u64 ?n 1 9 ?s2)"
  have "msg_header_append_u16 ?n 1 258 (start (\<lambda>_. [42])) = (Ok (), ?s1)"
    "msg_header_append_u32 ?n 1 7 ?s1 = (Ok (), ?s2)" "msg_header_append_u64 ?n 1 9 ?s2 = (Ok (), ?s3)"
    by (simp_all add: msg_header_append_u16_def msg_header_append_u32_def msg_header_append_u64_def
        call_simps invoke_def store_nng_def store_int_def start_def)
  from msg_header_stack [OF store_nng_contract this] show ?thesis by (auto simp: start_def)
qed

theorem msg_body_front_witness:
  "\<exists>\<sigma>3 \<sigma>4 \<sigma>5 \<sigma>6. msg_body_trim_u16 (store_nng ''nng_msg'') 1 \<sigma>3 = (Ok 258, \<sigma>4) \<and>
    msg_body_trim_u32 (store_nng ''nng_msg'') 1 \<sigma>4 = (Ok 7, \<sigma>5) \<and>
    msg_body_trim_u64 (store_nng ''nng_msg'') 1 \<sigma>5 = (Ok 9, \<sigma>6) \<and> st_lib \<sigma>6 1 = [42]"
proof -
  let ?n = "store_nng ''nng_msg''"
  let ?s1 = "snd (msg_body_insert_u64 ?n 1 9 (start (\<lambda>_. [42])))"
  let ?s2 = "snd (msg_body_insert_u32 ?n 1 7 ?s1)"
  let ?s3 = "snd (msg_body_insert_u16 ?n 1 258 ?s2)"
  have "msg_body_insert_u64 ?n 1 9 (start (\<lambda>_. [42])) = (Ok (), ?s1)"
    "msg_body_insert_u32 ?n 1 7 ?s1 = (Ok (), ?s2)" "msg_body_insert_u16 ?n 1 258 ?s2 = (Ok (), ?s3)"
    by (simp_all add: msg_body_insert_u16_def msg_body_insert_u32_def msg_body_insert_u64_def
        call_simps invoke_def store_nng_def store_int_def start_def)
  from msg_body_front [OF store_nng_contract this] show ?thesis by (auto simp: start_def)
qed

end
