(* ===== verification/Urls.thy ===== *)
theory Urls
  imports Core
begin

text \<open>
  \<open>include/nngpp/url.h\<close> and \<open>url_view.h\<close>: the owner class \<open>nng::url\<close> and the comparison
  of two URLs by their text. The struct \<open>nng_url\<close> belongs to nng; where its field
  \<open>u_rawurl\<close> lies is the parameter \<open>rawurl\<close>, the pointer the field holds in a memory.
\<close>

section \<open>The owner class\<close>

datatype url_args =
    Url_parse string

fun url_exec ::
  "'w nng \<Rightarrow> (ptr, url_args) raii_op \<Rightarrow> (ptr, 'w) cfg \<Rightarrow> (ptr, 'w) outcome" where
  "url_exec nng (Default this) = m_default this"
| "url_exec nng (Adopt this h) = m_adopt this h"
| "url_exec nng (Acquire this (Url_parse str)) =
     m_acquire this (\<lambda>s. check_out ''nng_url_parse'' (get_w64 nng ''nng_url_parse'' [VS str] s))"
| "url_exec nng (Copy_ctor this rhs) =
     m_copy_ctor (\<lambda>h old. get_w64 nng ''nng_url_clone'' [VW old, VW h]) ''nng_url_parse'' this rhs"
| "url_exec nng (Move_ctor this rhs) = m_move_ctor this rhs"
| "url_exec nng (Copy_assign this rhs) =
     m_copy_assign (\<lambda>h. call_unit nng ''nng_url_free'' [VW h])
       (\<lambda>h old. get_w64 nng ''nng_url_clone'' [VW old, VW h]) ''nng_url_clone'' this rhs"
| "url_exec nng (Move_assign this rhs) =
     m_move_assign (\<lambda>h. call_unit nng ''nng_url_free'' [VW h]) this rhs"
| "url_exec nng (Dtor this) =
     m_dtor (\<lambda>h. call_unit nng ''nng_url_free'' [VW h]) this"
| "url_exec nng (Release this) = m_release this"

definition url_ev :: "call \<Rightarrow> ptr event option" where
  "url_ev = ptr_ev [''nng_url_parse'', ''nng_url_clone''] ''nng_url_free''"

lemma url_calls [conforming]:
  "releases url_ev (\<lambda>h. call_unit nng ''nng_url_free'' [VW h])"
  "acquires url_ev (\<lambda>s. check_out ''nng_url_parse'' (get_w64 nng ''nng_url_parse'' [VS str] s))"
  "duplicates url_ev (\<lambda>h old. get_w64 nng ''nng_url_clone'' [VW old, VW h])"
  unfolding url_ev_def by (intro conforming; simp)+

interpretation url: owner_class True "{Copying, Acquiring}" "url_exec nng" "url_ev" for nng :: "'w nng"
proof
  fix op
  show "conforms True {Copying, Acquiring} url_ev op (url_exec nng op)"
    by (cases "(nng, op)" rule: url_exec.cases; simp only: url_exec.simps prod.inject; intro conforming; simp)
qed

section \<open>Views\<close>

definition url_view_eq :: "(mem \<Rightarrow> ptr \<Rightarrow> ptr) \<Rightarrow> mem \<Rightarrow> ptr \<Rightarrow> ptr \<Rightarrow> bool option" where
  "url_view_eq rawurl m u rhs =
     (case (strlen m (rawurl m u), strlen m (rawurl m rhs)) of
        (Some n, Some k) \<Rightarrow> view_eq m (view_of (rawurl m u) n) (view_of (rawurl m rhs) k)
      | _ \<Rightarrow> None)"

definition url_view_ne :: "(mem \<Rightarrow> ptr \<Rightarrow> ptr) \<Rightarrow> mem \<Rightarrow> ptr \<Rightarrow> ptr \<Rightarrow> bool option" where
  "url_view_ne rawurl m u rhs = map_option Not (url_view_eq rawurl m u rhs)"

section \<open>Properties\<close>

text \<open>Two URLs compare equal exactly when their texts are the same string.\<close>

theorem url_eq_text:
  assumes "c_string m (rawurl m u) xs" "c_string m (rawurl m v) ys"
  shows "url_view_eq rawurl m u v = Some (xs = ys) \<and> url_view_ne rawurl m u v = Some (xs \<noteq> ys)"
proof -
  have "xs \<noteq> ys" if "(of_nat (length xs) :: w64) \<noteq> of_nat (length ys)"
    using that by auto
  moreover have "read_bytes m (rawurl m u) (unat (of_nat (length xs) :: w64)) = Some xs"
    "read_bytes m (rawurl m v) (unat (of_nat (length ys) :: w64)) = Some ys"
    using c_string_bytes(1) [OF assms(1)] c_string_bytes(1) [OF assms(2)]
    by (simp_all add: view_bytes_def)
  moreover have "rawurl m u \<noteq> null" "rawurl m v \<noteq> null" using assms by (simp_all add: c_string_def)
  ultimately show ?thesis using assms
    by (auto simp: url_view_eq_def url_view_ne_def strlen_c_string view_eq_def memcmp_eq_def)
qed

definition url_mem :: mem where
  "url_mem = [16 \<mapsto> 97, 17 \<mapsto> 0, 32 \<mapsto> 97, 33 \<mapsto> 98, 34 \<mapsto> 0]"

lemma url_mem_strings: "c_string url_mem 16 [97]" "c_string url_mem 32 [97, 98]"
  by (simp_all add: c_string_def url_mem_def read_bytes_Suc)

theorem url_eq_text_witness:
  "url_view_eq (\<lambda>m u. u) url_mem 16 32 = Some False"
  using url_eq_text [where rawurl = "\<lambda>m u. u" and u = 16 and v = 32, OF url_mem_strings] by simp

text \<open>A copy constructor of \<open>url\<close> that fails in \<open>nng_url_clone\<close> blames \<open>nng_url_parse\<close>,
  which it did not call; the copy assignment names the right function.\<close>

theorem url_copy_ctor_misreports:
  assumes "S b = Some h" "S a = Some k" "a \<noteq> b"
    and "\<And>args w. \<exists>r x w'. r \<noteq> 0 \<and> s_w64 nng ''nng_url_clone'' args w = ((r, x), w')"
  shows "(\<exists>e s' c. url_exec nng (Copy_ctor c0 b) (S, s) = (Throw e, S, s') \<and>
      st_log s' = st_log s @ [c] \<and> c_fn c = ''nng_url_clone'' \<and> who e = ''nng_url_parse'') \<and>
    (\<exists>e S' s'. url_exec nng (Copy_assign a b) (S, s) = (Throw e, S', s') \<and> who e = ''nng_url_clone'')"
proof (intro conjI)
  obtain r x w' m' where "r \<noteq> 0"
    "s_w64 nng ''nng_url_clone'' [VW 0, VW h] (st_lib s, st_mem s) = ((r, x), w', m')"
    using assms(4) by (metis prod.exhaust)
  then show "\<exists>e s' c. url_exec nng (Copy_ctor c0 b) (S, s) = (Throw e, S, s') \<and>
      st_log s' = st_log s @ [c] \<and> c_fn c = ''nng_url_clone'' \<and> who e = ''nng_url_parse''"
    using assms(1) by (simp add: member_simps call_simps invoke_def exception_def who_def)
next
  let ?s = "if k \<noteq> 0 then call_unit nng ''nng_url_free'' [VW k] s else s"
  obtain r x w' m' where "r \<noteq> 0"
    "s_w64 nng ''nng_url_clone'' [VW k, VW h] (st_lib ?s, st_mem ?s) = ((r, x), w', m')"
    using assms(4) by (metis prod.exhaust)
  then have "\<exists>r x s1. r \<noteq> 0 \<and> get_w64 nng ''nng_url_clone'' [VW k, VW h] ?s = ((r, x), s1)"
    by (auto simp: get_w64_def invoke_def)
  then show "\<exists>e S' s'. url_exec nng (Copy_assign a b) (S, s) = (Throw e, S', s') \<and> who e = ''nng_url_clone''"
    using assms(1-3) by (auto simp: m_copy_assign_def exception_def who_def)
qed

text \<open>A program over URLs that keeps to the rules, and whose copy assignments do not fail,
  frees what is out and nothing else.\<close>

theorem url_program_balanced:
  assumes "run (url_exec nng) ops (Map.empty, s) = (rs, Map.empty, s')"
    and "legal (class_ok {Copying, Acquiring}) (url_exec nng) url_ev ops (Map.empty, s) {#}"
    and "released rs = {#}" "h \<noteq> 0"
  shows "count_list (events url_ev (new_calls s s')) (Give h) =
    count_list (events url_ev (new_calls s s')) (Kill h)"
  using url.run_balanced(2) [OF assms(1,2) TrueI assms(3,4)] .

definition url_nng :: "w64 nng" where
  "url_nng = idle_nng\<lparr>s_w64 := (\<lambda>_ _ (w, m). ((0, w + 1), w + 1, m))\<rparr>"

definition url_program :: "(ptr, url_args) raii_op list" where
  "url_program = [Acquire 0 (Url_parse ''tcp://a''), Copy_ctor 1 0, Acquire 2 (Url_parse ''tcp://b''),
     Copy_assign 2 1, Dtor 0, Dtor 1, Dtor 2]"

theorem url_program_balanced_witness:
  "count_list (events url_ev (new_calls (start 0) (snd (snd (run (url_exec url_nng) url_program (Map.empty, start 0)))))) (Give 2) =
   count_list (events url_ev (new_calls (start 0) (snd (snd (run (url_exec url_nng) url_program (Map.empty, start 0)))))) (Kill 2)"
  by (rule url_program_balanced [where rs = "fst (run (url_exec url_nng) url_program (Map.empty, start 0))"
        and nng = url_nng and ops = url_program])
    (simp_all add: url_program_def member_simps call_simps invoke_def url_nng_def start_def
      copy_assign_succeeds_def class_ok_def)

definition no_clone_nng :: "unit nng" where
  "no_clone_nng = idle_nng\<lparr>s_w64 := (\<lambda>_ _ w. ((2, 0), w))\<rparr>"

theorem url_copy_ctor_misreports_witness:
  "\<exists>e s' c. url_exec no_clone_nng (Copy_ctor 2 1) ([0 \<mapsto> 5, 1 \<mapsto> 7], start ()) = (Throw e, [0 \<mapsto> 5, 1 \<mapsto> 7], s') \<and>
      st_log s' = st_log (start ()) @ [c] \<and> c_fn c = ''nng_url_clone'' \<and> who e = ''nng_url_parse''"
  by (rule url_copy_ctor_misreports [where a = 0 and k = 5 and h = 7, THEN conjunct1])
    (auto simp: no_clone_nng_def)

end
