(* ===== verification/Aios.thy ===== *)
theory Aios
  imports Messages
begin

text \<open>
  \<open>include/nngpp/aio.h\<close> and \<open>aio_view.h\<close>: the owner class \<open>nng::aio\<close> and the methods
  of an asynchronous operation. A callback and its argument are pointers.
\<close>

section \<open>The owner class\<close>

datatype aio_args =
    Aio_alloc ptr ptr

fun aio_exec ::
  "'w nng \<Rightarrow> (ptr, aio_args) raii_op \<Rightarrow> (ptr, 'w) cfg \<Rightarrow> (ptr, 'w) outcome" where
  "aio_exec nng (Default this) = m_default this"
| "aio_exec nng (Adopt this h) = m_adopt this h"
| "aio_exec nng (Acquire this (Aio_alloc cb arg)) =
     m_acquire this (\<lambda>s. check_out ''nng_aio_alloc'' (get_w64 nng ''nng_aio_alloc'' [VW cb, VW arg] s))"
| "aio_exec nng (Copy_ctor this rhs) = m_deleted"
| "aio_exec nng (Move_ctor this rhs) = m_move_ctor this rhs"
| "aio_exec nng (Copy_assign this rhs) = m_deleted"
| "aio_exec nng (Move_assign this rhs) =
     m_move_assign (\<lambda>h. call_unit nng ''nng_aio_free'' [VW h]) this rhs"
| "aio_exec nng (Dtor this) =
     m_dtor (\<lambda>h. call_unit nng ''nng_aio_free'' [VW h]) this"
| "aio_exec nng (Release this) = m_release this"

definition aio_ev :: "call \<Rightarrow> ptr event option" where
  "aio_ev = ptr_ev [''nng_aio_alloc''] ''nng_aio_free''"

lemma aio_calls [conforming]:
  "releases aio_ev (\<lambda>h. call_unit nng ''nng_aio_free'' [VW h])"
  "acquires aio_ev (\<lambda>s. check_out ''nng_aio_alloc'' (get_w64 nng ''nng_aio_alloc'' [VW cb, VW arg] s))"
  unfolding aio_ev_def by (intro conforming; simp)+

interpretation aio: owner_class True "{Acquiring}" "aio_exec nng" "aio_ev" for nng :: "'w nng"
proof
  fix op
  show "conforms True {Acquiring} aio_ev op (aio_exec nng op)"
    by (cases "(nng, op)" rule: aio_exec.cases; simp only: aio_exec.simps prod.inject; intro conforming; simp)
qed

section \<open>Views\<close>

definition aio_view_stop :: "'w nng \<Rightarrow> ptr \<Rightarrow> 'w st \<Rightarrow> 'w st" where
  "aio_view_stop nng a = (\<lambda>\<sigma>. call_unit nng ''nng_aio_stop'' [VW a] \<sigma>)"

definition aio_view_result ::
  "'w nng \<Rightarrow> ptr \<Rightarrow> 'w st \<Rightarrow> i32 \<times> 'w st" where
  "aio_view_result nng a = (\<lambda>\<sigma>. call_int nng ''nng_aio_result'' [VW a] \<sigma>)"

definition aio_view_count ::
  "'w nng \<Rightarrow> ptr \<Rightarrow> 'w st \<Rightarrow> w64 \<times> 'w st" where
  "aio_view_count nng a = (\<lambda>\<sigma>. call_w64 nng ''nng_aio_count'' [VW a] \<sigma>)"

definition aio_view_cancel ::
  "'w nng \<Rightarrow> ptr \<Rightarrow> 'w st \<Rightarrow> 'w st" where
  "aio_view_cancel nng a = (\<lambda>\<sigma>. call_unit nng ''nng_aio_cancel'' [VW a] \<sigma>)"

definition aio_view_abort ::
  "'w nng \<Rightarrow> ptr \<Rightarrow> i32 \<Rightarrow> 'w st \<Rightarrow> 'w st" where
  "aio_view_abort nng a err_code = (\<lambda>\<sigma>.
     call_unit nng ''nng_aio_abort'' [VW a, VI err_code] \<sigma>)"

definition aio_view_wait :: "'w nng \<Rightarrow> ptr \<Rightarrow> 'w st \<Rightarrow> 'w st" where
  "aio_view_wait nng a = (\<lambda>\<sigma>. call_unit nng ''nng_aio_wait'' [VW a] \<sigma>)"

definition aio_view_set_msg ::
  "'w nng \<Rightarrow> ptr \<Rightarrow> ptr \<Rightarrow> 'w st \<Rightarrow> 'w st" where
  "aio_view_set_msg nng a m = (\<lambda>\<sigma>. call_unit nng ''nng_aio_set_msg'' [VW a, VW m] \<sigma>)"

definition aio_view_get_msg ::
  "'w nng \<Rightarrow> ptr \<Rightarrow> 'w st \<Rightarrow> ptr \<times> 'w st" where
  "aio_view_get_msg nng a = (\<lambda>\<sigma>. call_w64 nng ''nng_aio_get_msg'' [VW a] \<sigma>)"

definition aio_view_set_input ::
  "'w nng \<Rightarrow> ptr \<Rightarrow> i32 \<Rightarrow> ptr \<Rightarrow> 'w st \<Rightarrow> unit result \<times> 'w st" where
  "aio_view_set_input nng a index arg = (\<lambda>\<sigma>.
     check ''nng_aio_set_input''
       (call_int nng ''nng_aio_set_input'' [VW a, VI index, VW arg] \<sigma>))"

definition aio_view_get_input ::
  "'w nng \<Rightarrow> ptr \<Rightarrow> i32 \<Rightarrow> 'w st \<Rightarrow> ptr \<times> 'w st" where
  "aio_view_get_input nng a index = (\<lambda>\<sigma>.
     call_w64 nng ''nng_aio_get_input'' [VW a, VI index] \<sigma>)"

definition aio_view_set_output ::
  "'w nng \<Rightarrow> ptr \<Rightarrow> i32 \<Rightarrow> ptr \<Rightarrow> 'w st \<Rightarrow> unit result \<times> 'w st" where
  "aio_view_set_output nng a index arg = (\<lambda>\<sigma>.
     check ''nng_aio_set_output''
       (call_int nng ''nng_aio_set_output'' [VW a, VI index, VW arg] \<sigma>))"

definition aio_view_get_output ::
  "'w nng \<Rightarrow> ptr \<Rightarrow> i32 \<Rightarrow> 'w st \<Rightarrow> ptr \<times> 'w st" where
  "aio_view_get_output nng a index = (\<lambda>\<sigma>.
     call_w64 nng ''nng_aio_get_output'' [VW a, VI index] \<sigma>)"

definition aio_view_set_timeout ::
  "'w nng \<Rightarrow> ptr \<Rightarrow> i32 \<Rightarrow> 'w st \<Rightarrow> 'w st" where
  "aio_view_set_timeout nng a dt = (\<lambda>\<sigma>.
     call_unit nng ''nng_aio_set_timeout'' [VW a, VI dt] \<sigma>)"

definition aio_view_set_iov ::
  "'w nng \<Rightarrow> ptr \<Rightarrow> i32 \<Rightarrow> ptr \<Rightarrow> 'w st \<Rightarrow> unit result \<times> 'w st" where
  "aio_view_set_iov nng a niov iov = (\<lambda>\<sigma>.
     check ''nng_aio_set_iov''
       (call_int nng ''nng_aio_set_iov'' [VW a, VI niov, VW iov] \<sigma>))"

definition aio_view_begin ::
  "'w nng \<Rightarrow> ptr \<Rightarrow> 'w st \<Rightarrow> bool \<times> 'w st" where
  "aio_view_begin nng a = (\<lambda>\<sigma>. call_bool nng ''nng_aio_begin'' [VW a] \<sigma>)"

definition aio_view_defer ::
  "'w nng \<Rightarrow> ptr \<Rightarrow> ptr \<Rightarrow> ptr \<Rightarrow> 'w st \<Rightarrow> 'w st" where
  "aio_view_defer nng a fn arg = (\<lambda>\<sigma>.
     call_unit nng ''nng_aio_defer'' [VW a, VW fn, VW arg] \<sigma>)"

definition aio_view_set_iov_one :: "'w nng \<Rightarrow> ptr \<Rightarrow> ptr \<Rightarrow> 'w st \<Rightarrow> unit result \<times> 'w st" where
  "aio_view_set_iov_one nng a iov = aio_view_set_iov nng a 1 iov"

text \<open>The argument of \<open>finish\<close> is the integer of an \<open>error\<close>, zero (success) by default.\<close>

definition aio_view_finish :: "'w nng \<Rightarrow> ptr \<Rightarrow> i32 \<Rightarrow> 'w st \<Rightarrow> 'w st" where
  "aio_view_finish nng a e = (\<lambda>\<sigma>. call_unit nng ''nng_aio_finish'' [VW a, VI e] \<sigma>)"

text \<open>
  \<open>set_msg(msg&& m)\<close> gives the message of the object \<open>m\<close> to the operation;
  \<open>release_msg\<close> takes it back, and returns the handle of the object it constructs.
\<close>

definition aio_view_set_msg_move ::
  "'w nng \<Rightarrow> ptr \<Rightarrow> nat \<Rightarrow> (ptr, 'w) cfg \<Rightarrow> unit result \<times> (ptr, 'w) cfg" where
  "aio_view_set_msg_move nng a m = (\<lambda>(S, s).
     (case msg_exec nng (Release m) (S, s) of
        (Ok (Some h), S', s') \<Rightarrow> (Ok (), S', aio_view_set_msg nng a h s')
      | (_, S', s') \<Rightarrow> (Ub, S', s')))"

definition aio_view_release_msg :: "'w nng \<Rightarrow> ptr \<Rightarrow> 'w st \<Rightarrow> ptr \<times> 'w st" where
  "aio_view_release_msg nng a = (\<lambda>\<sigma>.
     (case call_w64 nng ''nng_aio_get_msg'' [VW a] \<sigma> of (m, \<sigma>1) \<Rightarrow>
        (m, call_unit nng ''nng_aio_set_msg'' [VW a, VW null] \<sigma>1)))"

definition aio_sleep :: "'w nng \<Rightarrow> i32 \<Rightarrow> ptr \<Rightarrow> 'w st \<Rightarrow> 'w st" where
  "aio_sleep nng ms a = (\<lambda>\<sigma>. call_unit nng ''nng_sleep_aio'' [VI ms, VW a] \<sigma>)"

section \<open>The message of an operation\<close>

text \<open>
  The contract: \<open>slot w a\<close> is the message of the operation \<open>a\<close>, null when there is none;
  getting it changes nothing, setting it replaces it.
\<close>

definition slot_contract :: "'w nng \<Rightarrow> ('w \<Rightarrow> ptr \<Rightarrow> ptr) \<Rightarrow> bool" where
  "slot_contract nng slot \<longleftrightarrow>
     (\<forall>a w m p w' m'. f_w64 nng ''nng_aio_get_msg'' [VW a] (w, m) = (p, w', m') \<longrightarrow>
        p = slot w a \<and> slot w' = slot w) \<and>
     (\<forall>a h w m w' m'. f_unit nng ''nng_aio_set_msg'' [VW a, VW h] (w, m) = ((), w', m') \<longrightarrow>
        slot w' = (slot w)(a := h))"

lemma get_slot:
  assumes "slot_contract nng slot" "call_w64 nng ''nng_aio_get_msg'' [VW a] \<sigma> = (p, \<sigma>')"
  shows "p = slot (st_lib \<sigma>) a" "slot (st_lib \<sigma>') = slot (st_lib \<sigma>)"
proof -
  obtain m' where "f_w64 nng ''nng_aio_get_msg'' [VW a] (st_lib \<sigma>, st_mem \<sigma>) = (p, st_lib \<sigma>', m')"
    using assms(2) by (auto simp: call_w64_def invoke_def split: prod.splits)
  with assms(1) show "p = slot (st_lib \<sigma>) a" "slot (st_lib \<sigma>') = slot (st_lib \<sigma>)"
    unfolding slot_contract_def by blast+
qed

lemma set_slot:
  assumes "slot_contract nng slot"
  shows "slot (st_lib (call_unit nng ''nng_aio_set_msg'' [VW a, VW h] \<sigma>)) = (slot (st_lib \<sigma>))(a := h)"
proof -
  obtain w' m' where f: "f_unit nng ''nng_aio_set_msg'' [VW a, VW h] (st_lib \<sigma>, st_mem \<sigma>) = ((), w', m')"
    by (cases "f_unit nng ''nng_aio_set_msg'' [VW a, VW h] (st_lib \<sigma>, st_mem \<sigma>)") auto
  with assms have "slot w' = (slot (st_lib \<sigma>))(a := h)" unfolding slot_contract_def by blast
  with f show ?thesis by (simp add: call_unit_def invoke_def)
qed

section \<open>Properties\<close>

text \<open>C30: a message moved into an operation leaves its object empty, and \<open>release_msg\<close> gives back
  that very message and leaves the operation without one, so that at no time two owners hold it.\<close>

theorem aio_msg_roundtrip:
  assumes "slot_contract nng slot" "S m = Some h"
    and "aio_view_set_msg_move nng a m (S, s) = (x, S1, s1)"
    and "aio_view_release_msg nng a s1 = (p, s2)"
  shows "x = Ok () \<and> S1 = S(m \<mapsto> 0) \<and> p = h \<and> slot (st_lib s1) a = h \<and>
    slot (st_lib s2) = (slot (st_lib s))(a := null)"
proof -
  have s1: "x = Ok ()" "S1 = S(m \<mapsto> 0)" "s1 = call_unit nng ''nng_aio_set_msg'' [VW a, VW h] s"
    using assms(2,3) by (auto simp: aio_view_set_msg_move_def m_release_def aio_view_set_msg_def)
  obtain \<sigma> where g: "call_w64 nng ''nng_aio_get_msg'' [VW a] s1 = (p, \<sigma>)"
    and s2: "s2 = call_unit nng ''nng_aio_set_msg'' [VW a, VW null] \<sigma>"
    using assms(4) by (auto simp: aio_view_release_msg_def split: prod.splits)
  from s1 set_slot [OF assms(1), of a h s] get_slot [OF assms(1) g]
    set_slot [OF assms(1), of a null \<sigma>] s2
  show ?thesis by simp
qed

text \<open>A library whose world is the messages of the operations.\<close>

definition slot_nng :: "(ptr \<Rightarrow> ptr) nng" where
  "slot_nng = idle_nng\<lparr>
     f_w64 := (\<lambda>fn args (w, m). (case args of [VW a] \<Rightarrow> (w a, w, m) | _ \<Rightarrow> (0, w, m))),
     f_unit := (\<lambda>fn args (w, m). (case args of [VW a, VW h] \<Rightarrow> ((), w(a := h), m) | _ \<Rightarrow> ((), w, m)))\<rparr>"

lemma slot_nng_contract: "slot_contract slot_nng (\<lambda>w. w)"
  by (simp add: slot_contract_def slot_nng_def)

theorem aio_msg_roundtrip_witness:
  "fst (aio_view_release_msg slot_nng 9
     (snd (snd (aio_view_set_msg_move slot_nng 9 0 ([0 \<mapsto> 5], start (\<lambda>_. 0)))))) = 5"
  using aio_msg_roundtrip [OF slot_nng_contract, of "[0 \<mapsto> 5]" 0 5 9 "start (\<lambda>_. 0)"]
  by (metis fun_upd_same prod.collapse)

end
