(* ===== verification/Endpoints.thy ===== *)
theory Endpoints
  imports Core
begin

text \<open>
  Dialers, listeners and pipes: \<open>include/nngpp/dialer.h\<close>, \<open>listener.h\<close>, \<open>pipe.h\<close> and
  their \<open>_view.h\<close>. A handle is the integer in the struct of nng, zero when there is none.
\<close>

section \<open>Owner classes\<close>

datatype dialer_args =
    Dial i32 string i32
  | Dialer_create i32 string

fun dialer_exec ::
  "'w nng \<Rightarrow> (i32, dialer_args) raii_op \<Rightarrow> (i32, 'w) cfg \<Rightarrow> (i32, 'w) outcome" where
  "dialer_exec nng (Default this) = m_default this"
| "dialer_exec nng (Adopt this h) = m_adopt this h"
| "dialer_exec nng (Acquire this (Dial s0 addr flags)) =
     m_acquire this (\<lambda>s. check_out ''nng_dial'' (get_id nng ''nng_dial'' [VId s0, VS addr, VI flags] s))"
| "dialer_exec nng (Acquire this (Dialer_create s0 addr)) =
     m_acquire this (\<lambda>s. check_out ''nng_dialer_create'' (get_id nng ''nng_dialer_create'' [VId s0, VS addr] s))"
| "dialer_exec nng (Copy_ctor this rhs) = m_deleted"
| "dialer_exec nng (Move_ctor this rhs) = m_move_ctor this rhs"
| "dialer_exec nng (Copy_assign this rhs) = m_deleted"
| "dialer_exec nng (Move_assign this rhs) =
     m_close_move_assign (\<lambda>h. call_int nng ''nng_dialer_close'' [VId h]) ''nng_dialer_close'' [error_val nng closed] this rhs"
| "dialer_exec nng (Dtor this) =
     m_dtor (\<lambda>h s. snd (call_int nng ''nng_dialer_close'' [VId h] s)) this"
| "dialer_exec nng (Release this) = m_release this"

definition dialer_ev :: "'w nng \<Rightarrow> call \<Rightarrow> i32 event option" where
  "dialer_ev nng = id_ev [''nng_dial'', ''nng_dialer_create''] ''nng_dialer_close'' [error_val nng closed]"

lemma dialer_calls [conforming]:
  "may_release (dialer_ev nng) (\<lambda>h s. snd (call_int nng ''nng_dialer_close'' [VId h] s))"
  "closes (dialer_ev nng) [error_val nng closed] (\<lambda>h. call_int nng ''nng_dialer_close'' [VId h])"
  "acquires (dialer_ev nng) (\<lambda>s. check_out ''nng_dial'' (get_id nng ''nng_dial'' [VId s0, VS addr, VI flags] s))"
  "acquires (dialer_ev nng) (\<lambda>s. check_out ''nng_dialer_create'' (get_id nng ''nng_dialer_create'' [VId s0, VS addr] s))"
  unfolding dialer_ev_def by (intro conforming; simp)+

interpretation dialer: owner_class False "{Acquiring}" "dialer_exec nng" "dialer_ev nng" for nng :: "'w nng"
proof
  fix op
  show "conforms False {Acquiring} (dialer_ev nng) op (dialer_exec nng op)"
    by (cases "(nng, op)" rule: dialer_exec.cases; simp only: dialer_exec.simps prod.inject; intro conforming; simp)
qed

datatype listener_args =
    Listen i32 string i32
  | Listener_create i32 string

fun listener_exec ::
  "'w nng \<Rightarrow> (i32, listener_args) raii_op \<Rightarrow> (i32, 'w) cfg \<Rightarrow> (i32, 'w) outcome" where
  "listener_exec nng (Default this) = m_default this"
| "listener_exec nng (Adopt this h) = m_adopt this h"
| "listener_exec nng (Acquire this (Listen s0 addr flags)) =
     m_acquire this (\<lambda>s. check_out ''nng_listen'' (get_id nng ''nng_listen'' [VId s0, VS addr, VI flags] s))"
| "listener_exec nng (Acquire this (Listener_create s0 addr)) =
     m_acquire this (\<lambda>s. check_out ''nng_listener_create'' (get_id nng ''nng_listener_create'' [VId s0, VS addr] s))"
| "listener_exec nng (Copy_ctor this rhs) = m_deleted"
| "listener_exec nng (Move_ctor this rhs) = m_move_ctor this rhs"
| "listener_exec nng (Copy_assign this rhs) = m_deleted"
| "listener_exec nng (Move_assign this rhs) =
     m_close_move_assign (\<lambda>h. call_int nng ''nng_listener_close'' [VId h]) ''nng_listener_close'' [error_val nng closed] this rhs"
| "listener_exec nng (Dtor this) =
     m_dtor (\<lambda>h s. snd (call_int nng ''nng_listener_close'' [VId h] s)) this"
| "listener_exec nng (Release this) = m_release this"

definition listener_ev :: "'w nng \<Rightarrow> call \<Rightarrow> i32 event option" where
  "listener_ev nng = id_ev [''nng_listen'', ''nng_listener_create''] ''nng_listener_close'' [error_val nng closed]"

lemma listener_calls [conforming]:
  "may_release (listener_ev nng) (\<lambda>h s. snd (call_int nng ''nng_listener_close'' [VId h] s))"
  "closes (listener_ev nng) [error_val nng closed] (\<lambda>h. call_int nng ''nng_listener_close'' [VId h])"
  "acquires (listener_ev nng) (\<lambda>s. check_out ''nng_listen'' (get_id nng ''nng_listen'' [VId s0, VS addr, VI flags] s))"
  "acquires (listener_ev nng) (\<lambda>s. check_out ''nng_listener_create'' (get_id nng ''nng_listener_create'' [VId s0, VS addr] s))"
  unfolding listener_ev_def by (intro conforming; simp)+

interpretation listener: owner_class False "{Acquiring}" "listener_exec nng" "listener_ev nng" for nng :: "'w nng"
proof
  fix op
  show "conforms False {Acquiring} (listener_ev nng) op (listener_exec nng op)"
    by (cases "(nng, op)" rule: listener_exec.cases; simp only: listener_exec.simps prod.inject; intro conforming; simp)
qed

text \<open>A pipe accepts no status but success, not even that it is closed already.\<close>

fun pipe_exec ::
  "'w nng \<Rightarrow> (i32, unit) raii_op \<Rightarrow> (i32, 'w) cfg \<Rightarrow> (i32, 'w) outcome" where
  "pipe_exec nng (Default this) = m_default this"
| "pipe_exec nng (Adopt this h) = m_adopt this h"
| "pipe_exec nng (Acquire this a) = m_deleted"
| "pipe_exec nng (Copy_ctor this rhs) = m_deleted"
| "pipe_exec nng (Move_ctor this rhs) = m_move_ctor this rhs"
| "pipe_exec nng (Copy_assign this rhs) = m_deleted"
| "pipe_exec nng (Move_assign this rhs) =
     m_close_move_assign (\<lambda>h. call_int nng ''nng_pipe_close'' [VId h]) ''nng_pipe_close'' [] this rhs"
| "pipe_exec nng (Dtor this) =
     m_dtor (\<lambda>h s. snd (call_int nng ''nng_pipe_close'' [VId h] s)) this"
| "pipe_exec nng (Release this) = m_release this"

definition pipe_ev :: "'w nng \<Rightarrow> call \<Rightarrow> i32 event option" where
  "pipe_ev nng = id_ev [] ''nng_pipe_close'' []"

lemma pipe_calls [conforming]:
  "may_release (pipe_ev nng) (\<lambda>h s. snd (call_int nng ''nng_pipe_close'' [VId h] s))"
  "closes (pipe_ev nng) [] (\<lambda>h. call_int nng ''nng_pipe_close'' [VId h])"
  unfolding pipe_ev_def by (intro conforming; simp)+

interpretation pipe: owner_class False "{}" "pipe_exec nng" "pipe_ev nng" for nng :: "'w nng"
proof
  fix op
  show "conforms False {} (pipe_ev nng) op (pipe_exec nng op)"
    by (cases "(nng, op)" rule: pipe_exec.cases; simp only: pipe_exec.simps prod.inject; intro conforming; simp)
qed

section \<open>Views\<close>

definition dialer_view_start ::
  "'w nng \<Rightarrow> i32 \<Rightarrow> i32 \<Rightarrow> 'w st \<Rightarrow> unit result \<times> 'w st" where
  "dialer_view_start nng d flags = (\<lambda>\<sigma>.
     check ''nng_dialer_start''
       (call_int nng ''nng_dialer_start'' [VId d, VI flags] \<sigma>))"

definition dialer_view_id ::
  "'w nng \<Rightarrow> i32 \<Rightarrow> 'w st \<Rightarrow> i32 \<times> 'w st" where
  "dialer_view_id nng d = (\<lambda>\<sigma>. call_int nng ''nng_dialer_id'' [VId d] \<sigma>)"

definition dialer_view_set_opt ::
  "'w nng \<Rightarrow> i32 \<Rightarrow> string \<Rightarrow> view \<Rightarrow> 'w st \<Rightarrow> unit result \<times> 'w st" where
  "dialer_view_set_opt nng d nm v = (\<lambda>\<sigma>.
     check ''nng_dialer_set''
       (call_int nng ''nng_dialer_set'' [VId d, VS nm, VW (v_data v), VW (v_size v)] \<sigma>))"

definition dialer_view_set_opt_bool ::
  "'w nng \<Rightarrow> i32 \<Rightarrow> string \<Rightarrow> bool \<Rightarrow> 'w st \<Rightarrow> unit result \<times> 'w st" where
  "dialer_view_set_opt_bool nng d nm v = (\<lambda>\<sigma>.
     check ''nng_dialer_set_bool''
       (call_int nng ''nng_dialer_set_bool'' [VId d, VS nm, VB v] \<sigma>))"

definition dialer_view_set_opt_int ::
  "'w nng \<Rightarrow> i32 \<Rightarrow> string \<Rightarrow> i32 \<Rightarrow> 'w st \<Rightarrow> unit result \<times> 'w st" where
  "dialer_view_set_opt_int nng d nm v = (\<lambda>\<sigma>.
     check ''nng_dialer_set_int''
       (call_int nng ''nng_dialer_set_int'' [VId d, VS nm, VI v] \<sigma>))"

definition dialer_view_set_opt_size ::
  "'w nng \<Rightarrow> i32 \<Rightarrow> string \<Rightarrow> w64 \<Rightarrow> 'w st \<Rightarrow> unit result \<times> 'w st" where
  "dialer_view_set_opt_size nng d nm v = (\<lambda>\<sigma>.
     check ''nng_dialer_set_size''
       (call_int nng ''nng_dialer_set_size'' [VId d, VS nm, VW v] \<sigma>))"

definition dialer_view_set_opt_uint64 ::
  "'w nng \<Rightarrow> i32 \<Rightarrow> string \<Rightarrow> w64 \<Rightarrow> 'w st \<Rightarrow> unit result \<times> 'w st" where
  "dialer_view_set_opt_uint64 nng d nm v = (\<lambda>\<sigma>.
     check ''nng_dialer_set_uint64''
       (call_int nng ''nng_dialer_set_uint64'' [VId d, VS nm, VW v] \<sigma>))"

definition dialer_view_set_opt_string ::
  "'w nng \<Rightarrow> i32 \<Rightarrow> string \<Rightarrow> string \<Rightarrow> 'w st \<Rightarrow> unit result \<times> 'w st" where
  "dialer_view_set_opt_string nng d nm v = (\<lambda>\<sigma>.
     check ''nng_dialer_set_string''
       (call_int nng ''nng_dialer_set_string'' [VId d, VS nm, VS v] \<sigma>))"

definition dialer_view_set_opt_ptr ::
  "'w nng \<Rightarrow> i32 \<Rightarrow> string \<Rightarrow> ptr \<Rightarrow> 'w st \<Rightarrow> unit result \<times> 'w st" where
  "dialer_view_set_opt_ptr nng d nm v = (\<lambda>\<sigma>.
     check ''nng_dialer_set_ptr''
       (call_int nng ''nng_dialer_set_ptr'' [VId d, VS nm, VW v] \<sigma>))"

definition dialer_view_set_opt_ms ::
  "'w nng \<Rightarrow> i32 \<Rightarrow> string \<Rightarrow> i32 \<Rightarrow> 'w st \<Rightarrow> unit result \<times> 'w st" where
  "dialer_view_set_opt_ms nng d nm v = (\<lambda>\<sigma>.
     check ''nng_dialer_set_ms''
       (call_int nng ''nng_dialer_set_ms'' [VId d, VS nm, VI v] \<sigma>))"

definition dialer_view_set_opt_addr ::
  "'w nng \<Rightarrow> i32 \<Rightarrow> string \<Rightarrow> byte list \<Rightarrow> 'w st \<Rightarrow> unit result \<times> 'w st" where
  "dialer_view_set_opt_addr nng d nm v = (\<lambda>\<sigma>.
     check ''nng_dialer_set_addr''
       (call_int nng ''nng_dialer_set_addr'' [VId d, VS nm, VA v] \<sigma>))"

definition dialer_view_get_opt ::
  "'w nng \<Rightarrow> i32 \<Rightarrow> string \<Rightarrow> view \<Rightarrow> 'w st \<Rightarrow> w64 result \<times> 'w st" where
  "dialer_view_get_opt nng d nm buf = (\<lambda>\<sigma>.
     check_out ''nng_dialer_get''
       (get_w64 nng ''nng_dialer_get'' [VId d, VS nm, VW (v_data buf), VW (v_size buf)] \<sigma>))"

definition dialer_view_get_opt_bool ::
  "'w nng \<Rightarrow> i32 \<Rightarrow> string \<Rightarrow> 'w st \<Rightarrow> bool result \<times> 'w st" where
  "dialer_view_get_opt_bool nng d nm = (\<lambda>\<sigma>.
     check_out ''nng_dialer_get_bool''
       (get_bool nng ''nng_dialer_get_bool'' [VId d, VS nm] \<sigma>))"

definition dialer_view_get_opt_int ::
  "'w nng \<Rightarrow> i32 \<Rightarrow> string \<Rightarrow> 'w st \<Rightarrow> i32 result \<times> 'w st" where
  "dialer_view_get_opt_int nng d nm = (\<lambda>\<sigma>.
     check_out ''nng_dialer_get_int''
       (get_int nng ''nng_dialer_get_int'' [VId d, VS nm] \<sigma>))"

definition dialer_view_get_opt_size ::
  "'w nng \<Rightarrow> i32 \<Rightarrow> string \<Rightarrow> 'w st \<Rightarrow> w64 result \<times> 'w st" where
  "dialer_view_get_opt_size nng d nm = (\<lambda>\<sigma>.
     check_out ''nng_dialer_get_size''
       (get_w64 nng ''nng_dialer_get_size'' [VId d, VS nm] \<sigma>))"

definition dialer_view_get_opt_uint64 ::
  "'w nng \<Rightarrow> i32 \<Rightarrow> string \<Rightarrow> 'w st \<Rightarrow> w64 result \<times> 'w st" where
  "dialer_view_get_opt_uint64 nng d nm = (\<lambda>\<sigma>.
     check_out ''nng_dialer_get_uint64''
       (get_w64 nng ''nng_dialer_get_uint64'' [VId d, VS nm] \<sigma>))"

definition dialer_view_get_opt_string ::
  "'w nng \<Rightarrow> i32 \<Rightarrow> string \<Rightarrow> 'w st \<Rightarrow> view result \<times> 'w st" where
  "dialer_view_get_opt_string nng d nm = (\<lambda>\<sigma>.
     string_buffer (check_out ''nng_dialer_get_string''
       (get_w64 nng ''nng_dialer_get_string'' [VId d, VS nm] \<sigma>)))"

definition dialer_view_get_opt_ptr ::
  "'w nng \<Rightarrow> i32 \<Rightarrow> string \<Rightarrow> 'w st \<Rightarrow> ptr result \<times> 'w st" where
  "dialer_view_get_opt_ptr nng d nm = (\<lambda>\<sigma>.
     check_out ''nng_dialer_get_ptr''
       (get_w64 nng ''nng_dialer_get_ptr'' [VId d, VS nm] \<sigma>))"

definition dialer_view_get_opt_ms ::
  "'w nng \<Rightarrow> i32 \<Rightarrow> string \<Rightarrow> 'w st \<Rightarrow> i32 result \<times> 'w st" where
  "dialer_view_get_opt_ms nng d nm = (\<lambda>\<sigma>.
     check_out ''nng_dialer_get_ms''
       (get_int nng ''nng_dialer_get_ms'' [VId d, VS nm] \<sigma>))"

definition dialer_view_get_opt_addr ::
  "'w nng \<Rightarrow> i32 \<Rightarrow> string \<Rightarrow> 'w st \<Rightarrow> byte list result \<times> 'w st" where
  "dialer_view_get_opt_addr nng d nm = (\<lambda>\<sigma>.
     check_out ''nng_dialer_get_addr''
       (get_addr nng ''nng_dialer_get_addr'' [VId d, VS nm] \<sigma>))"

definition listener_view_start ::
  "'w nng \<Rightarrow> i32 \<Rightarrow> i32 \<Rightarrow> 'w st \<Rightarrow> unit result \<times> 'w st" where
  "listener_view_start nng lis flags = (\<lambda>\<sigma>.
     check ''nng_listener_start''
       (call_int nng ''nng_listener_start'' [VId lis, VI flags] \<sigma>))"

definition listener_view_id ::
  "'w nng \<Rightarrow> i32 \<Rightarrow> 'w st \<Rightarrow> i32 \<times> 'w st" where
  "listener_view_id nng lis = (\<lambda>\<sigma>. call_int nng ''nng_listener_id'' [VId lis] \<sigma>)"

definition listener_view_set_opt ::
  "'w nng \<Rightarrow> i32 \<Rightarrow> string \<Rightarrow> view \<Rightarrow> 'w st \<Rightarrow> unit result \<times> 'w st" where
  "listener_view_set_opt nng lis nm v = (\<lambda>\<sigma>.
     check ''nng_listener_set''
       (call_int nng ''nng_listener_set'' [VId lis, VS nm, VW (v_data v), VW (v_size v)] \<sigma>))"

definition listener_view_set_opt_bool ::
  "'w nng \<Rightarrow> i32 \<Rightarrow> string \<Rightarrow> bool \<Rightarrow> 'w st \<Rightarrow> unit result \<times> 'w st" where
  "listener_view_set_opt_bool nng lis nm v = (\<lambda>\<sigma>.
     check ''nng_listener_set_bool''
       (call_int nng ''nng_listener_set_bool'' [VId lis, VS nm, VB v] \<sigma>))"

definition listener_view_set_opt_int ::
  "'w nng \<Rightarrow> i32 \<Rightarrow> string \<Rightarrow> i32 \<Rightarrow> 'w st \<Rightarrow> unit result \<times> 'w st" where
  "listener_view_set_opt_int nng lis nm v = (\<lambda>\<sigma>.
     check ''nng_listener_set_int''
       (call_int nng ''nng_listener_set_int'' [VId lis, VS nm, VI v] \<sigma>))"

definition listener_view_set_opt_size ::
  "'w nng \<Rightarrow> i32 \<Rightarrow> string \<Rightarrow> w64 \<Rightarrow> 'w st \<Rightarrow> unit result \<times> 'w st" where
  "listener_view_set_opt_size nng lis nm v = (\<lambda>\<sigma>.
     check ''nng_listener_set_size''
       (call_int nng ''nng_listener_set_size'' [VId lis, VS nm, VW v] \<sigma>))"

definition listener_view_set_opt_uint64 ::
  "'w nng \<Rightarrow> i32 \<Rightarrow> string \<Rightarrow> w64 \<Rightarrow> 'w st \<Rightarrow> unit result \<times> 'w st" where
  "listener_view_set_opt_uint64 nng lis nm v = (\<lambda>\<sigma>.
     check ''nng_listener_set_uint64''
       (call_int nng ''nng_listener_set_uint64'' [VId lis, VS nm, VW v] \<sigma>))"

definition listener_view_set_opt_string ::
  "'w nng \<Rightarrow> i32 \<Rightarrow> string \<Rightarrow> string \<Rightarrow> 'w st \<Rightarrow> unit result \<times> 'w st" where
  "listener_view_set_opt_string nng lis nm v = (\<lambda>\<sigma>.
     check ''nng_listener_set_string''
       (call_int nng ''nng_listener_set_string'' [VId lis, VS nm, VS v] \<sigma>))"

definition listener_view_set_opt_ptr ::
  "'w nng \<Rightarrow> i32 \<Rightarrow> string \<Rightarrow> ptr \<Rightarrow> 'w st \<Rightarrow> unit result \<times> 'w st" where
  "listener_view_set_opt_ptr nng lis nm v = (\<lambda>\<sigma>.
     check ''nng_listener_set_ptr''
       (call_int nng ''nng_listener_set_ptr'' [VId lis, VS nm, VW v] \<sigma>))"

definition listener_view_set_opt_ms ::
  "'w nng \<Rightarrow> i32 \<Rightarrow> string \<Rightarrow> i32 \<Rightarrow> 'w st \<Rightarrow> unit result \<times> 'w st" where
  "listener_view_set_opt_ms nng lis nm v = (\<lambda>\<sigma>.
     check ''nng_listener_set_ms''
       (call_int nng ''nng_listener_set_ms'' [VId lis, VS nm, VI v] \<sigma>))"

definition listener_view_set_opt_addr ::
  "'w nng \<Rightarrow> i32 \<Rightarrow> string \<Rightarrow> byte list \<Rightarrow> 'w st \<Rightarrow> unit result \<times> 'w st" where
  "listener_view_set_opt_addr nng lis nm v = (\<lambda>\<sigma>.
     check ''nng_listener_set_addr''
       (call_int nng ''nng_listener_set_addr'' [VId lis, VS nm, VA v] \<sigma>))"

definition listener_view_get_opt ::
  "'w nng \<Rightarrow> i32 \<Rightarrow> string \<Rightarrow> view \<Rightarrow> 'w st \<Rightarrow> w64 result \<times> 'w st" where
  "listener_view_get_opt nng lis nm buf = (\<lambda>\<sigma>.
     check_out ''nng_listener_get''
       (get_w64 nng ''nng_listener_get'' [VId lis, VS nm, VW (v_data buf), VW (v_size buf)] \<sigma>))"

definition listener_view_get_opt_bool ::
  "'w nng \<Rightarrow> i32 \<Rightarrow> string \<Rightarrow> 'w st \<Rightarrow> bool result \<times> 'w st" where
  "listener_view_get_opt_bool nng lis nm = (\<lambda>\<sigma>.
     check_out ''nng_listener_get_bool''
       (get_bool nng ''nng_listener_get_bool'' [VId lis, VS nm] \<sigma>))"

definition listener_view_get_opt_int ::
  "'w nng \<Rightarrow> i32 \<Rightarrow> string \<Rightarrow> 'w st \<Rightarrow> i32 result \<times> 'w st" where
  "listener_view_get_opt_int nng lis nm = (\<lambda>\<sigma>.
     check_out ''nng_listener_get_int''
       (get_int nng ''nng_listener_get_int'' [VId lis, VS nm] \<sigma>))"

definition listener_view_get_opt_size ::
  "'w nng \<Rightarrow> i32 \<Rightarrow> string \<Rightarrow> 'w st \<Rightarrow> w64 result \<times> 'w st" where
  "listener_view_get_opt_size nng lis nm = (\<lambda>\<sigma>.
     check_out ''nng_listener_get_size''
       (get_w64 nng ''nng_listener_get_size'' [VId lis, VS nm] \<sigma>))"

definition listener_view_get_opt_uint64 ::
  "'w nng \<Rightarrow> i32 \<Rightarrow> string \<Rightarrow> 'w st \<Rightarrow> w64 result \<times> 'w st" where
  "listener_view_get_opt_uint64 nng lis nm = (\<lambda>\<sigma>.
     check_out ''nng_listener_get_uint64''
       (get_w64 nng ''nng_listener_get_uint64'' [VId lis, VS nm] \<sigma>))"

definition listener_view_get_opt_string ::
  "'w nng \<Rightarrow> i32 \<Rightarrow> string \<Rightarrow> 'w st \<Rightarrow> view result \<times> 'w st" where
  "listener_view_get_opt_string nng lis nm = (\<lambda>\<sigma>.
     string_buffer (check_out ''nng_listener_get_string''
       (get_w64 nng ''nng_listener_get_string'' [VId lis, VS nm] \<sigma>)))"

definition listener_view_get_opt_ptr ::
  "'w nng \<Rightarrow> i32 \<Rightarrow> string \<Rightarrow> 'w st \<Rightarrow> ptr result \<times> 'w st" where
  "listener_view_get_opt_ptr nng lis nm = (\<lambda>\<sigma>.
     check_out ''nng_listener_get_ptr''
       (get_w64 nng ''nng_listener_get_ptr'' [VId lis, VS nm] \<sigma>))"

definition listener_view_get_opt_ms ::
  "'w nng \<Rightarrow> i32 \<Rightarrow> string \<Rightarrow> 'w st \<Rightarrow> i32 result \<times> 'w st" where
  "listener_view_get_opt_ms nng lis nm = (\<lambda>\<sigma>.
     check_out ''nng_listener_get_ms''
       (get_int nng ''nng_listener_get_ms'' [VId lis, VS nm] \<sigma>))"

definition listener_view_get_opt_addr ::
  "'w nng \<Rightarrow> i32 \<Rightarrow> string \<Rightarrow> 'w st \<Rightarrow> byte list result \<times> 'w st" where
  "listener_view_get_opt_addr nng lis nm = (\<lambda>\<sigma>.
     check_out ''nng_listener_get_addr''
       (get_addr nng ''nng_listener_get_addr'' [VId lis, VS nm] \<sigma>))"

definition pipe_view_id ::
  "'w nng \<Rightarrow> i32 \<Rightarrow> 'w st \<Rightarrow> i32 \<times> 'w st" where
  "pipe_view_id nng p = (\<lambda>\<sigma>. call_int nng ''nng_pipe_id'' [VId p] \<sigma>)"

definition pipe_view_get_opt ::
  "'w nng \<Rightarrow> i32 \<Rightarrow> string \<Rightarrow> view \<Rightarrow> 'w st \<Rightarrow> w64 result \<times> 'w st" where
  "pipe_view_get_opt nng p nm buf = (\<lambda>\<sigma>.
     check_out ''nng_pipe_get''
       (get_w64 nng ''nng_pipe_get'' [VId p, VS nm, VW (v_data buf), VW (v_size buf)] \<sigma>))"

definition pipe_view_get_opt_bool ::
  "'w nng \<Rightarrow> i32 \<Rightarrow> string \<Rightarrow> 'w st \<Rightarrow> bool result \<times> 'w st" where
  "pipe_view_get_opt_bool nng p nm = (\<lambda>\<sigma>.
     check_out ''nng_pipe_get_bool''
       (get_bool nng ''nng_pipe_get_bool'' [VId p, VS nm] \<sigma>))"

definition pipe_view_get_opt_int ::
  "'w nng \<Rightarrow> i32 \<Rightarrow> string \<Rightarrow> 'w st \<Rightarrow> i32 result \<times> 'w st" where
  "pipe_view_get_opt_int nng p nm = (\<lambda>\<sigma>.
     check_out ''nng_pipe_get_int''
       (get_int nng ''nng_pipe_get_int'' [VId p, VS nm] \<sigma>))"

definition pipe_view_get_opt_size ::
  "'w nng \<Rightarrow> i32 \<Rightarrow> string \<Rightarrow> 'w st \<Rightarrow> w64 result \<times> 'w st" where
  "pipe_view_get_opt_size nng p nm = (\<lambda>\<sigma>.
     check_out ''nng_pipe_get_size''
       (get_w64 nng ''nng_pipe_get_size'' [VId p, VS nm] \<sigma>))"

definition pipe_view_get_opt_uint64 ::
  "'w nng \<Rightarrow> i32 \<Rightarrow> string \<Rightarrow> 'w st \<Rightarrow> w64 result \<times> 'w st" where
  "pipe_view_get_opt_uint64 nng p nm = (\<lambda>\<sigma>.
     check_out ''nng_pipe_get_uint64''
       (get_w64 nng ''nng_pipe_get_uint64'' [VId p, VS nm] \<sigma>))"

definition pipe_view_get_opt_string ::
  "'w nng \<Rightarrow> i32 \<Rightarrow> string \<Rightarrow> 'w st \<Rightarrow> view result \<times> 'w st" where
  "pipe_view_get_opt_string nng p nm = (\<lambda>\<sigma>.
     string_buffer (check_out ''nng_pipe_get_string''
       (get_w64 nng ''nng_pipe_get_string'' [VId p, VS nm] \<sigma>)))"

definition pipe_view_get_opt_ptr ::
  "'w nng \<Rightarrow> i32 \<Rightarrow> string \<Rightarrow> 'w st \<Rightarrow> ptr result \<times> 'w st" where
  "pipe_view_get_opt_ptr nng p nm = (\<lambda>\<sigma>.
     check_out ''nng_pipe_get_ptr''
       (get_w64 nng ''nng_pipe_get_ptr'' [VId p, VS nm] \<sigma>))"

definition pipe_view_get_opt_ms ::
  "'w nng \<Rightarrow> i32 \<Rightarrow> string \<Rightarrow> 'w st \<Rightarrow> i32 result \<times> 'w st" where
  "pipe_view_get_opt_ms nng p nm = (\<lambda>\<sigma>.
     check_out ''nng_pipe_get_ms''
       (get_int nng ''nng_pipe_get_ms'' [VId p, VS nm] \<sigma>))"

definition pipe_view_get_opt_addr ::
  "'w nng \<Rightarrow> i32 \<Rightarrow> string \<Rightarrow> 'w st \<Rightarrow> byte list result \<times> 'w st" where
  "pipe_view_get_opt_addr nng p nm = (\<lambda>\<sigma>.
     check_out ''nng_pipe_get_addr''
       (get_addr nng ''nng_pipe_get_addr'' [VId p, VS nm] \<sigma>))"

definition pipe_view_get_dialer ::
  "'w nng \<Rightarrow> i32 \<Rightarrow> 'w st \<Rightarrow> i32 \<times> 'w st" where
  "pipe_view_get_dialer nng p = (\<lambda>\<sigma>. call_id nng ''nng_pipe_dialer'' [VId p] \<sigma>)"

definition pipe_view_get_listener ::
  "'w nng \<Rightarrow> i32 \<Rightarrow> 'w st \<Rightarrow> i32 \<times> 'w st" where
  "pipe_view_get_listener nng p = (\<lambda>\<sigma>. call_id nng ''nng_pipe_listener'' [VId p] \<sigma>)"

section \<open>Options by name\<close>

definition dialer_get_opt_url ::
  "'w nng \<Rightarrow> i32 \<Rightarrow> 'w st \<Rightarrow> view result \<times> 'w st" where
  "dialer_get_opt_url nng s = (\<lambda>\<sigma>.
     dialer_view_get_opt_string nng s (to_name nng url_opt) \<sigma>)"

definition dialer_get_opt_recv_size_max ::
  "'w nng \<Rightarrow> i32 \<Rightarrow> 'w st \<Rightarrow> w64 result \<times> 'w st" where
  "dialer_get_opt_recv_size_max nng s = (\<lambda>\<sigma>.
     dialer_view_get_opt_size nng s (to_name nng recv_size_max) \<sigma>)"

definition dialer_get_opt_reconnect_time_min ::
  "'w nng \<Rightarrow> i32 \<Rightarrow> 'w st \<Rightarrow> i32 result \<times> 'w st" where
  "dialer_get_opt_reconnect_time_min nng s = (\<lambda>\<sigma>.
     dialer_view_get_opt_ms nng s (to_name nng reconnect_time_min) \<sigma>)"

definition dialer_get_opt_reconnect_time_max ::
  "'w nng \<Rightarrow> i32 \<Rightarrow> 'w st \<Rightarrow> i32 result \<times> 'w st" where
  "dialer_get_opt_reconnect_time_max nng s = (\<lambda>\<sigma>.
     dialer_view_get_opt_ms nng s (to_name nng reconnect_time_max) \<sigma>)"

definition dialer_set_opt_recv_size_max ::
  "'w nng \<Rightarrow> i32 \<Rightarrow> w64 \<Rightarrow> 'w st \<Rightarrow> unit result \<times> 'w st" where
  "dialer_set_opt_recv_size_max nng s v = (\<lambda>\<sigma>.
     dialer_view_set_opt_size nng s (to_name nng recv_size_max) v \<sigma>)"

definition dialer_set_opt_reconnect_time_min ::
  "'w nng \<Rightarrow> i32 \<Rightarrow> i32 \<Rightarrow> 'w st \<Rightarrow> unit result \<times> 'w st" where
  "dialer_set_opt_reconnect_time_min nng s v = (\<lambda>\<sigma>.
     dialer_view_set_opt_ms nng s (to_name nng reconnect_time_min) v \<sigma>)"

definition dialer_set_opt_reconnect_time_max ::
  "'w nng \<Rightarrow> i32 \<Rightarrow> i32 \<Rightarrow> 'w st \<Rightarrow> unit result \<times> 'w st" where
  "dialer_set_opt_reconnect_time_max nng s v = (\<lambda>\<sigma>.
     dialer_view_set_opt_ms nng s (to_name nng reconnect_time_max) v \<sigma>)"

definition listener_get_opt_local_address ::
  "'w nng \<Rightarrow> i32 \<Rightarrow> 'w st \<Rightarrow> byte list result \<times> 'w st" where
  "listener_get_opt_local_address nng s = (\<lambda>\<sigma>.
     listener_view_get_opt_addr nng s (to_name nng local_address) \<sigma>)"

definition listener_get_opt_url ::
  "'w nng \<Rightarrow> i32 \<Rightarrow> 'w st \<Rightarrow> view result \<times> 'w st" where
  "listener_get_opt_url nng s = (\<lambda>\<sigma>.
     listener_view_get_opt_string nng s (to_name nng url_opt) \<sigma>)"

definition listener_get_opt_recv_size_max ::
  "'w nng \<Rightarrow> i32 \<Rightarrow> 'w st \<Rightarrow> w64 result \<times> 'w st" where
  "listener_get_opt_recv_size_max nng s = (\<lambda>\<sigma>.
     listener_view_get_opt_size nng s (to_name nng recv_size_max) \<sigma>)"

definition listener_set_opt_recv_size_max ::
  "'w nng \<Rightarrow> i32 \<Rightarrow> w64 \<Rightarrow> 'w st \<Rightarrow> unit result \<times> 'w st" where
  "listener_set_opt_recv_size_max nng s v = (\<lambda>\<sigma>.
     listener_view_set_opt_size nng s (to_name nng recv_size_max) v \<sigma>)"

definition pipe_get_opt_local_address ::
  "'w nng \<Rightarrow> i32 \<Rightarrow> 'w st \<Rightarrow> byte list result \<times> 'w st" where
  "pipe_get_opt_local_address nng s = (\<lambda>\<sigma>.
     pipe_view_get_opt_addr nng s (to_name nng local_address) \<sigma>)"

definition pipe_get_opt_remote_address ::
  "'w nng \<Rightarrow> i32 \<Rightarrow> 'w st \<Rightarrow> byte list result \<times> 'w st" where
  "pipe_get_opt_remote_address nng s = (\<lambda>\<sigma>.
     pipe_view_get_opt_addr nng s (to_name nng remote_address) \<sigma>)"

section \<open>Properties\<close>

lemmas endpoint_methods_report_defs =
  dialer_view_start_def dialer_view_set_opt_def dialer_view_set_opt_bool_def
  dialer_view_set_opt_int_def dialer_view_set_opt_size_def dialer_view_set_opt_uint64_def
  dialer_view_set_opt_string_def dialer_view_set_opt_ptr_def dialer_view_set_opt_ms_def
  dialer_view_set_opt_addr_def dialer_view_get_opt_def dialer_view_get_opt_bool_def
  dialer_view_get_opt_int_def dialer_view_get_opt_size_def dialer_view_get_opt_uint64_def
  dialer_view_get_opt_string_def dialer_view_get_opt_ptr_def dialer_view_get_opt_ms_def
  dialer_view_get_opt_addr_def listener_view_start_def listener_view_set_opt_def
  listener_view_set_opt_bool_def listener_view_set_opt_int_def listener_view_set_opt_size_def
  listener_view_set_opt_uint64_def listener_view_set_opt_string_def
  listener_view_set_opt_ptr_def listener_view_set_opt_ms_def listener_view_set_opt_addr_def
  listener_view_get_opt_def listener_view_get_opt_bool_def listener_view_get_opt_int_def
  listener_view_get_opt_size_def listener_view_get_opt_uint64_def
  listener_view_get_opt_string_def listener_view_get_opt_ptr_def listener_view_get_opt_ms_def
  listener_view_get_opt_addr_def pipe_view_get_opt_def pipe_view_get_opt_bool_def
  pipe_view_get_opt_int_def pipe_view_get_opt_size_def pipe_view_get_opt_uint64_def
  pipe_view_get_opt_string_def pipe_view_get_opt_ptr_def pipe_view_get_opt_ms_def
  pipe_view_get_opt_addr_def

text \<open>Every method of a dialer, a listener and a pipe that can throw does so exactly when the one nng
  call it makes returns a nonzero status, and the exception carries that status and the name of
  that function.\<close>

theorem endpoint_methods_report:
  "(\<forall>d flags. reports_failure (dialer_view_start nng d flags)) \<and>
    (\<forall>d nm v. reports_failure (dialer_view_set_opt nng d nm v)) \<and>
    (\<forall>d nm v. reports_failure (dialer_view_set_opt_bool nng d nm v)) \<and>
    (\<forall>d nm v. reports_failure (dialer_view_set_opt_int nng d nm v)) \<and>
    (\<forall>d nm v. reports_failure (dialer_view_set_opt_size nng d nm v)) \<and>
    (\<forall>d nm v. reports_failure (dialer_view_set_opt_uint64 nng d nm v)) \<and>
    (\<forall>d nm v. reports_failure (dialer_view_set_opt_string nng d nm v)) \<and>
    (\<forall>d nm v. reports_failure (dialer_view_set_opt_ptr nng d nm v)) \<and>
    (\<forall>d nm v. reports_failure (dialer_view_set_opt_ms nng d nm v)) \<and>
    (\<forall>d nm v. reports_failure (dialer_view_set_opt_addr nng d nm v)) \<and>
    (\<forall>d nm buf. reports_failure (dialer_view_get_opt nng d nm buf)) \<and>
    (\<forall>d nm. reports_failure (dialer_view_get_opt_bool nng d nm)) \<and>
    (\<forall>d nm. reports_failure (dialer_view_get_opt_int nng d nm)) \<and>
    (\<forall>d nm. reports_failure (dialer_view_get_opt_size nng d nm)) \<and>
    (\<forall>d nm. reports_failure (dialer_view_get_opt_uint64 nng d nm)) \<and>
    (\<forall>d nm. reports_failure (dialer_view_get_opt_string nng d nm)) \<and>
    (\<forall>d nm. reports_failure (dialer_view_get_opt_ptr nng d nm)) \<and>
    (\<forall>d nm. reports_failure (dialer_view_get_opt_ms nng d nm)) \<and>
    (\<forall>d nm. reports_failure (dialer_view_get_opt_addr nng d nm)) \<and>
    (\<forall>lis flags. reports_failure (listener_view_start nng lis flags)) \<and>
    (\<forall>lis nm v. reports_failure (listener_view_set_opt nng lis nm v)) \<and>
    (\<forall>lis nm v. reports_failure (listener_view_set_opt_bool nng lis nm v)) \<and>
    (\<forall>lis nm v. reports_failure (listener_view_set_opt_int nng lis nm v)) \<and>
    (\<forall>lis nm v. reports_failure (listener_view_set_opt_size nng lis nm v)) \<and>
    (\<forall>lis nm v. reports_failure (listener_view_set_opt_uint64 nng lis nm v)) \<and>
    (\<forall>lis nm v. reports_failure (listener_view_set_opt_string nng lis nm v)) \<and>
    (\<forall>lis nm v. reports_failure (listener_view_set_opt_ptr nng lis nm v)) \<and>
    (\<forall>lis nm v. reports_failure (listener_view_set_opt_ms nng lis nm v)) \<and>
    (\<forall>lis nm v. reports_failure (listener_view_set_opt_addr nng lis nm v)) \<and>
    (\<forall>lis nm buf. reports_failure (listener_view_get_opt nng lis nm buf)) \<and>
    (\<forall>lis nm. reports_failure (listener_view_get_opt_bool nng lis nm)) \<and>
    (\<forall>lis nm. reports_failure (listener_view_get_opt_int nng lis nm)) \<and>
    (\<forall>lis nm. reports_failure (listener_view_get_opt_size nng lis nm)) \<and>
    (\<forall>lis nm. reports_failure (listener_view_get_opt_uint64 nng lis nm)) \<and>
    (\<forall>lis nm. reports_failure (listener_view_get_opt_string nng lis nm)) \<and>
    (\<forall>lis nm. reports_failure (listener_view_get_opt_ptr nng lis nm)) \<and>
    (\<forall>lis nm. reports_failure (listener_view_get_opt_ms nng lis nm)) \<and>
    (\<forall>lis nm. reports_failure (listener_view_get_opt_addr nng lis nm)) \<and>
    (\<forall>p nm buf. reports_failure (pipe_view_get_opt nng p nm buf)) \<and>
    (\<forall>p nm. reports_failure (pipe_view_get_opt_bool nng p nm)) \<and>
    (\<forall>p nm. reports_failure (pipe_view_get_opt_int nng p nm)) \<and>
    (\<forall>p nm. reports_failure (pipe_view_get_opt_size nng p nm)) \<and>
    (\<forall>p nm. reports_failure (pipe_view_get_opt_uint64 nng p nm)) \<and>
    (\<forall>p nm. reports_failure (pipe_view_get_opt_string nng p nm)) \<and>
    (\<forall>p nm. reports_failure (pipe_view_get_opt_ptr nng p nm)) \<and>
    (\<forall>p nm. reports_failure (pipe_view_get_opt_ms nng p nm)) \<and>
    (\<forall>p nm. reports_failure (pipe_view_get_opt_addr nng p nm))"
  unfolding endpoint_methods_report_defs
  by (intro conjI allI reports_check reports_get reports_get_buf reports_string reports_as_u16)

lemmas endpoint_options_typed_defs =
  dialer_get_opt_url_def dialer_get_opt_recv_size_max_def dialer_get_opt_reconnect_time_min_def
  dialer_get_opt_reconnect_time_max_def dialer_set_opt_recv_size_max_def
  dialer_set_opt_reconnect_time_min_def dialer_set_opt_reconnect_time_max_def
  listener_get_opt_local_address_def listener_get_opt_url_def listener_get_opt_recv_size_max_def
  listener_set_opt_recv_size_max_def pipe_get_opt_local_address_def
  pipe_get_opt_remote_address_def

text \<open>Every accessor by name of a dialer, a listener and a pipe reads or writes the option it is named
  after, through the nng function for the type that option has in the table of \<open>option.h\<close>.\<close>

theorem endpoint_options_typed:
  "(\<forall>s. reads_option ''nng_dialer'' (VId s) (to_name nng url_opt) (to_type url_opt) (dialer_get_opt_url nng s)) \<and>
    (\<forall>s. reads_option ''nng_dialer'' (VId s) (to_name nng recv_size_max) (to_type recv_size_max) (dialer_get_opt_recv_size_max nng s)) \<and>
    (\<forall>s. reads_option ''nng_dialer'' (VId s) (to_name nng reconnect_time_min) (to_type reconnect_time_min) (dialer_get_opt_reconnect_time_min nng s)) \<and>
    (\<forall>s. reads_option ''nng_dialer'' (VId s) (to_name nng reconnect_time_max) (to_type reconnect_time_max) (dialer_get_opt_reconnect_time_max nng s)) \<and>
    (\<forall>s v. writes_option ''nng_dialer'' (VId s) (to_name nng recv_size_max) (to_type recv_size_max) (VW v) (dialer_set_opt_recv_size_max nng s v)) \<and>
    (\<forall>s v. writes_option ''nng_dialer'' (VId s) (to_name nng reconnect_time_min) (to_type reconnect_time_min) (VI v) (dialer_set_opt_reconnect_time_min nng s v)) \<and>
    (\<forall>s v. writes_option ''nng_dialer'' (VId s) (to_name nng reconnect_time_max) (to_type reconnect_time_max) (VI v) (dialer_set_opt_reconnect_time_max nng s v)) \<and>
    (\<forall>s. reads_option ''nng_listener'' (VId s) (to_name nng local_address) (to_type local_address) (listener_get_opt_local_address nng s)) \<and>
    (\<forall>s. reads_option ''nng_listener'' (VId s) (to_name nng url_opt) (to_type url_opt) (listener_get_opt_url nng s)) \<and>
    (\<forall>s. reads_option ''nng_listener'' (VId s) (to_name nng recv_size_max) (to_type recv_size_max) (listener_get_opt_recv_size_max nng s)) \<and>
    (\<forall>s v. writes_option ''nng_listener'' (VId s) (to_name nng recv_size_max) (to_type recv_size_max) (VW v) (listener_set_opt_recv_size_max nng s v)) \<and>
    (\<forall>s. reads_option ''nng_pipe'' (VId s) (to_name nng local_address) (to_type local_address) (pipe_get_opt_local_address nng s)) \<and>
    (\<forall>s. reads_option ''nng_pipe'' (VId s) (to_name nng remote_address) (to_type remote_address) (pipe_get_opt_remote_address nng s))"
  unfolding endpoint_options_typed_defs option_access endpoint_methods_report_defs
  by (intro conjI allI; simp)

text \<open>C35: closing what is closed already is no error when a dialer or a listener is assigned to, but
  it is for a pipe: where \<open>nng_pipe_close\<close> returns \<open>NNG_ECLOSED\<close>, as it does when the peer is
  gone, the assignment throws, and the target keeps the dead pipe.\<close>

theorem pipe_assign_rejects_closed:
  assumes "S a = Some h" "S b = Some h'" "a \<noteq> b" "h \<noteq> 0" "error_val nng closed \<noteq> 0"
    and "\<And>fn w. fst (f_int nng fn [VId h] w) = error_val nng closed"
  shows "(\<exists>s'. dialer_exec nng (Move_assign a b) (S, s) = (Ok None, S(a \<mapsto> h', b \<mapsto> 0), s')) \<and>
    (\<exists>s'. listener_exec nng (Move_assign a b) (S, s) = (Ok None, S(a \<mapsto> h', b \<mapsto> 0), s')) \<and>
    (\<exists>s'. pipe_exec nng (Move_assign a b) (S, s) =
       (Throw (exception (error_val nng closed) ''nng_pipe_close''), S, s'))"
proof -
  have "\<exists>s'. call_int nng fn [VId h] s = (error_val nng closed, s')" for fn
    using assms(6) [of fn "(st_lib s, st_mem s)"]
    by (cases "f_int nng fn [VId h] (st_lib s, st_mem s)") (simp add: call_int_def invoke_def)
  then obtain s1 s2 s3 where
    "call_int nng ''nng_dialer_close'' [VId h] s = (error_val nng closed, s1)"
    "call_int nng ''nng_listener_close'' [VId h] s = (error_val nng closed, s2)"
    "call_int nng ''nng_pipe_close'' [VId h] s = (error_val nng closed, s3)" by blast
  then show ?thesis using assms(1-5) by (simp add: m_close_move_assign_def)
qed

definition closed_nng :: "unit nng" where
  "closed_nng = idle_nng\<lparr>macro_int := (\<lambda>n. if n = ''NNG_ECLOSED'' then 7 else 0),
     f_int := (\<lambda>_ _ w. (7, w))\<rparr>"

theorem pipe_assign_rejects_closed_witness:
  "\<exists>s'. pipe_exec closed_nng (Move_assign 0 1) ([0 \<mapsto> 5, 1 \<mapsto> 7], start ()) =
     (Throw (exception 7 ''nng_pipe_close''), [0 \<mapsto> 5, 1 \<mapsto> 7], s')"
  using pipe_assign_rejects_closed [of "[0 \<mapsto> 5, 1 \<mapsto> 7]" 0 5 1 7 closed_nng "start ()"]
  by (simp add: closed_nng_def)

text \<open>A program over pipes, whose closing may fail, never closes a pipe it does not hold, and no
  two objects share a pipe of which there is one reference.\<close>

theorem pipe_program_safe:
  assumes "run (pipe_exec nng) ops (Map.empty, s) = (rs, S, s')"
    and "legal (class_ok {}) (pipe_exec nng) (pipe_ev nng) ops (Map.empty, s) L"
    and "count (live (events (pipe_ev nng) (new_calls s s')) L) h \<le> 1" "h \<noteq> 0"
    and "S a = Some h" "S b = Some h"
  shows "proper (events (pipe_ev nng) (new_calls s s')) L \<and> a = b"
proof -
  from pipe.run_safe [OF assms(1,2) store_ok_empty] obtain cs where
    cs: "st_log s' = st_log s @ cs" "books False Map.empty L (events (pipe_ev nng) cs) S (released rs)" by blast
  then have "new_calls s s' = cs" by (simp add: new_calls_def)
  then show ?thesis using cs(2) unique_owner assms(3-6) unfolding books_def by metis
qed

definition pipe_program :: "(i32, unit) raii_op list" where
  "pipe_program = [Adopt 0 5, Default 1, Move_assign 1 0, Adopt 2 6, Move_assign 1 2, Dtor 0]"

theorem pipe_program_safe_witness:
  "proper (events (pipe_ev (idle_nng :: unit nng))
     (new_calls (start ()) (snd (snd (run (pipe_exec idle_nng) pipe_program (Map.empty, start ())))))) {#5, 6#}"
proof -
  let ?run = "run (pipe_exec (idle_nng :: unit nng)) pipe_program (Map.empty, start ())"
  have r: "?run = (fst ?run, fst (snd ?run), snd (snd ?run))" by simp
  have "legal (class_ok {}) (pipe_exec idle_nng) (pipe_ev (idle_nng :: unit nng)) pipe_program
      (Map.empty, start ()) {#5, 6#}"
    by (simp add: pipe_program_def member_simps call_simps invoke_def start_def class_ok_def
        copy_assign_succeeds_def new_calls_def pipe_ev_def id_ev_def owned_upd owned_def)
  from pipe_program_safe [OF r this, of 6 1 1] show ?thesis
    by (simp add: pipe_program_def member_simps call_simps invoke_def start_def new_calls_def
        pipe_ev_def id_ev_def)
qed

end
