(* ===== verification/Sockets.thy ===== *)
theory Sockets
  imports Endpoints Aios
begin

text \<open>
  Sockets and contexts: \<open>include/nngpp/socket.h\<close>, \<open>socket_view.h\<close>, \<open>ctx.h\<close> and
  \<open>ctx_view.h\<close>. The operations that move a buffer or a message into the socket work on
  the store the object is in.
\<close>

section \<open>Owner classes\<close>

fun socket_exec ::
  "'w nng \<Rightarrow> (i32, unit) raii_op \<Rightarrow> (i32, 'w) cfg \<Rightarrow> (i32, 'w) outcome" where
  "socket_exec nng (Default this) = m_default this"
| "socket_exec nng (Adopt this h) = m_adopt this h"
| "socket_exec nng (Acquire this a) = m_deleted"
| "socket_exec nng (Copy_ctor this rhs) = m_deleted"
| "socket_exec nng (Move_ctor this rhs) = m_move_ctor this rhs"
| "socket_exec nng (Copy_assign this rhs) = m_deleted"
| "socket_exec nng (Move_assign this rhs) =
     m_close_move_assign (\<lambda>h. call_int nng ''nng_close'' [VId h]) ''nng_close'' [error_val nng closed] this rhs"
| "socket_exec nng (Dtor this) =
     m_dtor (\<lambda>h s. snd (call_int nng ''nng_close'' [VId h] s)) this"
| "socket_exec nng (Release this) = m_release this"

definition socket_ev :: "'w nng \<Rightarrow> call \<Rightarrow> i32 event option" where
  "socket_ev nng = id_ev [] ''nng_close'' [error_val nng closed]"

lemma socket_calls [conforming]:
  "may_release (socket_ev nng) (\<lambda>h s. snd (call_int nng ''nng_close'' [VId h] s))"
  "closes (socket_ev nng) [error_val nng closed] (\<lambda>h. call_int nng ''nng_close'' [VId h])"
  unfolding socket_ev_def by (intro conforming; simp)+

interpretation socket: owner_class False "{}" "socket_exec nng" "socket_ev nng" for nng :: "'w nng"
proof
  fix op
  show "conforms False {} (socket_ev nng) op (socket_exec nng op)"
    by (cases "(nng, op)" rule: socket_exec.cases; simp only: socket_exec.simps prod.inject; intro conforming; simp)
qed

datatype ctx_args =
    Ctx_open i32

fun ctx_exec ::
  "'w nng \<Rightarrow> (i32, ctx_args) raii_op \<Rightarrow> (i32, 'w) cfg \<Rightarrow> (i32, 'w) outcome" where
  "ctx_exec nng (Default this) = m_default this"
| "ctx_exec nng (Adopt this h) = m_adopt this h"
| "ctx_exec nng (Acquire this (Ctx_open s0)) =
     m_acquire this (\<lambda>s. check_out ''nng_ctx_open'' (get_id nng ''nng_ctx_open'' [VId s0] s))"
| "ctx_exec nng (Copy_ctor this rhs) = m_deleted"
| "ctx_exec nng (Move_ctor this rhs) = m_move_ctor this rhs"
| "ctx_exec nng (Copy_assign this rhs) = m_deleted"
| "ctx_exec nng (Move_assign this rhs) =
     m_close_move_assign (\<lambda>h. call_int nng ''nng_ctx_close'' [VId h]) ''nng_ctx_close'' [error_val nng closed] this rhs"
| "ctx_exec nng (Dtor this) =
     m_dtor (\<lambda>h s. snd (call_int nng ''nng_ctx_close'' [VId h] s)) this"
| "ctx_exec nng (Release this) = m_release this"

definition ctx_ev :: "'w nng \<Rightarrow> call \<Rightarrow> i32 event option" where
  "ctx_ev nng = id_ev [''nng_ctx_open''] ''nng_ctx_close'' [error_val nng closed]"

lemma ctx_calls [conforming]:
  "may_release (ctx_ev nng) (\<lambda>h s. snd (call_int nng ''nng_ctx_close'' [VId h] s))"
  "closes (ctx_ev nng) [error_val nng closed] (\<lambda>h. call_int nng ''nng_ctx_close'' [VId h])"
  "acquires (ctx_ev nng) (\<lambda>s. check_out ''nng_ctx_open'' (get_id nng ''nng_ctx_open'' [VId s0] s))"
  unfolding ctx_ev_def by (intro conforming; simp)+

interpretation ctx: owner_class False "{Acquiring}" "ctx_exec nng" "ctx_ev nng" for nng :: "'w nng"
proof
  fix op
  show "conforms False {Acquiring} (ctx_ev nng) op (ctx_exec nng op)"
    by (cases "(nng, op)" rule: ctx_exec.cases; simp only: ctx_exec.simps prod.inject; intro conforming; simp)
qed

section \<open>Sending and receiving\<close>

definition socket_view_dial :: "'w nng \<Rightarrow> i32 \<Rightarrow> string \<Rightarrow> i32 \<Rightarrow> 'w st \<Rightarrow> unit result \<times> 'w st" where
  "socket_view_dial nng s addr flags = (\<lambda>\<sigma>.
     check ''nng_dial'' (call_int nng ''nng_dial'' [VId s, VS addr, VW null, VI flags] \<sigma>))"

definition socket_view_listen :: "'w nng \<Rightarrow> i32 \<Rightarrow> string \<Rightarrow> i32 \<Rightarrow> 'w st \<Rightarrow> unit result \<times> 'w st" where
  "socket_view_listen nng s addr flags = (\<lambda>\<sigma>.
     check ''nng_listen'' (call_int nng ''nng_listen'' [VId s, VS addr, VW null, VI flags] \<sigma>))"

definition socket_view_send :: "'w nng \<Rightarrow> i32 \<Rightarrow> view \<Rightarrow> i32 \<Rightarrow> 'w st \<Rightarrow> unit result \<times> 'w st" where
  "socket_view_send nng s buf flags = (\<lambda>\<sigma>.
     check ''nng_send'' (call_int nng ''nng_send''
       [VId s, VW (v_data buf), VW (v_size buf), VI (flags AND NOT (flag_alloc nng))] \<sigma>))"

definition socket_view_send_buffer ::
  "'w nng \<Rightarrow> i32 \<Rightarrow> nat \<Rightarrow> i32 \<Rightarrow> 'w bufs \<Rightarrow> unit result \<times> 'w bufs" where
  "socket_view_send_buffer nng s buf flags = (\<lambda>(S, \<sigma>).
     (case S buf of
        None \<Rightarrow> (Ub, S, \<sigma>)
      | Some b \<Rightarrow>
          (case call_int nng ''nng_send''
                  [VId s, VW (v_data b), VW (v_size b), VI (flags OR flag_alloc nng)] \<sigma> of
             (r, \<sigma>1) \<Rightarrow>
               if r \<noteq> 0 then (Throw (exception r ''nng_send''), S, \<sigma>1)
               else (case buffer_release buf (S, \<sigma>1) of (_, S', \<sigma>2) \<Rightarrow> (Ok (), S', \<sigma>2)))))"

definition socket_view_send_msg ::
  "'w nng \<Rightarrow> i32 \<Rightarrow> nat \<Rightarrow> i32 \<Rightarrow> (ptr, 'w) cfg \<Rightarrow> unit result \<times> (ptr, 'w) cfg" where
  "socket_view_send_msg nng s m flags = (\<lambda>(S, \<sigma>).
     (case S m of
        None \<Rightarrow> (Ub, S, \<sigma>)
      | Some h \<Rightarrow>
          (case call_int nng ''nng_sendmsg'' [VId s, VW h, VI flags] \<sigma> of
             (r, \<sigma>1) \<Rightarrow>
               if r \<noteq> 0 then (Throw (exception r ''nng_sendmsg''), S, \<sigma>1)
               else (case msg_exec nng (Release m) (S, \<sigma>1) of (_, S', \<sigma>2) \<Rightarrow> (Ok (), S', \<sigma>2)))))"

definition socket_view_send_aio :: "'w nng \<Rightarrow> i32 \<Rightarrow> ptr \<Rightarrow> 'w st \<Rightarrow> 'w st" where
  "socket_view_send_aio nng s a = (\<lambda>\<sigma>. call_unit nng ''nng_send_aio'' [VId s, VW a] \<sigma>)"

definition socket_view_recv :: "'w nng \<Rightarrow> i32 \<Rightarrow> view \<Rightarrow> i32 \<Rightarrow> 'w st \<Rightarrow> w64 result \<times> 'w st" where
  "socket_view_recv nng s buf flags = (\<lambda>\<sigma>.
     check_out ''nng_recv'' (get_w64 nng ''nng_recv''
       [VId s, VW (v_data buf), VW (v_size buf), VI (flags AND NOT (flag_alloc nng))] \<sigma>))"

definition socket_view_recv_buffer :: "'w nng \<Rightarrow> i32 \<Rightarrow> i32 \<Rightarrow> 'w st \<Rightarrow> view result \<times> 'w st" where
  "socket_view_recv_buffer nng s flags = (\<lambda>\<sigma>.
     (case check_out ''nng_recv'' (get_buf nng ''nng_recv'' [VId s, VI (flags OR flag_alloc nng)] \<sigma>) of
        (Ok (d, n), \<sigma>') \<Rightarrow> (Ok (view_of d n), \<sigma>')
      | (Throw e, \<sigma>') \<Rightarrow> (Throw e, \<sigma>')
      | (Ub, \<sigma>') \<Rightarrow> (Ub, \<sigma>')))"

definition socket_view_recv_msg :: "'w nng \<Rightarrow> i32 \<Rightarrow> i32 \<Rightarrow> 'w st \<Rightarrow> ptr result \<times> 'w st" where
  "socket_view_recv_msg nng s flags = (\<lambda>\<sigma>.
     check_out ''nng_recvmsg'' (get_w64 nng ''nng_recvmsg'' [VId s, VI flags] \<sigma>))"

definition socket_view_recv_aio :: "'w nng \<Rightarrow> i32 \<Rightarrow> ptr \<Rightarrow> 'w st \<Rightarrow> 'w st" where
  "socket_view_recv_aio nng s a = (\<lambda>\<sigma>. call_unit nng ''nng_recv_aio'' [VId s, VW a] \<sigma>)"

section \<open>Views\<close>

definition socket_view_id ::
  "'w nng \<Rightarrow> i32 \<Rightarrow> 'w st \<Rightarrow> i32 \<times> 'w st" where
  "socket_view_id nng s = (\<lambda>\<sigma>. call_int nng ''nng_socket_id'' [VId s] \<sigma>)"

definition socket_view_pipe_notify ::
  "'w nng \<Rightarrow> i32 \<Rightarrow> pipe_ev \<Rightarrow> ptr \<Rightarrow> ptr \<Rightarrow> 'w st \<Rightarrow> unit result \<times> 'w st" where
  "socket_view_pipe_notify nng s ev cb arg = (\<lambda>\<sigma>.
     check ''nng_pipe_notify''
       (call_int nng ''nng_pipe_notify'' [VId s, VI (pipe_ev_val nng ev), VW cb, VW arg] \<sigma>))"

definition socket_view_set_opt ::
  "'w nng \<Rightarrow> i32 \<Rightarrow> string \<Rightarrow> view \<Rightarrow> 'w st \<Rightarrow> unit result \<times> 'w st" where
  "socket_view_set_opt nng s nm v = (\<lambda>\<sigma>.
     check ''nng_socket_set''
       (call_int nng ''nng_socket_set'' [VId s, VS nm, VW (v_data v), VW (v_size v)] \<sigma>))"

definition socket_view_set_opt_bool ::
  "'w nng \<Rightarrow> i32 \<Rightarrow> string \<Rightarrow> bool \<Rightarrow> 'w st \<Rightarrow> unit result \<times> 'w st" where
  "socket_view_set_opt_bool nng s nm v = (\<lambda>\<sigma>.
     check ''nng_socket_set_bool''
       (call_int nng ''nng_socket_set_bool'' [VId s, VS nm, VB v] \<sigma>))"

definition socket_view_set_opt_int ::
  "'w nng \<Rightarrow> i32 \<Rightarrow> string \<Rightarrow> i32 \<Rightarrow> 'w st \<Rightarrow> unit result \<times> 'w st" where
  "socket_view_set_opt_int nng s nm v = (\<lambda>\<sigma>.
     check ''nng_socket_set_int''
       (call_int nng ''nng_socket_set_int'' [VId s, VS nm, VI v] \<sigma>))"

definition socket_view_set_opt_size ::
  "'w nng \<Rightarrow> i32 \<Rightarrow> string \<Rightarrow> w64 \<Rightarrow> 'w st \<Rightarrow> unit result \<times> 'w st" where
  "socket_view_set_opt_size nng s nm v = (\<lambda>\<sigma>.
     check ''nng_socket_set_size''
       (call_int nng ''nng_socket_set_size'' [VId s, VS nm, VW v] \<sigma>))"

definition socket_view_set_opt_uint64 ::
  "'w nng \<Rightarrow> i32 \<Rightarrow> string \<Rightarrow> w64 \<Rightarrow> 'w st \<Rightarrow> unit result \<times> 'w st" where
  "socket_view_set_opt_uint64 nng s nm v = (\<lambda>\<sigma>.
     check ''nng_socket_set_uint64''
       (call_int nng ''nng_socket_set_uint64'' [VId s, VS nm, VW v] \<sigma>))"

definition socket_view_set_opt_string ::
  "'w nng \<Rightarrow> i32 \<Rightarrow> string \<Rightarrow> string \<Rightarrow> 'w st \<Rightarrow> unit result \<times> 'w st" where
  "socket_view_set_opt_string nng s nm v = (\<lambda>\<sigma>.
     check ''nng_socket_set_string''
       (call_int nng ''nng_socket_set_string'' [VId s, VS nm, VS v] \<sigma>))"

definition socket_view_set_opt_ptr ::
  "'w nng \<Rightarrow> i32 \<Rightarrow> string \<Rightarrow> ptr \<Rightarrow> 'w st \<Rightarrow> unit result \<times> 'w st" where
  "socket_view_set_opt_ptr nng s nm v = (\<lambda>\<sigma>.
     check ''nng_socket_set_ptr''
       (call_int nng ''nng_socket_set_ptr'' [VId s, VS nm, VW v] \<sigma>))"

definition socket_view_set_opt_ms ::
  "'w nng \<Rightarrow> i32 \<Rightarrow> string \<Rightarrow> i32 \<Rightarrow> 'w st \<Rightarrow> unit result \<times> 'w st" where
  "socket_view_set_opt_ms nng s nm v = (\<lambda>\<sigma>.
     check ''nng_socket_set_ms''
       (call_int nng ''nng_socket_set_ms'' [VId s, VS nm, VI v] \<sigma>))"

definition socket_view_set_opt_addr ::
  "'w nng \<Rightarrow> i32 \<Rightarrow> string \<Rightarrow> byte list \<Rightarrow> 'w st \<Rightarrow> unit result \<times> 'w st" where
  "socket_view_set_opt_addr nng s nm v = (\<lambda>\<sigma>.
     check ''nng_socket_set_addr''
       (call_int nng ''nng_socket_set_addr'' [VId s, VS nm, VA v] \<sigma>))"

definition socket_view_get_opt ::
  "'w nng \<Rightarrow> i32 \<Rightarrow> string \<Rightarrow> view \<Rightarrow> 'w st \<Rightarrow> w64 result \<times> 'w st" where
  "socket_view_get_opt nng s nm buf = (\<lambda>\<sigma>.
     check_out ''nng_socket_get''
       (get_w64 nng ''nng_socket_get'' [VId s, VS nm, VW (v_data buf), VW (v_size buf)] \<sigma>))"

definition socket_view_get_opt_bool ::
  "'w nng \<Rightarrow> i32 \<Rightarrow> string \<Rightarrow> 'w st \<Rightarrow> bool result \<times> 'w st" where
  "socket_view_get_opt_bool nng s nm = (\<lambda>\<sigma>.
     check_out ''nng_socket_get_bool''
       (get_bool nng ''nng_socket_get_bool'' [VId s, VS nm] \<sigma>))"

definition socket_view_get_opt_int ::
  "'w nng \<Rightarrow> i32 \<Rightarrow> string \<Rightarrow> 'w st \<Rightarrow> i32 result \<times> 'w st" where
  "socket_view_get_opt_int nng s nm = (\<lambda>\<sigma>.
     check_out ''nng_socket_get_int''
       (get_int nng ''nng_socket_get_int'' [VId s, VS nm] \<sigma>))"

definition socket_view_get_opt_size ::
  "'w nng \<Rightarrow> i32 \<Rightarrow> string \<Rightarrow> 'w st \<Rightarrow> w64 result \<times> 'w st" where
  "socket_view_get_opt_size nng s nm = (\<lambda>\<sigma>.
     check_out ''nng_socket_get_size''
       (get_w64 nng ''nng_socket_get_size'' [VId s, VS nm] \<sigma>))"

definition socket_view_get_opt_uint64 ::
  "'w nng \<Rightarrow> i32 \<Rightarrow> string \<Rightarrow> 'w st \<Rightarrow> w64 result \<times> 'w st" where
  "socket_view_get_opt_uint64 nng s nm = (\<lambda>\<sigma>.
     check_out ''nng_socket_get_uint64''
       (get_w64 nng ''nng_socket_get_uint64'' [VId s, VS nm] \<sigma>))"

definition socket_view_get_opt_string ::
  "'w nng \<Rightarrow> i32 \<Rightarrow> string \<Rightarrow> 'w st \<Rightarrow> view result \<times> 'w st" where
  "socket_view_get_opt_string nng s nm = (\<lambda>\<sigma>.
     string_buffer (check_out ''nng_socket_get_string''
       (get_w64 nng ''nng_socket_get_string'' [VId s, VS nm] \<sigma>)))"

definition socket_view_get_opt_ptr ::
  "'w nng \<Rightarrow> i32 \<Rightarrow> string \<Rightarrow> 'w st \<Rightarrow> ptr result \<times> 'w st" where
  "socket_view_get_opt_ptr nng s nm = (\<lambda>\<sigma>.
     check_out ''nng_socket_get_ptr''
       (get_w64 nng ''nng_socket_get_ptr'' [VId s, VS nm] \<sigma>))"

definition socket_view_get_opt_ms ::
  "'w nng \<Rightarrow> i32 \<Rightarrow> string \<Rightarrow> 'w st \<Rightarrow> i32 result \<times> 'w st" where
  "socket_view_get_opt_ms nng s nm = (\<lambda>\<sigma>.
     check_out ''nng_socket_get_ms''
       (get_int nng ''nng_socket_get_ms'' [VId s, VS nm] \<sigma>))"

definition socket_view_get_opt_addr ::
  "'w nng \<Rightarrow> i32 \<Rightarrow> string \<Rightarrow> 'w st \<Rightarrow> byte list result \<times> 'w st" where
  "socket_view_get_opt_addr nng s nm = (\<lambda>\<sigma>.
     check_out ''nng_socket_get_addr''
       (get_addr nng ''nng_socket_get_addr'' [VId s, VS nm] \<sigma>))"

definition ctx_view_id ::
  "'w nng \<Rightarrow> i32 \<Rightarrow> 'w st \<Rightarrow> i32 \<times> 'w st" where
  "ctx_view_id nng c = (\<lambda>\<sigma>. call_int nng ''nng_ctx_id'' [VId c] \<sigma>)"

definition ctx_view_send ::
  "'w nng \<Rightarrow> i32 \<Rightarrow> ptr \<Rightarrow> 'w st \<Rightarrow> 'w st" where
  "ctx_view_send nng c a = (\<lambda>\<sigma>. call_unit nng ''nng_ctx_send'' [VId c, VW a] \<sigma>)"

definition ctx_view_recv ::
  "'w nng \<Rightarrow> i32 \<Rightarrow> ptr \<Rightarrow> 'w st \<Rightarrow> 'w st" where
  "ctx_view_recv nng c a = (\<lambda>\<sigma>. call_unit nng ''nng_ctx_recv'' [VId c, VW a] \<sigma>)"

definition ctx_view_set_opt ::
  "'w nng \<Rightarrow> i32 \<Rightarrow> string \<Rightarrow> view \<Rightarrow> 'w st \<Rightarrow> unit result \<times> 'w st" where
  "ctx_view_set_opt nng c nm v = (\<lambda>\<sigma>.
     check ''nng_ctx_set''
       (call_int nng ''nng_ctx_set'' [VId c, VS nm, VW (v_data v), VW (v_size v)] \<sigma>))"

definition ctx_view_set_opt_bool ::
  "'w nng \<Rightarrow> i32 \<Rightarrow> string \<Rightarrow> bool \<Rightarrow> 'w st \<Rightarrow> unit result \<times> 'w st" where
  "ctx_view_set_opt_bool nng c nm v = (\<lambda>\<sigma>.
     check ''nng_ctx_set_bool''
       (call_int nng ''nng_ctx_set_bool'' [VId c, VS nm, VB v] \<sigma>))"

definition ctx_view_set_opt_int ::
  "'w nng \<Rightarrow> i32 \<Rightarrow> string \<Rightarrow> i32 \<Rightarrow> 'w st \<Rightarrow> unit result \<times> 'w st" where
  "ctx_view_set_opt_int nng c nm v = (\<lambda>\<sigma>.
     check ''nng_ctx_set_int''
       (call_int nng ''nng_ctx_set_int'' [VId c, VS nm, VI v] \<sigma>))"

definition ctx_view_set_opt_size ::
  "'w nng \<Rightarrow> i32 \<Rightarrow> string \<Rightarrow> w64 \<Rightarrow> 'w st \<Rightarrow> unit result \<times> 'w st" where
  "ctx_view_set_opt_size nng c nm v = (\<lambda>\<sigma>.
     check ''nng_ctx_set_size''
       (call_int nng ''nng_ctx_set_size'' [VId c, VS nm, VW v] \<sigma>))"

definition ctx_view_set_opt_uint64 ::
  "'w nng \<Rightarrow> i32 \<Rightarrow> string \<Rightarrow> w64 \<Rightarrow> 'w st \<Rightarrow> unit result \<times> 'w st" where
  "ctx_view_set_opt_uint64 nng c nm v = (\<lambda>\<sigma>.
     check ''nng_ctx_set_uint64''
       (call_int nng ''nng_ctx_set_uint64'' [VId c, VS nm, VW v] \<sigma>))"

definition ctx_view_set_opt_string ::
  "'w nng \<Rightarrow> i32 \<Rightarrow> string \<Rightarrow> string \<Rightarrow> 'w st \<Rightarrow> unit result \<times> 'w st" where
  "ctx_view_set_opt_string nng c nm v = (\<lambda>\<sigma>.
     check ''nng_ctx_set_string''
       (call_int nng ''nng_ctx_set_string'' [VId c, VS nm, VS v] \<sigma>))"

definition ctx_view_set_opt_ptr ::
  "'w nng \<Rightarrow> i32 \<Rightarrow> string \<Rightarrow> ptr \<Rightarrow> 'w st \<Rightarrow> unit result \<times> 'w st" where
  "ctx_view_set_opt_ptr nng c nm v = (\<lambda>\<sigma>.
     check ''nng_ctx_set_ptr''
       (call_int nng ''nng_ctx_set_ptr'' [VId c, VS nm, VW v] \<sigma>))"

definition ctx_view_set_opt_ms ::
  "'w nng \<Rightarrow> i32 \<Rightarrow> string \<Rightarrow> i32 \<Rightarrow> 'w st \<Rightarrow> unit result \<times> 'w st" where
  "ctx_view_set_opt_ms nng c nm v = (\<lambda>\<sigma>.
     check ''nng_ctx_set_ms''
       (call_int nng ''nng_ctx_set_ms'' [VId c, VS nm, VI v] \<sigma>))"

definition ctx_view_set_opt_addr ::
  "'w nng \<Rightarrow> i32 \<Rightarrow> string \<Rightarrow> byte list \<Rightarrow> 'w st \<Rightarrow> unit result \<times> 'w st" where
  "ctx_view_set_opt_addr nng c nm v = (\<lambda>\<sigma>.
     check ''nng_ctx_set_addr''
       (call_int nng ''nng_ctx_set_addr'' [VId c, VS nm, VA v] \<sigma>))"

definition ctx_view_get_opt ::
  "'w nng \<Rightarrow> i32 \<Rightarrow> string \<Rightarrow> view \<Rightarrow> 'w st \<Rightarrow> w64 result \<times> 'w st" where
  "ctx_view_get_opt nng c nm buf = (\<lambda>\<sigma>.
     check_out ''nng_ctx_get''
       (get_w64 nng ''nng_ctx_get'' [VId c, VS nm, VW (v_data buf), VW (v_size buf)] \<sigma>))"

definition ctx_view_get_opt_bool ::
  "'w nng \<Rightarrow> i32 \<Rightarrow> string \<Rightarrow> 'w st \<Rightarrow> bool result \<times> 'w st" where
  "ctx_view_get_opt_bool nng c nm = (\<lambda>\<sigma>.
     check_out ''nng_ctx_get_bool''
       (get_bool nng ''nng_ctx_get_bool'' [VId c, VS nm] \<sigma>))"

definition ctx_view_get_opt_int ::
  "'w nng \<Rightarrow> i32 \<Rightarrow> string \<Rightarrow> 'w st \<Rightarrow> i32 result \<times> 'w st" where
  "ctx_view_get_opt_int nng c nm = (\<lambda>\<sigma>.
     check_out ''nng_ctx_get_int''
       (get_int nng ''nng_ctx_get_int'' [VId c, VS nm] \<sigma>))"

definition ctx_view_get_opt_size ::
  "'w nng \<Rightarrow> i32 \<Rightarrow> string \<Rightarrow> 'w st \<Rightarrow> w64 result \<times> 'w st" where
  "ctx_view_get_opt_size nng c nm = (\<lambda>\<sigma>.
     check_out ''nng_ctx_get_size''
       (get_w64 nng ''nng_ctx_get_size'' [VId c, VS nm] \<sigma>))"

definition ctx_view_get_opt_uint64 ::
  "'w nng \<Rightarrow> i32 \<Rightarrow> string \<Rightarrow> 'w st \<Rightarrow> w64 result \<times> 'w st" where
  "ctx_view_get_opt_uint64 nng c nm = (\<lambda>\<sigma>.
     check_out ''nng_ctx_get_uint64''
       (get_w64 nng ''nng_ctx_get_uint64'' [VId c, VS nm] \<sigma>))"

definition ctx_view_get_opt_string ::
  "'w nng \<Rightarrow> i32 \<Rightarrow> string \<Rightarrow> 'w st \<Rightarrow> view result \<times> 'w st" where
  "ctx_view_get_opt_string nng c nm = (\<lambda>\<sigma>.
     string_buffer (check_out ''nng_ctx_get_string''
       (get_w64 nng ''nng_ctx_get_string'' [VId c, VS nm] \<sigma>)))"

definition ctx_view_get_opt_ptr ::
  "'w nng \<Rightarrow> i32 \<Rightarrow> string \<Rightarrow> 'w st \<Rightarrow> ptr result \<times> 'w st" where
  "ctx_view_get_opt_ptr nng c nm = (\<lambda>\<sigma>.
     check_out ''nng_ctx_get_ptr''
       (get_w64 nng ''nng_ctx_get_ptr'' [VId c, VS nm] \<sigma>))"

definition ctx_view_get_opt_ms ::
  "'w nng \<Rightarrow> i32 \<Rightarrow> string \<Rightarrow> 'w st \<Rightarrow> i32 result \<times> 'w st" where
  "ctx_view_get_opt_ms nng c nm = (\<lambda>\<sigma>.
     check_out ''nng_ctx_get_ms'' (get_int nng ''nng_ctx_get_ms'' [VId c, VS nm] \<sigma>))"

definition ctx_view_get_opt_addr ::
  "'w nng \<Rightarrow> i32 \<Rightarrow> string \<Rightarrow> 'w st \<Rightarrow> byte list result \<times> 'w st" where
  "ctx_view_get_opt_addr nng c nm = (\<lambda>\<sigma>.
     check_out ''nng_ctx_get_addr''
       (get_addr nng ''nng_ctx_get_addr'' [VId c, VS nm] \<sigma>))"

definition pipe_view_get_socket :: "'w nng \<Rightarrow> i32 \<Rightarrow> 'w st \<Rightarrow> i32 \<times> 'w st" where
  "pipe_view_get_socket nng p = (\<lambda>\<sigma>. call_id nng ''nng_pipe_socket'' [VId p] \<sigma>)"

definition device :: "'w nng \<Rightarrow> i32 \<Rightarrow> i32 \<Rightarrow> 'w st \<Rightarrow> unit result \<times> 'w st" where
  "device nng lhs rhs = (\<lambda>\<sigma>. check ''nng_device'' (call_int nng ''nng_device'' [VId lhs, VId rhs] \<sigma>))"

section \<open>Options by name\<close>

definition socket_get_opt_socket_name ::
  "'w nng \<Rightarrow> i32 \<Rightarrow> 'w st \<Rightarrow> view result \<times> 'w st" where
  "socket_get_opt_socket_name nng s = (\<lambda>\<sigma>.
     socket_view_get_opt_string nng s (to_name nng socket_name) \<sigma>)"

definition socket_get_opt_raw ::
  "'w nng \<Rightarrow> i32 \<Rightarrow> 'w st \<Rightarrow> bool result \<times> 'w st" where
  "socket_get_opt_raw nng s = (\<lambda>\<sigma>. socket_view_get_opt_bool nng s (to_name nng raw) \<sigma>)"

definition socket_get_opt_protocol ::
  "'w nng \<Rightarrow> i32 \<Rightarrow> 'w st \<Rightarrow> i32 result \<times> 'w st" where
  "socket_get_opt_protocol nng s = (\<lambda>\<sigma>.
     socket_view_get_opt_int nng s (to_name nng protocol) \<sigma>)"

definition socket_get_opt_protocol_name ::
  "'w nng \<Rightarrow> i32 \<Rightarrow> 'w st \<Rightarrow> view result \<times> 'w st" where
  "socket_get_opt_protocol_name nng s = (\<lambda>\<sigma>.
     socket_view_get_opt_string nng s (to_name nng protocol_name) \<sigma>)"

definition socket_get_opt_peer ::
  "'w nng \<Rightarrow> i32 \<Rightarrow> 'w st \<Rightarrow> i32 result \<times> 'w st" where
  "socket_get_opt_peer nng s = (\<lambda>\<sigma>. socket_view_get_opt_int nng s (to_name nng peer) \<sigma>)"

definition socket_get_opt_peer_name ::
  "'w nng \<Rightarrow> i32 \<Rightarrow> 'w st \<Rightarrow> view result \<times> 'w st" where
  "socket_get_opt_peer_name nng s = (\<lambda>\<sigma>.
     socket_view_get_opt_string nng s (to_name nng peer_name) \<sigma>)"

definition socket_get_opt_recv_buffer ::
  "'w nng \<Rightarrow> i32 \<Rightarrow> 'w st \<Rightarrow> i32 result \<times> 'w st" where
  "socket_get_opt_recv_buffer nng s = (\<lambda>\<sigma>.
     socket_view_get_opt_int nng s (to_name nng recv_buffer) \<sigma>)"

definition socket_get_opt_send_buffer ::
  "'w nng \<Rightarrow> i32 \<Rightarrow> 'w st \<Rightarrow> i32 result \<times> 'w st" where
  "socket_get_opt_send_buffer nng s = (\<lambda>\<sigma>.
     socket_view_get_opt_int nng s (to_name nng send_buffer) \<sigma>)"

definition socket_get_opt_recv_fd ::
  "'w nng \<Rightarrow> i32 \<Rightarrow> 'w st \<Rightarrow> i32 result \<times> 'w st" where
  "socket_get_opt_recv_fd nng s = (\<lambda>\<sigma>.
     socket_view_get_opt_int nng s (to_name nng recv_fd) \<sigma>)"

definition socket_get_opt_send_fd ::
  "'w nng \<Rightarrow> i32 \<Rightarrow> 'w st \<Rightarrow> i32 result \<times> 'w st" where
  "socket_get_opt_send_fd nng s = (\<lambda>\<sigma>.
     socket_view_get_opt_int nng s (to_name nng send_fd) \<sigma>)"

definition socket_get_opt_recv_timeout ::
  "'w nng \<Rightarrow> i32 \<Rightarrow> 'w st \<Rightarrow> i32 result \<times> 'w st" where
  "socket_get_opt_recv_timeout nng s = (\<lambda>\<sigma>.
     socket_view_get_opt_ms nng s (to_name nng recv_timeout) \<sigma>)"

definition socket_get_opt_send_timeout ::
  "'w nng \<Rightarrow> i32 \<Rightarrow> 'w st \<Rightarrow> i32 result \<times> 'w st" where
  "socket_get_opt_send_timeout nng s = (\<lambda>\<sigma>.
     socket_view_get_opt_ms nng s (to_name nng send_timeout) \<sigma>)"

definition socket_get_opt_ttl_max ::
  "'w nng \<Rightarrow> i32 \<Rightarrow> 'w st \<Rightarrow> i32 result \<times> 'w st" where
  "socket_get_opt_ttl_max nng s = (\<lambda>\<sigma>.
     socket_view_get_opt_int nng s (to_name nng ttl_max) \<sigma>)"

definition socket_get_opt_recv_size_max ::
  "'w nng \<Rightarrow> i32 \<Rightarrow> 'w st \<Rightarrow> view result \<times> 'w st" where
  "socket_get_opt_recv_size_max nng s = (\<lambda>\<sigma>.
     socket_view_get_opt_string nng s (to_name nng recv_size_max) \<sigma>)"

definition socket_get_opt_reconnect_time_min ::
  "'w nng \<Rightarrow> i32 \<Rightarrow> 'w st \<Rightarrow> i32 result \<times> 'w st" where
  "socket_get_opt_reconnect_time_min nng s = (\<lambda>\<sigma>.
     socket_view_get_opt_ms nng s (to_name nng reconnect_time_min) \<sigma>)"

definition socket_get_opt_reconnect_time_max ::
  "'w nng \<Rightarrow> i32 \<Rightarrow> 'w st \<Rightarrow> i32 result \<times> 'w st" where
  "socket_get_opt_reconnect_time_max nng s = (\<lambda>\<sigma>.
     socket_view_get_opt_ms nng s (to_name nng reconnect_time_max) \<sigma>)"

definition socket_set_opt_socket_name ::
  "'w nng \<Rightarrow> i32 \<Rightarrow> string \<Rightarrow> 'w st \<Rightarrow> unit result \<times> 'w st" where
  "socket_set_opt_socket_name nng s v = (\<lambda>\<sigma>.
     socket_view_set_opt_string nng s (to_name nng socket_name) v \<sigma>)"

definition socket_set_opt_recv_buffer ::
  "'w nng \<Rightarrow> i32 \<Rightarrow> i32 \<Rightarrow> 'w st \<Rightarrow> unit result \<times> 'w st" where
  "socket_set_opt_recv_buffer nng s v = (\<lambda>\<sigma>.
     socket_view_set_opt_int nng s (to_name nng recv_buffer) v \<sigma>)"

definition socket_set_opt_send_buffer ::
  "'w nng \<Rightarrow> i32 \<Rightarrow> i32 \<Rightarrow> 'w st \<Rightarrow> unit result \<times> 'w st" where
  "socket_set_opt_send_buffer nng s v = (\<lambda>\<sigma>.
     socket_view_set_opt_int nng s (to_name nng send_buffer) v \<sigma>)"

definition socket_set_opt_recv_timeout ::
  "'w nng \<Rightarrow> i32 \<Rightarrow> i32 \<Rightarrow> 'w st \<Rightarrow> unit result \<times> 'w st" where
  "socket_set_opt_recv_timeout nng s v = (\<lambda>\<sigma>.
     socket_view_set_opt_ms nng s (to_name nng recv_timeout) v \<sigma>)"

definition socket_set_opt_send_timeout ::
  "'w nng \<Rightarrow> i32 \<Rightarrow> i32 \<Rightarrow> 'w st \<Rightarrow> unit result \<times> 'w st" where
  "socket_set_opt_send_timeout nng s v = (\<lambda>\<sigma>.
     socket_view_set_opt_ms nng s (to_name nng send_timeout) v \<sigma>)"

definition socket_set_opt_ttl_max ::
  "'w nng \<Rightarrow> i32 \<Rightarrow> i32 \<Rightarrow> 'w st \<Rightarrow> unit result \<times> 'w st" where
  "socket_set_opt_ttl_max nng s v = (\<lambda>\<sigma>.
     socket_view_set_opt_int nng s (to_name nng ttl_max) v \<sigma>)"

definition socket_set_opt_reconnect_time_min ::
  "'w nng \<Rightarrow> i32 \<Rightarrow> i32 \<Rightarrow> 'w st \<Rightarrow> unit result \<times> 'w st" where
  "socket_set_opt_reconnect_time_min nng s v = (\<lambda>\<sigma>.
     socket_view_set_opt_ms nng s (to_name nng reconnect_time_min) v \<sigma>)"

definition socket_set_opt_reconnect_time_max ::
  "'w nng \<Rightarrow> i32 \<Rightarrow> i32 \<Rightarrow> 'w st \<Rightarrow> unit result \<times> 'w st" where
  "socket_set_opt_reconnect_time_max nng s v = (\<lambda>\<sigma>.
     socket_view_set_opt_ms nng s (to_name nng reconnect_time_max) v \<sigma>)"

definition ctx_get_opt_recv_timeout ::
  "'w nng \<Rightarrow> i32 \<Rightarrow> 'w st \<Rightarrow> i32 result \<times> 'w st" where
  "ctx_get_opt_recv_timeout nng s = (\<lambda>\<sigma>.
     ctx_view_get_opt_ms nng s (to_name nng recv_timeout) \<sigma>)"

definition ctx_get_opt_send_timeout ::
  "'w nng \<Rightarrow> i32 \<Rightarrow> 'w st \<Rightarrow> i32 result \<times> 'w st" where
  "ctx_get_opt_send_timeout nng s = (\<lambda>\<sigma>.
     ctx_view_get_opt_ms nng s (to_name nng send_timeout) \<sigma>)"

definition ctx_set_opt_recv_timeout ::
  "'w nng \<Rightarrow> i32 \<Rightarrow> i32 \<Rightarrow> 'w st \<Rightarrow> unit result \<times> 'w st" where
  "ctx_set_opt_recv_timeout nng s v = (\<lambda>\<sigma>.
     ctx_view_set_opt_ms nng s (to_name nng recv_timeout) v \<sigma>)"

definition ctx_set_opt_send_timeout ::
  "'w nng \<Rightarrow> i32 \<Rightarrow> i32 \<Rightarrow> 'w st \<Rightarrow> unit result \<times> 'w st" where
  "ctx_set_opt_send_timeout nng s v = (\<lambda>\<sigma>.
     ctx_view_set_opt_ms nng s (to_name nng send_timeout) v \<sigma>)"

section \<open>Messages through a socket\<close>

text \<open>
  Programs that make, copy, move, free, send and receive messages. A message sent belongs to
  the socket, a message received to the object that \<open>msg m = s.recv_msg()\<close> constructs.
\<close>

datatype msg_op =
    Member "(ptr, msg_args) raii_op"
  | Send nat i32
  | Recv nat i32

fun msg_op_exec :: "'w nng \<Rightarrow> i32 \<Rightarrow> msg_op \<Rightarrow> (ptr, 'w) cfg \<Rightarrow> (ptr, 'w) outcome" where
  "msg_op_exec nng s (Member op) c = msg_exec nng op c"
| "msg_op_exec nng s (Send m flags) c =
     (case socket_view_send_msg nng s m flags c of
        (Ok _, c') \<Rightarrow> (Ok None, c') | (Throw e, c') \<Rightarrow> (Throw e, c') | (Ub, c') \<Rightarrow> (Ub, c'))"
| "msg_op_exec nng s (Recv this flags) c = m_acquire this (socket_view_recv_msg nng s flags) c"

definition msg_flow_ev :: "call \<Rightarrow> ptr event option" where
  "msg_flow_ev c =
     (if c_fn c = ''nng_sendmsg'' then
        (case (c_args c, c_ret c) of
           ([_, VW h, _], [VI r]) \<Rightarrow> if r = 0 then Some (Kill h) else None | _ \<Rightarrow> None)
      else ptr_ev [''nng_msg_alloc'', ''nng_msg_dup'', ''nng_recvmsg''] ''nng_msg_free'' c)"

text \<open>Only a message that is there may be sent.\<close>

fun msg_op_ok :: "msg_op \<Rightarrow> ptr store \<Rightarrow> ptr multiset \<Rightarrow> ptr option result \<Rightarrow> bool" where
  "msg_op_ok (Member op) S L r = class_ok {Copying, Acquiring} op S L r"
| "msg_op_ok (Send m flags) S L r = (S m \<noteq> None \<and> S m \<noteq> Some 0)"
| "msg_op_ok (Recv this flags) S L r = (S this = None)"

lemma msg_flow_calls:
  "releases msg_flow_ev (\<lambda>h. call_unit nng ''nng_msg_free'' [VW h])"
  "acquires msg_flow_ev (\<lambda>s. check_out src (get_w64 nng ''nng_msg_alloc'' args s))"
  "acquires msg_flow_ev (\<lambda>s. check_out src (get_w64 nng ''nng_recvmsg'' args s))"
  "duplicates msg_flow_ev (\<lambda>h old. get_w64 nng ''nng_msg_dup'' [VW old, VW h])"
  by (auto simp: msg_flow_ev_def ptr_ev_def releases_def acquires_def duplicates_def call_simps
      invoke_def split: prod.splits)

interpretation msg_member: owner_class True "{Copying, Acquiring}" "msg_exec nng" msg_flow_ev
  for nng :: "'w nng"
proof
  fix op
  show "conforms True {Copying, Acquiring} msg_flow_ev op (msg_exec nng op)"
    by (cases "(nng, op)" rule: msg_exec.cases; simp only: msg_exec.simps prod.inject;
        intro conforming msg_flow_calls; simp)
qed

interpretation msg_flow: flow True msg_op_ok "msg_op_exec nng sock" msg_flow_ev
  for nng :: "'w nng" and sock
proof
  fix op S s r S' s' L
  assume ex: "msg_op_exec nng sock op (S, s) = (r, S', s')" and ok: "msg_op_ok op S L r"
    and inv: "store_ok S L"
  show "\<exists>cs. st_log s' = st_log s @ cs \<and> books True S L (events msg_flow_ev cs) S' (released [r])"
  proof (cases op)
    case (Member op')
    with ex ok show ?thesis using msg_member.step [OF _ _ inv] by simp
  next
    case (Send m flags)
    with ok obtain h where h: "S m = Some h" "h \<noteq> 0" by auto
    obtain x s1 where c: "call_int nng ''nng_sendmsg'' [VId sock, VW h, VI flags] s = (x, s1)"
      by fastforce
    then have log: "st_log s1 = st_log s @
        [\<lparr>c_fn = ''nng_sendmsg'', c_args = [VId sock, VW h, VI flags], c_ret = [VI x]\<rparr>]"
      unfolding call_int_def by (rule invoke_log)
    show ?thesis
      using ex Send h c log books_send [OF inv h] books_nil [OF inv, of True]
      by (auto simp: socket_view_send_msg_def m_release_def msg_flow_ev_def
          intro!: exI [of _ "[\<lparr>c_fn = ''nng_sendmsg'', c_args = [VId sock, VW h, VI flags], c_ret = [VI x]\<rparr>]"]
          split: if_splits)
  next
    case (Recv this flags)
    let ?op = "Acquire this (Msg_alloc 0)"
    have conf: "conforms True {Copying, Acquiring} msg_flow_ev ?op
        (m_acquire this (socket_view_recv_msg nng sock flags))"
      unfolding socket_view_recv_msg_def by (intro conforms_acquire msg_flow_calls)
    have op: "op_ok {Copying, Acquiring} ?op S L" using ok Recv by simp
    have "m_acquire this (socket_view_recv_msg nng sock flags) (S, s) = (r, S', s')" using ex Recv by simp
    with conf op obtain cs where "st_log s' = st_log s @ cs" "own_step True ?op S r S' (events msg_flow_ev cs)"
      unfolding conforms_def by blast
    with own_step_safe [OF this(2) op inv] show ?thesis
      by (auto simp: books_def copy_assign_succeeds_def)
  qed
qed

section \<open>Properties\<close>

text \<open>C1: a program that makes, copies, moves, frees, sends and receives messages, and keeps to the
  rules of C++ (constructs where there is no object, adopts what nobody owns, does not copy an empty message) and whose
  copy assignments do not fail, frees or sends only messages it has, each reference once, and at its end every
  message it has not freed or sent is in an object or was handed out by \<open>release\<close>. The condition on copy assignment is
  needed: where \<open>nng_msg_dup\<close> fails in one, the message is freed twice, which is \<open>Messages.msg_copy_assign_double_free\<close>.\<close>

theorem message_flow_safe:
  assumes "run (msg_op_exec nng sock) ops (Map.empty, s) = (rs, S, s')"
    and "legal msg_op_ok (msg_op_exec nng sock) msg_flow_ev ops (Map.empty, s) {#}"
  shows "\<exists>cs. st_log s' = st_log s @ cs \<and> proper (events msg_flow_ev cs) {#} \<and>
    store_ok S (live (events msg_flow_ev cs) {#}) \<and>
    live (events msg_flow_ev cs) {#} - owned S \<subseteq># released rs"
  using msg_flow.run_safe [OF assms store_ok_empty] by (simp add: books_def)

definition echo_nng :: "w64 nng" where
  "echo_nng = idle_nng\<lparr>s_w64 := (\<lambda>_ _ (w, m). ((0, w + 1), w + 1, m))\<rparr>"

definition echo_program :: "msg_op list" where
  "echo_program = [Recv 0 0, Member (Copy_ctor 1 0), Send 0 0, Member (Move_assign 0 1), Send 0 0,
     Member (Dtor 0), Member (Dtor 1)]"

theorem message_flow_safe_witness:
  "\<exists>cs. st_log (snd (snd (run (msg_op_exec echo_nng 3) echo_program (Map.empty, start 0)))) =
      st_log (start (0 :: w64)) @ cs \<and> proper (events msg_flow_ev cs) {#}"
  using message_flow_safe [of echo_nng 3 echo_program "start 0"
      "fst (run (msg_op_exec echo_nng 3) echo_program (Map.empty, start 0))"
      "fst (snd (run (msg_op_exec echo_nng 3) echo_program (Map.empty, start 0)))"
      "snd (snd (run (msg_op_exec echo_nng 3) echo_program (Map.empty, start 0)))"]
  by (simp add: echo_program_def member_simps call_simps invoke_def echo_nng_def start_def
      copy_assign_succeeds_def class_ok_def socket_view_recv_msg_def socket_view_send_msg_def)

text \<open>C31: sending a message either transfers it, and the object is empty, or throws and the object
  still has it, so that the caller can try again; the exception is the failure of
  \<open>nng_sendmsg\<close>.\<close>

theorem send_msg_transfers_or_keeps:
  assumes "S m = Some h"
  shows "\<exists>r s'. st_log s' = st_log s @ [\<lparr>c_fn = ''nng_sendmsg'', c_args = [VId k, VW h, VI flags], c_ret = [VI r]\<rparr>] \<and>
    socket_view_send_msg nng k m flags (S, s) =
      (if r = 0 then (Ok (), S(m \<mapsto> 0), s') else (Throw (exception r ''nng_sendmsg''), S, s'))"
proof -
  obtain r s' where c: "call_int nng ''nng_sendmsg'' [VId k, VW h, VI flags] s = (r, s')" by fastforce
  then have "st_log s' = st_log s @
      [\<lparr>c_fn = ''nng_sendmsg'', c_args = [VId k, VW h, VI flags], c_ret = [VI r]\<rparr>]"
    unfolding call_int_def by (rule invoke_log)
  with assms c show ?thesis
    by (intro exI [of _ r] exI [of _ s']) (simp add: socket_view_send_msg_def m_release_def)
qed

theorem send_msg_transfers_or_keeps_witness:
  "\<exists>r s'. socket_view_send_msg idle_nng 3 0 0 ([0 \<mapsto> 5], start ()) =
     (if r = 0 then (Ok (), [0 \<mapsto> 0], s') else (Throw (exception r ''nng_sendmsg''), [0 \<mapsto> 5], s'))"
  using send_msg_transfers_or_keeps [of "[0 \<mapsto> 5]" 0 5 "start ()" 3 0 idle_nng] by auto

text \<open>C32: the flag that makes nng own the memory is set in every call that hands over or asks for a
  buffer, and clear in every call that lends memory of the caller, whatever flags the caller
  passes; sending a buffer moves its memory into the socket or leaves it with the buffer.\<close>

theorem send_recv_flags:
  assumes "S b = Some v"
  shows "(\<exists>f r. st_log (snd (socket_view_send nng k u flags s)) = st_log s @
      [\<lparr>c_fn = ''nng_send'', c_args = [VId k, VW (v_data u), VW (v_size u), VI f], c_ret = [VI r]\<rparr>] \<and>
      f AND flag_alloc nng = 0) \<and>
    (\<exists>f r. st_log (snd (snd (socket_view_send_buffer nng k b flags (S, s)))) = st_log s @
      [\<lparr>c_fn = ''nng_send'', c_args = [VId k, VW (v_data v), VW (v_size v), VI f], c_ret = [VI r]\<rparr>] \<and>
      f AND flag_alloc nng = flag_alloc nng \<and>
      fst (snd (socket_view_send_buffer nng k b flags (S, s))) = (if r = 0 then S(b \<mapsto> view_default) else S)) \<and>
    (\<exists>f ret. st_log (snd (socket_view_recv nng k u flags s)) = st_log s @
      [\<lparr>c_fn = ''nng_recv'', c_args = [VId k, VW (v_data u), VW (v_size u), VI f], c_ret = ret\<rparr>] \<and>
      f AND flag_alloc nng = 0) \<and>
    (\<exists>f ret. st_log (snd (socket_view_recv_buffer nng k flags s)) = st_log s @
      [\<lparr>c_fn = ''nng_recv'', c_args = [VId k, VI f], c_ret = ret\<rparr>] \<and>
      f AND flag_alloc nng = flag_alloc nng)"
proof (intro conjI)
  let ?off = "flags AND NOT (flag_alloc nng)" and ?on = "flags OR flag_alloc nng"
  show "\<exists>f r. st_log (snd (socket_view_send nng k u flags s)) = st_log s @
      [\<lparr>c_fn = ''nng_send'', c_args = [VId k, VW (v_data u), VW (v_size u), VI f], c_ret = [VI r]\<rparr>] \<and>
      f AND flag_alloc nng = 0"
    by (rule exI [of _ ?off]) (simp add: socket_view_send_def call_logs)
  obtain r s' where c: "call_int nng ''nng_send'' [VId k, VW (v_data v), VW (v_size v), VI ?on] s = (r, s')"
    by fastforce
  then have "st_log s' = st_log s @
      [\<lparr>c_fn = ''nng_send'', c_args = [VId k, VW (v_data v), VW (v_size v), VI ?on], c_ret = [VI r]\<rparr>]"
    unfolding call_int_def by (rule invoke_log)
  with assms c show "\<exists>f r. st_log (snd (snd (socket_view_send_buffer nng k b flags (S, s)))) = st_log s @
      [\<lparr>c_fn = ''nng_send'', c_args = [VId k, VW (v_data v), VW (v_size v), VI f], c_ret = [VI r]\<rparr>] \<and>
      f AND flag_alloc nng = flag_alloc nng \<and>
      fst (snd (socket_view_send_buffer nng k b flags (S, s))) = (if r = 0 then S(b \<mapsto> view_default) else S)"
    by (intro exI [of _ ?on] exI [of _ r]) (simp add: socket_view_send_buffer_def buffer_release_def)
  show "\<exists>f ret. st_log (snd (socket_view_recv nng k u flags s)) = st_log s @
      [\<lparr>c_fn = ''nng_recv'', c_args = [VId k, VW (v_data u), VW (v_size u), VI f], c_ret = ret\<rparr>] \<and>
      f AND flag_alloc nng = 0"
    by (rule exI [of _ ?off]) (simp add: socket_view_recv_def call_logs)
  show "\<exists>f ret. st_log (snd (socket_view_recv_buffer nng k flags s)) = st_log s @
      [\<lparr>c_fn = ''nng_recv'', c_args = [VId k, VI f], c_ret = ret\<rparr>] \<and>
      f AND flag_alloc nng = flag_alloc nng"
    by (rule exI [of _ ?on])
      (auto simp: socket_view_recv_buffer_def check_out_def get_buf_def invoke_def split: prod.splits)
qed

theorem send_recv_flags_witness:
  "\<exists>f. st_log (snd (socket_view_recv_buffer idle_nng 3 1 (start ()))) =
     [\<lparr>c_fn = ''nng_recv'', c_args = [VId 3, VI f], c_ret = [VI 0, VW 0, VW 0]\<rparr>]"
  using send_recv_flags [of "[0 \<mapsto> view_of 16 2]" 0 "view_of 16 2" idle_nng 3 view_default 1 "start ()"]
  by (auto simp: start_def socket_view_recv_buffer_def check_out_def get_buf_def invoke_def)

text \<open>\<open>move assignment\<close> to a socket that is in use closes it first. When closing fails for a
  reason other than that it is closed already, the assignment throws and both objects are as
  they were; otherwise the handle has moved.\<close>

theorem socket_move_assign_strong:
  assumes "S a = Some h" "S b = Some h'" "a \<noteq> b" "h \<noteq> 0"
  shows "\<exists>r s'. st_log s' = st_log s @ [\<lparr>c_fn = ''nng_close'', c_args = [VId h], c_ret = [VI r]\<rparr>] \<and>
    socket_exec nng (Move_assign a b) (S, s) =
      (if r = 0 \<or> r = error_val nng closed then (Ok None, S(a \<mapsto> h', b \<mapsto> 0), s')
       else (Throw (exception r ''nng_close''), S, s'))"
proof -
  obtain r s' where c: "call_int nng ''nng_close'' [VId h] s = (r, s')" by fastforce
  then have "st_log s' = st_log s @ [\<lparr>c_fn = ''nng_close'', c_args = [VId h], c_ret = [VI r]\<rparr>]"
    unfolding call_int_def by (rule invoke_log)
  with assms c show ?thesis
    by (intro exI [of _ r] exI [of _ s']) (simp add: m_close_move_assign_def)
qed

theorem socket_move_assign_strong_witness:
  "\<exists>r s'. socket_exec idle_nng (Move_assign 0 1) ([0 \<mapsto> 5, 1 \<mapsto> 7], start ()) =
     (if r = 0 \<or> r = error_val (idle_nng :: unit nng) closed then (Ok None, [0 \<mapsto> 7, 1 \<mapsto> 0], s')
      else (Throw (exception r ''nng_close''), [0 \<mapsto> 5, 1 \<mapsto> 7], s'))"
  using socket_move_assign_strong [of "[0 \<mapsto> 5, 1 \<mapsto> 7]" 0 5 1 7 "start ()" idle_nng]
  by (auto simp: fun_upd_twist)

lemmas socket_methods_report_defs =
  socket_view_pipe_notify_def socket_view_set_opt_def socket_view_set_opt_bool_def
  socket_view_set_opt_int_def socket_view_set_opt_size_def socket_view_set_opt_uint64_def
  socket_view_set_opt_string_def socket_view_set_opt_ptr_def socket_view_set_opt_ms_def
  socket_view_set_opt_addr_def socket_view_get_opt_def socket_view_get_opt_bool_def
  socket_view_get_opt_int_def socket_view_get_opt_size_def socket_view_get_opt_uint64_def
  socket_view_get_opt_string_def socket_view_get_opt_ptr_def socket_view_get_opt_ms_def
  socket_view_get_opt_addr_def ctx_view_set_opt_def ctx_view_set_opt_bool_def
  ctx_view_set_opt_int_def ctx_view_set_opt_size_def ctx_view_set_opt_uint64_def
  ctx_view_set_opt_string_def ctx_view_set_opt_ptr_def ctx_view_set_opt_ms_def
  ctx_view_set_opt_addr_def ctx_view_get_opt_def ctx_view_get_opt_bool_def
  ctx_view_get_opt_int_def ctx_view_get_opt_size_def ctx_view_get_opt_uint64_def
  ctx_view_get_opt_string_def ctx_view_get_opt_ptr_def ctx_view_get_opt_ms_def
  ctx_view_get_opt_addr_def socket_view_dial_def socket_view_listen_def socket_view_send_def
  socket_view_recv_def socket_view_recv_msg_def device_def

text \<open>Every method of a socket and a context that makes one checked call throws 
  exactly when that call returns a nonzero status, and the exception carries that status and the
  name of that function.\<close>

theorem socket_methods_report:
  "(\<forall>s ev cb arg. reports_failure (socket_view_pipe_notify nng s ev cb arg)) \<and>
    (\<forall>s nm v. reports_failure (socket_view_set_opt nng s nm v)) \<and>
    (\<forall>s nm v. reports_failure (socket_view_set_opt_bool nng s nm v)) \<and>
    (\<forall>s nm v. reports_failure (socket_view_set_opt_int nng s nm v)) \<and>
    (\<forall>s nm v. reports_failure (socket_view_set_opt_size nng s nm v)) \<and>
    (\<forall>s nm v. reports_failure (socket_view_set_opt_uint64 nng s nm v)) \<and>
    (\<forall>s nm v. reports_failure (socket_view_set_opt_string nng s nm v)) \<and>
    (\<forall>s nm v. reports_failure (socket_view_set_opt_ptr nng s nm v)) \<and>
    (\<forall>s nm v. reports_failure (socket_view_set_opt_ms nng s nm v)) \<and>
    (\<forall>s nm v. reports_failure (socket_view_set_opt_addr nng s nm v)) \<and>
    (\<forall>s nm buf. reports_failure (socket_view_get_opt nng s nm buf)) \<and>
    (\<forall>s nm. reports_failure (socket_view_get_opt_bool nng s nm)) \<and>
    (\<forall>s nm. reports_failure (socket_view_get_opt_int nng s nm)) \<and>
    (\<forall>s nm. reports_failure (socket_view_get_opt_size nng s nm)) \<and>
    (\<forall>s nm. reports_failure (socket_view_get_opt_uint64 nng s nm)) \<and>
    (\<forall>s nm. reports_failure (socket_view_get_opt_string nng s nm)) \<and>
    (\<forall>s nm. reports_failure (socket_view_get_opt_ptr nng s nm)) \<and>
    (\<forall>s nm. reports_failure (socket_view_get_opt_ms nng s nm)) \<and>
    (\<forall>s nm. reports_failure (socket_view_get_opt_addr nng s nm)) \<and>
    (\<forall>c nm v. reports_failure (ctx_view_set_opt nng c nm v)) \<and>
    (\<forall>c nm v. reports_failure (ctx_view_set_opt_bool nng c nm v)) \<and>
    (\<forall>c nm v. reports_failure (ctx_view_set_opt_int nng c nm v)) \<and>
    (\<forall>c nm v. reports_failure (ctx_view_set_opt_size nng c nm v)) \<and>
    (\<forall>c nm v. reports_failure (ctx_view_set_opt_uint64 nng c nm v)) \<and>
    (\<forall>c nm v. reports_failure (ctx_view_set_opt_string nng c nm v)) \<and>
    (\<forall>c nm v. reports_failure (ctx_view_set_opt_ptr nng c nm v)) \<and>
    (\<forall>c nm v. reports_failure (ctx_view_set_opt_ms nng c nm v)) \<and>
    (\<forall>c nm v. reports_failure (ctx_view_set_opt_addr nng c nm v)) \<and>
    (\<forall>c nm buf. reports_failure (ctx_view_get_opt nng c nm buf)) \<and>
    (\<forall>c nm. reports_failure (ctx_view_get_opt_bool nng c nm)) \<and>
    (\<forall>c nm. reports_failure (ctx_view_get_opt_int nng c nm)) \<and>
    (\<forall>c nm. reports_failure (ctx_view_get_opt_size nng c nm)) \<and>
    (\<forall>c nm. reports_failure (ctx_view_get_opt_uint64 nng c nm)) \<and>
    (\<forall>c nm. reports_failure (ctx_view_get_opt_string nng c nm)) \<and>
    (\<forall>c nm. reports_failure (ctx_view_get_opt_ptr nng c nm)) \<and>
    (\<forall>c nm. reports_failure (ctx_view_get_opt_ms nng c nm)) \<and>
    (\<forall>c nm. reports_failure (ctx_view_get_opt_addr nng c nm)) \<and>
    (\<forall>s addr flags. reports_failure (socket_view_dial nng s addr flags)) \<and>
    (\<forall>s addr flags. reports_failure (socket_view_listen nng s addr flags)) \<and>
    (\<forall>s buf flags. reports_failure (socket_view_send nng s buf flags)) \<and>
    (\<forall>s buf flags. reports_failure (socket_view_recv nng s buf flags)) \<and>
    (\<forall>s flags. reports_failure (socket_view_recv_msg nng s flags)) \<and>
    (\<forall>lhs rhs. reports_failure (device nng lhs rhs))"
  unfolding socket_methods_report_defs
  by (intro conjI allI reports_check reports_get reports_get_buf reports_string reports_as_u16)

lemmas socket_options_typed_defs =
  socket_get_opt_socket_name_def socket_get_opt_raw_def socket_get_opt_protocol_def
  socket_get_opt_protocol_name_def socket_get_opt_peer_def socket_get_opt_peer_name_def
  socket_get_opt_recv_buffer_def socket_get_opt_send_buffer_def socket_get_opt_recv_fd_def
  socket_get_opt_send_fd_def socket_get_opt_recv_timeout_def socket_get_opt_send_timeout_def
  socket_get_opt_ttl_max_def socket_get_opt_reconnect_time_min_def
  socket_get_opt_reconnect_time_max_def socket_set_opt_socket_name_def
  socket_set_opt_recv_buffer_def socket_set_opt_send_buffer_def socket_set_opt_recv_timeout_def
  socket_set_opt_send_timeout_def socket_set_opt_ttl_max_def
  socket_set_opt_reconnect_time_min_def socket_set_opt_reconnect_time_max_def
  ctx_get_opt_recv_timeout_def ctx_get_opt_send_timeout_def ctx_set_opt_recv_timeout_def
  ctx_set_opt_send_timeout_def

text \<open>C33: every accessor by name of a socket and a context, but one, reads or writes the option it is
  named after through the nng function for the type of that option in the table of
  \<open>option.h\<close>.\<close>

theorem socket_options_typed:
  "(\<forall>s. reads_option ''nng_socket'' (VId s) (to_name nng socket_name) (to_type socket_name) (socket_get_opt_socket_name nng s)) \<and>
    (\<forall>s. reads_option ''nng_socket'' (VId s) (to_name nng raw) (to_type raw) (socket_get_opt_raw nng s)) \<and>
    (\<forall>s. reads_option ''nng_socket'' (VId s) (to_name nng protocol) (to_type protocol) (socket_get_opt_protocol nng s)) \<and>
    (\<forall>s. reads_option ''nng_socket'' (VId s) (to_name nng protocol_name) (to_type protocol_name) (socket_get_opt_protocol_name nng s)) \<and>
    (\<forall>s. reads_option ''nng_socket'' (VId s) (to_name nng peer) (to_type peer) (socket_get_opt_peer nng s)) \<and>
    (\<forall>s. reads_option ''nng_socket'' (VId s) (to_name nng peer_name) (to_type peer_name) (socket_get_opt_peer_name nng s)) \<and>
    (\<forall>s. reads_option ''nng_socket'' (VId s) (to_name nng recv_buffer) (to_type recv_buffer) (socket_get_opt_recv_buffer nng s)) \<and>
    (\<forall>s. reads_option ''nng_socket'' (VId s) (to_name nng send_buffer) (to_type send_buffer) (socket_get_opt_send_buffer nng s)) \<and>
    (\<forall>s. reads_option ''nng_socket'' (VId s) (to_name nng recv_fd) (to_type recv_fd) (socket_get_opt_recv_fd nng s)) \<and>
    (\<forall>s. reads_option ''nng_socket'' (VId s) (to_name nng send_fd) (to_type send_fd) (socket_get_opt_send_fd nng s)) \<and>
    (\<forall>s. reads_option ''nng_socket'' (VId s) (to_name nng recv_timeout) (to_type recv_timeout) (socket_get_opt_recv_timeout nng s)) \<and>
    (\<forall>s. reads_option ''nng_socket'' (VId s) (to_name nng send_timeout) (to_type send_timeout) (socket_get_opt_send_timeout nng s)) \<and>
    (\<forall>s. reads_option ''nng_socket'' (VId s) (to_name nng ttl_max) (to_type ttl_max) (socket_get_opt_ttl_max nng s)) \<and>
    (\<forall>s. reads_option ''nng_socket'' (VId s) (to_name nng reconnect_time_min) (to_type reconnect_time_min) (socket_get_opt_reconnect_time_min nng s)) \<and>
    (\<forall>s. reads_option ''nng_socket'' (VId s) (to_name nng reconnect_time_max) (to_type reconnect_time_max) (socket_get_opt_reconnect_time_max nng s)) \<and>
    (\<forall>s v. writes_option ''nng_socket'' (VId s) (to_name nng socket_name) (to_type socket_name) (VS v) (socket_set_opt_socket_name nng s v)) \<and>
    (\<forall>s v. writes_option ''nng_socket'' (VId s) (to_name nng recv_buffer) (to_type recv_buffer) (VI v) (socket_set_opt_recv_buffer nng s v)) \<and>
    (\<forall>s v. writes_option ''nng_socket'' (VId s) (to_name nng send_buffer) (to_type send_buffer) (VI v) (socket_set_opt_send_buffer nng s v)) \<and>
    (\<forall>s v. writes_option ''nng_socket'' (VId s) (to_name nng recv_timeout) (to_type recv_timeout) (VI v) (socket_set_opt_recv_timeout nng s v)) \<and>
    (\<forall>s v. writes_option ''nng_socket'' (VId s) (to_name nng send_timeout) (to_type send_timeout) (VI v) (socket_set_opt_send_timeout nng s v)) \<and>
    (\<forall>s v. writes_option ''nng_socket'' (VId s) (to_name nng ttl_max) (to_type ttl_max) (VI v) (socket_set_opt_ttl_max nng s v)) \<and>
    (\<forall>s v. writes_option ''nng_socket'' (VId s) (to_name nng reconnect_time_min) (to_type reconnect_time_min) (VI v) (socket_set_opt_reconnect_time_min nng s v)) \<and>
    (\<forall>s v. writes_option ''nng_socket'' (VId s) (to_name nng reconnect_time_max) (to_type reconnect_time_max) (VI v) (socket_set_opt_reconnect_time_max nng s v)) \<and>
    (\<forall>s. reads_option ''nng_ctx'' (VId s) (to_name nng recv_timeout) (to_type recv_timeout) (ctx_get_opt_recv_timeout nng s)) \<and>
    (\<forall>s. reads_option ''nng_ctx'' (VId s) (to_name nng send_timeout) (to_type send_timeout) (ctx_get_opt_send_timeout nng s)) \<and>
    (\<forall>s v. writes_option ''nng_ctx'' (VId s) (to_name nng recv_timeout) (to_type recv_timeout) (VI v) (ctx_set_opt_recv_timeout nng s v)) \<and>
    (\<forall>s v. writes_option ''nng_ctx'' (VId s) (to_name nng send_timeout) (to_type send_timeout) (VI v) (ctx_set_opt_send_timeout nng s v))"
  unfolding socket_options_typed_defs option_access socket_methods_report_defs
  by (intro conjI allI; simp)

text \<open>The one that does not: \<open>recv_size_max\<close> is an option of type \<open>size\<close>, as a dialer and
  a listener read it, and the socket reads it as a string.\<close>

theorem socket_recv_size_max_mistyped:
  "to_type recv_size_max = size_opt \<and>
   (\<forall>s. reads_option ''nng_socket'' (VId s) (to_name nng recv_size_max) string_opt
      (socket_get_opt_recv_size_max nng s)) \<and>
   (\<forall>s. \<not> reads_option ''nng_socket'' (VId s) (to_name nng recv_size_max) (to_type recv_size_max)
      (socket_get_opt_recv_size_max nng s))"
  by (simp add: option_access socket_get_opt_recv_size_max_def socket_view_get_opt_string_def)

text \<open>An option read as a string is returned as a buffer over the text and its terminator, and
  nothing more.\<close>

theorem socket_string_option_buffer:
  assumes "s_w64 nng ''nng_socket_get_string'' [VId k, VS nm] (st_lib s, st_mem s) = ((0, p), w, m)"
    and "c_string m p xs"
  shows "\<exists>v s'. socket_view_get_opt_string nng k nm s = (Ok v, s') \<and> v_data v = p \<and>
    view_bytes (st_mem s') v = Some (xs @ [0])"
proof -
  have "socket_view_get_opt_string nng k nm s =
      (Ok (view_of p (of_nat (length xs) + 1)),
       \<lparr>st_lib = w, st_mem = m, st_log = st_log s @
          [\<lparr>c_fn = ''nng_socket_get_string'', c_args = [VId k, VS nm], c_ret = [VI 0, VW p]\<rparr>]\<rparr>)"
    using assms string_buffer_c_string [of "\<lparr>st_lib = w, st_mem = m, st_log = st_log s @
          [\<lparr>c_fn = ''nng_socket_get_string'', c_args = [VId k, VS nm], c_ret = [VI 0, VW p]\<rparr>]\<rparr>" p xs]
    by (simp add: socket_view_get_opt_string_def check_out_def get_w64_def invoke_def)
  with c_string_bytes(2) [OF assms(2)] show ?thesis by simp
qed

definition name_nng :: "unit nng" where
  "name_nng = idle_nng\<lparr>s_w64 := (\<lambda>_ _ (w, m). ((0, 16), w, m(16 \<mapsto> 97, 17 \<mapsto> 0)))\<rparr>"

theorem socket_string_option_buffer_witness:
  "\<exists>v s'. socket_view_get_opt_string name_nng 3 ''name'' (start ()) = (Ok v, s') \<and> v_data v = 16 \<and>
    view_bytes (st_mem s') v = Some [97, 0]"
  using socket_string_option_buffer [of name_nng 3 "''name''" "start ()" 16 "()" "[16 \<mapsto> 97, 17 \<mapsto> 0]" "[97]"]
  by (simp add: name_nng_def start_def c_string_def read_bytes_Suc)

end
