(* ===== verification/Protocols.thy ===== *)
theory Protocols
  imports Sockets
begin

text \<open>
  \<open>include/nngpp/protocol/\<close>: how a socket of each protocol is opened, and the options of
  the protocols that have some. \<open>open\<close> returns the id that the new \<open>nng::socket\<close> holds.
  The options are tables of their own, read by position as in \<open>option.h\<close>.
\<close>

section \<open>Opening sockets\<close>

definition bus0_open :: "'w nng \<Rightarrow> 'w st \<Rightarrow> i32 result \<times> 'w st" where
  "bus0_open nng = (\<lambda>\<sigma>. check_out ''nng_bus0_open'' (get_id nng ''nng_bus0_open'' [] \<sigma>))"

definition bus0_open_raw ::
  "'w nng \<Rightarrow> 'w st \<Rightarrow> i32 result \<times> 'w st" where
  "bus0_open_raw nng = (\<lambda>\<sigma>.
     check_out ''nng_bus0_open_raw'' (get_id nng ''nng_bus0_open_raw'' [] \<sigma>))"

definition pair0_open :: "'w nng \<Rightarrow> 'w st \<Rightarrow> i32 result \<times> 'w st" where
  "pair0_open nng = (\<lambda>\<sigma>.
     check_out ''nng_pair0_open'' (get_id nng ''nng_pair0_open'' [] \<sigma>))"

definition pair0_open_raw ::
  "'w nng \<Rightarrow> 'w st \<Rightarrow> i32 result \<times> 'w st" where
  "pair0_open_raw nng = (\<lambda>\<sigma>.
     check_out ''nng_pair0_open_raw'' (get_id nng ''nng_pair0_open_raw'' [] \<sigma>))"

definition pub0_open :: "'w nng \<Rightarrow> 'w st \<Rightarrow> i32 result \<times> 'w st" where
  "pub0_open nng = (\<lambda>\<sigma>. check_out ''nng_pub0_open'' (get_id nng ''nng_pub0_open'' [] \<sigma>))"

definition pub0_open_raw ::
  "'w nng \<Rightarrow> 'w st \<Rightarrow> i32 result \<times> 'w st" where
  "pub0_open_raw nng = (\<lambda>\<sigma>.
     check_out ''nng_pub0_open_raw'' (get_id nng ''nng_pub0_open_raw'' [] \<sigma>))"

definition pull0_open :: "'w nng \<Rightarrow> 'w st \<Rightarrow> i32 result \<times> 'w st" where
  "pull0_open nng = (\<lambda>\<sigma>.
     check_out ''nng_pull0_open'' (get_id nng ''nng_pull0_open'' [] \<sigma>))"

definition pull0_open_raw ::
  "'w nng \<Rightarrow> 'w st \<Rightarrow> i32 result \<times> 'w st" where
  "pull0_open_raw nng = (\<lambda>\<sigma>.
     check_out ''nng_pull0_open_raw'' (get_id nng ''nng_pull0_open_raw'' [] \<sigma>))"

definition push0_open :: "'w nng \<Rightarrow> 'w st \<Rightarrow> i32 result \<times> 'w st" where
  "push0_open nng = (\<lambda>\<sigma>.
     check_out ''nng_push0_open'' (get_id nng ''nng_push0_open'' [] \<sigma>))"

definition push0_open_raw ::
  "'w nng \<Rightarrow> 'w st \<Rightarrow> i32 result \<times> 'w st" where
  "push0_open_raw nng = (\<lambda>\<sigma>.
     check_out ''nng_push0_open_raw'' (get_id nng ''nng_push0_open_raw'' [] \<sigma>))"

definition rep0_open :: "'w nng \<Rightarrow> 'w st \<Rightarrow> i32 result \<times> 'w st" where
  "rep0_open nng = (\<lambda>\<sigma>. check_out ''nng_rep0_open'' (get_id nng ''nng_rep0_open'' [] \<sigma>))"

definition rep0_open_raw ::
  "'w nng \<Rightarrow> 'w st \<Rightarrow> i32 result \<times> 'w st" where
  "rep0_open_raw nng = (\<lambda>\<sigma>.
     check_out ''nng_rep0_open_raw'' (get_id nng ''nng_rep0_open_raw'' [] \<sigma>))"

definition req0_open :: "'w nng \<Rightarrow> 'w st \<Rightarrow> i32 result \<times> 'w st" where
  "req0_open nng = (\<lambda>\<sigma>. check_out ''nng_req0_open'' (get_id nng ''nng_req0_open'' [] \<sigma>))"

definition req0_open_raw ::
  "'w nng \<Rightarrow> 'w st \<Rightarrow> i32 result \<times> 'w st" where
  "req0_open_raw nng = (\<lambda>\<sigma>.
     check_out ''nng_req0_open_raw'' (get_id nng ''nng_req0_open_raw'' [] \<sigma>))"

definition respond0_open ::
  "'w nng \<Rightarrow> 'w st \<Rightarrow> i32 result \<times> 'w st" where
  "respond0_open nng = (\<lambda>\<sigma>.
     check_out ''nng_respondent0_open'' (get_id nng ''nng_respondent0_open'' [] \<sigma>))"

definition respond0_open_raw ::
  "'w nng \<Rightarrow> 'w st \<Rightarrow> i32 result \<times> 'w st" where
  "respond0_open_raw nng = (\<lambda>\<sigma>.
     check_out ''nng_respondent0_open_raw''
       (get_id nng ''nng_respondent0_open_raw'' [] \<sigma>))"

definition sub0_open :: "'w nng \<Rightarrow> 'w st \<Rightarrow> i32 result \<times> 'w st" where
  "sub0_open nng = (\<lambda>\<sigma>. check_out ''nng_sub0_open'' (get_id nng ''nng_sub0_open'' [] \<sigma>))"

definition sub0_open_raw ::
  "'w nng \<Rightarrow> 'w st \<Rightarrow> i32 result \<times> 'w st" where
  "sub0_open_raw nng = (\<lambda>\<sigma>.
     check_out ''nng_sub0_open_raw'' (get_id nng ''nng_sub0_open_raw'' [] \<sigma>))"

definition survey0_open ::
  "'w nng \<Rightarrow> 'w st \<Rightarrow> i32 result \<times> 'w st" where
  "survey0_open nng = (\<lambda>\<sigma>.
     check_out ''nng_surveyor0_open'' (get_id nng ''nng_surveyor0_open'' [] \<sigma>))"

definition survey0_open_raw ::
  "'w nng \<Rightarrow> 'w st \<Rightarrow> i32 result \<times> 'w st" where
  "survey0_open_raw nng = (\<lambda>\<sigma>.
     check_out ''nng_surveyor0_open_raw''
       (get_id nng ''nng_surveyor0_open_raw'' [] \<sigma>))"

definition pair1_open :: "'w nng \<Rightarrow> 'w st \<Rightarrow> i32 result \<times> 'w st" where
  "pair1_open nng = (\<lambda>\<sigma>.
     check_out ''nng_pair1_open'' (get_id nng ''nng_pair1_open'' [] \<sigma>))"

definition pair1_open_raw ::
  "'w nng \<Rightarrow> 'w st \<Rightarrow> i32 result \<times> 'w st" where
  "pair1_open_raw nng = (\<lambda>\<sigma>.
     check_out ''nng_pair1_open_raw'' (get_id nng ''nng_pair1_open_raw'' [] \<sigma>))"

definition pair1_open_poly ::
  "'w nng \<Rightarrow> 'w st \<Rightarrow> i32 result \<times> 'w st" where
  "pair1_open_poly nng = (\<lambda>\<sigma>.
     check_out ''nng_pair1_open_poly'' (get_id nng ''nng_pair1_open_poly'' [] \<sigma>))"

section \<open>Options\<close>

datatype req_option = req_resend_time

fun req_option_index :: "req_option \<Rightarrow> nat" where
  "req_option_index req_resend_time = 0"

definition req_names :: "'w nng \<Rightarrow> string list" where
  "req_names nng = map (macro_str nng)
     [''NNG_OPT_REQ_RESENDTIME'']"

definition req_to_name :: "'w nng \<Rightarrow> req_option \<Rightarrow> string" where
  "req_to_name nng x = req_names nng ! req_option_index x"

text \<open>The type each option carries in its comment.\<close>

fun req_type :: "req_option \<Rightarrow> option_type" where
  "req_type req_resend_time = ms_opt"

lemma req_to_name_simps [simp]:
  "req_to_name nng req_resend_time = macro_str nng ''NNG_OPT_REQ_RESENDTIME''"
  by (simp_all add: req_to_name_def req_names_def)

datatype survey_option = survey_survey_time

fun survey_option_index :: "survey_option \<Rightarrow> nat" where
  "survey_option_index survey_survey_time = 0"

definition survey_names :: "'w nng \<Rightarrow> string list" where
  "survey_names nng = map (macro_str nng)
     [''NNG_OPT_SURVEYOR_SURVEYTIME'']"

definition survey_to_name :: "'w nng \<Rightarrow> survey_option \<Rightarrow> string" where
  "survey_to_name nng x = survey_names nng ! survey_option_index x"

text \<open>The type each option carries in its comment.\<close>

fun survey_type :: "survey_option \<Rightarrow> option_type" where
  "survey_type survey_survey_time = ms_opt"

lemma survey_to_name_simps [simp]:
  "survey_to_name nng survey_survey_time = macro_str nng ''NNG_OPT_SURVEYOR_SURVEYTIME''"
  by (simp_all add: survey_to_name_def survey_names_def)

datatype pair_option = pair_poly

fun pair_option_index :: "pair_option \<Rightarrow> nat" where
  "pair_option_index pair_poly = 0"

definition pair_names :: "'w nng \<Rightarrow> string list" where
  "pair_names nng = map (macro_str nng)
     [''NNG_OPT_PAIR1_POLY'']"

definition pair_to_name :: "'w nng \<Rightarrow> pair_option \<Rightarrow> string" where
  "pair_to_name nng x = pair_names nng ! pair_option_index x"

text \<open>The type each option carries in its comment.\<close>

fun pair_type :: "pair_option \<Rightarrow> option_type" where
  "pair_type pair_poly = bool_opt"

lemma pair_to_name_simps [simp]:
  "pair_to_name nng pair_poly = macro_str nng ''NNG_OPT_PAIR1_POLY''"
  by (simp_all add: pair_to_name_def pair_names_def)

datatype sub_option = sub_subscribe | sub_unsubscribe | sub_prefnew

fun sub_option_index :: "sub_option \<Rightarrow> nat" where
  "sub_option_index sub_subscribe = 0"
| "sub_option_index sub_unsubscribe = 1"
| "sub_option_index sub_prefnew = 2"

definition sub_names :: "'w nng \<Rightarrow> string list" where
  "sub_names nng = map (macro_str nng)
     [''NNG_OPT_SUB_SUBSCRIBE'',
      ''NNG_OPT_SUB_UNSUBSCRIBE'',
      ''NNG_OPT_SUB_PREFNEW'']"

definition sub_to_name :: "'w nng \<Rightarrow> sub_option \<Rightarrow> string" where
  "sub_to_name nng x = sub_names nng ! sub_option_index x"

text \<open>The type each option carries in its comment (none for the opaque ones).\<close>

fun sub_type :: "sub_option \<Rightarrow> option_type option" where
  "sub_type sub_subscribe = None"
| "sub_type sub_unsubscribe = None"
| "sub_type sub_prefnew = Some bool_opt"

lemma sub_to_name_simps [simp]:
  "sub_to_name nng sub_subscribe = macro_str nng ''NNG_OPT_SUB_SUBSCRIBE''"
  "sub_to_name nng sub_unsubscribe = macro_str nng ''NNG_OPT_SUB_UNSUBSCRIBE''"
  "sub_to_name nng sub_prefnew = macro_str nng ''NNG_OPT_SUB_PREFNEW''"
  by (simp_all add: sub_to_name_def sub_names_def)

definition req_socket_get_opt_resend_time ::
  "'w nng \<Rightarrow> i32 \<Rightarrow> 'w st \<Rightarrow> i32 result \<times> 'w st" where
  "req_socket_get_opt_resend_time nng s = (\<lambda>\<sigma>.
     socket_view_get_opt_ms nng s (req_to_name nng req_resend_time) \<sigma>)"

definition req_socket_set_opt_resend_time ::
  "'w nng \<Rightarrow> i32 \<Rightarrow> i32 \<Rightarrow> 'w st \<Rightarrow> unit result \<times> 'w st" where
  "req_socket_set_opt_resend_time nng s v = (\<lambda>\<sigma>.
     socket_view_set_opt_ms nng s (req_to_name nng req_resend_time) v \<sigma>)"

definition req_ctx_get_opt_resend_time ::
  "'w nng \<Rightarrow> i32 \<Rightarrow> 'w st \<Rightarrow> i32 result \<times> 'w st" where
  "req_ctx_get_opt_resend_time nng s = (\<lambda>\<sigma>.
     ctx_view_get_opt_ms nng s (req_to_name nng req_resend_time) \<sigma>)"

definition req_ctx_set_opt_resend_time ::
  "'w nng \<Rightarrow> i32 \<Rightarrow> i32 \<Rightarrow> 'w st \<Rightarrow> unit result \<times> 'w st" where
  "req_ctx_set_opt_resend_time nng s v = (\<lambda>\<sigma>.
     ctx_view_set_opt_ms nng s (req_to_name nng req_resend_time) v \<sigma>)"

definition survey_socket_get_opt_survey_time ::
  "'w nng \<Rightarrow> i32 \<Rightarrow> 'w st \<Rightarrow> i32 result \<times> 'w st" where
  "survey_socket_get_opt_survey_time nng s = (\<lambda>\<sigma>.
     socket_view_get_opt_ms nng s (survey_to_name nng survey_survey_time) \<sigma>)"

definition survey_socket_set_opt_survey_time ::
  "'w nng \<Rightarrow> i32 \<Rightarrow> i32 \<Rightarrow> 'w st \<Rightarrow> unit result \<times> 'w st" where
  "survey_socket_set_opt_survey_time nng s v = (\<lambda>\<sigma>.
     socket_view_set_opt_ms nng s (survey_to_name nng survey_survey_time) v \<sigma>)"

definition survey_ctx_get_opt_survey_time ::
  "'w nng \<Rightarrow> i32 \<Rightarrow> 'w st \<Rightarrow> i32 result \<times> 'w st" where
  "survey_ctx_get_opt_survey_time nng s = (\<lambda>\<sigma>.
     ctx_view_get_opt_ms nng s (survey_to_name nng survey_survey_time) \<sigma>)"

definition survey_ctx_set_opt_survey_time ::
  "'w nng \<Rightarrow> i32 \<Rightarrow> i32 \<Rightarrow> 'w st \<Rightarrow> unit result \<times> 'w st" where
  "survey_ctx_set_opt_survey_time nng s v = (\<lambda>\<sigma>.
     ctx_view_set_opt_ms nng s (survey_to_name nng survey_survey_time) v \<sigma>)"

definition pair_socket_get_opt_poly ::
  "'w nng \<Rightarrow> i32 \<Rightarrow> 'w st \<Rightarrow> bool result \<times> 'w st" where
  "pair_socket_get_opt_poly nng s = (\<lambda>\<sigma>.
     socket_view_get_opt_bool nng s (pair_to_name nng pair_poly) \<sigma>)"

definition sub_socket_set_opt_subscribe ::
  "'w nng \<Rightarrow> i32 \<Rightarrow> view \<Rightarrow> 'w st \<Rightarrow> unit result \<times> 'w st" where
  "sub_socket_set_opt_subscribe nng s v = (\<lambda>\<sigma>.
     socket_view_set_opt nng s (sub_to_name nng sub_subscribe) v \<sigma>)"

definition sub_socket_set_opt_unsubscribe ::
  "'w nng \<Rightarrow> i32 \<Rightarrow> view \<Rightarrow> 'w st \<Rightarrow> unit result \<times> 'w st" where
  "sub_socket_set_opt_unsubscribe nng s v = (\<lambda>\<sigma>.
     socket_view_set_opt nng s (sub_to_name nng sub_unsubscribe) v \<sigma>)"

definition sub_socket_get_opt_prefnew ::
  "'w nng \<Rightarrow> i32 \<Rightarrow> 'w st \<Rightarrow> bool result \<times> 'w st" where
  "sub_socket_get_opt_prefnew nng s = (\<lambda>\<sigma>.
     socket_view_get_opt_bool nng s (sub_to_name nng sub_prefnew) \<sigma>)"

definition sub_socket_set_opt_prefnew ::
  "'w nng \<Rightarrow> i32 \<Rightarrow> bool \<Rightarrow> 'w st \<Rightarrow> unit result \<times> 'w st" where
  "sub_socket_set_opt_prefnew nng s v = (\<lambda>\<sigma>.
     socket_view_set_opt_bool nng s (sub_to_name nng sub_prefnew) v \<sigma>)"

section \<open>Properties\<close>

lemmas protocol_open_reports_defs =
  bus0_open_def bus0_open_raw_def pair0_open_def pair0_open_raw_def pub0_open_def
  pub0_open_raw_def pull0_open_def pull0_open_raw_def push0_open_def push0_open_raw_def
  rep0_open_def rep0_open_raw_def req0_open_def req0_open_raw_def respond0_open_def
  respond0_open_raw_def sub0_open_def sub0_open_raw_def survey0_open_def survey0_open_raw_def
  pair1_open_def pair1_open_raw_def pair1_open_poly_def

text \<open>Opening a socket of any protocol, raw or not, throws exactly when the nng function it calls
  fails, with that status and the name of that function.\<close>

theorem protocol_open_reports:
  "reports_failure (bus0_open nng) \<and>
    reports_failure (bus0_open_raw nng) \<and>
    reports_failure (pair0_open nng) \<and>
    reports_failure (pair0_open_raw nng) \<and>
    reports_failure (pub0_open nng) \<and>
    reports_failure (pub0_open_raw nng) \<and>
    reports_failure (pull0_open nng) \<and>
    reports_failure (pull0_open_raw nng) \<and>
    reports_failure (push0_open nng) \<and>
    reports_failure (push0_open_raw nng) \<and>
    reports_failure (rep0_open nng) \<and>
    reports_failure (rep0_open_raw nng) \<and>
    reports_failure (req0_open nng) \<and>
    reports_failure (req0_open_raw nng) \<and>
    reports_failure (respond0_open nng) \<and>
    reports_failure (respond0_open_raw nng) \<and>
    reports_failure (sub0_open nng) \<and>
    reports_failure (sub0_open_raw nng) \<and>
    reports_failure (survey0_open nng) \<and>
    reports_failure (survey0_open_raw nng) \<and>
    reports_failure (pair1_open nng) \<and>
    reports_failure (pair1_open_raw nng) \<and>
    reports_failure (pair1_open_poly nng)"
  unfolding protocol_open_reports_defs
  by (intro conjI allI reports_check reports_get reports_get_buf reports_string reports_as_u16)

lemmas protocol_options_typed_defs =
  req_socket_get_opt_resend_time_def req_socket_set_opt_resend_time_def
  req_ctx_get_opt_resend_time_def req_ctx_set_opt_resend_time_def
  survey_socket_get_opt_survey_time_def survey_socket_set_opt_survey_time_def
  survey_ctx_get_opt_survey_time_def survey_ctx_set_opt_survey_time_def
  pair_socket_get_opt_poly_def sub_socket_set_opt_subscribe_def
  sub_socket_set_opt_unsubscribe_def sub_socket_get_opt_prefnew_def
  sub_socket_set_opt_prefnew_def

text \<open>Every accessor of a protocol option of a socket or a context reads or writes the option it is
  named after, through the nng function for the type the option is documented with; the two
  opaque options of \<open>sub0\<close> are set as they are.\<close>

theorem protocol_options_typed:
  "(\<forall>s. reads_option ''nng_socket'' (VId s) (req_to_name nng req_resend_time) (req_type req_resend_time) (req_socket_get_opt_resend_time nng s)) \<and>
    (\<forall>s v. writes_option ''nng_socket'' (VId s) (req_to_name nng req_resend_time) (req_type req_resend_time) (VI v) (req_socket_set_opt_resend_time nng s v)) \<and>
    (\<forall>s. reads_option ''nng_ctx'' (VId s) (req_to_name nng req_resend_time) (req_type req_resend_time) (req_ctx_get_opt_resend_time nng s)) \<and>
    (\<forall>s v. writes_option ''nng_ctx'' (VId s) (req_to_name nng req_resend_time) (req_type req_resend_time) (VI v) (req_ctx_set_opt_resend_time nng s v)) \<and>
    (\<forall>s. reads_option ''nng_socket'' (VId s) (survey_to_name nng survey_survey_time) (survey_type survey_survey_time) (survey_socket_get_opt_survey_time nng s)) \<and>
    (\<forall>s v. writes_option ''nng_socket'' (VId s) (survey_to_name nng survey_survey_time) (survey_type survey_survey_time) (VI v) (survey_socket_set_opt_survey_time nng s v)) \<and>
    (\<forall>s. reads_option ''nng_ctx'' (VId s) (survey_to_name nng survey_survey_time) (survey_type survey_survey_time) (survey_ctx_get_opt_survey_time nng s)) \<and>
    (\<forall>s v. writes_option ''nng_ctx'' (VId s) (survey_to_name nng survey_survey_time) (survey_type survey_survey_time) (VI v) (survey_ctx_set_opt_survey_time nng s v)) \<and>
    (\<forall>s. reads_option ''nng_socket'' (VId s) (pair_to_name nng pair_poly) (pair_type pair_poly) (pair_socket_get_opt_poly nng s)) \<and>
    (\<forall>s. reads_option ''nng_socket'' (VId s) (sub_to_name nng sub_prefnew) (the (sub_type sub_prefnew)) (sub_socket_get_opt_prefnew nng s)) \<and>
    (\<forall>s v. writes_option ''nng_socket'' (VId s) (sub_to_name nng sub_prefnew) (the (sub_type sub_prefnew)) (VB v) (sub_socket_set_opt_prefnew nng s v))"
  unfolding protocol_options_typed_defs option_access socket_methods_report_defs
  by (intro conjI allI; simp)


end
