(* ===== verification/Tls.thy ===== *)
theory Tls
  imports Sockets
begin

text \<open>
  \<open>include/nngpp/transport/tls/\<close> (\<open>config.h\<close>, \<open>config_view.h\<close>, \<open>engine.h\<close>) and
  \<open>transport/tls.h\<close>. A TLS configuration is counted by nng: \<open>hold\<close> returns an owner of one
  more reference to the same configuration.
\<close>

section \<open>Configurations\<close>

datatype tls_mode = mode_client | mode_server

fun tls_mode_val :: "'w nng \<Rightarrow> tls_mode \<Rightarrow> i32" where
  "tls_mode_val nng mode_client = macro_int nng ''NNG_TLS_MODE_CLIENT''"
| "tls_mode_val nng mode_server = macro_int nng ''NNG_TLS_MODE_SERVER''"

datatype auth_mode = auth_none | auth_optional | auth_required

fun auth_mode_val :: "'w nng \<Rightarrow> auth_mode \<Rightarrow> i32" where
  "auth_mode_val nng auth_none = macro_int nng ''NNG_TLS_AUTH_MODE_NONE''"
| "auth_mode_val nng auth_optional = macro_int nng ''NNG_TLS_AUTH_MODE_OPTIONAL''"
| "auth_mode_val nng auth_required = macro_int nng ''NNG_TLS_AUTH_MODE_REQUIRED''"

datatype tls_version = tls_1_0 | tls_1_1 | tls_1_2 | tls_1_3

fun tls_version_val :: "'w nng \<Rightarrow> tls_version \<Rightarrow> i32" where
  "tls_version_val nng tls_1_0 = macro_int nng ''NNG_TLS_1_0''"
| "tls_version_val nng tls_1_1 = macro_int nng ''NNG_TLS_1_1''"
| "tls_version_val nng tls_1_2 = macro_int nng ''NNG_TLS_1_2''"
| "tls_version_val nng tls_1_3 = macro_int nng ''NNG_TLS_1_3''"

datatype engine_version = engine_v0 | engine_v1 | engine_version

fun engine_version_val :: "'w nng \<Rightarrow> engine_version \<Rightarrow> i32" where
  "engine_version_val nng engine_v0 = macro_int nng ''NNG_TLS_ENGINE_V0''"
| "engine_version_val nng engine_v1 = macro_int nng ''NNG_TLS_ENGINE_V1''"
| "engine_version_val nng engine_version = macro_int nng ''NNG_TLS_ENGINE_VERSION''"

datatype tls_config_args =
    Config_alloc i32
  | Config_hold ptr

fun tls_config_exec ::
  "'w nng \<Rightarrow> (ptr, tls_config_args) raii_op \<Rightarrow> (ptr, 'w) cfg \<Rightarrow> (ptr, 'w) outcome" where
  "tls_config_exec nng (Default this) = m_default this"
| "tls_config_exec nng (Adopt this h) = m_adopt this h"
| "tls_config_exec nng (Acquire this (Config_alloc md)) =
     m_acquire this (\<lambda>s. check_out ''nng_tls_config_alloc'' (get_w64 nng ''nng_tls_config_alloc'' [VI md] s))"
| "tls_config_exec nng (Acquire this (Config_hold c)) =
     m_acquire this (\<lambda>s. (Ok c, call_unit nng ''nng_tls_config_hold'' [VW c] s))"
| "tls_config_exec nng (Copy_ctor this rhs) = m_deleted"
| "tls_config_exec nng (Move_ctor this rhs) = m_move_ctor this rhs"
| "tls_config_exec nng (Copy_assign this rhs) = m_deleted"
| "tls_config_exec nng (Move_assign this rhs) =
     m_move_assign (\<lambda>h. call_unit nng ''nng_tls_config_free'' [VW h]) this rhs"
| "tls_config_exec nng (Dtor this) =
     m_dtor (\<lambda>h. call_unit nng ''nng_tls_config_free'' [VW h]) this"
| "tls_config_exec nng (Release this) = m_release this"

definition tls_config_ev :: "call \<Rightarrow> ptr event option" where
  "tls_config_ev c =
     (if c_fn c = ''nng_tls_config_hold'' then (case c_args c of [VW h] \<Rightarrow> Some (Give h) | _ \<Rightarrow> None)
      else ptr_ev [''nng_tls_config_alloc''] ''nng_tls_config_free'' c)"

lemma tls_config_calls [conforming]:
  "releases tls_config_ev (\<lambda>h. call_unit nng ''nng_tls_config_free'' [VW h])"
  "acquires tls_config_ev (\<lambda>s. check_out ''nng_tls_config_alloc'' (get_w64 nng ''nng_tls_config_alloc'' [VI md] s))"
  "acquires tls_config_ev (\<lambda>s. (Ok c, call_unit nng ''nng_tls_config_hold'' [VW c] s))"
  by (auto simp: tls_config_ev_def ptr_ev_def releases_def acquires_def call_simps invoke_def
      split: prod.splits)

interpretation tls_config: owner_class True "{Acquiring}" "tls_config_exec nng" "tls_config_ev" for nng :: "'w nng"
proof
  fix op
  show "conforms True {Acquiring} tls_config_ev op (tls_config_exec nng op)"
    by (cases "(nng, op)" rule: tls_config_exec.cases; simp only: tls_config_exec.simps prod.inject; intro conforming; simp)
qed

definition tls_config_server_name ::
  "'w nng \<Rightarrow> ptr \<Rightarrow> string \<Rightarrow> 'w st \<Rightarrow> unit result \<times> 'w st" where
  "tls_config_server_name nng c nm = (\<lambda>\<sigma>.
     check ''nng_tls_config_server_name''
       (call_int nng ''nng_tls_config_server_name'' [VW c, VS nm] \<sigma>))"

definition tls_config_ca_chain ::
  "'w nng \<Rightarrow> ptr \<Rightarrow> string \<Rightarrow> string option \<Rightarrow> 'w st \<Rightarrow> unit result \<times> 'w st" where
  "tls_config_ca_chain nng c chain crl = (\<lambda>\<sigma>.
     check ''nng_tls_config_ca_chain''
       (call_int nng ''nng_tls_config_ca_chain'' [VW c, VS chain, opt_str crl] \<sigma>))"

definition tls_config_own_cert ::
  "'w nng \<Rightarrow> ptr \<Rightarrow> string \<Rightarrow> string \<Rightarrow> string option \<Rightarrow> 'w st \<Rightarrow> unit result \<times> 'w st" where
  "tls_config_own_cert nng c cert key pass = (\<lambda>\<sigma>.
     check ''nng_tls_config_own_cert''
       (call_int nng ''nng_tls_config_own_cert'' [VW c, VS cert, VS key, opt_str pass] \<sigma>))"

definition tls_config_key ::
  "'w nng \<Rightarrow> ptr \<Rightarrow> ptr \<Rightarrow> w64 \<Rightarrow> 'w st \<Rightarrow> unit result \<times> 'w st" where
  "tls_config_key nng c dat sz = (\<lambda>\<sigma>.
     check ''nng_tls_config_key''
       (call_int nng ''nng_tls_config_key'' [VW c, VW dat, VW sz] \<sigma>))"

definition tls_config_pass ::
  "'w nng \<Rightarrow> ptr \<Rightarrow> string \<Rightarrow> 'w st \<Rightarrow> unit result \<times> 'w st" where
  "tls_config_pass nng c pass = (\<lambda>\<sigma>.
     check ''nng_tls_config_pass''
       (call_int nng ''nng_tls_config_pass'' [VW c, VS pass] \<sigma>))"

definition tls_config_auth_mode ::
  "'w nng \<Rightarrow> ptr \<Rightarrow> auth_mode \<Rightarrow> 'w st \<Rightarrow> unit result \<times> 'w st" where
  "tls_config_auth_mode nng c md = (\<lambda>\<sigma>.
     check ''nng_tls_config_auth_mode''
       (call_int nng ''nng_tls_config_auth_mode'' [VW c, VI (auth_mode_val nng md)] \<sigma>))"

definition tls_config_ca_file ::
  "'w nng \<Rightarrow> ptr \<Rightarrow> string \<Rightarrow> 'w st \<Rightarrow> unit result \<times> 'w st" where
  "tls_config_ca_file nng c path = (\<lambda>\<sigma>.
     check ''nng_tls_config_ca_file''
       (call_int nng ''nng_tls_config_ca_file'' [VW c, VS path] \<sigma>))"

definition tls_config_cert_key_file ::
  "'w nng \<Rightarrow> ptr \<Rightarrow> string \<Rightarrow> string option \<Rightarrow> 'w st \<Rightarrow> unit result \<times> 'w st" where
  "tls_config_cert_key_file nng c path pass = (\<lambda>\<sigma>.
     check ''nng_tls_config_cert_key_file''
       (call_int nng ''nng_tls_config_cert_key_file'' [VW c, VS path, opt_str pass] \<sigma>))"

definition tls_config_version ::
  "'w nng \<Rightarrow> ptr \<Rightarrow> tls_version \<Rightarrow> tls_version \<Rightarrow> 'w st \<Rightarrow> unit result \<times> 'w st" where
  "tls_config_version nng c min_ver max_ver = (\<lambda>\<sigma>.
     check ''nng_tls_config_version''
       (call_int nng ''nng_tls_config_version'' [VW c, VI (tls_version_val nng min_ver), VI (tls_version_val nng max_ver)] \<sigma>))"

section \<open>The transport\<close>

definition tls_register_transport ::
  "'w nng \<Rightarrow> 'w st \<Rightarrow> unit result \<times> 'w st" where
  "tls_register_transport nng = (\<lambda>\<sigma>.
     check ''nng_tls_register'' (call_int nng ''nng_tls_register'' [] \<sigma>))"

datatype tls_option = tls_config | tls_auth_mode | tls_cert_key_file | tls_ca_file | tls_server_name | tls_verified

fun tls_option_index :: "tls_option \<Rightarrow> nat" where
  "tls_option_index tls_config = 0"
| "tls_option_index tls_auth_mode = 1"
| "tls_option_index tls_cert_key_file = 2"
| "tls_option_index tls_ca_file = 3"
| "tls_option_index tls_server_name = 4"
| "tls_option_index tls_verified = 5"

definition tls_names :: "'w nng \<Rightarrow> string list" where
  "tls_names nng = map (macro_str nng)
     [''NNG_OPT_TLS_CONFIG'',
      ''NNG_OPT_TLS_AUTH_MODE'',
      ''NNG_OPT_TLS_CERT_KEY_FILE'',
      ''NNG_OPT_TLS_CA_FILE'',
      ''NNG_OPT_TLS_SERVER_NAME'',
      ''NNG_OPT_TLS_VERIFIED'']"

definition tls_to_name :: "'w nng \<Rightarrow> tls_option \<Rightarrow> string" where
  "tls_to_name nng x = tls_names nng ! tls_option_index x"

text \<open>The type each option carries in its comment.\<close>

fun tls_type :: "tls_option \<Rightarrow> option_type" where
  "tls_type tls_config = ptr_opt"
| "tls_type tls_auth_mode = int_opt"
| "tls_type tls_cert_key_file = string_opt"
| "tls_type tls_ca_file = string_opt"
| "tls_type tls_server_name = string_opt"
| "tls_type tls_verified = bool_opt"

lemma tls_to_name_simps [simp]:
  "tls_to_name nng tls_config = macro_str nng ''NNG_OPT_TLS_CONFIG''"
  "tls_to_name nng tls_auth_mode = macro_str nng ''NNG_OPT_TLS_AUTH_MODE''"
  "tls_to_name nng tls_cert_key_file = macro_str nng ''NNG_OPT_TLS_CERT_KEY_FILE''"
  "tls_to_name nng tls_ca_file = macro_str nng ''NNG_OPT_TLS_CA_FILE''"
  "tls_to_name nng tls_server_name = macro_str nng ''NNG_OPT_TLS_SERVER_NAME''"
  "tls_to_name nng tls_verified = macro_str nng ''NNG_OPT_TLS_VERIFIED''"
  by (simp_all add: tls_to_name_def tls_names_def)

definition tls_pipe_get_opt_verified ::
  "'w nng \<Rightarrow> i32 \<Rightarrow> 'w st \<Rightarrow> bool result \<times> 'w st" where
  "tls_pipe_get_opt_verified nng s = (\<lambda>\<sigma>.
     pipe_view_get_opt_bool nng s (tls_to_name nng tls_verified) \<sigma>)"

definition tls_dialer_get_opt_config ::
  "'w nng \<Rightarrow> i32 \<Rightarrow> 'w st \<Rightarrow> ptr result \<times> 'w st" where
  "tls_dialer_get_opt_config nng s = (\<lambda>\<sigma>.
     dialer_view_get_opt_ptr nng s (tls_to_name nng tls_config) \<sigma>)"

definition tls_listener_get_opt_config ::
  "'w nng \<Rightarrow> i32 \<Rightarrow> 'w st \<Rightarrow> ptr result \<times> 'w st" where
  "tls_listener_get_opt_config nng s = (\<lambda>\<sigma>.
     listener_view_get_opt_ptr nng s (tls_to_name nng tls_config) \<sigma>)"

definition tls_dialer_set_opt_config ::
  "'w nng \<Rightarrow> i32 \<Rightarrow> ptr \<Rightarrow> 'w st \<Rightarrow> unit result \<times> 'w st" where
  "tls_dialer_set_opt_config nng s v = (\<lambda>\<sigma>.
     dialer_view_set_opt_ptr nng s (tls_to_name nng tls_config) v \<sigma>)"

definition tls_listener_set_opt_config ::
  "'w nng \<Rightarrow> i32 \<Rightarrow> ptr \<Rightarrow> 'w st \<Rightarrow> unit result \<times> 'w st" where
  "tls_listener_set_opt_config nng s v = (\<lambda>\<sigma>.
     listener_view_set_opt_ptr nng s (tls_to_name nng tls_config) v \<sigma>)"

definition tls_dialer_set_opt_auth_mode ::
  "'w nng \<Rightarrow> i32 \<Rightarrow> auth_mode \<Rightarrow> 'w st \<Rightarrow> unit result \<times> 'w st" where
  "tls_dialer_set_opt_auth_mode nng s v = (\<lambda>\<sigma>.
     dialer_view_set_opt_int nng s (tls_to_name nng tls_auth_mode) (auth_mode_val nng v) \<sigma>)"

definition tls_listener_set_opt_auth_mode ::
  "'w nng \<Rightarrow> i32 \<Rightarrow> auth_mode \<Rightarrow> 'w st \<Rightarrow> unit result \<times> 'w st" where
  "tls_listener_set_opt_auth_mode nng s v = (\<lambda>\<sigma>.
     listener_view_set_opt_int nng s (tls_to_name nng tls_auth_mode) (auth_mode_val nng v) \<sigma>)"

definition tls_dialer_set_opt_cert_key_file ::
  "'w nng \<Rightarrow> i32 \<Rightarrow> string \<Rightarrow> 'w st \<Rightarrow> unit result \<times> 'w st" where
  "tls_dialer_set_opt_cert_key_file nng s v = (\<lambda>\<sigma>.
     dialer_view_set_opt_string nng s (tls_to_name nng tls_cert_key_file) v \<sigma>)"

definition tls_listener_set_opt_cert_key_file ::
  "'w nng \<Rightarrow> i32 \<Rightarrow> string \<Rightarrow> 'w st \<Rightarrow> unit result \<times> 'w st" where
  "tls_listener_set_opt_cert_key_file nng s v = (\<lambda>\<sigma>.
     listener_view_set_opt_string nng s (tls_to_name nng tls_cert_key_file) v \<sigma>)"

definition tls_dialer_set_opt_ca_file ::
  "'w nng \<Rightarrow> i32 \<Rightarrow> string \<Rightarrow> 'w st \<Rightarrow> unit result \<times> 'w st" where
  "tls_dialer_set_opt_ca_file nng s v = (\<lambda>\<sigma>.
     dialer_view_set_opt_string nng s (tls_to_name nng tls_ca_file) v \<sigma>)"

definition tls_listener_set_opt_ca_file ::
  "'w nng \<Rightarrow> i32 \<Rightarrow> string \<Rightarrow> 'w st \<Rightarrow> unit result \<times> 'w st" where
  "tls_listener_set_opt_ca_file nng s v = (\<lambda>\<sigma>.
     listener_view_set_opt_string nng s (tls_to_name nng tls_ca_file) v \<sigma>)"

definition tls_dialer_set_opt_server_name ::
  "'w nng \<Rightarrow> i32 \<Rightarrow> string \<Rightarrow> 'w st \<Rightarrow> unit result \<times> 'w st" where
  "tls_dialer_set_opt_server_name nng s v = (\<lambda>\<sigma>.
     dialer_view_set_opt_string nng s (tls_to_name nng tls_server_name) v \<sigma>)"

definition tls_listener_set_opt_server_name ::
  "'w nng \<Rightarrow> i32 \<Rightarrow> string \<Rightarrow> 'w st \<Rightarrow> unit result \<times> 'w st" where
  "tls_listener_set_opt_server_name nng s v = (\<lambda>\<sigma>.
     listener_view_set_opt_string nng s (tls_to_name nng tls_server_name) v \<sigma>)"

section \<open>Engines\<close>

definition tls_engine_register ::
  "'w nng \<Rightarrow> ptr \<Rightarrow> 'w st \<Rightarrow> unit result \<times> 'w st" where
  "tls_engine_register nng e = (\<lambda>\<sigma>.
     check ''nng_tls_engine_register''
       (call_int nng ''nng_tls_engine_register'' [VW e] \<sigma>))"

definition tls_engine_send ::
  "'w nng \<Rightarrow> ptr \<Rightarrow> ptr \<Rightarrow> ptr \<Rightarrow> 'w st \<Rightarrow> unit result \<times> 'w st" where
  "tls_engine_send nng arg buf szp = (\<lambda>\<sigma>.
     check ''nng_tls_engine_send''
       (call_int nng ''nng_tls_engine_send'' [VW arg, VW buf, VW szp] \<sigma>))"

definition tls_engine_recv ::
  "'w nng \<Rightarrow> ptr \<Rightarrow> ptr \<Rightarrow> ptr \<Rightarrow> 'w st \<Rightarrow> unit result \<times> 'w st" where
  "tls_engine_recv nng arg buf szp = (\<lambda>\<sigma>.
     check ''nng_tls_engine_recv''
       (call_int nng ''nng_tls_engine_recv'' [VW arg, VW buf, VW szp] \<sigma>))"

definition tls_engine_name :: "'w nng \<Rightarrow> 'w st \<Rightarrow> ptr \<times> 'w st" where
  "tls_engine_name nng = (\<lambda>\<sigma>. call_w64 nng ''nng_tls_engine_name'' [] \<sigma>)"

definition tls_engine_description ::
  "'w nng \<Rightarrow> 'w st \<Rightarrow> ptr \<times> 'w st" where
  "tls_engine_description nng = (\<lambda>\<sigma>. call_w64 nng ''nng_tls_engine_description'' [] \<sigma>)"

definition tls_engine_fips_mode ::
  "'w nng \<Rightarrow> 'w st \<Rightarrow> bool \<times> 'w st" where
  "tls_engine_fips_mode nng = (\<lambda>\<sigma>. call_bool nng ''nng_tls_engine_fips_mode'' [] \<sigma>)"

section \<open>Properties\<close>

lemmas tls_methods_report_defs =
  tls_config_server_name_def tls_config_ca_chain_def tls_config_own_cert_def tls_config_key_def
  tls_config_pass_def tls_config_auth_mode_def tls_config_ca_file_def
  tls_config_cert_key_file_def tls_config_version_def tls_register_transport_def
  tls_engine_register_def tls_engine_send_def tls_engine_recv_def

text \<open>Every method of a TLS configuration, of an engine and the registration of the transport throws
  exactly when the one nng call it makes fails, with its status and its name.\<close>

theorem tls_methods_report:
  "(\<forall>c nm. reports_failure (tls_config_server_name nng c nm)) \<and>
    (\<forall>c chain crl. reports_failure (tls_config_ca_chain nng c chain crl)) \<and>
    (\<forall>c cert key pass. reports_failure (tls_config_own_cert nng c cert key pass)) \<and>
    (\<forall>c dat sz. reports_failure (tls_config_key nng c dat sz)) \<and>
    (\<forall>c pass. reports_failure (tls_config_pass nng c pass)) \<and>
    (\<forall>c md. reports_failure (tls_config_auth_mode nng c md)) \<and>
    (\<forall>c path. reports_failure (tls_config_ca_file nng c path)) \<and>
    (\<forall>c path pass. reports_failure (tls_config_cert_key_file nng c path pass)) \<and>
    (\<forall>c min_ver max_ver. reports_failure (tls_config_version nng c min_ver max_ver)) \<and>
    reports_failure (tls_register_transport nng) \<and>
    (\<forall>e. reports_failure (tls_engine_register nng e)) \<and>
    (\<forall>arg buf szp. reports_failure (tls_engine_send nng arg buf szp)) \<and>
    (\<forall>arg buf szp. reports_failure (tls_engine_recv nng arg buf szp))"
  unfolding tls_methods_report_defs
  by (intro conjI allI reports_check reports_get reports_get_buf reports_string reports_as_u16)

lemmas tls_options_typed_defs =
  tls_pipe_get_opt_verified_def tls_dialer_get_opt_config_def tls_listener_get_opt_config_def
  tls_dialer_set_opt_config_def tls_listener_set_opt_config_def tls_dialer_set_opt_auth_mode_def
  tls_listener_set_opt_auth_mode_def tls_dialer_set_opt_cert_key_file_def
  tls_listener_set_opt_cert_key_file_def tls_dialer_set_opt_ca_file_def
  tls_listener_set_opt_ca_file_def tls_dialer_set_opt_server_name_def
  tls_listener_set_opt_server_name_def

text \<open>Every accessor of a TLS option reads or writes the option it is named after, through the nng
  function for the type the option is documented with.\<close>

theorem tls_options_typed:
  "(\<forall>s. reads_option ''nng_pipe'' (VId s) (tls_to_name nng tls_verified) (tls_type tls_verified) (tls_pipe_get_opt_verified nng s)) \<and>
    (\<forall>s. reads_option ''nng_dialer'' (VId s) (tls_to_name nng tls_config) (tls_type tls_config) (tls_dialer_get_opt_config nng s)) \<and>
    (\<forall>s. reads_option ''nng_listener'' (VId s) (tls_to_name nng tls_config) (tls_type tls_config) (tls_listener_get_opt_config nng s)) \<and>
    (\<forall>s v. writes_option ''nng_dialer'' (VId s) (tls_to_name nng tls_config) (tls_type tls_config) (VW v) (tls_dialer_set_opt_config nng s v)) \<and>
    (\<forall>s v. writes_option ''nng_listener'' (VId s) (tls_to_name nng tls_config) (tls_type tls_config) (VW v) (tls_listener_set_opt_config nng s v)) \<and>
    (\<forall>s v. writes_option ''nng_dialer'' (VId s) (tls_to_name nng tls_auth_mode) (tls_type tls_auth_mode) (VI (auth_mode_val nng v)) (tls_dialer_set_opt_auth_mode nng s v)) \<and>
    (\<forall>s v. writes_option ''nng_listener'' (VId s) (tls_to_name nng tls_auth_mode) (tls_type tls_auth_mode) (VI (auth_mode_val nng v)) (tls_listener_set_opt_auth_mode nng s v)) \<and>
    (\<forall>s v. writes_option ''nng_dialer'' (VId s) (tls_to_name nng tls_cert_key_file) (tls_type tls_cert_key_file) (VS v) (tls_dialer_set_opt_cert_key_file nng s v)) \<and>
    (\<forall>s v. writes_option ''nng_listener'' (VId s) (tls_to_name nng tls_cert_key_file) (tls_type tls_cert_key_file) (VS v) (tls_listener_set_opt_cert_key_file nng s v)) \<and>
    (\<forall>s v. writes_option ''nng_dialer'' (VId s) (tls_to_name nng tls_ca_file) (tls_type tls_ca_file) (VS v) (tls_dialer_set_opt_ca_file nng s v)) \<and>
    (\<forall>s v. writes_option ''nng_listener'' (VId s) (tls_to_name nng tls_ca_file) (tls_type tls_ca_file) (VS v) (tls_listener_set_opt_ca_file nng s v)) \<and>
    (\<forall>s v. writes_option ''nng_dialer'' (VId s) (tls_to_name nng tls_server_name) (tls_type tls_server_name) (VS v) (tls_dialer_set_opt_server_name nng s v)) \<and>
    (\<forall>s v. writes_option ''nng_listener'' (VId s) (tls_to_name nng tls_server_name) (tls_type tls_server_name) (VS v) (tls_listener_set_opt_server_name nng s v))"
  unfolding tls_options_typed_defs option_access endpoint_methods_report_defs
  by (intro conjI allI; simp)

text \<open>A program over TLS configurations, which are counted and can be held several times, gives
  back every reference it took, held ones included, if it starts and ends without objects.\<close>

theorem tls_config_balanced:
  assumes "run (tls_config_exec nng) ops (Map.empty, s) = (rs, Map.empty, s')"
    and "legal (class_ok {Acquiring}) (tls_config_exec nng) tls_config_ev ops (Map.empty, s) {#}"
    and "released rs = {#}" "h \<noteq> 0"
  shows "count_list (events tls_config_ev (new_calls s s')) (Give h) =
    count_list (events tls_config_ev (new_calls s s')) (Kill h)"
  using tls_config.run_balanced(2) [OF assms(1,2) TrueI assms(3,4)] .

definition one_config_nng :: "unit nng" where
  "one_config_nng = idle_nng\<lparr>s_w64 := (\<lambda>_ _ w. ((0, 5), w))\<rparr>"

definition hold_program :: "(ptr, tls_config_args) raii_op list" where
  "hold_program = [Acquire 0 (Config_alloc 1), Acquire 1 (Config_hold 5), Dtor 0, Move_ctor 2 1, Dtor 1, Dtor 2]"

theorem tls_config_balanced_witness:
  "count_list (events tls_config_ev (new_calls (start ())
     (snd (snd (run (tls_config_exec one_config_nng) hold_program (Map.empty, start ())))))) (Give 5) =
   count_list (events tls_config_ev (new_calls (start ())
     (snd (snd (run (tls_config_exec one_config_nng) hold_program (Map.empty, start ())))))) (Kill 5)"
  by (rule tls_config_balanced [where nng = one_config_nng and ops = hold_program and
        rs = "fst (run (tls_config_exec one_config_nng) hold_program (Map.empty, start ()))"])
    (simp_all add: hold_program_def member_simps call_simps invoke_def one_config_nng_def start_def
      class_ok_def copy_assign_succeeds_def)

end
