(* ===== verification/Transports.thy ===== *)
theory Transports
  imports Sockets
begin

text \<open>
  \<open>include/nngpp/transport/\<close>: registration of the transports and the options of each
  (\<open>tcp.h\<close>, \<open>ipc.h\<close>, \<open>ws.h\<close>, \<open>wss.h\<close>, \<open>inproc.h\<close>, \<open>zerotier.h\<close>), tables as in
  \<open>option.h\<close>.
\<close>

section \<open>Registration\<close>

definition inproc_register_transport ::
  "'w nng \<Rightarrow> 'w st \<Rightarrow> unit result \<times> 'w st" where
  "inproc_register_transport nng = (\<lambda>\<sigma>.
     check ''nng_inproc_register'' (call_int nng ''nng_inproc_register'' [] \<sigma>))"

definition ipc_register_transport ::
  "'w nng \<Rightarrow> 'w st \<Rightarrow> unit result \<times> 'w st" where
  "ipc_register_transport nng = (\<lambda>\<sigma>.
     check ''nng_ipc_register'' (call_int nng ''nng_ipc_register'' [] \<sigma>))"

definition tcp_register_transport ::
  "'w nng \<Rightarrow> 'w st \<Rightarrow> unit result \<times> 'w st" where
  "tcp_register_transport nng = (\<lambda>\<sigma>.
     check ''nng_tcp_register'' (call_int nng ''nng_tcp_register'' [] \<sigma>))"

definition ws_register_transport ::
  "'w nng \<Rightarrow> 'w st \<Rightarrow> unit result \<times> 'w st" where
  "ws_register_transport nng = (\<lambda>\<sigma>.
     check ''nng_ws_register'' (call_int nng ''nng_ws_register'' [] \<sigma>))"

definition wss_register_transport ::
  "'w nng \<Rightarrow> 'w st \<Rightarrow> unit result \<times> 'w st" where
  "wss_register_transport nng = (\<lambda>\<sigma>.
     check ''nng_wss_register'' (call_int nng ''nng_wss_register'' [] \<sigma>))"

definition zt_register_transport ::
  "'w nng \<Rightarrow> 'w st \<Rightarrow> unit result \<times> 'w st" where
  "zt_register_transport nng = (\<lambda>\<sigma>.
     check ''nng_zt_register'' (call_int nng ''nng_zt_register'' [] \<sigma>))"

section \<open>Options\<close>

datatype zt_status =
    zt_status_up
  | zt_status_config
  | zt_status_denied
  | zt_status_not_found
  | zt_status_error
  | zt_status_obsolete
  | zt_status_unknown

fun zt_status_val :: "'w nng \<Rightarrow> zt_status \<Rightarrow> i32" where
  "zt_status_val nng zt_status_up = macro_int nng ''NNG_ZT_STATUS_UP''"
| "zt_status_val nng zt_status_config = macro_int nng ''NNG_ZT_STATUS_CONFIG''"
| "zt_status_val nng zt_status_denied = macro_int nng ''NNG_ZT_STATUS_DENIED''"
| "zt_status_val nng zt_status_not_found = macro_int nng ''NNG_ZT_STATUS_NOTFOUND''"
| "zt_status_val nng zt_status_error = macro_int nng ''NNG_ZT_STATUS_ERROR''"
| "zt_status_val nng zt_status_obsolete = macro_int nng ''NNG_ZT_STATUS_OBSOLETE''"
| "zt_status_val nng zt_status_unknown = macro_int nng ''NNG_ZT_STATUS_UNKNOWN''"

datatype tcp_option = tcp_no_delay | tcp_keep_alive | tcp_bound_port

fun tcp_option_index :: "tcp_option \<Rightarrow> nat" where
  "tcp_option_index tcp_no_delay = 0"
| "tcp_option_index tcp_keep_alive = 1"
| "tcp_option_index tcp_bound_port = 2"

definition tcp_names :: "'w nng \<Rightarrow> string list" where
  "tcp_names nng = map (macro_str nng)
     [''NNG_OPT_TCP_NODELAY'',
      ''NNG_OPT_TCP_KEEPALIVE'',
      ''NNG_OPT_TCP_BOUND_PORT'']"

definition tcp_to_name :: "'w nng \<Rightarrow> tcp_option \<Rightarrow> string" where
  "tcp_to_name nng x = tcp_names nng ! tcp_option_index x"

text \<open>The type each option carries in its comment.\<close>

fun tcp_type :: "tcp_option \<Rightarrow> option_type" where
  "tcp_type tcp_no_delay = bool_opt"
| "tcp_type tcp_keep_alive = bool_opt"
| "tcp_type tcp_bound_port = int_opt"

lemma tcp_to_name_simps [simp]:
  "tcp_to_name nng tcp_no_delay = macro_str nng ''NNG_OPT_TCP_NODELAY''"
  "tcp_to_name nng tcp_keep_alive = macro_str nng ''NNG_OPT_TCP_KEEPALIVE''"
  "tcp_to_name nng tcp_bound_port = macro_str nng ''NNG_OPT_TCP_BOUND_PORT''"
  by (simp_all add: tcp_to_name_def tcp_names_def)

definition tcp_pipe_get_opt_no_delay ::
  "'w nng \<Rightarrow> i32 \<Rightarrow> 'w st \<Rightarrow> bool result \<times> 'w st" where
  "tcp_pipe_get_opt_no_delay nng s = (\<lambda>\<sigma>.
     pipe_view_get_opt_bool nng s (tcp_to_name nng tcp_no_delay) \<sigma>)"

definition tcp_pipe_get_opt_keep_alive ::
  "'w nng \<Rightarrow> i32 \<Rightarrow> 'w st \<Rightarrow> bool result \<times> 'w st" where
  "tcp_pipe_get_opt_keep_alive nng s = (\<lambda>\<sigma>.
     pipe_view_get_opt_bool nng s (tcp_to_name nng tcp_keep_alive) \<sigma>)"

definition tcp_pipe_get_opt_bound_port ::
  "'w nng \<Rightarrow> i32 \<Rightarrow> 'w st \<Rightarrow> i32 result \<times> 'w st" where
  "tcp_pipe_get_opt_bound_port nng s = (\<lambda>\<sigma>.
     pipe_view_get_opt_int nng s (tcp_to_name nng tcp_bound_port) \<sigma>)"

definition tcp_dialer_get_opt_no_delay ::
  "'w nng \<Rightarrow> i32 \<Rightarrow> 'w st \<Rightarrow> bool result \<times> 'w st" where
  "tcp_dialer_get_opt_no_delay nng s = (\<lambda>\<sigma>.
     dialer_view_get_opt_bool nng s (tcp_to_name nng tcp_no_delay) \<sigma>)"

definition tcp_dialer_get_opt_keep_alive ::
  "'w nng \<Rightarrow> i32 \<Rightarrow> 'w st \<Rightarrow> bool result \<times> 'w st" where
  "tcp_dialer_get_opt_keep_alive nng s = (\<lambda>\<sigma>.
     dialer_view_get_opt_bool nng s (tcp_to_name nng tcp_keep_alive) \<sigma>)"

definition tcp_listener_get_opt_no_delay ::
  "'w nng \<Rightarrow> i32 \<Rightarrow> 'w st \<Rightarrow> bool result \<times> 'w st" where
  "tcp_listener_get_opt_no_delay nng s = (\<lambda>\<sigma>.
     listener_view_get_opt_bool nng s (tcp_to_name nng tcp_no_delay) \<sigma>)"

definition tcp_listener_get_opt_keep_alive ::
  "'w nng \<Rightarrow> i32 \<Rightarrow> 'w st \<Rightarrow> bool result \<times> 'w st" where
  "tcp_listener_get_opt_keep_alive nng s = (\<lambda>\<sigma>.
     listener_view_get_opt_bool nng s (tcp_to_name nng tcp_keep_alive) \<sigma>)"

definition tcp_listener_get_opt_bound_port ::
  "'w nng \<Rightarrow> i32 \<Rightarrow> 'w st \<Rightarrow> i32 result \<times> 'w st" where
  "tcp_listener_get_opt_bound_port nng s = (\<lambda>\<sigma>.
     listener_view_get_opt_int nng s (tcp_to_name nng tcp_bound_port) \<sigma>)"

definition tcp_socket_get_opt_no_delay ::
  "'w nng \<Rightarrow> i32 \<Rightarrow> 'w st \<Rightarrow> bool result \<times> 'w st" where
  "tcp_socket_get_opt_no_delay nng s = (\<lambda>\<sigma>.
     socket_view_get_opt_bool nng s (tcp_to_name nng tcp_no_delay) \<sigma>)"

definition tcp_socket_get_opt_keep_alive ::
  "'w nng \<Rightarrow> i32 \<Rightarrow> 'w st \<Rightarrow> bool result \<times> 'w st" where
  "tcp_socket_get_opt_keep_alive nng s = (\<lambda>\<sigma>.
     socket_view_get_opt_bool nng s (tcp_to_name nng tcp_keep_alive) \<sigma>)"

definition tcp_dialer_set_opt_no_delay ::
  "'w nng \<Rightarrow> i32 \<Rightarrow> bool \<Rightarrow> 'w st \<Rightarrow> unit result \<times> 'w st" where
  "tcp_dialer_set_opt_no_delay nng s v = (\<lambda>\<sigma>.
     dialer_view_set_opt_bool nng s (tcp_to_name nng tcp_no_delay) v \<sigma>)"

definition tcp_dialer_set_opt_keep_alive ::
  "'w nng \<Rightarrow> i32 \<Rightarrow> bool \<Rightarrow> 'w st \<Rightarrow> unit result \<times> 'w st" where
  "tcp_dialer_set_opt_keep_alive nng s v = (\<lambda>\<sigma>.
     dialer_view_set_opt_bool nng s (tcp_to_name nng tcp_keep_alive) v \<sigma>)"

definition tcp_listener_set_opt_no_delay ::
  "'w nng \<Rightarrow> i32 \<Rightarrow> bool \<Rightarrow> 'w st \<Rightarrow> unit result \<times> 'w st" where
  "tcp_listener_set_opt_no_delay nng s v = (\<lambda>\<sigma>.
     listener_view_set_opt_bool nng s (tcp_to_name nng tcp_no_delay) v \<sigma>)"

definition tcp_listener_set_opt_keep_alive ::
  "'w nng \<Rightarrow> i32 \<Rightarrow> bool \<Rightarrow> 'w st \<Rightarrow> unit result \<times> 'w st" where
  "tcp_listener_set_opt_keep_alive nng s v = (\<lambda>\<sigma>.
     listener_view_set_opt_bool nng s (tcp_to_name nng tcp_keep_alive) v \<sigma>)"

definition tcp_socket_set_opt_no_delay ::
  "'w nng \<Rightarrow> i32 \<Rightarrow> bool \<Rightarrow> 'w st \<Rightarrow> unit result \<times> 'w st" where
  "tcp_socket_set_opt_no_delay nng s v = (\<lambda>\<sigma>.
     socket_view_set_opt_bool nng s (tcp_to_name nng tcp_no_delay) v \<sigma>)"

definition tcp_socket_set_opt_keep_alive ::
  "'w nng \<Rightarrow> i32 \<Rightarrow> bool \<Rightarrow> 'w st \<Rightarrow> unit result \<times> 'w st" where
  "tcp_socket_set_opt_keep_alive nng s v = (\<lambda>\<sigma>.
     socket_view_set_opt_bool nng s (tcp_to_name nng tcp_keep_alive) v \<sigma>)"

datatype ipc_option = ipc_peer_uid | ipc_peer_gid | ipc_peer_pid | ipc_peer_zoneid | ipc_security_descriptor | ipc_permissions

fun ipc_option_index :: "ipc_option \<Rightarrow> nat" where
  "ipc_option_index ipc_peer_uid = 0"
| "ipc_option_index ipc_peer_gid = 1"
| "ipc_option_index ipc_peer_pid = 2"
| "ipc_option_index ipc_peer_zoneid = 3"
| "ipc_option_index ipc_security_descriptor = 4"
| "ipc_option_index ipc_permissions = 5"

definition ipc_names :: "'w nng \<Rightarrow> string list" where
  "ipc_names nng = map (macro_str nng)
     [''NNG_OPT_IPC_PEER_UID'',
      ''NNG_OPT_IPC_PEER_GID'',
      ''NNG_OPT_IPC_PEER_PID'',
      ''NNG_OPT_IPC_PEER_ZONEID'',
      ''NNG_OPT_IPC_SECURITY_DESCRIPTOR'',
      ''NNG_OPT_IPC_PERMISSIONS'']"

definition ipc_to_name :: "'w nng \<Rightarrow> ipc_option \<Rightarrow> string" where
  "ipc_to_name nng x = ipc_names nng ! ipc_option_index x"

text \<open>The type each option carries in its comment.\<close>

fun ipc_type :: "ipc_option \<Rightarrow> option_type" where
  "ipc_type ipc_peer_uid = uint64_opt"
| "ipc_type ipc_peer_gid = uint64_opt"
| "ipc_type ipc_peer_pid = uint64_opt"
| "ipc_type ipc_peer_zoneid = uint64_opt"
| "ipc_type ipc_security_descriptor = ptr_opt"
| "ipc_type ipc_permissions = int_opt"

lemma ipc_to_name_simps [simp]:
  "ipc_to_name nng ipc_peer_uid = macro_str nng ''NNG_OPT_IPC_PEER_UID''"
  "ipc_to_name nng ipc_peer_gid = macro_str nng ''NNG_OPT_IPC_PEER_GID''"
  "ipc_to_name nng ipc_peer_pid = macro_str nng ''NNG_OPT_IPC_PEER_PID''"
  "ipc_to_name nng ipc_peer_zoneid = macro_str nng ''NNG_OPT_IPC_PEER_ZONEID''"
  "ipc_to_name nng ipc_security_descriptor = macro_str nng ''NNG_OPT_IPC_SECURITY_DESCRIPTOR''"
  "ipc_to_name nng ipc_permissions = macro_str nng ''NNG_OPT_IPC_PERMISSIONS''"
  by (simp_all add: ipc_to_name_def ipc_names_def)

definition ipc_pipe_get_opt_peer_uid ::
  "'w nng \<Rightarrow> i32 \<Rightarrow> 'w st \<Rightarrow> w64 result \<times> 'w st" where
  "ipc_pipe_get_opt_peer_uid nng s = (\<lambda>\<sigma>.
     pipe_view_get_opt_uint64 nng s (ipc_to_name nng ipc_peer_uid) \<sigma>)"

definition ipc_pipe_get_opt_peer_gid ::
  "'w nng \<Rightarrow> i32 \<Rightarrow> 'w st \<Rightarrow> w64 result \<times> 'w st" where
  "ipc_pipe_get_opt_peer_gid nng s = (\<lambda>\<sigma>.
     pipe_view_get_opt_uint64 nng s (ipc_to_name nng ipc_peer_gid) \<sigma>)"

definition ipc_pipe_get_opt_peer_pid ::
  "'w nng \<Rightarrow> i32 \<Rightarrow> 'w st \<Rightarrow> w64 result \<times> 'w st" where
  "ipc_pipe_get_opt_peer_pid nng s = (\<lambda>\<sigma>.
     pipe_view_get_opt_uint64 nng s (ipc_to_name nng ipc_peer_pid) \<sigma>)"

definition ipc_pipe_get_opt_peer_zoneid ::
  "'w nng \<Rightarrow> i32 \<Rightarrow> 'w st \<Rightarrow> w64 result \<times> 'w st" where
  "ipc_pipe_get_opt_peer_zoneid nng s = (\<lambda>\<sigma>.
     pipe_view_get_opt_uint64 nng s (ipc_to_name nng ipc_peer_zoneid) \<sigma>)"

definition ipc_listener_set_opt_security_descriptor ::
  "'w nng \<Rightarrow> i32 \<Rightarrow> ptr \<Rightarrow> 'w st \<Rightarrow> unit result \<times> 'w st" where
  "ipc_listener_set_opt_security_descriptor nng s v = (\<lambda>\<sigma>.
     listener_view_set_opt_ptr nng s (ipc_to_name nng ipc_security_descriptor) v \<sigma>)"

definition ipc_listener_set_opt_permissions ::
  "'w nng \<Rightarrow> i32 \<Rightarrow> i32 \<Rightarrow> 'w st \<Rightarrow> unit result \<times> 'w st" where
  "ipc_listener_set_opt_permissions nng s v = (\<lambda>\<sigma>.
     listener_view_set_opt_int nng s (ipc_to_name nng ipc_permissions) v \<sigma>)"

datatype ws_option =
    ws_request_headers
  | ws_response_headers
  | ws_request_header
  | ws_response_header
  | ws_request_uri
  | ws_send_frame_max
  | ws_recv_frame_max
  | ws_protocol
  | ws_send_text
  | ws_recv_text

fun ws_option_index :: "ws_option \<Rightarrow> nat" where
  "ws_option_index ws_request_headers = 0"
| "ws_option_index ws_response_headers = 1"
| "ws_option_index ws_request_header = 2"
| "ws_option_index ws_response_header = 3"
| "ws_option_index ws_request_uri = 4"
| "ws_option_index ws_send_frame_max = 5"
| "ws_option_index ws_recv_frame_max = 6"
| "ws_option_index ws_protocol = 7"
| "ws_option_index ws_send_text = 8"
| "ws_option_index ws_recv_text = 9"

definition ws_names :: "'w nng \<Rightarrow> string list" where
  "ws_names nng = map (macro_str nng)
     [''NNG_OPT_WS_REQUEST_HEADERS'',
      ''NNG_OPT_WS_RESPONSE_HEADERS'',
      ''NNG_OPT_WS_REQUEST_HEADER'',
      ''NNG_OPT_WS_RESPONSE_HEADER'',
      ''NNG_OPT_WS_REQUEST_URI'',
      ''NNG_OPT_WS_SENDMAXFRAME'',
      ''NNG_OPT_WS_RECVMAXFRAME'',
      ''NNG_OPT_WS_PROTOCOL'',
      ''NNG_OPT_WS_SEND_TEXT'',
      ''NNG_OPT_WS_RECV_TEXT'']"

definition ws_to_name :: "'w nng \<Rightarrow> ws_option \<Rightarrow> string" where
  "ws_to_name nng x = ws_names nng ! ws_option_index x"

text \<open>The type each option carries in its comment.\<close>

fun ws_type :: "ws_option \<Rightarrow> option_type" where
  "ws_type ws_request_headers = string_opt"
| "ws_type ws_response_headers = string_opt"
| "ws_type ws_request_header = string_opt"
| "ws_type ws_response_header = string_opt"
| "ws_type ws_request_uri = string_opt"
| "ws_type ws_send_frame_max = size_opt"
| "ws_type ws_recv_frame_max = size_opt"
| "ws_type ws_protocol = string_opt"
| "ws_type ws_send_text = bool_opt"
| "ws_type ws_recv_text = bool_opt"

lemma ws_to_name_simps [simp]:
  "ws_to_name nng ws_request_headers = macro_str nng ''NNG_OPT_WS_REQUEST_HEADERS''"
  "ws_to_name nng ws_response_headers = macro_str nng ''NNG_OPT_WS_RESPONSE_HEADERS''"
  "ws_to_name nng ws_request_header = macro_str nng ''NNG_OPT_WS_REQUEST_HEADER''"
  "ws_to_name nng ws_response_header = macro_str nng ''NNG_OPT_WS_RESPONSE_HEADER''"
  "ws_to_name nng ws_request_uri = macro_str nng ''NNG_OPT_WS_REQUEST_URI''"
  "ws_to_name nng ws_send_frame_max = macro_str nng ''NNG_OPT_WS_SENDMAXFRAME''"
  "ws_to_name nng ws_recv_frame_max = macro_str nng ''NNG_OPT_WS_RECVMAXFRAME''"
  "ws_to_name nng ws_protocol = macro_str nng ''NNG_OPT_WS_PROTOCOL''"
  "ws_to_name nng ws_send_text = macro_str nng ''NNG_OPT_WS_SEND_TEXT''"
  "ws_to_name nng ws_recv_text = macro_str nng ''NNG_OPT_WS_RECV_TEXT''"
  by (simp_all add: ws_to_name_def ws_names_def)

definition ws_pipe_get_opt_request_headers ::
  "'w nng \<Rightarrow> i32 \<Rightarrow> 'w st \<Rightarrow> view result \<times> 'w st" where
  "ws_pipe_get_opt_request_headers nng s = (\<lambda>\<sigma>.
     pipe_view_get_opt_string nng s (ws_to_name nng ws_request_headers) \<sigma>)"

definition ws_pipe_get_opt_response_headers ::
  "'w nng \<Rightarrow> i32 \<Rightarrow> 'w st \<Rightarrow> view result \<times> 'w st" where
  "ws_pipe_get_opt_response_headers nng s = (\<lambda>\<sigma>.
     pipe_view_get_opt_string nng s (ws_to_name nng ws_response_headers) \<sigma>)"

definition ws_pipe_get_opt_request_header ::
  "'w nng \<Rightarrow> i32 \<Rightarrow> 'w st \<Rightarrow> view result \<times> 'w st" where
  "ws_pipe_get_opt_request_header nng s = (\<lambda>\<sigma>.
     pipe_view_get_opt_string nng s (ws_to_name nng ws_request_header) \<sigma>)"

definition ws_pipe_get_opt_response_header ::
  "'w nng \<Rightarrow> i32 \<Rightarrow> 'w st \<Rightarrow> view result \<times> 'w st" where
  "ws_pipe_get_opt_response_header nng s = (\<lambda>\<sigma>.
     pipe_view_get_opt_string nng s (ws_to_name nng ws_response_header) \<sigma>)"

definition ws_pipe_get_opt_request_uri ::
  "'w nng \<Rightarrow> i32 \<Rightarrow> 'w st \<Rightarrow> view result \<times> 'w st" where
  "ws_pipe_get_opt_request_uri nng s = (\<lambda>\<sigma>.
     pipe_view_get_opt_string nng s (ws_to_name nng ws_request_uri) \<sigma>)"

definition ws_dialer_set_opt_request_headers ::
  "'w nng \<Rightarrow> i32 \<Rightarrow> string \<Rightarrow> 'w st \<Rightarrow> unit result \<times> 'w st" where
  "ws_dialer_set_opt_request_headers nng s v = (\<lambda>\<sigma>.
     dialer_view_set_opt_string nng s (ws_to_name nng ws_request_headers) v \<sigma>)"

definition ws_listener_set_opt_response_headers ::
  "'w nng \<Rightarrow> i32 \<Rightarrow> string \<Rightarrow> 'w st \<Rightarrow> unit result \<times> 'w st" where
  "ws_listener_set_opt_response_headers nng s v = (\<lambda>\<sigma>.
     listener_view_set_opt_string nng s (ws_to_name nng ws_response_headers) v \<sigma>)"

definition ws_dialer_set_opt_request_header ::
  "'w nng \<Rightarrow> i32 \<Rightarrow> string \<Rightarrow> 'w st \<Rightarrow> unit result \<times> 'w st" where
  "ws_dialer_set_opt_request_header nng s v = (\<lambda>\<sigma>.
     dialer_view_set_opt_string nng s (ws_to_name nng ws_request_header) v \<sigma>)"

definition ws_listener_set_opt_response_header ::
  "'w nng \<Rightarrow> i32 \<Rightarrow> string \<Rightarrow> 'w st \<Rightarrow> unit result \<times> 'w st" where
  "ws_listener_set_opt_response_header nng s v = (\<lambda>\<sigma>.
     listener_view_set_opt_string nng s (ws_to_name nng ws_response_header) v \<sigma>)"

definition ws_dialer_set_opt_request_uri ::
  "'w nng \<Rightarrow> i32 \<Rightarrow> string \<Rightarrow> 'w st \<Rightarrow> unit result \<times> 'w st" where
  "ws_dialer_set_opt_request_uri nng s v = (\<lambda>\<sigma>.
     dialer_view_set_opt_string nng s (ws_to_name nng ws_request_uri) v \<sigma>)"

datatype zt_option =
    zt_mtu
  | zt_nwid
  | zt_node
  | zt_home
  | zt_network_status
  | zt_network_name
  | zt_ping_time
  | zt_ping_tries
  | zt_conn_time
  | zt_conn_tries
  | zt_orbit
  | zt_deorbit

fun zt_option_index :: "zt_option \<Rightarrow> nat" where
  "zt_option_index zt_mtu = 0"
| "zt_option_index zt_nwid = 1"
| "zt_option_index zt_node = 2"
| "zt_option_index zt_home = 3"
| "zt_option_index zt_network_status = 4"
| "zt_option_index zt_network_name = 5"
| "zt_option_index zt_ping_time = 6"
| "zt_option_index zt_ping_tries = 7"
| "zt_option_index zt_conn_time = 8"
| "zt_option_index zt_conn_tries = 9"
| "zt_option_index zt_orbit = 10"
| "zt_option_index zt_deorbit = 11"

definition zt_names :: "'w nng \<Rightarrow> string list" where
  "zt_names nng = map (macro_str nng)
     [''NNG_OPT_ZT_MTU'',
      ''NNG_OPT_ZT_NWID'',
      ''NNG_OPT_ZT_NODE'',
      ''NNG_OPT_ZT_HOME'',
      ''NNG_OPT_ZT_NETWORK_STATUS'',
      ''NNG_OPT_ZT_NETWORK_NAME'',
      ''NNG_OPT_ZT_PING_TIME'',
      ''NNG_OPT_ZT_PING_TRIES'',
      ''NNG_OPT_ZT_CONN_TIME'',
      ''NNG_OPT_ZT_CONN_TRIES'',
      ''NNG_OPT_ZT_ORBIT'',
      ''NNG_OPT_ZT_DEORBIT'']"

definition zt_to_name :: "'w nng \<Rightarrow> zt_option \<Rightarrow> string" where
  "zt_to_name nng x = zt_names nng ! zt_option_index x"

text \<open>The type each option carries in its comment.\<close>

fun zt_type :: "zt_option \<Rightarrow> option_type" where
  "zt_type zt_mtu = size_opt"
| "zt_type zt_nwid = uint64_opt"
| "zt_type zt_node = uint64_opt"
| "zt_type zt_home = string_opt"
| "zt_type zt_network_status = int_opt"
| "zt_type zt_network_name = string_opt"
| "zt_type zt_ping_time = ms_opt"
| "zt_type zt_ping_tries = int_opt"
| "zt_type zt_conn_time = ms_opt"
| "zt_type zt_conn_tries = int_opt"
| "zt_type zt_orbit = uint64_opt"
| "zt_type zt_deorbit = uint64_opt"

lemma zt_to_name_simps [simp]:
  "zt_to_name nng zt_mtu = macro_str nng ''NNG_OPT_ZT_MTU''"
  "zt_to_name nng zt_nwid = macro_str nng ''NNG_OPT_ZT_NWID''"
  "zt_to_name nng zt_node = macro_str nng ''NNG_OPT_ZT_NODE''"
  "zt_to_name nng zt_home = macro_str nng ''NNG_OPT_ZT_HOME''"
  "zt_to_name nng zt_network_status = macro_str nng ''NNG_OPT_ZT_NETWORK_STATUS''"
  "zt_to_name nng zt_network_name = macro_str nng ''NNG_OPT_ZT_NETWORK_NAME''"
  "zt_to_name nng zt_ping_time = macro_str nng ''NNG_OPT_ZT_PING_TIME''"
  "zt_to_name nng zt_ping_tries = macro_str nng ''NNG_OPT_ZT_PING_TRIES''"
  "zt_to_name nng zt_conn_time = macro_str nng ''NNG_OPT_ZT_CONN_TIME''"
  "zt_to_name nng zt_conn_tries = macro_str nng ''NNG_OPT_ZT_CONN_TRIES''"
  "zt_to_name nng zt_orbit = macro_str nng ''NNG_OPT_ZT_ORBIT''"
  "zt_to_name nng zt_deorbit = macro_str nng ''NNG_OPT_ZT_DEORBIT''"
  by (simp_all add: zt_to_name_def zt_names_def)

definition zt_pipe_get_opt_mtu ::
  "'w nng \<Rightarrow> i32 \<Rightarrow> 'w st \<Rightarrow> w64 result \<times> 'w st" where
  "zt_pipe_get_opt_mtu nng s = (\<lambda>\<sigma>.
     pipe_view_get_opt_size nng s (zt_to_name nng zt_mtu) \<sigma>)"

definition zt_pipe_get_opt_nwid ::
  "'w nng \<Rightarrow> i32 \<Rightarrow> 'w st \<Rightarrow> w64 result \<times> 'w st" where
  "zt_pipe_get_opt_nwid nng s = (\<lambda>\<sigma>.
     pipe_view_get_opt_uint64 nng s (zt_to_name nng zt_nwid) \<sigma>)"

definition zt_pipe_get_opt_node ::
  "'w nng \<Rightarrow> i32 \<Rightarrow> 'w st \<Rightarrow> w64 result \<times> 'w st" where
  "zt_pipe_get_opt_node nng s = (\<lambda>\<sigma>.
     pipe_view_get_opt_uint64 nng s (zt_to_name nng zt_node) \<sigma>)"

definition zt_dialer_get_opt_home ::
  "'w nng \<Rightarrow> i32 \<Rightarrow> 'w st \<Rightarrow> view result \<times> 'w st" where
  "zt_dialer_get_opt_home nng s = (\<lambda>\<sigma>.
     dialer_view_get_opt_string nng s (zt_to_name nng zt_home) \<sigma>)"

definition zt_dialer_set_opt_home ::
  "'w nng \<Rightarrow> i32 \<Rightarrow> string \<Rightarrow> 'w st \<Rightarrow> unit result \<times> 'w st" where
  "zt_dialer_set_opt_home nng s v = (\<lambda>\<sigma>.
     dialer_view_set_opt_string nng s (zt_to_name nng zt_home) v \<sigma>)"

definition zt_dialer_get_opt_node ::
  "'w nng \<Rightarrow> i32 \<Rightarrow> 'w st \<Rightarrow> w64 result \<times> 'w st" where
  "zt_dialer_get_opt_node nng s = (\<lambda>\<sigma>.
     dialer_view_get_opt_uint64 nng s (zt_to_name nng zt_node) \<sigma>)"

definition zt_dialer_get_opt_nwid ::
  "'w nng \<Rightarrow> i32 \<Rightarrow> 'w st \<Rightarrow> w64 result \<times> 'w st" where
  "zt_dialer_get_opt_nwid nng s = (\<lambda>\<sigma>.
     dialer_view_get_opt_uint64 nng s (zt_to_name nng zt_nwid) \<sigma>)"

definition zt_dialer_get_opt_network_status ::
  "'w nng \<Rightarrow> i32 \<Rightarrow> 'w st \<Rightarrow> i32 result \<times> 'w st" where
  "zt_dialer_get_opt_network_status nng s = (\<lambda>\<sigma>.
     dialer_view_get_opt_int nng s (zt_to_name nng zt_network_status) \<sigma>)"

definition zt_dialer_get_opt_network_name ::
  "'w nng \<Rightarrow> i32 \<Rightarrow> 'w st \<Rightarrow> view result \<times> 'w st" where
  "zt_dialer_get_opt_network_name nng s = (\<lambda>\<sigma>.
     dialer_view_get_opt_string nng s (zt_to_name nng zt_network_name) \<sigma>)"

definition zt_dialer_get_opt_ping_time ::
  "'w nng \<Rightarrow> i32 \<Rightarrow> 'w st \<Rightarrow> i32 result \<times> 'w st" where
  "zt_dialer_get_opt_ping_time nng s = (\<lambda>\<sigma>.
     dialer_view_get_opt_ms nng s (zt_to_name nng zt_ping_time) \<sigma>)"

definition zt_dialer_set_opt_ping_time ::
  "'w nng \<Rightarrow> i32 \<Rightarrow> i32 \<Rightarrow> 'w st \<Rightarrow> unit result \<times> 'w st" where
  "zt_dialer_set_opt_ping_time nng s v = (\<lambda>\<sigma>.
     dialer_view_set_opt_ms nng s (zt_to_name nng zt_ping_time) v \<sigma>)"

definition zt_dialer_get_opt_ping_tries ::
  "'w nng \<Rightarrow> i32 \<Rightarrow> 'w st \<Rightarrow> i32 result \<times> 'w st" where
  "zt_dialer_get_opt_ping_tries nng s = (\<lambda>\<sigma>.
     dialer_view_get_opt_int nng s (zt_to_name nng zt_ping_tries) \<sigma>)"

definition zt_dialer_set_opt_ping_tries ::
  "'w nng \<Rightarrow> i32 \<Rightarrow> i32 \<Rightarrow> 'w st \<Rightarrow> unit result \<times> 'w st" where
  "zt_dialer_set_opt_ping_tries nng s v = (\<lambda>\<sigma>.
     dialer_view_set_opt_int nng s (zt_to_name nng zt_ping_tries) v \<sigma>)"

definition zt_dialer_get_opt_conn_time ::
  "'w nng \<Rightarrow> i32 \<Rightarrow> 'w st \<Rightarrow> i32 result \<times> 'w st" where
  "zt_dialer_get_opt_conn_time nng s = (\<lambda>\<sigma>.
     dialer_view_get_opt_ms nng s (zt_to_name nng zt_conn_time) \<sigma>)"

definition zt_dialer_set_opt_conn_time ::
  "'w nng \<Rightarrow> i32 \<Rightarrow> i32 \<Rightarrow> 'w st \<Rightarrow> unit result \<times> 'w st" where
  "zt_dialer_set_opt_conn_time nng s v = (\<lambda>\<sigma>.
     dialer_view_set_opt_ms nng s (zt_to_name nng zt_conn_time) v \<sigma>)"

definition zt_dialer_get_opt_conn_tries ::
  "'w nng \<Rightarrow> i32 \<Rightarrow> 'w st \<Rightarrow> i32 result \<times> 'w st" where
  "zt_dialer_get_opt_conn_tries nng s = (\<lambda>\<sigma>.
     dialer_view_get_opt_int nng s (zt_to_name nng zt_conn_tries) \<sigma>)"

definition zt_dialer_set_opt_conn_tries ::
  "'w nng \<Rightarrow> i32 \<Rightarrow> i32 \<Rightarrow> 'w st \<Rightarrow> unit result \<times> 'w st" where
  "zt_dialer_set_opt_conn_tries nng s v = (\<lambda>\<sigma>.
     dialer_view_set_opt_int nng s (zt_to_name nng zt_conn_tries) v \<sigma>)"

definition zt_dialer_get_opt_orbit ::
  "'w nng \<Rightarrow> i32 \<Rightarrow> 'w st \<Rightarrow> w64 result \<times> 'w st" where
  "zt_dialer_get_opt_orbit nng s = (\<lambda>\<sigma>.
     dialer_view_get_opt_uint64 nng s (zt_to_name nng zt_orbit) \<sigma>)"

definition zt_dialer_set_opt_orbit ::
  "'w nng \<Rightarrow> i32 \<Rightarrow> w64 \<Rightarrow> 'w st \<Rightarrow> unit result \<times> 'w st" where
  "zt_dialer_set_opt_orbit nng s v = (\<lambda>\<sigma>.
     dialer_view_set_opt_uint64 nng s (zt_to_name nng zt_orbit) v \<sigma>)"

definition zt_dialer_get_opt_deorbit ::
  "'w nng \<Rightarrow> i32 \<Rightarrow> 'w st \<Rightarrow> w64 result \<times> 'w st" where
  "zt_dialer_get_opt_deorbit nng s = (\<lambda>\<sigma>.
     dialer_view_get_opt_uint64 nng s (zt_to_name nng zt_deorbit) \<sigma>)"

definition zt_dialer_set_opt_deorbit ::
  "'w nng \<Rightarrow> i32 \<Rightarrow> w64 \<Rightarrow> 'w st \<Rightarrow> unit result \<times> 'w st" where
  "zt_dialer_set_opt_deorbit nng s v = (\<lambda>\<sigma>.
     dialer_view_set_opt_uint64 nng s (zt_to_name nng zt_deorbit) v \<sigma>)"

definition zt_listener_get_opt_home ::
  "'w nng \<Rightarrow> i32 \<Rightarrow> 'w st \<Rightarrow> view result \<times> 'w st" where
  "zt_listener_get_opt_home nng s = (\<lambda>\<sigma>.
     listener_view_get_opt_string nng s (zt_to_name nng zt_home) \<sigma>)"

definition zt_listener_set_opt_home ::
  "'w nng \<Rightarrow> i32 \<Rightarrow> string \<Rightarrow> 'w st \<Rightarrow> unit result \<times> 'w st" where
  "zt_listener_set_opt_home nng s v = (\<lambda>\<sigma>.
     listener_view_set_opt_string nng s (zt_to_name nng zt_home) v \<sigma>)"

definition zt_listener_get_opt_node ::
  "'w nng \<Rightarrow> i32 \<Rightarrow> 'w st \<Rightarrow> w64 result \<times> 'w st" where
  "zt_listener_get_opt_node nng s = (\<lambda>\<sigma>.
     listener_view_get_opt_uint64 nng s (zt_to_name nng zt_node) \<sigma>)"

definition zt_listener_get_opt_nwid ::
  "'w nng \<Rightarrow> i32 \<Rightarrow> 'w st \<Rightarrow> w64 result \<times> 'w st" where
  "zt_listener_get_opt_nwid nng s = (\<lambda>\<sigma>.
     listener_view_get_opt_uint64 nng s (zt_to_name nng zt_nwid) \<sigma>)"

definition zt_listener_get_opt_network_status ::
  "'w nng \<Rightarrow> i32 \<Rightarrow> 'w st \<Rightarrow> i32 result \<times> 'w st" where
  "zt_listener_get_opt_network_status nng s = (\<lambda>\<sigma>.
     listener_view_get_opt_int nng s (zt_to_name nng zt_network_status) \<sigma>)"

definition zt_listener_get_opt_network_name ::
  "'w nng \<Rightarrow> i32 \<Rightarrow> 'w st \<Rightarrow> view result \<times> 'w st" where
  "zt_listener_get_opt_network_name nng s = (\<lambda>\<sigma>.
     listener_view_get_opt_string nng s (zt_to_name nng zt_network_name) \<sigma>)"

definition zt_listener_get_opt_ping_time ::
  "'w nng \<Rightarrow> i32 \<Rightarrow> 'w st \<Rightarrow> i32 result \<times> 'w st" where
  "zt_listener_get_opt_ping_time nng s = (\<lambda>\<sigma>.
     listener_view_get_opt_ms nng s (zt_to_name nng zt_ping_time) \<sigma>)"

definition zt_listener_set_opt_ping_time ::
  "'w nng \<Rightarrow> i32 \<Rightarrow> i32 \<Rightarrow> 'w st \<Rightarrow> unit result \<times> 'w st" where
  "zt_listener_set_opt_ping_time nng s v = (\<lambda>\<sigma>.
     listener_view_set_opt_ms nng s (zt_to_name nng zt_ping_time) v \<sigma>)"

definition zt_listener_get_opt_ping_tries ::
  "'w nng \<Rightarrow> i32 \<Rightarrow> 'w st \<Rightarrow> i32 result \<times> 'w st" where
  "zt_listener_get_opt_ping_tries nng s = (\<lambda>\<sigma>.
     listener_view_get_opt_int nng s (zt_to_name nng zt_ping_tries) \<sigma>)"

definition zt_listener_set_opt_ping_tries ::
  "'w nng \<Rightarrow> i32 \<Rightarrow> i32 \<Rightarrow> 'w st \<Rightarrow> unit result \<times> 'w st" where
  "zt_listener_set_opt_ping_tries nng s v = (\<lambda>\<sigma>.
     listener_view_set_opt_int nng s (zt_to_name nng zt_ping_tries) v \<sigma>)"

definition zt_listener_get_opt_orbit ::
  "'w nng \<Rightarrow> i32 \<Rightarrow> 'w st \<Rightarrow> w64 result \<times> 'w st" where
  "zt_listener_get_opt_orbit nng s = (\<lambda>\<sigma>.
     listener_view_get_opt_uint64 nng s (zt_to_name nng zt_orbit) \<sigma>)"

definition zt_listener_set_opt_orbit ::
  "'w nng \<Rightarrow> i32 \<Rightarrow> w64 \<Rightarrow> 'w st \<Rightarrow> unit result \<times> 'w st" where
  "zt_listener_set_opt_orbit nng s v = (\<lambda>\<sigma>.
     listener_view_set_opt_uint64 nng s (zt_to_name nng zt_orbit) v \<sigma>)"

definition zt_listener_get_opt_deorbit ::
  "'w nng \<Rightarrow> i32 \<Rightarrow> 'w st \<Rightarrow> w64 result \<times> 'w st" where
  "zt_listener_get_opt_deorbit nng s = (\<lambda>\<sigma>.
     listener_view_get_opt_uint64 nng s (zt_to_name nng zt_deorbit) \<sigma>)"

definition zt_listener_set_opt_deorbit ::
  "'w nng \<Rightarrow> i32 \<Rightarrow> w64 \<Rightarrow> 'w st \<Rightarrow> unit result \<times> 'w st" where
  "zt_listener_set_opt_deorbit nng s v = (\<lambda>\<sigma>.
     listener_view_set_opt_uint64 nng s (zt_to_name nng zt_deorbit) v \<sigma>)"

section \<open>Properties\<close>

lemmas transport_options_typed_defs =
  tcp_pipe_get_opt_no_delay_def tcp_pipe_get_opt_keep_alive_def tcp_pipe_get_opt_bound_port_def
  tcp_dialer_get_opt_no_delay_def tcp_dialer_get_opt_keep_alive_def
  tcp_listener_get_opt_no_delay_def tcp_listener_get_opt_keep_alive_def
  tcp_listener_get_opt_bound_port_def tcp_socket_get_opt_no_delay_def
  tcp_socket_get_opt_keep_alive_def tcp_dialer_set_opt_no_delay_def
  tcp_dialer_set_opt_keep_alive_def tcp_listener_set_opt_no_delay_def
  tcp_listener_set_opt_keep_alive_def tcp_socket_set_opt_no_delay_def
  tcp_socket_set_opt_keep_alive_def ipc_pipe_get_opt_peer_uid_def ipc_pipe_get_opt_peer_gid_def
  ipc_pipe_get_opt_peer_pid_def ipc_pipe_get_opt_peer_zoneid_def
  ipc_listener_set_opt_security_descriptor_def ipc_listener_set_opt_permissions_def
  ws_pipe_get_opt_request_headers_def ws_pipe_get_opt_response_headers_def
  ws_pipe_get_opt_request_header_def ws_pipe_get_opt_response_header_def
  ws_pipe_get_opt_request_uri_def ws_dialer_set_opt_request_headers_def
  ws_listener_set_opt_response_headers_def ws_dialer_set_opt_request_header_def
  ws_listener_set_opt_response_header_def ws_dialer_set_opt_request_uri_def
  zt_pipe_get_opt_mtu_def zt_pipe_get_opt_nwid_def zt_pipe_get_opt_node_def
  zt_dialer_get_opt_home_def zt_dialer_set_opt_home_def zt_dialer_get_opt_node_def
  zt_dialer_get_opt_nwid_def zt_dialer_get_opt_network_status_def
  zt_dialer_get_opt_network_name_def zt_dialer_get_opt_ping_time_def
  zt_dialer_set_opt_ping_time_def zt_dialer_get_opt_ping_tries_def
  zt_dialer_set_opt_ping_tries_def zt_dialer_get_opt_conn_time_def
  zt_dialer_set_opt_conn_time_def zt_dialer_get_opt_conn_tries_def
  zt_dialer_set_opt_conn_tries_def zt_dialer_get_opt_orbit_def zt_dialer_set_opt_orbit_def
  zt_dialer_get_opt_deorbit_def zt_dialer_set_opt_deorbit_def zt_listener_get_opt_home_def
  zt_listener_set_opt_home_def zt_listener_get_opt_node_def zt_listener_get_opt_nwid_def
  zt_listener_get_opt_network_status_def zt_listener_get_opt_network_name_def
  zt_listener_get_opt_ping_time_def zt_listener_set_opt_ping_time_def
  zt_listener_get_opt_ping_tries_def zt_listener_set_opt_ping_tries_def
  zt_listener_get_opt_orbit_def zt_listener_set_opt_orbit_def zt_listener_get_opt_deorbit_def
  zt_listener_set_opt_deorbit_def

text \<open>Every accessor of an option of the TCP, IPC, WebSocket and ZeroTier transports reads or writes
  the option it is named after, on the class it takes, through the nng function for the type the
  option is documented with.\<close>

theorem transport_options_typed:
  "(\<forall>s. reads_option ''nng_pipe'' (VId s) (tcp_to_name nng tcp_no_delay) (tcp_type tcp_no_delay) (tcp_pipe_get_opt_no_delay nng s)) \<and>
    (\<forall>s. reads_option ''nng_pipe'' (VId s) (tcp_to_name nng tcp_keep_alive) (tcp_type tcp_keep_alive) (tcp_pipe_get_opt_keep_alive nng s)) \<and>
    (\<forall>s. reads_option ''nng_pipe'' (VId s) (tcp_to_name nng tcp_bound_port) (tcp_type tcp_bound_port) (tcp_pipe_get_opt_bound_port nng s)) \<and>
    (\<forall>s. reads_option ''nng_dialer'' (VId s) (tcp_to_name nng tcp_no_delay) (tcp_type tcp_no_delay) (tcp_dialer_get_opt_no_delay nng s)) \<and>
    (\<forall>s. reads_option ''nng_dialer'' (VId s) (tcp_to_name nng tcp_keep_alive) (tcp_type tcp_keep_alive) (tcp_dialer_get_opt_keep_alive nng s)) \<and>
    (\<forall>s. reads_option ''nng_listener'' (VId s) (tcp_to_name nng tcp_no_delay) (tcp_type tcp_no_delay) (tcp_listener_get_opt_no_delay nng s)) \<and>
    (\<forall>s. reads_option ''nng_listener'' (VId s) (tcp_to_name nng tcp_keep_alive) (tcp_type tcp_keep_alive) (tcp_listener_get_opt_keep_alive nng s)) \<and>
    (\<forall>s. reads_option ''nng_listener'' (VId s) (tcp_to_name nng tcp_bound_port) (tcp_type tcp_bound_port) (tcp_listener_get_opt_bound_port nng s)) \<and>
    (\<forall>s. reads_option ''nng_socket'' (VId s) (tcp_to_name nng tcp_no_delay) (tcp_type tcp_no_delay) (tcp_socket_get_opt_no_delay nng s)) \<and>
    (\<forall>s. reads_option ''nng_socket'' (VId s) (tcp_to_name nng tcp_keep_alive) (tcp_type tcp_keep_alive) (tcp_socket_get_opt_keep_alive nng s)) \<and>
    (\<forall>s v. writes_option ''nng_dialer'' (VId s) (tcp_to_name nng tcp_no_delay) (tcp_type tcp_no_delay) (VB v) (tcp_dialer_set_opt_no_delay nng s v)) \<and>
    (\<forall>s v. writes_option ''nng_dialer'' (VId s) (tcp_to_name nng tcp_keep_alive) (tcp_type tcp_keep_alive) (VB v) (tcp_dialer_set_opt_keep_alive nng s v)) \<and>
    (\<forall>s v. writes_option ''nng_listener'' (VId s) (tcp_to_name nng tcp_no_delay) (tcp_type tcp_no_delay) (VB v) (tcp_listener_set_opt_no_delay nng s v)) \<and>
    (\<forall>s v. writes_option ''nng_listener'' (VId s) (tcp_to_name nng tcp_keep_alive) (tcp_type tcp_keep_alive) (VB v) (tcp_listener_set_opt_keep_alive nng s v)) \<and>
    (\<forall>s v. writes_option ''nng_socket'' (VId s) (tcp_to_name nng tcp_no_delay) (tcp_type tcp_no_delay) (VB v) (tcp_socket_set_opt_no_delay nng s v)) \<and>
    (\<forall>s v. writes_option ''nng_socket'' (VId s) (tcp_to_name nng tcp_keep_alive) (tcp_type tcp_keep_alive) (VB v) (tcp_socket_set_opt_keep_alive nng s v)) \<and>
    (\<forall>s. reads_option ''nng_pipe'' (VId s) (ipc_to_name nng ipc_peer_uid) (ipc_type ipc_peer_uid) (ipc_pipe_get_opt_peer_uid nng s)) \<and>
    (\<forall>s. reads_option ''nng_pipe'' (VId s) (ipc_to_name nng ipc_peer_gid) (ipc_type ipc_peer_gid) (ipc_pipe_get_opt_peer_gid nng s)) \<and>
    (\<forall>s. reads_option ''nng_pipe'' (VId s) (ipc_to_name nng ipc_peer_pid) (ipc_type ipc_peer_pid) (ipc_pipe_get_opt_peer_pid nng s)) \<and>
    (\<forall>s. reads_option ''nng_pipe'' (VId s) (ipc_to_name nng ipc_peer_zoneid) (ipc_type ipc_peer_zoneid) (ipc_pipe_get_opt_peer_zoneid nng s)) \<and>
    (\<forall>s v. writes_option ''nng_listener'' (VId s) (ipc_to_name nng ipc_security_descriptor) (ipc_type ipc_security_descriptor) (VW v) (ipc_listener_set_opt_security_descriptor nng s v)) \<and>
    (\<forall>s v. writes_option ''nng_listener'' (VId s) (ipc_to_name nng ipc_permissions) (ipc_type ipc_permissions) (VI v) (ipc_listener_set_opt_permissions nng s v)) \<and>
    (\<forall>s. reads_option ''nng_pipe'' (VId s) (ws_to_name nng ws_request_headers) (ws_type ws_request_headers) (ws_pipe_get_opt_request_headers nng s)) \<and>
    (\<forall>s. reads_option ''nng_pipe'' (VId s) (ws_to_name nng ws_response_headers) (ws_type ws_response_headers) (ws_pipe_get_opt_response_headers nng s)) \<and>
    (\<forall>s. reads_option ''nng_pipe'' (VId s) (ws_to_name nng ws_request_header) (ws_type ws_request_header) (ws_pipe_get_opt_request_header nng s)) \<and>
    (\<forall>s. reads_option ''nng_pipe'' (VId s) (ws_to_name nng ws_response_header) (ws_type ws_response_header) (ws_pipe_get_opt_response_header nng s)) \<and>
    (\<forall>s. reads_option ''nng_pipe'' (VId s) (ws_to_name nng ws_request_uri) (ws_type ws_request_uri) (ws_pipe_get_opt_request_uri nng s)) \<and>
    (\<forall>s v. writes_option ''nng_dialer'' (VId s) (ws_to_name nng ws_request_headers) (ws_type ws_request_headers) (VS v) (ws_dialer_set_opt_request_headers nng s v)) \<and>
    (\<forall>s v. writes_option ''nng_listener'' (VId s) (ws_to_name nng ws_response_headers) (ws_type ws_response_headers) (VS v) (ws_listener_set_opt_response_headers nng s v)) \<and>
    (\<forall>s v. writes_option ''nng_dialer'' (VId s) (ws_to_name nng ws_request_header) (ws_type ws_request_header) (VS v) (ws_dialer_set_opt_request_header nng s v)) \<and>
    (\<forall>s v. writes_option ''nng_listener'' (VId s) (ws_to_name nng ws_response_header) (ws_type ws_response_header) (VS v) (ws_listener_set_opt_response_header nng s v)) \<and>
    (\<forall>s v. writes_option ''nng_dialer'' (VId s) (ws_to_name nng ws_request_uri) (ws_type ws_request_uri) (VS v) (ws_dialer_set_opt_request_uri nng s v)) \<and>
    (\<forall>s. reads_option ''nng_pipe'' (VId s) (zt_to_name nng zt_mtu) (zt_type zt_mtu) (zt_pipe_get_opt_mtu nng s)) \<and>
    (\<forall>s. reads_option ''nng_pipe'' (VId s) (zt_to_name nng zt_nwid) (zt_type zt_nwid) (zt_pipe_get_opt_nwid nng s)) \<and>
    (\<forall>s. reads_option ''nng_pipe'' (VId s) (zt_to_name nng zt_node) (zt_type zt_node) (zt_pipe_get_opt_node nng s)) \<and>
    (\<forall>s. reads_option ''nng_dialer'' (VId s) (zt_to_name nng zt_home) (zt_type zt_home) (zt_dialer_get_opt_home nng s)) \<and>
    (\<forall>s v. writes_option ''nng_dialer'' (VId s) (zt_to_name nng zt_home) (zt_type zt_home) (VS v) (zt_dialer_set_opt_home nng s v)) \<and>
    (\<forall>s. reads_option ''nng_dialer'' (VId s) (zt_to_name nng zt_node) (zt_type zt_node) (zt_dialer_get_opt_node nng s)) \<and>
    (\<forall>s. reads_option ''nng_dialer'' (VId s) (zt_to_name nng zt_nwid) (zt_type zt_nwid) (zt_dialer_get_opt_nwid nng s)) \<and>
    (\<forall>s. reads_option ''nng_dialer'' (VId s) (zt_to_name nng zt_network_status) (zt_type zt_network_status) (zt_dialer_get_opt_network_status nng s)) \<and>
    (\<forall>s. reads_option ''nng_dialer'' (VId s) (zt_to_name nng zt_network_name) (zt_type zt_network_name) (zt_dialer_get_opt_network_name nng s)) \<and>
    (\<forall>s. reads_option ''nng_dialer'' (VId s) (zt_to_name nng zt_ping_time) (zt_type zt_ping_time) (zt_dialer_get_opt_ping_time nng s)) \<and>
    (\<forall>s v. writes_option ''nng_dialer'' (VId s) (zt_to_name nng zt_ping_time) (zt_type zt_ping_time) (VI v) (zt_dialer_set_opt_ping_time nng s v)) \<and>
    (\<forall>s. reads_option ''nng_dialer'' (VId s) (zt_to_name nng zt_ping_tries) (zt_type zt_ping_tries) (zt_dialer_get_opt_ping_tries nng s)) \<and>
    (\<forall>s v. writes_option ''nng_dialer'' (VId s) (zt_to_name nng zt_ping_tries) (zt_type zt_ping_tries) (VI v) (zt_dialer_set_opt_ping_tries nng s v)) \<and>
    (\<forall>s. reads_option ''nng_dialer'' (VId s) (zt_to_name nng zt_conn_time) (zt_type zt_conn_time) (zt_dialer_get_opt_conn_time nng s)) \<and>
    (\<forall>s v. writes_option ''nng_dialer'' (VId s) (zt_to_name nng zt_conn_time) (zt_type zt_conn_time) (VI v) (zt_dialer_set_opt_conn_time nng s v)) \<and>
    (\<forall>s. reads_option ''nng_dialer'' (VId s) (zt_to_name nng zt_conn_tries) (zt_type zt_conn_tries) (zt_dialer_get_opt_conn_tries nng s)) \<and>
    (\<forall>s v. writes_option ''nng_dialer'' (VId s) (zt_to_name nng zt_conn_tries) (zt_type zt_conn_tries) (VI v) (zt_dialer_set_opt_conn_tries nng s v)) \<and>
    (\<forall>s. reads_option ''nng_dialer'' (VId s) (zt_to_name nng zt_orbit) (zt_type zt_orbit) (zt_dialer_get_opt_orbit nng s)) \<and>
    (\<forall>s v. writes_option ''nng_dialer'' (VId s) (zt_to_name nng zt_orbit) (zt_type zt_orbit) (VW v) (zt_dialer_set_opt_orbit nng s v)) \<and>
    (\<forall>s. reads_option ''nng_dialer'' (VId s) (zt_to_name nng zt_deorbit) (zt_type zt_deorbit) (zt_dialer_get_opt_deorbit nng s)) \<and>
    (\<forall>s v. writes_option ''nng_dialer'' (VId s) (zt_to_name nng zt_deorbit) (zt_type zt_deorbit) (VW v) (zt_dialer_set_opt_deorbit nng s v)) \<and>
    (\<forall>s. reads_option ''nng_listener'' (VId s) (zt_to_name nng zt_home) (zt_type zt_home) (zt_listener_get_opt_home nng s)) \<and>
    (\<forall>s v. writes_option ''nng_listener'' (VId s) (zt_to_name nng zt_home) (zt_type zt_home) (VS v) (zt_listener_set_opt_home nng s v)) \<and>
    (\<forall>s. reads_option ''nng_listener'' (VId s) (zt_to_name nng zt_node) (zt_type zt_node) (zt_listener_get_opt_node nng s)) \<and>
    (\<forall>s. reads_option ''nng_listener'' (VId s) (zt_to_name nng zt_nwid) (zt_type zt_nwid) (zt_listener_get_opt_nwid nng s)) \<and>
    (\<forall>s. reads_option ''nng_listener'' (VId s) (zt_to_name nng zt_network_status) (zt_type zt_network_status) (zt_listener_get_opt_network_status nng s)) \<and>
    (\<forall>s. reads_option ''nng_listener'' (VId s) (zt_to_name nng zt_network_name) (zt_type zt_network_name) (zt_listener_get_opt_network_name nng s)) \<and>
    (\<forall>s. reads_option ''nng_listener'' (VId s) (zt_to_name nng zt_ping_time) (zt_type zt_ping_time) (zt_listener_get_opt_ping_time nng s)) \<and>
    (\<forall>s v. writes_option ''nng_listener'' (VId s) (zt_to_name nng zt_ping_time) (zt_type zt_ping_time) (VI v) (zt_listener_set_opt_ping_time nng s v)) \<and>
    (\<forall>s. reads_option ''nng_listener'' (VId s) (zt_to_name nng zt_ping_tries) (zt_type zt_ping_tries) (zt_listener_get_opt_ping_tries nng s)) \<and>
    (\<forall>s v. writes_option ''nng_listener'' (VId s) (zt_to_name nng zt_ping_tries) (zt_type zt_ping_tries) (VI v) (zt_listener_set_opt_ping_tries nng s v)) \<and>
    (\<forall>s. reads_option ''nng_listener'' (VId s) (zt_to_name nng zt_orbit) (zt_type zt_orbit) (zt_listener_get_opt_orbit nng s)) \<and>
    (\<forall>s v. writes_option ''nng_listener'' (VId s) (zt_to_name nng zt_orbit) (zt_type zt_orbit) (VW v) (zt_listener_set_opt_orbit nng s v)) \<and>
    (\<forall>s. reads_option ''nng_listener'' (VId s) (zt_to_name nng zt_deorbit) (zt_type zt_deorbit) (zt_listener_get_opt_deorbit nng s)) \<and>
    (\<forall>s v. writes_option ''nng_listener'' (VId s) (zt_to_name nng zt_deorbit) (zt_type zt_deorbit) (VW v) (zt_listener_set_opt_deorbit nng s v))"
  unfolding transport_options_typed_defs option_access socket_methods_report_defs endpoint_methods_report_defs
  by (intro conjI allI; simp)

lemmas transport_registration_reports_defs =
  inproc_register_transport_def ipc_register_transport_def tcp_register_transport_def
  ws_register_transport_def wss_register_transport_def zt_register_transport_def

text \<open>Registering a transport throws exactly when nng refuses, with its status and its name.\<close>

theorem transport_registration_reports:
  "reports_failure (inproc_register_transport nng) \<and>
    reports_failure (ipc_register_transport nng) \<and>
    reports_failure (tcp_register_transport nng) \<and>
    reports_failure (ws_register_transport nng) \<and>
    reports_failure (wss_register_transport nng) \<and>
    reports_failure (zt_register_transport nng)"
  unfolding transport_registration_reports_defs
  by (intro conjI allI reports_check reports_get reports_get_buf reports_string reports_as_u16)


end
