(* ===== verification/Streams.thy ===== *)
theory Streams
  imports Core
begin

text \<open>
  \<open>include/nngpp/stream/\<close>: dialers, listeners and streams of bytes, and their options.
  \<open>get<T>\<close> and \<open>set<T>\<close> pass the object representation of a local variable.
\<close>

section \<open>Owner classes\<close>

datatype stream_dialer_args =
    Sdialer_alloc string
  | Sdialer_alloc_url ptr

fun stream_dialer_exec ::
  "'w nng \<Rightarrow> (ptr, stream_dialer_args) raii_op \<Rightarrow> (ptr, 'w) cfg \<Rightarrow> (ptr, 'w) outcome" where
  "stream_dialer_exec nng (Default this) = m_default this"
| "stream_dialer_exec nng (Adopt this h) = m_adopt this h"
| "stream_dialer_exec nng (Acquire this (Sdialer_alloc url)) =
     m_acquire this (\<lambda>s. check_out ''nng_stream_dialer_alloc'' (get_w64 nng ''nng_stream_dialer_alloc'' [VS url] s))"
| "stream_dialer_exec nng (Acquire this (Sdialer_alloc_url u)) =
     m_acquire this (\<lambda>s. check_out ''nng_stream_dialer_alloc_url'' (get_w64 nng ''nng_stream_dialer_alloc_url'' [VW u] s))"
| "stream_dialer_exec nng (Copy_ctor this rhs) = m_deleted"
| "stream_dialer_exec nng (Move_ctor this rhs) = m_move_ctor this rhs"
| "stream_dialer_exec nng (Copy_assign this rhs) = m_deleted"
| "stream_dialer_exec nng (Move_assign this rhs) =
     m_move_assign (\<lambda>h. call_unit nng ''nng_stream_dialer_free'' [VW h]) this rhs"
| "stream_dialer_exec nng (Dtor this) =
     m_dtor (\<lambda>h. call_unit nng ''nng_stream_dialer_free'' [VW h]) this"
| "stream_dialer_exec nng (Release this) = m_release this"

definition stream_dialer_ev :: "call \<Rightarrow> ptr event option" where
  "stream_dialer_ev = ptr_ev [''nng_stream_dialer_alloc'', ''nng_stream_dialer_alloc_url''] ''nng_stream_dialer_free''"

lemma stream_dialer_calls [conforming]:
  "releases stream_dialer_ev (\<lambda>h. call_unit nng ''nng_stream_dialer_free'' [VW h])"
  "acquires stream_dialer_ev (\<lambda>s. check_out ''nng_stream_dialer_alloc'' (get_w64 nng ''nng_stream_dialer_alloc'' [VS url] s))"
  "acquires stream_dialer_ev (\<lambda>s. check_out ''nng_stream_dialer_alloc_url'' (get_w64 nng ''nng_stream_dialer_alloc_url'' [VW u] s))"
  unfolding stream_dialer_ev_def by (intro conforming; simp)+

interpretation stream_dialer: owner_class True "{Acquiring}" "stream_dialer_exec nng" "stream_dialer_ev" for nng :: "'w nng"
proof
  fix op
  show "conforms True {Acquiring} stream_dialer_ev op (stream_dialer_exec nng op)"
    by (cases "(nng, op)" rule: stream_dialer_exec.cases; simp only: stream_dialer_exec.simps prod.inject; intro conforming; simp)
qed

datatype stream_listener_args =
    Slistener_alloc string
  | Slistener_alloc_url ptr

fun stream_listener_exec ::
  "'w nng \<Rightarrow> (ptr, stream_listener_args) raii_op \<Rightarrow> (ptr, 'w) cfg \<Rightarrow> (ptr, 'w) outcome" where
  "stream_listener_exec nng (Default this) = m_default this"
| "stream_listener_exec nng (Adopt this h) = m_adopt this h"
| "stream_listener_exec nng (Acquire this (Slistener_alloc url)) =
     m_acquire this (\<lambda>s. check_out ''nng_stream_listener_alloc'' (get_w64 nng ''nng_stream_listener_alloc'' [VS url] s))"
| "stream_listener_exec nng (Acquire this (Slistener_alloc_url u)) =
     m_acquire this (\<lambda>s. check_out ''nng_stream_listener_alloc_url'' (get_w64 nng ''nng_stream_listener_alloc_url'' [VW u] s))"
| "stream_listener_exec nng (Copy_ctor this rhs) = m_deleted"
| "stream_listener_exec nng (Move_ctor this rhs) = m_move_ctor this rhs"
| "stream_listener_exec nng (Copy_assign this rhs) = m_deleted"
| "stream_listener_exec nng (Move_assign this rhs) =
     m_move_assign (\<lambda>h. call_unit nng ''nng_stream_listener_free'' [VW h]) this rhs"
| "stream_listener_exec nng (Dtor this) =
     m_dtor (\<lambda>h. call_unit nng ''nng_stream_listener_free'' [VW h]) this"
| "stream_listener_exec nng (Release this) = m_release this"

definition stream_listener_ev :: "call \<Rightarrow> ptr event option" where
  "stream_listener_ev = ptr_ev [''nng_stream_listener_alloc'', ''nng_stream_listener_alloc_url''] ''nng_stream_listener_free''"

lemma stream_listener_calls [conforming]:
  "releases stream_listener_ev (\<lambda>h. call_unit nng ''nng_stream_listener_free'' [VW h])"
  "acquires stream_listener_ev (\<lambda>s. check_out ''nng_stream_listener_alloc'' (get_w64 nng ''nng_stream_listener_alloc'' [VS url] s))"
  "acquires stream_listener_ev (\<lambda>s. check_out ''nng_stream_listener_alloc_url'' (get_w64 nng ''nng_stream_listener_alloc_url'' [VW u] s))"
  unfolding stream_listener_ev_def by (intro conforming; simp)+

interpretation stream_listener: owner_class True "{Acquiring}" "stream_listener_exec nng" "stream_listener_ev" for nng :: "'w nng"
proof
  fix op
  show "conforms True {Acquiring} stream_listener_ev op (stream_listener_exec nng op)"
    by (cases "(nng, op)" rule: stream_listener_exec.cases; simp only: stream_listener_exec.simps prod.inject; intro conforming; simp)
qed

fun stream_exec ::
  "'w nng \<Rightarrow> (ptr, unit) raii_op \<Rightarrow> (ptr, 'w) cfg \<Rightarrow> (ptr, 'w) outcome" where
  "stream_exec nng (Default this) = m_default this"
| "stream_exec nng (Adopt this h) = m_adopt this h"
| "stream_exec nng (Acquire this a) = m_deleted"
| "stream_exec nng (Copy_ctor this rhs) = m_deleted"
| "stream_exec nng (Move_ctor this rhs) = m_move_ctor this rhs"
| "stream_exec nng (Copy_assign this rhs) = m_deleted"
| "stream_exec nng (Move_assign this rhs) =
     m_move_assign (\<lambda>h. call_unit nng ''nng_stream_free'' [VW h]) this rhs"
| "stream_exec nng (Dtor this) =
     m_dtor (\<lambda>h. call_unit nng ''nng_stream_free'' [VW h]) this"
| "stream_exec nng (Release this) = m_release this"

definition stream_ev :: "call \<Rightarrow> ptr event option" where
  "stream_ev = ptr_ev [] ''nng_stream_free''"

lemma stream_calls [conforming]:
  "releases stream_ev (\<lambda>h. call_unit nng ''nng_stream_free'' [VW h])"
  unfolding stream_ev_def by (intro conforming; simp)+

interpretation stream: owner_class True "{}" "stream_exec nng" "stream_ev" for nng :: "'w nng"
proof
  fix op
  show "conforms True {} stream_ev op (stream_exec nng op)"
    by (cases "(nng, op)" rule: stream_exec.cases; simp only: stream_exec.simps prod.inject; intro conforming; simp)
qed

section \<open>Views\<close>

definition stream_dialer_view_close ::
  "'w nng \<Rightarrow> ptr \<Rightarrow> 'w st \<Rightarrow> 'w st" where
  "stream_dialer_view_close nng d = (\<lambda>\<sigma>.
     call_unit nng ''nng_stream_dialer_close'' [VW d] \<sigma>)"

definition stream_dialer_view_dial ::
  "'w nng \<Rightarrow> ptr \<Rightarrow> ptr \<Rightarrow> 'w st \<Rightarrow> 'w st" where
  "stream_dialer_view_dial nng d a = (\<lambda>\<sigma>.
     call_unit nng ''nng_stream_dialer_dial'' [VW d, VW a] \<sigma>)"

definition stream_dialer_view_get ::
  "'w nng \<Rightarrow> ptr \<Rightarrow> string \<Rightarrow> ptr \<Rightarrow> ptr \<Rightarrow> 'w st \<Rightarrow> unit result \<times> 'w st" where
  "stream_dialer_view_get nng d nm v szp = (\<lambda>\<sigma>.
     check ''nng_stream_dialer_get''
       (call_int nng ''nng_stream_dialer_get'' [VW d, VS nm, VW v, VW szp] \<sigma>))"

definition stream_dialer_view_get_T :: "'w nng \<Rightarrow> w64 \<Rightarrow> ptr \<Rightarrow> string \<Rightarrow> 'w st \<Rightarrow> byte list result \<times> 'w st" where
  "stream_dialer_view_get_T nng sizeof_T d nm = (\<lambda>\<sigma>. check_out ''nng_stream_dialer_get'' (get_addr nng ''nng_stream_dialer_get'' [VW d, VS nm, VW sizeof_T] \<sigma>))"

definition stream_dialer_view_get_bool ::
  "'w nng \<Rightarrow> ptr \<Rightarrow> string \<Rightarrow> 'w st \<Rightarrow> bool result \<times> 'w st" where
  "stream_dialer_view_get_bool nng d nm = (\<lambda>\<sigma>.
     check_out ''nng_stream_dialer_get_bool''
       (get_bool nng ''nng_stream_dialer_get_bool'' [VW d, VS nm] \<sigma>))"

definition stream_dialer_view_get_int ::
  "'w nng \<Rightarrow> ptr \<Rightarrow> string \<Rightarrow> 'w st \<Rightarrow> i32 result \<times> 'w st" where
  "stream_dialer_view_get_int nng d nm = (\<lambda>\<sigma>.
     check_out ''nng_stream_dialer_get_int''
       (get_int nng ''nng_stream_dialer_get_int'' [VW d, VS nm] \<sigma>))"

definition stream_dialer_view_get_size ::
  "'w nng \<Rightarrow> ptr \<Rightarrow> string \<Rightarrow> 'w st \<Rightarrow> w64 result \<times> 'w st" where
  "stream_dialer_view_get_size nng d nm = (\<lambda>\<sigma>.
     check_out ''nng_stream_dialer_get_size''
       (get_w64 nng ''nng_stream_dialer_get_size'' [VW d, VS nm] \<sigma>))"

definition stream_dialer_view_get_uint64 ::
  "'w nng \<Rightarrow> ptr \<Rightarrow> string \<Rightarrow> 'w st \<Rightarrow> w64 result \<times> 'w st" where
  "stream_dialer_view_get_uint64 nng d nm = (\<lambda>\<sigma>.
     check_out ''nng_stream_dialer_get_uint64''
       (get_w64 nng ''nng_stream_dialer_get_uint64'' [VW d, VS nm] \<sigma>))"

definition stream_dialer_view_get_string ::
  "'w nng \<Rightarrow> ptr \<Rightarrow> string \<Rightarrow> 'w st \<Rightarrow> view result \<times> 'w st" where
  "stream_dialer_view_get_string nng d nm = (\<lambda>\<sigma>.
     string_buffer (check_out ''nng_stream_dialer_get_string''
       (get_w64 nng ''nng_stream_dialer_get_string'' [VW d, VS nm] \<sigma>)))"

definition stream_dialer_view_get_ptr ::
  "'w nng \<Rightarrow> ptr \<Rightarrow> string \<Rightarrow> 'w st \<Rightarrow> ptr result \<times> 'w st" where
  "stream_dialer_view_get_ptr nng d nm = (\<lambda>\<sigma>.
     check_out ''nng_stream_dialer_get_ptr''
       (get_w64 nng ''nng_stream_dialer_get_ptr'' [VW d, VS nm] \<sigma>))"

definition stream_dialer_view_get_ms ::
  "'w nng \<Rightarrow> ptr \<Rightarrow> string \<Rightarrow> 'w st \<Rightarrow> i32 result \<times> 'w st" where
  "stream_dialer_view_get_ms nng d nm = (\<lambda>\<sigma>.
     check_out ''nng_stream_dialer_get_ms''
       (get_int nng ''nng_stream_dialer_get_ms'' [VW d, VS nm] \<sigma>))"

definition stream_dialer_view_get_addr ::
  "'w nng \<Rightarrow> ptr \<Rightarrow> string \<Rightarrow> 'w st \<Rightarrow> byte list result \<times> 'w st" where
  "stream_dialer_view_get_addr nng d nm = (\<lambda>\<sigma>.
     check_out ''nng_stream_dialer_get_addr''
       (get_addr nng ''nng_stream_dialer_get_addr'' [VW d, VS nm] \<sigma>))"

definition stream_dialer_view_set ::
  "'w nng \<Rightarrow> ptr \<Rightarrow> string \<Rightarrow> ptr \<Rightarrow> w64 \<Rightarrow> 'w st \<Rightarrow> unit result \<times> 'w st" where
  "stream_dialer_view_set nng d nm v sz = (\<lambda>\<sigma>.
     check ''nng_stream_dialer_set''
       (call_int nng ''nng_stream_dialer_set'' [VW d, VS nm, VW v, VW sz] \<sigma>))"

definition stream_dialer_view_set_T :: "'w nng \<Rightarrow> ptr \<Rightarrow> string \<Rightarrow> byte list \<Rightarrow> 'w st \<Rightarrow> unit result \<times> 'w st" where
  "stream_dialer_view_set_T nng d nm v = (\<lambda>\<sigma>. check ''nng_stream_dialer_set'' (call_int nng ''nng_stream_dialer_set'' [VW d, VS nm, VA v, VW (of_nat (length v))] \<sigma>))"

definition stream_dialer_view_set_bool ::
  "'w nng \<Rightarrow> ptr \<Rightarrow> string \<Rightarrow> bool \<Rightarrow> 'w st \<Rightarrow> unit result \<times> 'w st" where
  "stream_dialer_view_set_bool nng d nm v = (\<lambda>\<sigma>.
     check ''nng_stream_dialer_set_bool''
       (call_int nng ''nng_stream_dialer_set_bool'' [VW d, VS nm, VB v] \<sigma>))"

definition stream_dialer_view_set_int ::
  "'w nng \<Rightarrow> ptr \<Rightarrow> string \<Rightarrow> i32 \<Rightarrow> 'w st \<Rightarrow> unit result \<times> 'w st" where
  "stream_dialer_view_set_int nng d nm v = (\<lambda>\<sigma>.
     check ''nng_stream_dialer_set_int''
       (call_int nng ''nng_stream_dialer_set_int'' [VW d, VS nm, VI v] \<sigma>))"

definition stream_dialer_view_set_size ::
  "'w nng \<Rightarrow> ptr \<Rightarrow> string \<Rightarrow> w64 \<Rightarrow> 'w st \<Rightarrow> unit result \<times> 'w st" where
  "stream_dialer_view_set_size nng d nm v = (\<lambda>\<sigma>.
     check ''nng_stream_dialer_set_size''
       (call_int nng ''nng_stream_dialer_set_size'' [VW d, VS nm, VW v] \<sigma>))"

definition stream_dialer_view_set_uint64 ::
  "'w nng \<Rightarrow> ptr \<Rightarrow> string \<Rightarrow> w64 \<Rightarrow> 'w st \<Rightarrow> unit result \<times> 'w st" where
  "stream_dialer_view_set_uint64 nng d nm v = (\<lambda>\<sigma>.
     check ''nng_stream_dialer_set_uint64''
       (call_int nng ''nng_stream_dialer_set_uint64'' [VW d, VS nm, VW v] \<sigma>))"

definition stream_dialer_view_set_string ::
  "'w nng \<Rightarrow> ptr \<Rightarrow> string \<Rightarrow> string \<Rightarrow> 'w st \<Rightarrow> unit result \<times> 'w st" where
  "stream_dialer_view_set_string nng d nm v = (\<lambda>\<sigma>.
     check ''nng_stream_dialer_set_string''
       (call_int nng ''nng_stream_dialer_set_string'' [VW d, VS nm, VS v] \<sigma>))"

definition stream_dialer_view_set_ptr ::
  "'w nng \<Rightarrow> ptr \<Rightarrow> string \<Rightarrow> ptr \<Rightarrow> 'w st \<Rightarrow> unit result \<times> 'w st" where
  "stream_dialer_view_set_ptr nng d nm v = (\<lambda>\<sigma>.
     check ''nng_stream_dialer_set_ptr''
       (call_int nng ''nng_stream_dialer_set_ptr'' [VW d, VS nm, VW v] \<sigma>))"

definition stream_dialer_view_set_ms ::
  "'w nng \<Rightarrow> ptr \<Rightarrow> string \<Rightarrow> i32 \<Rightarrow> 'w st \<Rightarrow> unit result \<times> 'w st" where
  "stream_dialer_view_set_ms nng d nm v = (\<lambda>\<sigma>.
     check ''nng_stream_dialer_set_ms''
       (call_int nng ''nng_stream_dialer_set_ms'' [VW d, VS nm, VI v] \<sigma>))"

definition stream_dialer_view_set_addr ::
  "'w nng \<Rightarrow> ptr \<Rightarrow> string \<Rightarrow> byte list \<Rightarrow> 'w st \<Rightarrow> unit result \<times> 'w st" where
  "stream_dialer_view_set_addr nng d nm v = (\<lambda>\<sigma>.
     check ''nng_stream_dialer_set_addr''
       (call_int nng ''nng_stream_dialer_set_addr'' [VW d, VS nm, VA v] \<sigma>))"

definition stream_listener_view_close ::
  "'w nng \<Rightarrow> ptr \<Rightarrow> 'w st \<Rightarrow> 'w st" where
  "stream_listener_view_close nng d = (\<lambda>\<sigma>.
     call_unit nng ''nng_stream_listener_close'' [VW d] \<sigma>)"

definition stream_listener_view_listen ::
  "'w nng \<Rightarrow> ptr \<Rightarrow> 'w st \<Rightarrow> unit result \<times> 'w st" where
  "stream_listener_view_listen nng d = (\<lambda>\<sigma>.
     check ''nng_stream_listener_listen''
       (call_int nng ''nng_stream_listener_listen'' [VW d] \<sigma>))"

definition stream_listener_view_accept ::
  "'w nng \<Rightarrow> ptr \<Rightarrow> ptr \<Rightarrow> 'w st \<Rightarrow> 'w st" where
  "stream_listener_view_accept nng d a = (\<lambda>\<sigma>.
     call_unit nng ''nng_stream_listener_accept'' [VW d, VW a] \<sigma>)"

definition stream_listener_view_get ::
  "'w nng \<Rightarrow> ptr \<Rightarrow> string \<Rightarrow> ptr \<Rightarrow> ptr \<Rightarrow> 'w st \<Rightarrow> unit result \<times> 'w st" where
  "stream_listener_view_get nng d nm v szp = (\<lambda>\<sigma>.
     check ''nng_stream_listener_get''
       (call_int nng ''nng_stream_listener_get'' [VW d, VS nm, VW v, VW szp] \<sigma>))"

definition stream_listener_view_get_T :: "'w nng \<Rightarrow> w64 \<Rightarrow> ptr \<Rightarrow> string \<Rightarrow> 'w st \<Rightarrow> byte list result \<times> 'w st" where
  "stream_listener_view_get_T nng sizeof_T d nm = (\<lambda>\<sigma>. check_out ''nng_stream_listener_get'' (get_addr nng ''nng_stream_listener_get'' [VW d, VS nm, VW sizeof_T] \<sigma>))"

definition stream_listener_view_get_bool ::
  "'w nng \<Rightarrow> ptr \<Rightarrow> string \<Rightarrow> 'w st \<Rightarrow> bool result \<times> 'w st" where
  "stream_listener_view_get_bool nng d nm = (\<lambda>\<sigma>.
     check_out ''nng_stream_listener_get_bool''
       (get_bool nng ''nng_stream_listener_get_bool'' [VW d, VS nm] \<sigma>))"

definition stream_listener_view_get_int ::
  "'w nng \<Rightarrow> ptr \<Rightarrow> string \<Rightarrow> 'w st \<Rightarrow> i32 result \<times> 'w st" where
  "stream_listener_view_get_int nng d nm = (\<lambda>\<sigma>.
     check_out ''nng_stream_listener_get_int''
       (get_int nng ''nng_stream_listener_get_int'' [VW d, VS nm] \<sigma>))"

definition stream_listener_view_get_size ::
  "'w nng \<Rightarrow> ptr \<Rightarrow> string \<Rightarrow> 'w st \<Rightarrow> w64 result \<times> 'w st" where
  "stream_listener_view_get_size nng d nm = (\<lambda>\<sigma>.
     check_out ''nng_stream_listener_get_size''
       (get_w64 nng ''nng_stream_listener_get_size'' [VW d, VS nm] \<sigma>))"

definition stream_listener_view_get_uint64 ::
  "'w nng \<Rightarrow> ptr \<Rightarrow> string \<Rightarrow> 'w st \<Rightarrow> w64 result \<times> 'w st" where
  "stream_listener_view_get_uint64 nng d nm = (\<lambda>\<sigma>.
     check_out ''nng_stream_listener_get_uint64''
       (get_w64 nng ''nng_stream_listener_get_uint64'' [VW d, VS nm] \<sigma>))"

definition stream_listener_view_get_string ::
  "'w nng \<Rightarrow> ptr \<Rightarrow> string \<Rightarrow> 'w st \<Rightarrow> view result \<times> 'w st" where
  "stream_listener_view_get_string nng d nm = (\<lambda>\<sigma>.
     string_buffer (check_out ''nng_stream_listener_get_string''
       (get_w64 nng ''nng_stream_listener_get_string'' [VW d, VS nm] \<sigma>)))"

definition stream_listener_view_get_ptr ::
  "'w nng \<Rightarrow> ptr \<Rightarrow> string \<Rightarrow> 'w st \<Rightarrow> ptr result \<times> 'w st" where
  "stream_listener_view_get_ptr nng d nm = (\<lambda>\<sigma>.
     check_out ''nng_stream_listener_get_ptr''
       (get_w64 nng ''nng_stream_listener_get_ptr'' [VW d, VS nm] \<sigma>))"

definition stream_listener_view_get_ms ::
  "'w nng \<Rightarrow> ptr \<Rightarrow> string \<Rightarrow> 'w st \<Rightarrow> i32 result \<times> 'w st" where
  "stream_listener_view_get_ms nng d nm = (\<lambda>\<sigma>.
     check_out ''nng_stream_listener_get_ms''
       (get_int nng ''nng_stream_listener_get_ms'' [VW d, VS nm] \<sigma>))"

definition stream_listener_view_get_addr ::
  "'w nng \<Rightarrow> ptr \<Rightarrow> string \<Rightarrow> 'w st \<Rightarrow> byte list result \<times> 'w st" where
  "stream_listener_view_get_addr nng d nm = (\<lambda>\<sigma>.
     check_out ''nng_stream_listener_get_addr''
       (get_addr nng ''nng_stream_listener_get_addr'' [VW d, VS nm] \<sigma>))"

definition stream_listener_view_set ::
  "'w nng \<Rightarrow> ptr \<Rightarrow> string \<Rightarrow> ptr \<Rightarrow> w64 \<Rightarrow> 'w st \<Rightarrow> unit result \<times> 'w st" where
  "stream_listener_view_set nng d nm v sz = (\<lambda>\<sigma>.
     check ''nng_stream_listener_set''
       (call_int nng ''nng_stream_listener_set'' [VW d, VS nm, VW v, VW sz] \<sigma>))"

definition stream_listener_view_set_T :: "'w nng \<Rightarrow> ptr \<Rightarrow> string \<Rightarrow> byte list \<Rightarrow> 'w st \<Rightarrow> unit result \<times> 'w st" where
  "stream_listener_view_set_T nng d nm v = (\<lambda>\<sigma>. check ''nng_stream_listener_set'' (call_int nng ''nng_stream_listener_set'' [VW d, VS nm, VA v, VW (of_nat (length v))] \<sigma>))"

definition stream_listener_view_set_bool ::
  "'w nng \<Rightarrow> ptr \<Rightarrow> string \<Rightarrow> bool \<Rightarrow> 'w st \<Rightarrow> unit result \<times> 'w st" where
  "stream_listener_view_set_bool nng d nm v = (\<lambda>\<sigma>.
     check ''nng_stream_listener_set_bool''
       (call_int nng ''nng_stream_listener_set_bool'' [VW d, VS nm, VB v] \<sigma>))"

definition stream_listener_view_set_int ::
  "'w nng \<Rightarrow> ptr \<Rightarrow> string \<Rightarrow> i32 \<Rightarrow> 'w st \<Rightarrow> unit result \<times> 'w st" where
  "stream_listener_view_set_int nng d nm v = (\<lambda>\<sigma>.
     check ''nng_stream_listener_set_int''
       (call_int nng ''nng_stream_listener_set_int'' [VW d, VS nm, VI v] \<sigma>))"

definition stream_listener_view_set_size ::
  "'w nng \<Rightarrow> ptr \<Rightarrow> string \<Rightarrow> w64 \<Rightarrow> 'w st \<Rightarrow> unit result \<times> 'w st" where
  "stream_listener_view_set_size nng d nm v = (\<lambda>\<sigma>.
     check ''nng_stream_listener_set_size''
       (call_int nng ''nng_stream_listener_set_size'' [VW d, VS nm, VW v] \<sigma>))"

definition stream_listener_view_set_uint64 ::
  "'w nng \<Rightarrow> ptr \<Rightarrow> string \<Rightarrow> w64 \<Rightarrow> 'w st \<Rightarrow> unit result \<times> 'w st" where
  "stream_listener_view_set_uint64 nng d nm v = (\<lambda>\<sigma>.
     check ''nng_stream_listener_set_uint64''
       (call_int nng ''nng_stream_listener_set_uint64'' [VW d, VS nm, VW v] \<sigma>))"

definition stream_listener_view_set_string ::
  "'w nng \<Rightarrow> ptr \<Rightarrow> string \<Rightarrow> string \<Rightarrow> 'w st \<Rightarrow> unit result \<times> 'w st" where
  "stream_listener_view_set_string nng d nm v = (\<lambda>\<sigma>.
     check ''nng_stream_listener_set_string''
       (call_int nng ''nng_stream_listener_set_string'' [VW d, VS nm, VS v] \<sigma>))"

definition stream_listener_view_set_ptr ::
  "'w nng \<Rightarrow> ptr \<Rightarrow> string \<Rightarrow> ptr \<Rightarrow> 'w st \<Rightarrow> unit result \<times> 'w st" where
  "stream_listener_view_set_ptr nng d nm v = (\<lambda>\<sigma>.
     check ''nng_stream_listener_set_ptr''
       (call_int nng ''nng_stream_listener_set_ptr'' [VW d, VS nm, VW v] \<sigma>))"

definition stream_listener_view_set_ms ::
  "'w nng \<Rightarrow> ptr \<Rightarrow> string \<Rightarrow> i32 \<Rightarrow> 'w st \<Rightarrow> unit result \<times> 'w st" where
  "stream_listener_view_set_ms nng d nm v = (\<lambda>\<sigma>.
     check ''nng_stream_listener_set_ms''
       (call_int nng ''nng_stream_listener_set_ms'' [VW d, VS nm, VI v] \<sigma>))"

definition stream_listener_view_set_addr ::
  "'w nng \<Rightarrow> ptr \<Rightarrow> string \<Rightarrow> byte list \<Rightarrow> 'w st \<Rightarrow> unit result \<times> 'w st" where
  "stream_listener_view_set_addr nng d nm v = (\<lambda>\<sigma>.
     check ''nng_stream_listener_set_addr''
       (call_int nng ''nng_stream_listener_set_addr'' [VW d, VS nm, VA v] \<sigma>))"

definition stream_view_close ::
  "'w nng \<Rightarrow> ptr \<Rightarrow> 'w st \<Rightarrow> 'w st" where
  "stream_view_close nng s = (\<lambda>\<sigma>. call_unit nng ''nng_stream_close'' [VW s] \<sigma>)"

definition stream_view_send ::
  "'w nng \<Rightarrow> ptr \<Rightarrow> ptr \<Rightarrow> 'w st \<Rightarrow> 'w st" where
  "stream_view_send nng s a = (\<lambda>\<sigma>. call_unit nng ''nng_stream_send'' [VW s, VW a] \<sigma>)"

definition stream_view_recv ::
  "'w nng \<Rightarrow> ptr \<Rightarrow> ptr \<Rightarrow> 'w st \<Rightarrow> 'w st" where
  "stream_view_recv nng s a = (\<lambda>\<sigma>. call_unit nng ''nng_stream_recv'' [VW s, VW a] \<sigma>)"

definition stream_view_get ::
  "'w nng \<Rightarrow> ptr \<Rightarrow> string \<Rightarrow> ptr \<Rightarrow> ptr \<Rightarrow> 'w st \<Rightarrow> unit result \<times> 'w st" where
  "stream_view_get nng s nm v szp = (\<lambda>\<sigma>.
     check ''nng_stream_get''
       (call_int nng ''nng_stream_get'' [VW s, VS nm, VW v, VW szp] \<sigma>))"

definition stream_view_get_T :: "'w nng \<Rightarrow> w64 \<Rightarrow> ptr \<Rightarrow> string \<Rightarrow> 'w st \<Rightarrow> byte list result \<times> 'w st" where
  "stream_view_get_T nng sizeof_T s nm = (\<lambda>\<sigma>. check_out ''nng_stream_get'' (get_addr nng ''nng_stream_get'' [VW s, VS nm, VW sizeof_T] \<sigma>))"

definition stream_view_get_bool ::
  "'w nng \<Rightarrow> ptr \<Rightarrow> string \<Rightarrow> 'w st \<Rightarrow> bool result \<times> 'w st" where
  "stream_view_get_bool nng s nm = (\<lambda>\<sigma>.
     check_out ''nng_stream_get_bool''
       (get_bool nng ''nng_stream_get_bool'' [VW s, VS nm] \<sigma>))"

definition stream_view_get_int ::
  "'w nng \<Rightarrow> ptr \<Rightarrow> string \<Rightarrow> 'w st \<Rightarrow> i32 result \<times> 'w st" where
  "stream_view_get_int nng s nm = (\<lambda>\<sigma>.
     check_out ''nng_stream_get_int''
       (get_int nng ''nng_stream_get_int'' [VW s, VS nm] \<sigma>))"

definition stream_view_get_size ::
  "'w nng \<Rightarrow> ptr \<Rightarrow> string \<Rightarrow> 'w st \<Rightarrow> w64 result \<times> 'w st" where
  "stream_view_get_size nng s nm = (\<lambda>\<sigma>.
     check_out ''nng_stream_get_size''
       (get_w64 nng ''nng_stream_get_size'' [VW s, VS nm] \<sigma>))"

definition stream_view_get_uint64 ::
  "'w nng \<Rightarrow> ptr \<Rightarrow> string \<Rightarrow> 'w st \<Rightarrow> w64 result \<times> 'w st" where
  "stream_view_get_uint64 nng s nm = (\<lambda>\<sigma>.
     check_out ''nng_stream_get_uint64''
       (get_w64 nng ''nng_stream_get_uint64'' [VW s, VS nm] \<sigma>))"

definition stream_view_get_string ::
  "'w nng \<Rightarrow> ptr \<Rightarrow> string \<Rightarrow> 'w st \<Rightarrow> view result \<times> 'w st" where
  "stream_view_get_string nng s nm = (\<lambda>\<sigma>.
     string_buffer (check_out ''nng_stream_get_string''
       (get_w64 nng ''nng_stream_get_string'' [VW s, VS nm] \<sigma>)))"

definition stream_view_get_ptr ::
  "'w nng \<Rightarrow> ptr \<Rightarrow> string \<Rightarrow> 'w st \<Rightarrow> ptr result \<times> 'w st" where
  "stream_view_get_ptr nng s nm = (\<lambda>\<sigma>.
     check_out ''nng_stream_get_ptr''
       (get_w64 nng ''nng_stream_get_ptr'' [VW s, VS nm] \<sigma>))"

definition stream_view_get_ms ::
  "'w nng \<Rightarrow> ptr \<Rightarrow> string \<Rightarrow> 'w st \<Rightarrow> i32 result \<times> 'w st" where
  "stream_view_get_ms nng s nm = (\<lambda>\<sigma>.
     check_out ''nng_stream_get_ms''
       (get_int nng ''nng_stream_get_ms'' [VW s, VS nm] \<sigma>))"

definition stream_view_get_addr ::
  "'w nng \<Rightarrow> ptr \<Rightarrow> string \<Rightarrow> 'w st \<Rightarrow> byte list result \<times> 'w st" where
  "stream_view_get_addr nng s nm = (\<lambda>\<sigma>.
     check_out ''nng_stream_get_addr''
       (get_addr nng ''nng_stream_get_addr'' [VW s, VS nm] \<sigma>))"

definition stream_view_set ::
  "'w nng \<Rightarrow> ptr \<Rightarrow> string \<Rightarrow> ptr \<Rightarrow> w64 \<Rightarrow> 'w st \<Rightarrow> unit result \<times> 'w st" where
  "stream_view_set nng s nm v sz = (\<lambda>\<sigma>.
     check ''nng_stream_set''
       (call_int nng ''nng_stream_set'' [VW s, VS nm, VW v, VW sz] \<sigma>))"

definition stream_view_set_T :: "'w nng \<Rightarrow> ptr \<Rightarrow> string \<Rightarrow> byte list \<Rightarrow> 'w st \<Rightarrow> unit result \<times> 'w st" where
  "stream_view_set_T nng s nm v = (\<lambda>\<sigma>. check ''nng_stream_set'' (call_int nng ''nng_stream_set'' [VW s, VS nm, VA v, VW (of_nat (length v))] \<sigma>))"

definition stream_view_set_bool ::
  "'w nng \<Rightarrow> ptr \<Rightarrow> string \<Rightarrow> bool \<Rightarrow> 'w st \<Rightarrow> unit result \<times> 'w st" where
  "stream_view_set_bool nng s nm v = (\<lambda>\<sigma>.
     check ''nng_stream_set_bool''
       (call_int nng ''nng_stream_set_bool'' [VW s, VS nm, VB v] \<sigma>))"

definition stream_view_set_int ::
  "'w nng \<Rightarrow> ptr \<Rightarrow> string \<Rightarrow> i32 \<Rightarrow> 'w st \<Rightarrow> unit result \<times> 'w st" where
  "stream_view_set_int nng s nm v = (\<lambda>\<sigma>.
     check ''nng_stream_set_int''
       (call_int nng ''nng_stream_set_int'' [VW s, VS nm, VI v] \<sigma>))"

definition stream_view_set_size ::
  "'w nng \<Rightarrow> ptr \<Rightarrow> string \<Rightarrow> w64 \<Rightarrow> 'w st \<Rightarrow> unit result \<times> 'w st" where
  "stream_view_set_size nng s nm v = (\<lambda>\<sigma>.
     check ''nng_stream_set_size''
       (call_int nng ''nng_stream_set_size'' [VW s, VS nm, VW v] \<sigma>))"

definition stream_view_set_uint64 ::
  "'w nng \<Rightarrow> ptr \<Rightarrow> string \<Rightarrow> w64 \<Rightarrow> 'w st \<Rightarrow> unit result \<times> 'w st" where
  "stream_view_set_uint64 nng s nm v = (\<lambda>\<sigma>.
     check ''nng_stream_set_uint64''
       (call_int nng ''nng_stream_set_uint64'' [VW s, VS nm, VW v] \<sigma>))"

definition stream_view_set_string ::
  "'w nng \<Rightarrow> ptr \<Rightarrow> string \<Rightarrow> string \<Rightarrow> 'w st \<Rightarrow> unit result \<times> 'w st" where
  "stream_view_set_string nng s nm v = (\<lambda>\<sigma>.
     check ''nng_stream_set_string''
       (call_int nng ''nng_stream_set_string'' [VW s, VS nm, VS v] \<sigma>))"

definition stream_view_set_ptr ::
  "'w nng \<Rightarrow> ptr \<Rightarrow> string \<Rightarrow> ptr \<Rightarrow> 'w st \<Rightarrow> unit result \<times> 'w st" where
  "stream_view_set_ptr nng s nm v = (\<lambda>\<sigma>.
     check ''nng_stream_set_ptr''
       (call_int nng ''nng_stream_set_ptr'' [VW s, VS nm, VW v] \<sigma>))"

definition stream_view_set_ms ::
  "'w nng \<Rightarrow> ptr \<Rightarrow> string \<Rightarrow> i32 \<Rightarrow> 'w st \<Rightarrow> unit result \<times> 'w st" where
  "stream_view_set_ms nng s nm v = (\<lambda>\<sigma>.
     check ''nng_stream_set_ms''
       (call_int nng ''nng_stream_set_ms'' [VW s, VS nm, VI v] \<sigma>))"

definition stream_view_set_addr ::
  "'w nng \<Rightarrow> ptr \<Rightarrow> string \<Rightarrow> byte list \<Rightarrow> 'w st \<Rightarrow> unit result \<times> 'w st" where
  "stream_view_set_addr nng s nm v = (\<lambda>\<sigma>.
     check ''nng_stream_set_addr''
       (call_int nng ''nng_stream_set_addr'' [VW s, VS nm, VA v] \<sigma>))"

section \<open>Properties\<close>

lemmas stream_methods_report_defs =
  stream_dialer_view_get_def stream_dialer_view_get_bool_def stream_dialer_view_get_int_def
  stream_dialer_view_get_size_def stream_dialer_view_get_uint64_def
  stream_dialer_view_get_string_def stream_dialer_view_get_ptr_def stream_dialer_view_get_ms_def
  stream_dialer_view_get_addr_def stream_dialer_view_set_def stream_dialer_view_set_bool_def
  stream_dialer_view_set_int_def stream_dialer_view_set_size_def
  stream_dialer_view_set_uint64_def stream_dialer_view_set_string_def
  stream_dialer_view_set_ptr_def stream_dialer_view_set_ms_def stream_dialer_view_set_addr_def
  stream_listener_view_listen_def stream_listener_view_get_def stream_listener_view_get_bool_def
  stream_listener_view_get_int_def stream_listener_view_get_size_def
  stream_listener_view_get_uint64_def stream_listener_view_get_string_def
  stream_listener_view_get_ptr_def stream_listener_view_get_ms_def
  stream_listener_view_get_addr_def stream_listener_view_set_def
  stream_listener_view_set_bool_def stream_listener_view_set_int_def
  stream_listener_view_set_size_def stream_listener_view_set_uint64_def
  stream_listener_view_set_string_def stream_listener_view_set_ptr_def
  stream_listener_view_set_ms_def stream_listener_view_set_addr_def stream_view_get_def
  stream_view_get_bool_def stream_view_get_int_def stream_view_get_size_def
  stream_view_get_uint64_def stream_view_get_string_def stream_view_get_ptr_def
  stream_view_get_ms_def stream_view_get_addr_def stream_view_set_def stream_view_set_bool_def
  stream_view_set_int_def stream_view_set_size_def stream_view_set_uint64_def
  stream_view_set_string_def stream_view_set_ptr_def stream_view_set_ms_def
  stream_view_set_addr_def

text \<open>Every method of a stream and of its dialers and listeners that can throw does so exactly when
  the one nng call it makes fails, with its status and its name.\<close>

theorem stream_methods_report:
  "(\<forall>d nm v szp. reports_failure (stream_dialer_view_get nng d nm v szp)) \<and>
    (\<forall>d nm. reports_failure (stream_dialer_view_get_bool nng d nm)) \<and>
    (\<forall>d nm. reports_failure (stream_dialer_view_get_int nng d nm)) \<and>
    (\<forall>d nm. reports_failure (stream_dialer_view_get_size nng d nm)) \<and>
    (\<forall>d nm. reports_failure (stream_dialer_view_get_uint64 nng d nm)) \<and>
    (\<forall>d nm. reports_failure (stream_dialer_view_get_string nng d nm)) \<and>
    (\<forall>d nm. reports_failure (stream_dialer_view_get_ptr nng d nm)) \<and>
    (\<forall>d nm. reports_failure (stream_dialer_view_get_ms nng d nm)) \<and>
    (\<forall>d nm. reports_failure (stream_dialer_view_get_addr nng d nm)) \<and>
    (\<forall>d nm v sz. reports_failure (stream_dialer_view_set nng d nm v sz)) \<and>
    (\<forall>d nm v. reports_failure (stream_dialer_view_set_bool nng d nm v)) \<and>
    (\<forall>d nm v. reports_failure (stream_dialer_view_set_int nng d nm v)) \<and>
    (\<forall>d nm v. reports_failure (stream_dialer_view_set_size nng d nm v)) \<and>
    (\<forall>d nm v. reports_failure (stream_dialer_view_set_uint64 nng d nm v)) \<and>
    (\<forall>d nm v. reports_failure (stream_dialer_view_set_string nng d nm v)) \<and>
    (\<forall>d nm v. reports_failure (stream_dialer_view_set_ptr nng d nm v)) \<and>
    (\<forall>d nm v. reports_failure (stream_dialer_view_set_ms nng d nm v)) \<and>
    (\<forall>d nm v. reports_failure (stream_dialer_view_set_addr nng d nm v)) \<and>
    (\<forall>d. reports_failure (stream_listener_view_listen nng d)) \<and>
    (\<forall>d nm v szp. reports_failure (stream_listener_view_get nng d nm v szp)) \<and>
    (\<forall>d nm. reports_failure (stream_listener_view_get_bool nng d nm)) \<and>
    (\<forall>d nm. reports_failure (stream_listener_view_get_int nng d nm)) \<and>
    (\<forall>d nm. reports_failure (stream_listener_view_get_size nng d nm)) \<and>
    (\<forall>d nm. reports_failure (stream_listener_view_get_uint64 nng d nm)) \<and>
    (\<forall>d nm. reports_failure (stream_listener_view_get_string nng d nm)) \<and>
    (\<forall>d nm. reports_failure (stream_listener_view_get_ptr nng d nm)) \<and>
    (\<forall>d nm. reports_failure (stream_listener_view_get_ms nng d nm)) \<and>
    (\<forall>d nm. reports_failure (stream_listener_view_get_addr nng d nm)) \<and>
    (\<forall>d nm v sz. reports_failure (stream_listener_view_set nng d nm v sz)) \<and>
    (\<forall>d nm v. reports_failure (stream_listener_view_set_bool nng d nm v)) \<and>
    (\<forall>d nm v. reports_failure (stream_listener_view_set_int nng d nm v)) \<and>
    (\<forall>d nm v. reports_failure (stream_listener_view_set_size nng d nm v)) \<and>
    (\<forall>d nm v. reports_failure (stream_listener_view_set_uint64 nng d nm v)) \<and>
    (\<forall>d nm v. reports_failure (stream_listener_view_set_string nng d nm v)) \<and>
    (\<forall>d nm v. reports_failure (stream_listener_view_set_ptr nng d nm v)) \<and>
    (\<forall>d nm v. reports_failure (stream_listener_view_set_ms nng d nm v)) \<and>
    (\<forall>d nm v. reports_failure (stream_listener_view_set_addr nng d nm v)) \<and>
    (\<forall>s nm v szp. reports_failure (stream_view_get nng s nm v szp)) \<and>
    (\<forall>s nm. reports_failure (stream_view_get_bool nng s nm)) \<and>
    (\<forall>s nm. reports_failure (stream_view_get_int nng s nm)) \<and>
    (\<forall>s nm. reports_failure (stream_view_get_size nng s nm)) \<and>
    (\<forall>s nm. reports_failure (stream_view_get_uint64 nng s nm)) \<and>
    (\<forall>s nm. reports_failure (stream_view_get_string nng s nm)) \<and>
    (\<forall>s nm. reports_failure (stream_view_get_ptr nng s nm)) \<and>
    (\<forall>s nm. reports_failure (stream_view_get_ms nng s nm)) \<and>
    (\<forall>s nm. reports_failure (stream_view_get_addr nng s nm)) \<and>
    (\<forall>s nm v sz. reports_failure (stream_view_set nng s nm v sz)) \<and>
    (\<forall>s nm v. reports_failure (stream_view_set_bool nng s nm v)) \<and>
    (\<forall>s nm v. reports_failure (stream_view_set_int nng s nm v)) \<and>
    (\<forall>s nm v. reports_failure (stream_view_set_size nng s nm v)) \<and>
    (\<forall>s nm v. reports_failure (stream_view_set_uint64 nng s nm v)) \<and>
    (\<forall>s nm v. reports_failure (stream_view_set_string nng s nm v)) \<and>
    (\<forall>s nm v. reports_failure (stream_view_set_ptr nng s nm v)) \<and>
    (\<forall>s nm v. reports_failure (stream_view_set_ms nng s nm v)) \<and>
    (\<forall>s nm v. reports_failure (stream_view_set_addr nng s nm v))"
  unfolding stream_methods_report_defs
  by (intro conjI allI reports_check reports_get reports_get_buf reports_string reports_as_u16)

text \<open>A program over stream dialers frees each as often as it was allocated, if it starts and ends
  without objects and releases none.\<close>

theorem stream_dialer_balanced:
  assumes "run (stream_dialer_exec nng) ops (Map.empty, s) = (rs, Map.empty, s')"
    and "legal (class_ok {Acquiring}) (stream_dialer_exec nng) stream_dialer_ev ops (Map.empty, s) {#}"
    and "released rs = {#}" "h \<noteq> 0"
  shows "count_list (events stream_dialer_ev (new_calls s s')) (Give h) =
    count_list (events stream_dialer_ev (new_calls s s')) (Kill h)"
  using stream_dialer.run_balanced(2) [OF assms(1,2) TrueI assms(3,4)] .

definition dialers_nng :: "w64 nng" where
  "dialers_nng = idle_nng\<lparr>s_w64 := (\<lambda>_ _ (w, m). ((0, w + 1), w + 1, m))\<rparr>"

definition dialers_program :: "(ptr, stream_dialer_args) raii_op list" where
  "dialers_program = [Acquire 0 (Sdialer_alloc ''tcp://a''), Acquire 1 (Sdialer_alloc_url 9),
     Move_assign 0 1, Dtor 1, Dtor 0]"

theorem stream_dialer_balanced_witness:
  "count_list (events stream_dialer_ev (new_calls (start 0)
     (snd (snd (run (stream_dialer_exec dialers_nng) dialers_program (Map.empty, start 0)))))) (Give 1) =
   count_list (events stream_dialer_ev (new_calls (start 0)
     (snd (snd (run (stream_dialer_exec dialers_nng) dialers_program (Map.empty, start 0)))))) (Kill 1)"
  by (rule stream_dialer_balanced [where nng = dialers_nng and ops = dialers_program and
        rs = "fst (run (stream_dialer_exec dialers_nng) dialers_program (Map.empty, start 0))"])
    (simp_all add: dialers_program_def member_simps call_simps invoke_def dialers_nng_def start_def
      class_ok_def copy_assign_succeeds_def)

end
