(* ===== verification/Platform.thy ===== *)
theory Platform
  imports Sockets
begin

text \<open>
  The threading primitives of \<open>include/nngpp/platform/\<close> and the statistics of \<open>stat.h\<close> and
  \<open>stat_view.h\<close>.
\<close>

section \<open>Owner classes\<close>

datatype cv_args =
    Cv_alloc ptr

fun cv_exec ::
  "'w nng \<Rightarrow> (ptr, cv_args) raii_op \<Rightarrow> (ptr, 'w) cfg \<Rightarrow> (ptr, 'w) outcome" where
  "cv_exec nng (Default this) = m_default this"
| "cv_exec nng (Adopt this h) = m_adopt this h"
| "cv_exec nng (Acquire this (Cv_alloc mut)) =
     m_acquire this (\<lambda>s. check_out ''nng_cv_alloc'' (get_w64 nng ''nng_cv_alloc'' [VW mut] s))"
| "cv_exec nng (Copy_ctor this rhs) = m_deleted"
| "cv_exec nng (Move_ctor this rhs) = m_move_ctor this rhs"
| "cv_exec nng (Copy_assign this rhs) = m_deleted"
| "cv_exec nng (Move_assign this rhs) =
     m_move_assign (\<lambda>h. call_unit nng ''nng_cv_free'' [VW h]) this rhs"
| "cv_exec nng (Dtor this) =
     m_dtor (\<lambda>h. call_unit nng ''nng_cv_free'' [VW h]) this"
| "cv_exec nng (Release this) = m_release this"

definition cv_ev :: "call \<Rightarrow> ptr event option" where
  "cv_ev = ptr_ev [''nng_cv_alloc''] ''nng_cv_free''"

lemma cv_calls [conforming]:
  "releases cv_ev (\<lambda>h. call_unit nng ''nng_cv_free'' [VW h])"
  "acquires cv_ev (\<lambda>s. check_out ''nng_cv_alloc'' (get_w64 nng ''nng_cv_alloc'' [VW mut] s))"
  unfolding cv_ev_def by (intro conforming; simp)+

interpretation cv: owner_class True "{Acquiring}" "cv_exec nng" "cv_ev" for nng :: "'w nng"
proof
  fix op
  show "conforms True {Acquiring} cv_ev op (cv_exec nng op)"
    by (cases "(nng, op)" rule: cv_exec.cases; simp only: cv_exec.simps prod.inject; intro conforming; simp)
qed

datatype mtx_args =
    Make_mtx

fun mtx_exec ::
  "'w nng \<Rightarrow> (ptr, mtx_args) raii_op \<Rightarrow> (ptr, 'w) cfg \<Rightarrow> (ptr, 'w) outcome" where
  "mtx_exec nng (Default this) = m_default this"
| "mtx_exec nng (Adopt this h) = m_adopt this h"
| "mtx_exec nng (Acquire this Make_mtx) =
     m_acquire this (\<lambda>s. check_out ''nng_mtx_alloc'' (get_w64 nng ''nng_mtx_alloc'' [] s))"
| "mtx_exec nng (Copy_ctor this rhs) = m_deleted"
| "mtx_exec nng (Move_ctor this rhs) = m_move_ctor this rhs"
| "mtx_exec nng (Copy_assign this rhs) = m_deleted"
| "mtx_exec nng (Move_assign this rhs) =
     m_move_assign (\<lambda>h. call_unit nng ''nng_mtx_free'' [VW h]) this rhs"
| "mtx_exec nng (Dtor this) =
     m_dtor (\<lambda>h. call_unit nng ''nng_mtx_free'' [VW h]) this"
| "mtx_exec nng (Release this) = m_release this"

definition mtx_ev :: "call \<Rightarrow> ptr event option" where
  "mtx_ev = ptr_ev [''nng_mtx_alloc''] ''nng_mtx_free''"

lemma mtx_calls [conforming]:
  "releases mtx_ev (\<lambda>h. call_unit nng ''nng_mtx_free'' [VW h])"
  "acquires mtx_ev (\<lambda>s. check_out ''nng_mtx_alloc'' (get_w64 nng ''nng_mtx_alloc'' [] s))"
  unfolding mtx_ev_def by (intro conforming; simp)+

interpretation mtx: owner_class True "{Acquiring}" "mtx_exec nng" "mtx_ev" for nng :: "'w nng"
proof
  fix op
  show "conforms True {Acquiring} mtx_ev op (mtx_exec nng op)"
    by (cases "(nng, op)" rule: mtx_exec.cases; simp only: mtx_exec.simps prod.inject; intro conforming; simp)
qed

datatype thread_args =
    Thread_create ptr ptr

fun thread_exec ::
  "'w nng \<Rightarrow> (ptr, thread_args) raii_op \<Rightarrow> (ptr, 'w) cfg \<Rightarrow> (ptr, 'w) outcome" where
  "thread_exec nng (Default this) = m_default this"
| "thread_exec nng (Adopt this h) = m_adopt this h"
| "thread_exec nng (Acquire this (Thread_create f arg)) =
     m_acquire this (\<lambda>s. check_out ''nng_thread_create'' (get_w64 nng ''nng_thread_create'' [VW f, VW arg] s))"
| "thread_exec nng (Copy_ctor this rhs) = m_deleted"
| "thread_exec nng (Move_ctor this rhs) = m_move_ctor this rhs"
| "thread_exec nng (Copy_assign this rhs) = m_deleted"
| "thread_exec nng (Move_assign this rhs) =
     m_move_assign (\<lambda>h. call_unit nng ''nng_thread_destroy'' [VW h]) this rhs"
| "thread_exec nng (Dtor this) =
     m_dtor (\<lambda>h. call_unit nng ''nng_thread_destroy'' [VW h]) this"
| "thread_exec nng (Release this) = m_release this"

definition thread_ev :: "call \<Rightarrow> ptr event option" where
  "thread_ev = ptr_ev [''nng_thread_create''] ''nng_thread_destroy''"

lemma thread_calls [conforming]:
  "releases thread_ev (\<lambda>h. call_unit nng ''nng_thread_destroy'' [VW h])"
  "acquires thread_ev (\<lambda>s. check_out ''nng_thread_create'' (get_w64 nng ''nng_thread_create'' [VW f, VW arg] s))"
  unfolding thread_ev_def by (intro conforming; simp)+

interpretation thread: owner_class True "{Acquiring}" "thread_exec nng" "thread_ev" for nng :: "'w nng"
proof
  fix op
  show "conforms True {Acquiring} thread_ev op (thread_exec nng op)"
    by (cases "(nng, op)" rule: thread_exec.cases; simp only: thread_exec.simps prod.inject; intro conforming; simp)
qed

datatype stat_args =
    Make_stat

fun stat_exec ::
  "'w nng \<Rightarrow> (ptr, stat_args) raii_op \<Rightarrow> (ptr, 'w) cfg \<Rightarrow> (ptr, 'w) outcome" where
  "stat_exec nng (Default this) = m_default this"
| "stat_exec nng (Adopt this h) = m_adopt this h"
| "stat_exec nng (Acquire this Make_stat) =
     m_acquire this (\<lambda>s. check_out ''nng_stats_get'' (get_w64 nng ''nng_stats_get'' [] s))"
| "stat_exec nng (Copy_ctor this rhs) = m_deleted"
| "stat_exec nng (Move_ctor this rhs) = m_move_ctor this rhs"
| "stat_exec nng (Copy_assign this rhs) = m_deleted"
| "stat_exec nng (Move_assign this rhs) =
     m_move_assign (\<lambda>h. call_unit nng ''nng_stats_free'' [VW h]) this rhs"
| "stat_exec nng (Dtor this) =
     m_dtor (\<lambda>h. call_unit nng ''nng_stats_free'' [VW h]) this"
| "stat_exec nng (Release this) = m_release this"

definition stat_ev :: "call \<Rightarrow> ptr event option" where
  "stat_ev = ptr_ev [''nng_stats_get''] ''nng_stats_free''"

lemma stat_calls [conforming]:
  "releases stat_ev (\<lambda>h. call_unit nng ''nng_stats_free'' [VW h])"
  "acquires stat_ev (\<lambda>s. check_out ''nng_stats_get'' (get_w64 nng ''nng_stats_get'' [] s))"
  unfolding stat_ev_def by (intro conforming; simp)+

interpretation stat: owner_class True "{Acquiring}" "stat_exec nng" "stat_ev" for nng :: "'w nng"
proof
  fix op
  show "conforms True {Acquiring} stat_ev op (stat_exec nng op)"
    by (cases "(nng, op)" rule: stat_exec.cases; simp only: stat_exec.simps prod.inject; intro conforming; simp)
qed

section \<open>Views\<close>

definition cv_view_wait :: "'w nng \<Rightarrow> ptr \<Rightarrow> 'w st \<Rightarrow> 'w st" where
  "cv_view_wait nng c = (\<lambda>\<sigma>. call_unit nng ''nng_cv_wait'' [VW c] \<sigma>)"

definition cv_view_wake_all ::
  "'w nng \<Rightarrow> ptr \<Rightarrow> 'w st \<Rightarrow> 'w st" where
  "cv_view_wake_all nng c = (\<lambda>\<sigma>. call_unit nng ''nng_cv_wake'' [VW c] \<sigma>)"

definition cv_view_wake_one ::
  "'w nng \<Rightarrow> ptr \<Rightarrow> 'w st \<Rightarrow> 'w st" where
  "cv_view_wake_one nng c = (\<lambda>\<sigma>. call_unit nng ''nng_cv_wake1'' [VW c] \<sigma>)"

text \<open>A wait with a deadline: whether it was signalled in time.\<close>

definition cv_view_wait_until :: "'w nng \<Rightarrow> ptr \<Rightarrow> w64 \<Rightarrow> 'w st \<Rightarrow> bool result \<times> 'w st" where
  "cv_view_wait_until nng c t = (\<lambda>\<sigma>.
     (case call_int nng ''nng_cv_until'' [VW c, VW t] \<sigma> of (r, \<sigma>') \<Rightarrow>
        (if r \<noteq> 0 \<and> r \<noteq> error_val nng timedout then Throw (exception r ''nng_cv_until'')
         else Ok (r = 0), \<sigma>')))"

definition mtx_view_lock :: "'w nng \<Rightarrow> ptr \<Rightarrow> 'w st \<Rightarrow> 'w st" where
  "mtx_view_lock nng m = (\<lambda>\<sigma>. call_unit nng ''nng_mtx_lock'' [VW m] \<sigma>)"

definition mtx_view_unlock ::
  "'w nng \<Rightarrow> ptr \<Rightarrow> 'w st \<Rightarrow> 'w st" where
  "mtx_view_unlock nng m = (\<lambda>\<sigma>. call_unit nng ''nng_mtx_unlock'' [VW m] \<sigma>)"

definition thread_view_set_name ::
  "'w nng \<Rightarrow> ptr \<Rightarrow> string \<Rightarrow> 'w st \<Rightarrow> 'w st" where
  "thread_view_set_name nng t nm = (\<lambda>\<sigma>.
     call_unit nng ''nng_thread_set_name'' [VW t, VS nm] \<sigma>)"

section \<open>Statistics\<close>

datatype stat_type = stat_scope | stat_level | stat_counter | stat_string | stat_boolean | stat_id

fun stat_type_val :: "'w nng \<Rightarrow> stat_type \<Rightarrow> i32" where
  "stat_type_val nng stat_scope = macro_int nng ''NNG_STAT_SCOPE''"
| "stat_type_val nng stat_level = macro_int nng ''NNG_STAT_LEVEL''"
| "stat_type_val nng stat_counter = macro_int nng ''NNG_STAT_COUNTER''"
| "stat_type_val nng stat_string = macro_int nng ''NNG_STAT_STRING''"
| "stat_type_val nng stat_boolean = macro_int nng ''NNG_STAT_BOOLEAN''"
| "stat_type_val nng stat_id = macro_int nng ''NNG_STAT_ID''"

datatype stat_unit = unit_none | unit_bytes | unit_messages | unit_millis | unit_events

fun stat_unit_val :: "'w nng \<Rightarrow> stat_unit \<Rightarrow> i32" where
  "stat_unit_val nng unit_none = macro_int nng ''NNG_UNIT_NONE''"
| "stat_unit_val nng unit_bytes = macro_int nng ''NNG_UNIT_BYTES''"
| "stat_unit_val nng unit_messages = macro_int nng ''NNG_UNIT_MESSAGES''"
| "stat_unit_val nng unit_millis = macro_int nng ''NNG_UNIT_MILLIS''"
| "stat_unit_val nng unit_events = macro_int nng ''NNG_UNIT_EVENTS''"

definition stat_view_dump ::
  "'w nng \<Rightarrow> ptr \<Rightarrow> 'w st \<Rightarrow> 'w st" where
  "stat_view_dump nng s = (\<lambda>\<sigma>. call_unit nng ''nng_stats_dump'' [VW s] \<sigma>)"

definition stat_view_next ::
  "'w nng \<Rightarrow> ptr \<Rightarrow> 'w st \<Rightarrow> ptr \<times> 'w st" where
  "stat_view_next nng s = (\<lambda>\<sigma>. call_w64 nng ''nng_stat_next'' [VW s] \<sigma>)"

definition stat_view_child ::
  "'w nng \<Rightarrow> ptr \<Rightarrow> 'w st \<Rightarrow> ptr \<times> 'w st" where
  "stat_view_child nng s = (\<lambda>\<sigma>. call_w64 nng ''nng_stat_child'' [VW s] \<sigma>)"

definition stat_view_name ::
  "'w nng \<Rightarrow> ptr \<Rightarrow> 'w st \<Rightarrow> ptr \<times> 'w st" where
  "stat_view_name nng s = (\<lambda>\<sigma>. call_w64 nng ''nng_stat_name'' [VW s] \<sigma>)"

definition stat_view_type ::
  "'w nng \<Rightarrow> ptr \<Rightarrow> 'w st \<Rightarrow> i32 \<times> 'w st" where
  "stat_view_type nng s = (\<lambda>\<sigma>. call_int nng ''nng_stat_type'' [VW s] \<sigma>)"

definition stat_view_unit ::
  "'w nng \<Rightarrow> ptr \<Rightarrow> 'w st \<Rightarrow> i32 \<times> 'w st" where
  "stat_view_unit nng s = (\<lambda>\<sigma>. call_int nng ''nng_stat_unit'' [VW s] \<sigma>)"

definition stat_view_value ::
  "'w nng \<Rightarrow> ptr \<Rightarrow> 'w st \<Rightarrow> w64 \<times> 'w st" where
  "stat_view_value nng s = (\<lambda>\<sigma>. call_w64 nng ''nng_stat_value'' [VW s] \<sigma>)"

definition stat_view_string ::
  "'w nng \<Rightarrow> ptr \<Rightarrow> 'w st \<Rightarrow> ptr \<times> 'w st" where
  "stat_view_string nng s = (\<lambda>\<sigma>. call_w64 nng ''nng_stat_string'' [VW s] \<sigma>)"

definition stat_view_desc ::
  "'w nng \<Rightarrow> ptr \<Rightarrow> 'w st \<Rightarrow> ptr \<times> 'w st" where
  "stat_view_desc nng s = (\<lambda>\<sigma>. call_w64 nng ''nng_stat_desc'' [VW s] \<sigma>)"

definition stat_view_timestamp ::
  "'w nng \<Rightarrow> ptr \<Rightarrow> 'w st \<Rightarrow> w64 \<times> 'w st" where
  "stat_view_timestamp nng s = (\<lambda>\<sigma>. call_w64 nng ''nng_stat_timestamp'' [VW s] \<sigma>)"

definition stat_view_find ::
  "'w nng \<Rightarrow> ptr \<Rightarrow> string \<Rightarrow> 'w st \<Rightarrow> ptr \<times> 'w st" where
  "stat_view_find nng s nm = (\<lambda>\<sigma>. call_w64 nng ''nng_stat_find'' [VW s, VS nm] \<sigma>)"

definition stat_view_find_socket ::
  "'w nng \<Rightarrow> ptr \<Rightarrow> i32 \<Rightarrow> 'w st \<Rightarrow> ptr \<times> 'w st" where
  "stat_view_find_socket nng s socket = (\<lambda>\<sigma>.
     call_w64 nng ''nng_stat_find_socket'' [VW s, VId socket] \<sigma>)"

definition stat_view_find_dialer ::
  "'w nng \<Rightarrow> ptr \<Rightarrow> i32 \<Rightarrow> 'w st \<Rightarrow> ptr \<times> 'w st" where
  "stat_view_find_dialer nng s dialer = (\<lambda>\<sigma>.
     call_w64 nng ''nng_stat_find_dialer'' [VW s, VId dialer] \<sigma>)"

definition stat_view_find_listener ::
  "'w nng \<Rightarrow> ptr \<Rightarrow> i32 \<Rightarrow> 'w st \<Rightarrow> ptr \<times> 'w st" where
  "stat_view_find_listener nng s listener = (\<lambda>\<sigma>.
     call_w64 nng ''nng_stat_find_listener'' [VW s, VId listener] \<sigma>)"

section \<open>Properties\<close>

text \<open>\<open>wait_until\<close> returns whether the condition was signalled in time: true for success, false
  for a timeout, and every other status is thrown.\<close>

theorem wait_until_result:
  assumes "error_val nng timedout \<noteq> 0"
  shows "\<exists>r s'. st_log s' = st_log s @ [\<lparr>c_fn = ''nng_cv_until'', c_args = [VW c, VW t], c_ret = [VI r]\<rparr>] \<and>
    cv_view_wait_until nng c t s =
      (if r = 0 then Ok True else if r = error_val nng timedout then Ok False
       else Throw (exception r ''nng_cv_until''), s')"
proof -
  obtain r s' where c: "call_int nng ''nng_cv_until'' [VW c, VW t] s = (r, s')" by fastforce
  then have "st_log s' = st_log s @ [\<lparr>c_fn = ''nng_cv_until'', c_args = [VW c, VW t], c_ret = [VI r]\<rparr>]"
    unfolding call_int_def by (rule invoke_log)
  with assms c show ?thesis
    by (intro exI [of _ r] exI [of _ s']) (auto simp: cv_view_wait_until_def)
qed

definition late_nng :: "unit nng" where
  "late_nng = idle_nng\<lparr>macro_int := (\<lambda>_. 5), f_int := (\<lambda>_ _ w. (5, w))\<rparr>"

theorem wait_until_result_witness:
  "\<exists>r s'. cv_view_wait_until late_nng 3 9 (start ()) =
     (if r = 0 then Ok True else if r = 5 then Ok False else Throw (exception r ''nng_cv_until''), s')"
  using wait_until_result [of late_nng "start ()" 3 9] by (auto simp: late_nng_def)

end
