(* ===== verification/Http.thy ===== *)
theory Http
  imports Tls
begin

text \<open>
  \<open>include/nngpp/http/\<close>: status codes and verbs, and the client, connection, handler,
  request, response and server classes.
\<close>

section \<open>Status codes and verbs\<close>

datatype http_status =
    http_continue
  | http_switching
  | http_processing
  | http_ok
  | http_created
  | http_accepted
  | http_not_authoritative
  | http_no_content
  | http_reset_content
  | http_partial_content
  | http_multi_status
  | http_already_reported
  | http_im_used
  | http_multiple_choices
  | http_moved_permanently
  | http_found
  | http_see_other
  | http_not_modified
  | http_use_proxy
  | http_temporary_redirect
  | http_permanent_redirect
  | http_bad_request
  | http_unauthorized
  | http_payment_required
  | http_forbidden
  | http_not_found
  | http_method_not_allowed
  | http_not_acceptable
  | http_proxy_auth_required
  | http_request_timeout
  | http_conflict
  | http_gone
  | http_length_required
  | http_precondition_failed
  | http_payload_too_large
  | http_entity_too_long
  | http_unsupported_media_type
  | http_range_not_satisfiable
  | http_expectation_failed
  | http_teapot
  | http_unprocessable_entity
  | http_locked
  | http_failed_dependency
  | http_upgrade_required
  | http_precondition_required
  | http_too_many_requests
  | http_headers_too_large
  | http_unavail_legal_reasons
  | http_internal_server_error
  | http_not_implemented
  | http_bad_gateway
  | http_service_unavailable
  | http_gateway_timeout
  | http_http_version_not_supp
  | http_variant_also_negotiates
  | http_insufficient_storage
  | http_loop_detected
  | http_not_extended
  | http_network_auth_required

fun http_status_val :: "'w nng \<Rightarrow> http_status \<Rightarrow> i32" where
  "http_status_val nng http_continue = macro_int nng ''NNG_HTTP_STATUS_CONTINUE''"
| "http_status_val nng http_switching = macro_int nng ''NNG_HTTP_STATUS_SWITCHING''"
| "http_status_val nng http_processing = macro_int nng ''NNG_HTTP_STATUS_PROCESSING''"
| "http_status_val nng http_ok = macro_int nng ''NNG_HTTP_STATUS_OK''"
| "http_status_val nng http_created = macro_int nng ''NNG_HTTP_STATUS_CREATED''"
| "http_status_val nng http_accepted = macro_int nng ''NNG_HTTP_STATUS_ACCEPTED''"
| "http_status_val nng http_not_authoritative = macro_int nng ''NNG_HTTP_STATUS_NOT_AUTHORITATIVE''"
| "http_status_val nng http_no_content = macro_int nng ''NNG_HTTP_STATUS_NO_CONTENT''"
| "http_status_val nng http_reset_content = macro_int nng ''NNG_HTTP_STATUS_RESET_CONTENT''"
| "http_status_val nng http_partial_content = macro_int nng ''NNG_HTTP_STATUS_PARTIAL_CONTENT''"
| "http_status_val nng http_multi_status = macro_int nng ''NNG_HTTP_STATUS_MULTI_STATUS''"
| "http_status_val nng http_already_reported = macro_int nng ''NNG_HTTP_STATUS_ALREADY_REPORTED''"
| "http_status_val nng http_im_used = macro_int nng ''NNG_HTTP_STATUS_IM_USED''"
| "http_status_val nng http_multiple_choices = macro_int nng ''NNG_HTTP_STATUS_MULTIPLE_CHOICES''"
| "http_status_val nng http_moved_permanently = macro_int nng ''NNG_HTTP_STATUS_STATUS_MOVED_PERMANENTLY''"
| "http_status_val nng http_found = macro_int nng ''NNG_HTTP_STATUS_FOUND''"
| "http_status_val nng http_see_other = macro_int nng ''NNG_HTTP_STATUS_SEE_OTHER''"
| "http_status_val nng http_not_modified = macro_int nng ''NNG_HTTP_STATUS_NOT_MODIFIED''"
| "http_status_val nng http_use_proxy = macro_int nng ''NNG_HTTP_STATUS_USE_PROXY''"
| "http_status_val nng http_temporary_redirect = macro_int nng ''NNG_HTTP_STATUS_TEMPORARY_REDIRECT''"
| "http_status_val nng http_permanent_redirect = macro_int nng ''NNG_HTTP_STATUS_PERMANENT_REDIRECT''"
| "http_status_val nng http_bad_request = macro_int nng ''NNG_HTTP_STATUS_BAD_REQUEST''"
| "http_status_val nng http_unauthorized = macro_int nng ''NNG_HTTP_STATUS_UNAUTHORIZED''"
| "http_status_val nng http_payment_required = macro_int nng ''NNG_HTTP_STATUS_PAYMENT_REQUIRED''"
| "http_status_val nng http_forbidden = macro_int nng ''NNG_HTTP_STATUS_FORBIDDEN''"
| "http_status_val nng http_not_found = macro_int nng ''NNG_HTTP_STATUS_NOT_FOUND''"
| "http_status_val nng http_method_not_allowed = macro_int nng ''NNG_HTTP_STATUS_METHOD_NOT_ALLOWED''"
| "http_status_val nng http_not_acceptable = macro_int nng ''NNG_HTTP_STATUS_NOT_ACCEPTABLE''"
| "http_status_val nng http_proxy_auth_required = macro_int nng ''NNG_HTTP_STATUS_PROXY_AUTH_REQUIRED''"
| "http_status_val nng http_request_timeout = macro_int nng ''NNG_HTTP_STATUS_REQUEST_TIMEOUT''"
| "http_status_val nng http_conflict = macro_int nng ''NNG_HTTP_STATUS_CONFLICT''"
| "http_status_val nng http_gone = macro_int nng ''NNG_HTTP_STATUS_GONE''"
| "http_status_val nng http_length_required = macro_int nng ''NNG_HTTP_STATUS_LENGTH_REQUIRED''"
| "http_status_val nng http_precondition_failed = macro_int nng ''NNG_HTTP_STATUS_PRECONDITION_FAILED''"
| "http_status_val nng http_payload_too_large = macro_int nng ''NNG_HTTP_STATUS_PAYLOAD_TOO_LARGE''"
| "http_status_val nng http_entity_too_long = macro_int nng ''NNG_HTTP_STATUS_ENTITY_TOO_LONG''"
| "http_status_val nng http_unsupported_media_type = macro_int nng ''NNG_HTTP_STATUS_UNSUPPORTED_MEDIA_TYPE''"
| "http_status_val nng http_range_not_satisfiable = macro_int nng ''NNG_HTTP_STATUS_RANGE_NOT_SATISFIABLE''"
| "http_status_val nng http_expectation_failed = macro_int nng ''NNG_HTTP_STATUS_EXPECTATION_FAILED''"
| "http_status_val nng http_teapot = macro_int nng ''NNG_HTTP_STATUS_TEAPOT''"
| "http_status_val nng http_unprocessable_entity = macro_int nng ''NNG_HTTP_STATUS_UNPROCESSABLE_ENTITY''"
| "http_status_val nng http_locked = macro_int nng ''NNG_HTTP_STATUS_LOCKED''"
| "http_status_val nng http_failed_dependency = macro_int nng ''NNG_HTTP_STATUS_FAILED_DEPENDENCY''"
| "http_status_val nng http_upgrade_required = macro_int nng ''NNG_HTTP_STATUS_UPGRADE_REQUIRED''"
| "http_status_val nng http_precondition_required = macro_int nng ''NNG_HTTP_STATUS_PRECONDITION_REQUIRED''"
| "http_status_val nng http_too_many_requests = macro_int nng ''NNG_HTTP_STATUS_TOO_MANY_REQUESTS''"
| "http_status_val nng http_headers_too_large = macro_int nng ''NNG_HTTP_STATUS_HEADERS_TOO_LARGE''"
| "http_status_val nng http_unavail_legal_reasons = macro_int nng ''NNG_HTTP_STATUS_UNAVAIL_LEGAL_REASONS''"
| "http_status_val nng http_internal_server_error = macro_int nng ''NNG_HTTP_STATUS_INTERNAL_SERVER_ERROR''"
| "http_status_val nng http_not_implemented = macro_int nng ''NNG_HTTP_STATUS_NOT_IMPLEMENTED''"
| "http_status_val nng http_bad_gateway = macro_int nng ''NNG_HTTP_STATUS_BAD_GATEWAY''"
| "http_status_val nng http_service_unavailable = macro_int nng ''NNG_HTTP_STATUS_SERVICE_UNAVAILABLE''"
| "http_status_val nng http_gateway_timeout = macro_int nng ''NNG_HTTP_STATUS_GATEWAY_TIMEOUT''"
| "http_status_val nng http_http_version_not_supp = macro_int nng ''NNG_HTTP_STATUS_HTTP_VERSION_NOT_SUPP''"
| "http_status_val nng http_variant_also_negotiates = macro_int nng ''NNG_HTTP_STATUS_VARIANT_ALSO_NEGOTIATES''"
| "http_status_val nng http_insufficient_storage = macro_int nng ''NNG_HTTP_STATUS_INSUFFICIENT_STORAGE''"
| "http_status_val nng http_loop_detected = macro_int nng ''NNG_HTTP_STATUS_LOOP_DETECTED''"
| "http_status_val nng http_not_extended = macro_int nng ''NNG_HTTP_STATUS_NOT_EXTENDED''"
| "http_status_val nng http_network_auth_required = macro_int nng ''NNG_HTTP_STATUS_NETWORK_AUTH_REQUIRED''"

datatype verb =
    verb_get
  | verb_head
  | verb_post
  | verb_put
  | verb_delete
  | verb_trace
  | verb_options
  | verb_connect
  | verb_patch

fun verb_index :: "verb \<Rightarrow> nat" where
  "verb_index verb_get = 0"
| "verb_index verb_head = 1"
| "verb_index verb_post = 2"
| "verb_index verb_put = 3"
| "verb_index verb_delete = 4"
| "verb_index verb_trace = 5"
| "verb_index verb_options = 6"
| "verb_index verb_connect = 7"
| "verb_index verb_patch = 8"

definition verb_name :: "string list" where
  "verb_name =
     [''GET'', ''HEAD'', ''POST'', ''PUT'', ''DELETE'', ''TRACE'', ''OPTIONS'', ''CONNECT'', ''PATCH'']"

definition verb_to_name :: "verb \<Rightarrow> string" where
  "verb_to_name v = verb_name ! verb_index v"

section \<open>Owner classes\<close>

datatype http_client_args =
    Client_alloc ptr

fun http_client_exec ::
  "'w nng \<Rightarrow> (ptr, http_client_args) raii_op \<Rightarrow> (ptr, 'w) cfg \<Rightarrow> (ptr, 'w) outcome" where
  "http_client_exec nng (Default this) = m_default this"
| "http_client_exec nng (Adopt this h) = m_adopt this h"
| "http_client_exec nng (Acquire this (Client_alloc u)) =
     m_acquire this (\<lambda>s. check_out ''nng_http_client_alloc'' (get_w64 nng ''nng_http_client_alloc'' [VW u] s))"
| "http_client_exec nng (Copy_ctor this rhs) = m_deleted"
| "http_client_exec nng (Move_ctor this rhs) = m_move_ctor this rhs"
| "http_client_exec nng (Copy_assign this rhs) = m_deleted"
| "http_client_exec nng (Move_assign this rhs) =
     m_move_assign (\<lambda>h. call_unit nng ''nng_http_client_free'' [VW h]) this rhs"
| "http_client_exec nng (Dtor this) =
     m_dtor (\<lambda>h. call_unit nng ''nng_http_client_free'' [VW h]) this"
| "http_client_exec nng (Release this) = m_release this"

definition http_client_ev :: "call \<Rightarrow> ptr event option" where
  "http_client_ev = ptr_ev [''nng_http_client_alloc''] ''nng_http_client_free''"

lemma http_client_calls [conforming]:
  "releases http_client_ev (\<lambda>h. call_unit nng ''nng_http_client_free'' [VW h])"
  "acquires http_client_ev (\<lambda>s. check_out ''nng_http_client_alloc'' (get_w64 nng ''nng_http_client_alloc'' [VW u] s))"
  unfolding http_client_ev_def by (intro conforming; simp)+

interpretation http_client: owner_class True "{Acquiring}" "http_client_exec nng" "http_client_ev" for nng :: "'w nng"
proof
  fix op
  show "conforms True {Acquiring} http_client_ev op (http_client_exec nng op)"
    by (cases "(nng, op)" rule: http_client_exec.cases; simp only: http_client_exec.simps prod.inject; intro conforming; simp)
qed

fun http_conn_exec ::
  "'w nng \<Rightarrow> (ptr, unit) raii_op \<Rightarrow> (ptr, 'w) cfg \<Rightarrow> (ptr, 'w) outcome" where
  "http_conn_exec nng (Default this) = m_default this"
| "http_conn_exec nng (Adopt this h) = m_adopt this h"
| "http_conn_exec nng (Acquire this a) = m_deleted"
| "http_conn_exec nng (Copy_ctor this rhs) = m_deleted"
| "http_conn_exec nng (Move_ctor this rhs) = m_move_ctor this rhs"
| "http_conn_exec nng (Copy_assign this rhs) = m_deleted"
| "http_conn_exec nng (Move_assign this rhs) =
     m_move_assign (\<lambda>h. call_unit nng ''nng_http_conn_close'' [VW h]) this rhs"
| "http_conn_exec nng (Dtor this) =
     m_dtor (\<lambda>h. call_unit nng ''nng_http_conn_close'' [VW h]) this"
| "http_conn_exec nng (Release this) = m_release this"

definition http_conn_ev :: "call \<Rightarrow> ptr event option" where
  "http_conn_ev = ptr_ev [] ''nng_http_conn_close''"

lemma http_conn_calls [conforming]:
  "releases http_conn_ev (\<lambda>h. call_unit nng ''nng_http_conn_close'' [VW h])"
  unfolding http_conn_ev_def by (intro conforming; simp)+

interpretation http_conn: owner_class True "{}" "http_conn_exec nng" "http_conn_ev" for nng :: "'w nng"
proof
  fix op
  show "conforms True {} http_conn_ev op (http_conn_exec nng op)"
    by (cases "(nng, op)" rule: http_conn_exec.cases; simp only: http_conn_exec.simps prod.inject; intro conforming; simp)
qed

datatype http_handler_args =
    Handler_alloc string ptr
  | Handler_file string string
  | Handler_directory string string
  | Handler_static string ptr w64 string

fun http_handler_exec ::
  "'w nng \<Rightarrow> (ptr, http_handler_args) raii_op \<Rightarrow> (ptr, 'w) cfg \<Rightarrow> (ptr, 'w) outcome" where
  "http_handler_exec nng (Default this) = m_default this"
| "http_handler_exec nng (Adopt this h) = m_adopt this h"
| "http_handler_exec nng (Acquire this (Handler_alloc uri cb)) =
     m_acquire this (\<lambda>s. check_out ''nng_http_handler_alloc'' (get_w64 nng ''nng_http_handler_alloc'' [VS uri, VW cb] s))"
| "http_handler_exec nng (Acquire this (Handler_file uri path)) =
     m_acquire this (\<lambda>s. check_out ''nng_http_handler_alloc_file'' (get_w64 nng ''nng_http_handler_alloc_file'' [VS uri, VS path] s))"
| "http_handler_exec nng (Acquire this (Handler_directory uri path)) =
     m_acquire this (\<lambda>s. check_out ''nng_http_handler_alloc_directory'' (get_w64 nng ''nng_http_handler_alloc_directory'' [VS uri, VS path] s))"
| "http_handler_exec nng (Acquire this (Handler_static uri dat sz ctype)) =
     m_acquire this (\<lambda>s. check_out ''nng_http_handler_alloc_static'' (get_w64 nng ''nng_http_handler_alloc_static'' [VS uri, VW dat, VW sz, VS ctype] s))"
| "http_handler_exec nng (Copy_ctor this rhs) = m_deleted"
| "http_handler_exec nng (Move_ctor this rhs) = m_move_ctor this rhs"
| "http_handler_exec nng (Copy_assign this rhs) = m_deleted"
| "http_handler_exec nng (Move_assign this rhs) =
     m_move_assign (\<lambda>h. call_unit nng ''nng_http_handler_free'' [VW h]) this rhs"
| "http_handler_exec nng (Dtor this) =
     m_dtor (\<lambda>h. call_unit nng ''nng_http_handler_free'' [VW h]) this"
| "http_handler_exec nng (Release this) = m_release this"

definition http_handler_ev :: "call \<Rightarrow> ptr event option" where
  "http_handler_ev = ptr_ev [''nng_http_handler_alloc'', ''nng_http_handler_alloc_file'', ''nng_http_handler_alloc_directory'', ''nng_http_handler_alloc_static''] ''nng_http_handler_free''"

lemma http_handler_calls [conforming]:
  "releases http_handler_ev (\<lambda>h. call_unit nng ''nng_http_handler_free'' [VW h])"
  "acquires http_handler_ev (\<lambda>s. check_out ''nng_http_handler_alloc'' (get_w64 nng ''nng_http_handler_alloc'' [VS uri, VW cb] s))"
  "acquires http_handler_ev (\<lambda>s. check_out ''nng_http_handler_alloc_file'' (get_w64 nng ''nng_http_handler_alloc_file'' [VS uri, VS path] s))"
  "acquires http_handler_ev (\<lambda>s. check_out ''nng_http_handler_alloc_directory'' (get_w64 nng ''nng_http_handler_alloc_directory'' [VS uri, VS path] s))"
  "acquires http_handler_ev (\<lambda>s. check_out ''nng_http_handler_alloc_static'' (get_w64 nng ''nng_http_handler_alloc_static'' [VS uri, VW dat, VW sz, VS ctype] s))"
  unfolding http_handler_ev_def by (intro conforming; simp)+

interpretation http_handler: owner_class True "{Acquiring}" "http_handler_exec nng" "http_handler_ev" for nng :: "'w nng"
proof
  fix op
  show "conforms True {Acquiring} http_handler_ev op (http_handler_exec nng op)"
    by (cases "(nng, op)" rule: http_handler_exec.cases; simp only: http_handler_exec.simps prod.inject; intro conforming; simp)
qed

datatype http_req_args =
    Req_alloc ptr

fun http_req_exec ::
  "'w nng \<Rightarrow> (ptr, http_req_args) raii_op \<Rightarrow> (ptr, 'w) cfg \<Rightarrow> (ptr, 'w) outcome" where
  "http_req_exec nng (Default this) = m_default this"
| "http_req_exec nng (Adopt this h) = m_adopt this h"
| "http_req_exec nng (Acquire this (Req_alloc u)) =
     m_acquire this (\<lambda>s. check_out ''nng_http_req_alloc'' (get_w64 nng ''nng_http_req_alloc'' [VW u] s))"
| "http_req_exec nng (Copy_ctor this rhs) = m_deleted"
| "http_req_exec nng (Move_ctor this rhs) = m_move_ctor this rhs"
| "http_req_exec nng (Copy_assign this rhs) = m_deleted"
| "http_req_exec nng (Move_assign this rhs) =
     m_move_assign (\<lambda>h. call_unit nng ''nng_http_req_free'' [VW h]) this rhs"
| "http_req_exec nng (Dtor this) =
     m_dtor (\<lambda>h. call_unit nng ''nng_http_req_free'' [VW h]) this"
| "http_req_exec nng (Release this) = m_release this"

definition http_req_ev :: "call \<Rightarrow> ptr event option" where
  "http_req_ev = ptr_ev [''nng_http_req_alloc''] ''nng_http_req_free''"

lemma http_req_calls [conforming]:
  "releases http_req_ev (\<lambda>h. call_unit nng ''nng_http_req_free'' [VW h])"
  "acquires http_req_ev (\<lambda>s. check_out ''nng_http_req_alloc'' (get_w64 nng ''nng_http_req_alloc'' [VW u] s))"
  unfolding http_req_ev_def by (intro conforming; simp)+

interpretation http_req: owner_class True "{Acquiring}" "http_req_exec nng" "http_req_ev" for nng :: "'w nng"
proof
  fix op
  show "conforms True {Acquiring} http_req_ev op (http_req_exec nng op)"
    by (cases "(nng, op)" rule: http_req_exec.cases; simp only: http_req_exec.simps prod.inject; intro conforming; simp)
qed

text \<open>The constructor from a status code allocates the error page of that code.\<close>

datatype http_res_args =
    Res_alloc_error http_status
  | Make_res

fun http_res_exec ::
  "'w nng \<Rightarrow> (ptr, http_res_args) raii_op \<Rightarrow> (ptr, 'w) cfg \<Rightarrow> (ptr, 'w) outcome" where
  "http_res_exec nng (Default this) = m_default this"
| "http_res_exec nng (Adopt this h) = m_adopt this h"
| "http_res_exec nng (Acquire this (Res_alloc_error code)) =
     m_acquire this (\<lambda>s. check_out ''nng_http_res_alloc_error'' (get_w64 nng ''nng_http_res_alloc_error'' [VI (ucast (ucast (http_status_val nng code) :: 16 word))] s))"
| "http_res_exec nng (Acquire this Make_res) =
     m_acquire this (\<lambda>s. check_out ''nng_http_res_alloc'' (get_w64 nng ''nng_http_res_alloc'' [] s))"
| "http_res_exec nng (Copy_ctor this rhs) = m_deleted"
| "http_res_exec nng (Move_ctor this rhs) = m_move_ctor this rhs"
| "http_res_exec nng (Copy_assign this rhs) = m_deleted"
| "http_res_exec nng (Move_assign this rhs) =
     m_move_assign (\<lambda>h. call_unit nng ''nng_http_res_free'' [VW h]) this rhs"
| "http_res_exec nng (Dtor this) =
     m_dtor (\<lambda>h. call_unit nng ''nng_http_res_free'' [VW h]) this"
| "http_res_exec nng (Release this) = m_release this"

definition http_res_ev :: "call \<Rightarrow> ptr event option" where
  "http_res_ev = ptr_ev [''nng_http_res_alloc_error'', ''nng_http_res_alloc''] ''nng_http_res_free''"

lemma http_res_calls [conforming]:
  "releases http_res_ev (\<lambda>h. call_unit nng ''nng_http_res_free'' [VW h])"
  "acquires http_res_ev (\<lambda>s. check_out ''nng_http_res_alloc_error'' (get_w64 nng ''nng_http_res_alloc_error'' [VI (ucast (ucast (http_status_val nng code) :: 16 word))] s))"
  "acquires http_res_ev (\<lambda>s. check_out ''nng_http_res_alloc'' (get_w64 nng ''nng_http_res_alloc'' [] s))"
  unfolding http_res_ev_def by (intro conforming; simp)+

interpretation http_res: owner_class True "{Acquiring}" "http_res_exec nng" "http_res_ev" for nng :: "'w nng"
proof
  fix op
  show "conforms True {Acquiring} http_res_ev op (http_res_exec nng op)"
    by (cases "(nng, op)" rule: http_res_exec.cases; simp only: http_res_exec.simps prod.inject; intro conforming; simp)
qed

text \<open>A server is counted by nng: constructing holds the one of the URL, destroying releases it.\<close>

datatype http_server_args =
    Server_hold ptr

fun http_server_exec ::
  "'w nng \<Rightarrow> (ptr, http_server_args) raii_op \<Rightarrow> (ptr, 'w) cfg \<Rightarrow> (ptr, 'w) outcome" where
  "http_server_exec nng (Default this) = m_default this"
| "http_server_exec nng (Adopt this h) = m_adopt this h"
| "http_server_exec nng (Acquire this (Server_hold u)) =
     m_acquire this (\<lambda>s. check_out ''nng_http_server_hold'' (get_w64 nng ''nng_http_server_hold'' [VW u] s))"
| "http_server_exec nng (Copy_ctor this rhs) = m_deleted"
| "http_server_exec nng (Move_ctor this rhs) = m_move_ctor this rhs"
| "http_server_exec nng (Copy_assign this rhs) = m_deleted"
| "http_server_exec nng (Move_assign this rhs) =
     m_move_assign (\<lambda>h. call_unit nng ''nng_http_server_release'' [VW h]) this rhs"
| "http_server_exec nng (Dtor this) =
     m_dtor (\<lambda>h. call_unit nng ''nng_http_server_release'' [VW h]) this"
| "http_server_exec nng (Release this) = m_release this"

definition http_server_ev :: "call \<Rightarrow> ptr event option" where
  "http_server_ev = ptr_ev [''nng_http_server_hold''] ''nng_http_server_release''"

lemma http_server_calls [conforming]:
  "releases http_server_ev (\<lambda>h. call_unit nng ''nng_http_server_release'' [VW h])"
  "acquires http_server_ev (\<lambda>s. check_out ''nng_http_server_hold'' (get_w64 nng ''nng_http_server_hold'' [VW u] s))"
  unfolding http_server_ev_def by (intro conforming; simp)+

interpretation http_server: owner_class True "{Acquiring}" "http_server_exec nng" "http_server_ev" for nng :: "'w nng"
proof
  fix op
  show "conforms True {Acquiring} http_server_ev op (http_server_exec nng op)"
    by (cases "(nng, op)" rule: http_server_exec.cases; simp only: http_server_exec.simps prod.inject; intro conforming; simp)
qed

section \<open>Views\<close>

definition http_client_get_tls ::
  "'w nng \<Rightarrow> ptr \<Rightarrow> 'w st \<Rightarrow> ptr result \<times> 'w st" where
  "http_client_get_tls nng c = (\<lambda>\<sigma>.
     check_out ''nng_http_client_get_tls''
       (get_w64 nng ''nng_http_client_get_tls'' [VW c] \<sigma>))"

definition http_client_set_tls ::
  "'w nng \<Rightarrow> ptr \<Rightarrow> ptr \<Rightarrow> 'w st \<Rightarrow> unit result \<times> 'w st" where
  "http_client_set_tls nng c cfg = (\<lambda>\<sigma>.
     check ''nng_http_client_set_tls''
       (call_int nng ''nng_http_client_set_tls'' [VW c, VW cfg] \<sigma>))"

definition http_client_connect ::
  "'w nng \<Rightarrow> ptr \<Rightarrow> ptr \<Rightarrow> 'w st \<Rightarrow> 'w st" where
  "http_client_connect nng c a = (\<lambda>\<sigma>.
     call_unit nng ''nng_http_client_connect'' [VW c, VW a] \<sigma>)"

definition http_client_transact ::
  "'w nng \<Rightarrow> ptr \<Rightarrow> ptr \<Rightarrow> ptr \<Rightarrow> ptr \<Rightarrow> 'w st \<Rightarrow> 'w st" where
  "http_client_transact nng c q s a = (\<lambda>\<sigma>.
     call_unit nng ''nng_http_client_transact'' [VW c, VW q, VW s, VW a] \<sigma>)"

definition http_conn_read ::
  "'w nng \<Rightarrow> ptr \<Rightarrow> ptr \<Rightarrow> 'w st \<Rightarrow> 'w st" where
  "http_conn_read nng n a = (\<lambda>\<sigma>. call_unit nng ''nng_http_conn_read'' [VW n, VW a] \<sigma>)"

definition http_conn_read_all ::
  "'w nng \<Rightarrow> ptr \<Rightarrow> ptr \<Rightarrow> 'w st \<Rightarrow> 'w st" where
  "http_conn_read_all nng n a = (\<lambda>\<sigma>.
     call_unit nng ''nng_http_conn_read_all'' [VW n, VW a] \<sigma>)"

definition http_conn_read_req ::
  "'w nng \<Rightarrow> ptr \<Rightarrow> ptr \<Rightarrow> ptr \<Rightarrow> 'w st \<Rightarrow> 'w st" where
  "http_conn_read_req nng n q a = (\<lambda>\<sigma>.
     call_unit nng ''nng_http_conn_read_req'' [VW n, VW q, VW a] \<sigma>)"

definition http_conn_read_res ::
  "'w nng \<Rightarrow> ptr \<Rightarrow> ptr \<Rightarrow> ptr \<Rightarrow> 'w st \<Rightarrow> 'w st" where
  "http_conn_read_res nng n s a = (\<lambda>\<sigma>.
     call_unit nng ''nng_http_conn_read_res'' [VW n, VW s, VW a] \<sigma>)"

definition http_conn_write ::
  "'w nng \<Rightarrow> ptr \<Rightarrow> ptr \<Rightarrow> 'w st \<Rightarrow> 'w st" where
  "http_conn_write nng n a = (\<lambda>\<sigma>. call_unit nng ''nng_http_conn_write'' [VW n, VW a] \<sigma>)"

definition http_conn_write_all ::
  "'w nng \<Rightarrow> ptr \<Rightarrow> ptr \<Rightarrow> 'w st \<Rightarrow> 'w st" where
  "http_conn_write_all nng n a = (\<lambda>\<sigma>.
     call_unit nng ''nng_http_conn_write_all'' [VW n, VW a] \<sigma>)"

definition http_conn_write_req ::
  "'w nng \<Rightarrow> ptr \<Rightarrow> ptr \<Rightarrow> ptr \<Rightarrow> 'w st \<Rightarrow> 'w st" where
  "http_conn_write_req nng n q a = (\<lambda>\<sigma>.
     call_unit nng ''nng_http_conn_write_req'' [VW n, VW q, VW a] \<sigma>)"

definition http_conn_write_res ::
  "'w nng \<Rightarrow> ptr \<Rightarrow> ptr \<Rightarrow> ptr \<Rightarrow> 'w st \<Rightarrow> 'w st" where
  "http_conn_write_res nng n s a = (\<lambda>\<sigma>.
     call_unit nng ''nng_http_conn_write_res'' [VW n, VW s, VW a] \<sigma>)"

definition http_conn_hijack ::
  "'w nng \<Rightarrow> ptr \<Rightarrow> 'w st \<Rightarrow> unit result \<times> 'w st" where
  "http_conn_hijack nng n = (\<lambda>\<sigma>.
     check ''nng_http_hijack'' (call_int nng ''nng_http_hijack'' [VW n] \<sigma>))"

definition http_conn_transact ::
  "'w nng \<Rightarrow> ptr \<Rightarrow> ptr \<Rightarrow> ptr \<Rightarrow> ptr \<Rightarrow> 'w st \<Rightarrow> 'w st" where
  "http_conn_transact nng n q s a = (\<lambda>\<sigma>.
     call_unit nng ''nng_http_conn_transact'' [VW n, VW q, VW s, VW a] \<sigma>)"

definition http_handler_set_method ::
  "'w nng \<Rightarrow> ptr \<Rightarrow> string \<Rightarrow> 'w st \<Rightarrow> unit result \<times> 'w st" where
  "http_handler_set_method nng h method = (\<lambda>\<sigma>.
     check ''nng_http_handler_set_method''
       (call_int nng ''nng_http_handler_set_method'' [VW h, VS method] \<sigma>))"

definition http_handler_set_method_verb :: "'w nng \<Rightarrow> ptr \<Rightarrow> verb \<Rightarrow> 'w st \<Rightarrow> unit result \<times> 'w st" where
  "http_handler_set_method_verb nng h v = http_handler_set_method nng h (verb_to_name v)"

definition http_handler_set_host ::
  "'w nng \<Rightarrow> ptr \<Rightarrow> string \<Rightarrow> 'w st \<Rightarrow> unit result \<times> 'w st" where
  "http_handler_set_host nng h host = (\<lambda>\<sigma>.
     check ''nng_http_handler_set_host''
       (call_int nng ''nng_http_handler_set_host'' [VW h, VS host] \<sigma>))"

definition http_handler_set_tree ::
  "'w nng \<Rightarrow> ptr \<Rightarrow> 'w st \<Rightarrow> unit result \<times> 'w st" where
  "http_handler_set_tree nng h = (\<lambda>\<sigma>.
     check ''nng_http_handler_set_tree''
       (call_int nng ''nng_http_handler_set_tree'' [VW h] \<sigma>))"

definition http_handler_set_tree_exclusive ::
  "'w nng \<Rightarrow> ptr \<Rightarrow> 'w st \<Rightarrow> unit result \<times> 'w st" where
  "http_handler_set_tree_exclusive nng h = (\<lambda>\<sigma>.
     check ''nng_http_handler_set_tree_exclusive''
       (call_int nng ''nng_http_handler_set_tree_exclusive'' [VW h] \<sigma>))"

definition http_handler_get_data ::
  "'w nng \<Rightarrow> ptr \<Rightarrow> 'w st \<Rightarrow> ptr \<times> 'w st" where
  "http_handler_get_data nng h = (\<lambda>\<sigma>.
     call_w64 nng ''nng_http_handler_get_data'' [VW h] \<sigma>)"

definition http_handler_set_data ::
  "'w nng \<Rightarrow> ptr \<Rightarrow> ptr \<Rightarrow> ptr \<Rightarrow> 'w st \<Rightarrow> unit result \<times> 'w st" where
  "http_handler_set_data nng h dat dtor = (\<lambda>\<sigma>.
     check ''nng_http_handler_set_data''
       (call_int nng ''nng_http_handler_set_data'' [VW h, VW dat, VW dtor] \<sigma>))"

definition http_handler_collect_body ::
  "'w nng \<Rightarrow> ptr \<Rightarrow> bool \<Rightarrow> w64 \<Rightarrow> 'w st \<Rightarrow> unit result \<times> 'w st" where
  "http_handler_collect_body nng h want maxsz = (\<lambda>\<sigma>.
     check ''nng_http_handler_collect_body''
       (call_int nng ''nng_http_handler_collect_body'' [VW h, VB want, VW maxsz] \<sigma>))"

definition http_req_reset ::
  "'w nng \<Rightarrow> ptr \<Rightarrow> 'w st \<Rightarrow> 'w st" where
  "http_req_reset nng q = (\<lambda>\<sigma>. call_unit nng ''nng_http_req_reset'' [VW q] \<sigma>)"

definition http_req_get_method ::
  "'w nng \<Rightarrow> ptr \<Rightarrow> 'w st \<Rightarrow> ptr \<times> 'w st" where
  "http_req_get_method nng q = (\<lambda>\<sigma>. call_w64 nng ''nng_http_req_get_method'' [VW q] \<sigma>)"

definition http_req_set_method ::
  "'w nng \<Rightarrow> ptr \<Rightarrow> string \<Rightarrow> 'w st \<Rightarrow> unit result \<times> 'w st" where
  "http_req_set_method nng q method = (\<lambda>\<sigma>.
     check ''nng_http_req_set_method''
       (call_int nng ''nng_http_req_set_method'' [VW q, VS method] \<sigma>))"

definition http_req_get_version ::
  "'w nng \<Rightarrow> ptr \<Rightarrow> 'w st \<Rightarrow> ptr \<times> 'w st" where
  "http_req_get_version nng q = (\<lambda>\<sigma>. call_w64 nng ''nng_http_req_get_version'' [VW q] \<sigma>)"

definition http_req_set_version ::
  "'w nng \<Rightarrow> ptr \<Rightarrow> string \<Rightarrow> 'w st \<Rightarrow> unit result \<times> 'w st" where
  "http_req_set_version nng q version = (\<lambda>\<sigma>.
     check ''nng_http_req_set_version''
       (call_int nng ''nng_http_req_set_version'' [VW q, VS version] \<sigma>))"

definition http_req_get_uri ::
  "'w nng \<Rightarrow> ptr \<Rightarrow> 'w st \<Rightarrow> ptr \<times> 'w st" where
  "http_req_get_uri nng q = (\<lambda>\<sigma>. call_w64 nng ''nng_http_req_get_uri'' [VW q] \<sigma>)"

definition http_req_set_uri ::
  "'w nng \<Rightarrow> ptr \<Rightarrow> string \<Rightarrow> 'w st \<Rightarrow> unit result \<times> 'w st" where
  "http_req_set_uri nng q uri = (\<lambda>\<sigma>.
     check ''nng_http_req_set_uri''
       (call_int nng ''nng_http_req_set_uri'' [VW q, VS uri] \<sigma>))"

definition http_req_get_header ::
  "'w nng \<Rightarrow> ptr \<Rightarrow> string \<Rightarrow> 'w st \<Rightarrow> ptr \<times> 'w st" where
  "http_req_get_header nng q nm = (\<lambda>\<sigma>.
     call_w64 nng ''nng_http_req_get_header'' [VW q, VS nm] \<sigma>)"

definition http_req_set_header ::
  "'w nng \<Rightarrow> ptr \<Rightarrow> string \<Rightarrow> string \<Rightarrow> 'w st \<Rightarrow> unit result \<times> 'w st" where
  "http_req_set_header nng q nm v = (\<lambda>\<sigma>.
     check ''nng_http_req_set_header''
       (call_int nng ''nng_http_req_set_header'' [VW q, VS nm, VS v] \<sigma>))"

definition http_req_add_header ::
  "'w nng \<Rightarrow> ptr \<Rightarrow> string \<Rightarrow> string \<Rightarrow> 'w st \<Rightarrow> unit result \<times> 'w st" where
  "http_req_add_header nng q nm v = (\<lambda>\<sigma>.
     check ''nng_http_req_add_header''
       (call_int nng ''nng_http_req_add_header'' [VW q, VS nm, VS v] \<sigma>))"

definition http_req_del_header ::
  "'w nng \<Rightarrow> ptr \<Rightarrow> string \<Rightarrow> 'w st \<Rightarrow> unit result \<times> 'w st" where
  "http_req_del_header nng q nm = (\<lambda>\<sigma>.
     check ''nng_http_req_del_header''
       (call_int nng ''nng_http_req_del_header'' [VW q, VS nm] \<sigma>))"

definition http_req_get_data ::
  "'w nng \<Rightarrow> ptr \<Rightarrow> 'w st \<Rightarrow> view \<times> 'w st" where
  "http_req_get_data nng q = (\<lambda>\<sigma>.
     case call_buf nng ''nng_http_req_get_data'' [VW q] \<sigma> of ((d, n), \<sigma>') \<Rightarrow> (view_of d n, \<sigma>'))"

definition http_req_set_data ::
  "'w nng \<Rightarrow> ptr \<Rightarrow> view \<Rightarrow> 'w st \<Rightarrow> unit result \<times> 'w st" where
  "http_req_set_data nng q v = (\<lambda>\<sigma>.
     check ''nng_http_req_set_data''
       (call_int nng ''nng_http_req_set_data'' [VW q, VW (v_data v), VW (v_size v)] \<sigma>))"

definition http_req_copy_data ::
  "'w nng \<Rightarrow> ptr \<Rightarrow> view \<Rightarrow> 'w st \<Rightarrow> unit result \<times> 'w st" where
  "http_req_copy_data nng q v = (\<lambda>\<sigma>.
     check ''nng_http_req_copy_data''
       (call_int nng ''nng_http_req_copy_data'' [VW q, VW (v_data v), VW (v_size v)] \<sigma>))"

definition http_res_reset ::
  "'w nng \<Rightarrow> ptr \<Rightarrow> 'w st \<Rightarrow> 'w st" where
  "http_res_reset nng s = (\<lambda>\<sigma>. call_unit nng ''nng_http_res_reset'' [VW s] \<sigma>)"

definition http_res_get_status ::
  "'w nng \<Rightarrow> ptr \<Rightarrow> 'w st \<Rightarrow> i32 \<times> 'w st" where
  "http_res_get_status nng s = (\<lambda>\<sigma>. call_int nng ''nng_http_res_get_status'' [VW s] \<sigma>)"

definition http_res_set_status ::
  "'w nng \<Rightarrow> ptr \<Rightarrow> http_status \<Rightarrow> 'w st \<Rightarrow> unit result \<times> 'w st" where
  "http_res_set_status nng s code = (\<lambda>\<sigma>.
     check ''nng_http_res_set_status''
       (call_int nng ''nng_http_res_set_status'' [VW s, VI (ucast (ucast (http_status_val nng code) :: 16 word))] \<sigma>))"

definition http_res_get_reason ::
  "'w nng \<Rightarrow> ptr \<Rightarrow> 'w st \<Rightarrow> ptr \<times> 'w st" where
  "http_res_get_reason nng s = (\<lambda>\<sigma>. call_w64 nng ''nng_http_res_get_reason'' [VW s] \<sigma>)"

definition http_res_set_reason ::
  "'w nng \<Rightarrow> ptr \<Rightarrow> string \<Rightarrow> 'w st \<Rightarrow> unit result \<times> 'w st" where
  "http_res_set_reason nng s reason = (\<lambda>\<sigma>.
     check ''nng_http_res_set_reason''
       (call_int nng ''nng_http_res_set_reason'' [VW s, VS reason] \<sigma>))"

definition http_res_get_header ::
  "'w nng \<Rightarrow> ptr \<Rightarrow> string \<Rightarrow> 'w st \<Rightarrow> ptr \<times> 'w st" where
  "http_res_get_header nng s nm = (\<lambda>\<sigma>.
     call_w64 nng ''nng_http_res_get_header'' [VW s, VS nm] \<sigma>)"

definition http_res_set_header ::
  "'w nng \<Rightarrow> ptr \<Rightarrow> string \<Rightarrow> string \<Rightarrow> 'w st \<Rightarrow> unit result \<times> 'w st" where
  "http_res_set_header nng s nm v = (\<lambda>\<sigma>.
     check ''nng_http_res_set_header''
       (call_int nng ''nng_http_res_set_header'' [VW s, VS nm, VS v] \<sigma>))"

definition http_res_add_header ::
  "'w nng \<Rightarrow> ptr \<Rightarrow> string \<Rightarrow> string \<Rightarrow> 'w st \<Rightarrow> unit result \<times> 'w st" where
  "http_res_add_header nng s nm v = (\<lambda>\<sigma>.
     check ''nng_http_res_add_header''
       (call_int nng ''nng_http_res_add_header'' [VW s, VS nm, VS v] \<sigma>))"

definition http_res_del_header ::
  "'w nng \<Rightarrow> ptr \<Rightarrow> string \<Rightarrow> 'w st \<Rightarrow> unit result \<times> 'w st" where
  "http_res_del_header nng s nm = (\<lambda>\<sigma>.
     check ''nng_http_res_del_header''
       (call_int nng ''nng_http_res_del_header'' [VW s, VS nm] \<sigma>))"

definition http_res_get_version ::
  "'w nng \<Rightarrow> ptr \<Rightarrow> 'w st \<Rightarrow> ptr \<times> 'w st" where
  "http_res_get_version nng s = (\<lambda>\<sigma>. call_w64 nng ''nng_http_res_get_version'' [VW s] \<sigma>)"

definition http_res_set_version ::
  "'w nng \<Rightarrow> ptr \<Rightarrow> string \<Rightarrow> 'w st \<Rightarrow> unit result \<times> 'w st" where
  "http_res_set_version nng s version = (\<lambda>\<sigma>.
     check ''nng_http_res_set_version''
       (call_int nng ''nng_http_res_set_version'' [VW s, VS version] \<sigma>))"

definition http_res_get_data ::
  "'w nng \<Rightarrow> ptr \<Rightarrow> 'w st \<Rightarrow> view \<times> 'w st" where
  "http_res_get_data nng s = (\<lambda>\<sigma>.
     case call_buf nng ''nng_http_res_get_data'' [VW s] \<sigma> of ((d, n), \<sigma>') \<Rightarrow> (view_of d n, \<sigma>'))"

definition http_res_set_data ::
  "'w nng \<Rightarrow> ptr \<Rightarrow> view \<Rightarrow> 'w st \<Rightarrow> unit result \<times> 'w st" where
  "http_res_set_data nng s v = (\<lambda>\<sigma>.
     check ''nng_http_res_set_data''
       (call_int nng ''nng_http_res_set_data'' [VW s, VW (v_data v), VW (v_size v)] \<sigma>))"

definition http_res_copy_data ::
  "'w nng \<Rightarrow> ptr \<Rightarrow> view \<Rightarrow> 'w st \<Rightarrow> unit result \<times> 'w st" where
  "http_res_copy_data nng s v = (\<lambda>\<sigma>.
     check ''nng_http_res_copy_data''
       (call_int nng ''nng_http_res_copy_data'' [VW s, VW (v_data v), VW (v_size v)] \<sigma>))"

definition http_server_start ::
  "'w nng \<Rightarrow> ptr \<Rightarrow> 'w st \<Rightarrow> unit result \<times> 'w st" where
  "http_server_start nng s = (\<lambda>\<sigma>.
     check ''nng_http_server_start''
       (call_int nng ''nng_http_server_start'' [VW s] \<sigma>))"

definition http_server_stop ::
  "'w nng \<Rightarrow> ptr \<Rightarrow> 'w st \<Rightarrow> 'w st" where
  "http_server_stop nng s = (\<lambda>\<sigma>. call_unit nng ''nng_http_server_stop'' [VW s] \<sigma>)"

definition http_server_get_addr ::
  "'w nng \<Rightarrow> ptr \<Rightarrow> 'w st \<Rightarrow> byte list result \<times> 'w st" where
  "http_server_get_addr nng s = (\<lambda>\<sigma>.
     check_out ''nng_http_server_get_addr''
       (get_addr nng ''nng_http_server_get_addr'' [VW s] \<sigma>))"

definition http_server_get_tls ::
  "'w nng \<Rightarrow> ptr \<Rightarrow> 'w st \<Rightarrow> ptr result \<times> 'w st" where
  "http_server_get_tls nng s = (\<lambda>\<sigma>.
     check_out ''nng_http_server_get_tls''
       (get_w64 nng ''nng_http_server_get_tls'' [VW s] \<sigma>))"

definition http_server_set_tls ::
  "'w nng \<Rightarrow> ptr \<Rightarrow> ptr \<Rightarrow> 'w st \<Rightarrow> unit result \<times> 'w st" where
  "http_server_set_tls nng s cfg = (\<lambda>\<sigma>.
     check ''nng_http_server_set_tls''
       (call_int nng ''nng_http_server_set_tls'' [VW s, VW cfg] \<sigma>))"

definition http_server_set_error_page ::
  "'w nng \<Rightarrow> ptr \<Rightarrow> 16 word \<Rightarrow> string \<Rightarrow> 'w st \<Rightarrow> unit result \<times> 'w st" where
  "http_server_set_error_page nng s code body = (\<lambda>\<sigma>.
     check ''nng_http_server_set_error_page''
       (call_int nng ''nng_http_server_set_error_page'' [VW s, VI (ucast code), VS body] \<sigma>))"

definition http_server_set_error_file ::
  "'w nng \<Rightarrow> ptr \<Rightarrow> 16 word \<Rightarrow> string \<Rightarrow> 'w st \<Rightarrow> unit result \<times> 'w st" where
  "http_server_set_error_file nng s code path = (\<lambda>\<sigma>.
     check ''nng_http_server_set_error_file''
       (call_int nng ''nng_http_server_set_error_file'' [VW s, VI (ucast code), VS path] \<sigma>))"

definition http_server_set_res_error ::
  "'w nng \<Rightarrow> ptr \<Rightarrow> ptr \<Rightarrow> 'w st \<Rightarrow> unit result \<times> 'w st" where
  "http_server_set_res_error nng s res = (\<lambda>\<sigma>.
     check ''nng_http_server_res_error''
       (call_int nng ''nng_http_server_res_error'' [VW s, VW res] \<sigma>))"

text \<open>
  \<open>add_handler\<close> moves the handler of an object into the server; \<open>remove_handler\<close> returns the
  handle of the object it constructs.
\<close>

definition http_server_add_handler ::
  "'w nng \<Rightarrow> ptr \<Rightarrow> nat \<Rightarrow> (ptr, 'w) cfg \<Rightarrow> unit result \<times> (ptr, 'w) cfg" where
  "http_server_add_handler nng s h = (\<lambda>(S, \<sigma>).
     (case S h of
        None \<Rightarrow> (Ub, S, \<sigma>)
      | Some p \<Rightarrow>
          (case call_int nng ''nng_http_server_add_handler'' [VW s, VW p] \<sigma> of
             (r, \<sigma>1) \<Rightarrow>
               if r \<noteq> 0 then (Throw (exception r ''nng_http_server_add_handler''), S, \<sigma>1)
               else (case http_handler_exec nng (Release h) (S, \<sigma>1) of (_, S', \<sigma>2) \<Rightarrow> (Ok (), S', \<sigma>2)))))"

definition http_server_remove_handler :: "'w nng \<Rightarrow> ptr \<Rightarrow> ptr \<Rightarrow> 'w st \<Rightarrow> ptr result \<times> 'w st" where
  "http_server_remove_handler nng s h = (\<lambda>\<sigma>.
     (case check ''nng_http_server_del_handler'' (call_int nng ''nng_http_server_del_handler'' [VW s, VW h] \<sigma>) of
        (Ok _, \<sigma>') \<Rightarrow> (Ok h, \<sigma>')
      | (Throw e, \<sigma>') \<Rightarrow> (Throw e, \<sigma>')
      | (Ub, \<sigma>') \<Rightarrow> (Ub, \<sigma>')))"

section \<open>Handlers of a server\<close>

text \<open>
  Programs over handlers: a handler added belongs to the server, a handler removed to the
  object that \<open>handler h = server.remove_handler(p)\<close> constructs.
\<close>

datatype handler_op =
    Handler_member "(ptr, http_handler_args) raii_op"
  | Add_handler nat
  | Remove_handler nat ptr

fun handler_op_exec :: "'w nng \<Rightarrow> ptr \<Rightarrow> handler_op \<Rightarrow> (ptr, 'w) cfg \<Rightarrow> (ptr, 'w) outcome" where
  "handler_op_exec nng s (Handler_member op) c = http_handler_exec nng op c"
| "handler_op_exec nng s (Add_handler h) c =
     (case http_server_add_handler nng s h c of
        (Ok _, c') \<Rightarrow> (Ok None, c') | (Throw e, c') \<Rightarrow> (Throw e, c') | (Ub, c') \<Rightarrow> (Ub, c'))"
| "handler_op_exec nng s (Remove_handler this p) c = m_acquire this (http_server_remove_handler nng s p) c"

definition handler_flow_ev :: "call \<Rightarrow> ptr event option" where
  "handler_flow_ev c =
     (if c_fn c = ''nng_http_server_add_handler'' then
        (case (c_args c, c_ret c) of
           ([_, VW h], [VI r]) \<Rightarrow> if r = 0 then Some (Kill h) else None | _ \<Rightarrow> None)
      else if c_fn c = ''nng_http_server_del_handler'' then
        (case (c_args c, c_ret c) of
           ([_, VW h], [VI r]) \<Rightarrow> if r = 0 then Some (Give h) else None | _ \<Rightarrow> None)
      else ptr_ev [''nng_http_handler_alloc'', ''nng_http_handler_alloc_file'',
        ''nng_http_handler_alloc_directory'', ''nng_http_handler_alloc_static''] ''nng_http_handler_free'' c)"

fun handler_op_ok :: "handler_op \<Rightarrow> ptr store \<Rightarrow> ptr multiset \<Rightarrow> ptr option result \<Rightarrow> bool" where
  "handler_op_ok (Handler_member op) S L r = class_ok {Acquiring} op S L r"
| "handler_op_ok (Add_handler h) S L r = (S h \<noteq> None \<and> S h \<noteq> Some 0)"
| "handler_op_ok (Remove_handler this p) S L r = (S this = None)"

lemma handler_flow_calls:
  "releases handler_flow_ev (\<lambda>h. call_unit nng ''nng_http_handler_free'' [VW h])"
  "acquires handler_flow_ev (\<lambda>s. check_out src (get_w64 nng ''nng_http_handler_alloc'' args s))"
  "acquires handler_flow_ev (\<lambda>s. check_out src (get_w64 nng ''nng_http_handler_alloc_file'' args s))"
  "acquires handler_flow_ev (\<lambda>s. check_out src (get_w64 nng ''nng_http_handler_alloc_directory'' args s))"
  "acquires handler_flow_ev (\<lambda>s. check_out src (get_w64 nng ''nng_http_handler_alloc_static'' args s))"
  "acquires handler_flow_ev (http_server_remove_handler nng k p)"
  by (auto simp: handler_flow_ev_def ptr_ev_def releases_def acquires_def call_simps
      http_server_remove_handler_def invoke_def split: prod.splits)

interpretation handler_member: owner_class True "{Acquiring}" "http_handler_exec nng" handler_flow_ev
  for nng :: "'w nng"
proof
  fix op
  show "conforms True {Acquiring} handler_flow_ev op (http_handler_exec nng op)"
    by (cases "(nng, op)" rule: http_handler_exec.cases; simp only: http_handler_exec.simps prod.inject;
        intro conforming handler_flow_calls; simp)
qed

interpretation handler_flow: flow True handler_op_ok "handler_op_exec nng server" handler_flow_ev
  for nng :: "'w nng" and server
proof
  fix op S s r S' s' L
  assume ex: "handler_op_exec nng server op (S, s) = (r, S', s')" and ok: "handler_op_ok op S L r"
    and inv: "store_ok S L"
  show "\<exists>cs. st_log s' = st_log s @ cs \<and> books True S L (events handler_flow_ev cs) S' (released [r])"
  proof (cases op)
    case (Handler_member op')
    with ex ok show ?thesis using handler_member.step [OF _ _ inv] by simp
  next
    case (Add_handler m)
    with ok obtain h where h: "S m = Some h" "h \<noteq> 0" by auto
    let ?c = "\<lambda>x. \<lparr>c_fn = ''nng_http_server_add_handler'', c_args = [VW server, VW h], c_ret = [VI x]\<rparr>"
    obtain x s1 where c: "call_int nng ''nng_http_server_add_handler'' [VW server, VW h] s = (x, s1)"
      by fastforce
    then have "st_log s1 = st_log s @ [?c x]"
      unfolding call_int_def by (rule invoke_log)
    then show ?thesis
      using ex Add_handler h c books_send [OF inv h] books_nil [OF inv, of True]
      by (auto simp: http_server_add_handler_def m_release_def handler_flow_ev_def
          intro!: exI [of _ "[?c x]"] split: if_splits)
  next
    case (Remove_handler this p)
    let ?op = "Acquire this (Handler_alloc [] 0)"
    have conf: "conforms True {Acquiring} handler_flow_ev ?op
        (m_acquire this (http_server_remove_handler nng server p))"
      by (intro conforms_acquire handler_flow_calls)
    have op: "op_ok {Acquiring} ?op S L" using ok Remove_handler by simp
    have "m_acquire this (http_server_remove_handler nng server p) (S, s) = (r, S', s')"
      using ex Remove_handler by simp
    with conf op obtain cs where "st_log s' = st_log s @ cs" "own_step True ?op S r S' (events handler_flow_ev cs)"
      unfolding conforms_def by blast
    with own_step_safe [OF this(2) op inv] show ?thesis
      by (auto simp: books_def copy_assign_succeeds_def)
  qed
qed

section \<open>Properties\<close>

text \<open>C8: a program that makes handlers, adds them to a server and takes them back frees or adds only
  handlers it holds, and every handler it holds at the end is in an object or was released.\<close>

theorem handler_flow_safe:
  assumes "run (handler_op_exec nng server) ops (Map.empty, s) = (rs, S, s')"
    and "legal handler_op_ok (handler_op_exec nng server) handler_flow_ev ops (Map.empty, s) {#}"
  shows "\<exists>cs. st_log s' = st_log s @ cs \<and> proper (events handler_flow_ev cs) {#} \<and>
    store_ok S (live (events handler_flow_ev cs) {#}) \<and>
    live (events handler_flow_ev cs) {#} - owned S \<subseteq># released rs"
  using handler_flow.run_safe [OF assms store_ok_empty] by (simp add: books_def)

definition handlers_nng :: "w64 nng" where
  "handlers_nng = idle_nng\<lparr>s_w64 := (\<lambda>_ _ (w, m). ((0, w + 1), w + 1, m))\<rparr>"

definition handlers_program :: "handler_op list" where
  "handlers_program = [Handler_member (Acquire 0 (Handler_file ''/a'' ''a.html'')), Add_handler 0,
     Handler_member (Acquire 1 (Handler_alloc ''/b'' 64)), Handler_member (Move_assign 0 1),
     Remove_handler 2 1, Handler_member (Dtor 2), Handler_member (Dtor 0), Handler_member (Dtor 1)]"

theorem handler_flow_safe_witness:
  "\<exists>cs. st_log (snd (snd (run (handler_op_exec handlers_nng 3) handlers_program (Map.empty, start 0)))) =
      st_log (start (0 :: w64)) @ cs \<and> proper (events handler_flow_ev cs) {#}"
  using handler_flow_safe [of handlers_nng 3 handlers_program "start 0"
      "fst (run (handler_op_exec handlers_nng 3) handlers_program (Map.empty, start 0))"
      "fst (snd (run (handler_op_exec handlers_nng 3) handlers_program (Map.empty, start 0)))"
      "snd (snd (run (handler_op_exec handlers_nng 3) handlers_program (Map.empty, start 0)))"]
  by (simp add: handlers_program_def member_simps call_simps invoke_def handlers_nng_def start_def
      copy_assign_succeeds_def class_ok_def http_server_add_handler_def http_server_remove_handler_def)

lemmas http_methods_report_defs =
  http_client_get_tls_def http_client_set_tls_def http_conn_hijack_def
  http_handler_set_method_def http_handler_set_host_def http_handler_set_tree_def
  http_handler_set_tree_exclusive_def http_handler_set_data_def http_handler_collect_body_def
  http_req_set_method_def http_req_set_version_def http_req_set_uri_def http_req_set_header_def
  http_req_add_header_def http_req_del_header_def http_req_set_data_def http_req_copy_data_def
  http_res_set_status_def http_res_set_reason_def http_res_set_header_def
  http_res_add_header_def http_res_del_header_def http_res_set_version_def http_res_set_data_def
  http_res_copy_data_def http_server_start_def http_server_get_addr_def http_server_get_tls_def
  http_server_set_tls_def http_server_set_error_page_def http_server_set_error_file_def
  http_server_set_res_error_def

text \<open>Every method of an HTTP client, connection, handler, request, response and server that makes
  one checked call throws exactly when that call fails, with its status and its name.\<close>

theorem http_methods_report:
  "(\<forall>c. reports_failure (http_client_get_tls nng c)) \<and>
    (\<forall>c cfg. reports_failure (http_client_set_tls nng c cfg)) \<and>
    (\<forall>n. reports_failure (http_conn_hijack nng n)) \<and>
    (\<forall>h method. reports_failure (http_handler_set_method nng h method)) \<and>
    (\<forall>h host. reports_failure (http_handler_set_host nng h host)) \<and>
    (\<forall>h. reports_failure (http_handler_set_tree nng h)) \<and>
    (\<forall>h. reports_failure (http_handler_set_tree_exclusive nng h)) \<and>
    (\<forall>h dat dtor. reports_failure (http_handler_set_data nng h dat dtor)) \<and>
    (\<forall>h want maxsz. reports_failure (http_handler_collect_body nng h want maxsz)) \<and>
    (\<forall>q method. reports_failure (http_req_set_method nng q method)) \<and>
    (\<forall>q version. reports_failure (http_req_set_version nng q version)) \<and>
    (\<forall>q uri. reports_failure (http_req_set_uri nng q uri)) \<and>
    (\<forall>q nm v. reports_failure (http_req_set_header nng q nm v)) \<and>
    (\<forall>q nm v. reports_failure (http_req_add_header nng q nm v)) \<and>
    (\<forall>q nm. reports_failure (http_req_del_header nng q nm)) \<and>
    (\<forall>q v. reports_failure (http_req_set_data nng q v)) \<and>
    (\<forall>q v. reports_failure (http_req_copy_data nng q v)) \<and>
    (\<forall>s code. reports_failure (http_res_set_status nng s code)) \<and>
    (\<forall>s reason. reports_failure (http_res_set_reason nng s reason)) \<and>
    (\<forall>s nm v. reports_failure (http_res_set_header nng s nm v)) \<and>
    (\<forall>s nm v. reports_failure (http_res_add_header nng s nm v)) \<and>
    (\<forall>s nm. reports_failure (http_res_del_header nng s nm)) \<and>
    (\<forall>s version. reports_failure (http_res_set_version nng s version)) \<and>
    (\<forall>s v. reports_failure (http_res_set_data nng s v)) \<and>
    (\<forall>s v. reports_failure (http_res_copy_data nng s v)) \<and>
    (\<forall>s. reports_failure (http_server_start nng s)) \<and>
    (\<forall>s. reports_failure (http_server_get_addr nng s)) \<and>
    (\<forall>s. reports_failure (http_server_get_tls nng s)) \<and>
    (\<forall>s cfg. reports_failure (http_server_set_tls nng s cfg)) \<and>
    (\<forall>s code body. reports_failure (http_server_set_error_page nng s code body)) \<and>
    (\<forall>s code path. reports_failure (http_server_set_error_file nng s code path)) \<and>
    (\<forall>s res. reports_failure (http_server_set_res_error nng s res))"
  unfolding http_methods_report_defs
  by (intro conjI allI reports_check reports_get reports_get_buf reports_string reports_as_u16)

text \<open>The name a verb is sent under is the one of the enumerator, and different verbs have
  different names.\<close>

theorem verb_names_distinct:
  "verb_to_name u = verb_to_name v \<longleftrightarrow> u = v"
  by (cases u; cases v; simp add: verb_to_name_def verb_name_def)

text \<open>A server is held and released in balance by a program that starts and ends without
  objects and detaches none.\<close>

theorem http_server_balanced:
  assumes "run (http_server_exec nng) ops (Map.empty, s) = (rs, Map.empty, s')"
    and "legal (class_ok {Acquiring}) (http_server_exec nng) http_server_ev ops (Map.empty, s) {#}"
    and "released rs = {#}" "h \<noteq> 0"
  shows "count_list (events http_server_ev (new_calls s s')) (Give h) =
    count_list (events http_server_ev (new_calls s s')) (Kill h)"
  using http_server.run_balanced(2) [OF assms(1,2) TrueI assms(3,4)] .

definition one_server_nng :: "unit nng" where
  "one_server_nng = idle_nng\<lparr>s_w64 := (\<lambda>_ _ w. ((0, 5), w))\<rparr>"

definition server_program :: "(ptr, http_server_args) raii_op list" where
  "server_program = [Acquire 0 (Server_hold 9), Acquire 1 (Server_hold 9), Move_assign 0 1, Dtor 0, Dtor 1]"

theorem http_server_balanced_witness:
  "count_list (events http_server_ev (new_calls (start ())
     (snd (snd (run (http_server_exec one_server_nng) server_program (Map.empty, start ())))))) (Give 5) =
   count_list (events http_server_ev (new_calls (start ())
     (snd (snd (run (http_server_exec one_server_nng) server_program (Map.empty, start ())))))) (Kill 5)"
  by (rule http_server_balanced [where nng = one_server_nng and ops = server_program and
        rs = "fst (run (http_server_exec one_server_nng) server_program (Map.empty, start ()))"])
    (simp_all add: server_program_def member_simps call_simps invoke_def one_server_nng_def start_def
      class_ok_def copy_assign_succeeds_def)

end
