(* ===== verification/Work_Loop.thy ===== *)
theory Work_Loop
  imports Sockets
begin

text \<open>
  The callback-driven servers of \<open>demo/async/server.cpp\<close> and \<open>demo/raw/raw.cpp\<close>: a work
  item is a state, an asynchronous operation whose callback is \<open>server_cb\<close>, a message object,
  and a context (async) or a socket (raw). The two programs differ only in what they receive
  from and send to, which is the interface \<open>work_loop\<close>. nng calls \<open>server_cb\<close> when the
  operation completes, on any thread and after anything else has happened in the library, which
  the step relation \<open>reach\<close> says: between callbacks the world and the memory are arbitrary.
\<close>

section \<open>The callback\<close>

datatype work_state = INIT | RECV | WAIT | SEND

text \<open>
  How a callback ends: it returns with the item in a new state, or it calls \<open>exit(1)\<close> with the
  exception it caught; \<open>Stuck\<close> if it used a message object that does not exist.
\<close>

datatype 'a callback = Next 'a | Exit exn | Stuck

text \<open>The addresses of the message of the item and of the local \<open>msg\<close> of the callback.\<close>

abbreviation (input) work_msg :: nat where "work_msg \<equiv> 0"
abbreviation (input) local_msg :: nat where "local_msg \<equiv> 1"

fun server_cb ::
  "'w nng \<Rightarrow> (ptr \<Rightarrow> 'w st \<Rightarrow> 'w st) \<Rightarrow> (ptr \<Rightarrow> 'w st \<Rightarrow> 'w st) \<Rightarrow> ptr \<Rightarrow> work_state \<Rightarrow>
     (ptr, 'w) cfg \<Rightarrow> work_state callback \<times> (ptr, 'w) cfg" where
  "server_cb nng recv send a INIT (S, s) = (Next RECV, S, recv a s)"
| "server_cb nng recv send a RECV (S, s) =
     (case aio_view_result nng a s of (r, s1) \<Rightarrow>
        if r \<noteq> error_val nng success then (Exit (exception r ''''), S, s1)
        else
          (case aio_view_release_msg nng a s1 of (m, s2) \<Rightarrow>
           case msg_exec nng (Adopt local_msg m) (S, s2) of (_, S3, s3) \<Rightarrow>
           case msg_body_trim_u32 nng m s3 of
             (Ok when, s4) \<Rightarrow>
               (case msg_exec nng (Move_assign work_msg local_msg) (S3, s4) of (_, S5, s5) \<Rightarrow>
                case msg_exec nng (Dtor local_msg) (S5, s5) of (_, S6, s6) \<Rightarrow>
                  (Next WAIT, S6, aio_sleep nng when a s6))
           | (_, s4) \<Rightarrow>
               (case msg_exec nng (Dtor local_msg) (S3, recv a s4) of (_, S5, s5) \<Rightarrow>
                  (Next RECV, S5, s5))))"
| "server_cb nng recv send a WAIT (S, s) =
     (case aio_view_set_msg_move nng a work_msg (S, s) of
        (Ok _, S1, s1) \<Rightarrow> (Next SEND, S1, send a s1)
      | (_, S1, s1) \<Rightarrow> (Stuck, S1, s1))"
| "server_cb nng recv send a SEND (S, s) =
     (case aio_view_result nng a s of (r, s1) \<Rightarrow>
        if r \<noteq> error_val nng success then (Exit (exception r ''''), S, s1)
        else (Next RECV, S, recv a s1))"

definition async_server_cb ::
  "'w nng \<Rightarrow> i32 \<Rightarrow> ptr \<Rightarrow> work_state \<Rightarrow> (ptr, 'w) cfg \<Rightarrow> work_state callback \<times> (ptr, 'w) cfg" where
  "async_server_cb nng c = server_cb nng (ctx_view_recv nng c) (ctx_view_send nng c)"

definition raw_server_cb ::
  "'w nng \<Rightarrow> i32 \<Rightarrow> ptr \<Rightarrow> work_state \<Rightarrow> (ptr, 'w) cfg \<Rightarrow> work_state callback \<times> (ptr, 'w) cfg" where
  "raw_server_cb nng sock = server_cb nng (socket_view_recv_aio nng sock) (socket_view_send_aio nng sock)"

section \<open>What a callback does to the messages\<close>

text \<open>
  Getting the message of a completed operation takes it over, setting one hands it over. A
  call starts an asynchronous operation when its completion will run the callback again; the operation is the
  last argument.
\<close>

definition work_ev :: "call \<Rightarrow> ptr event option" where
  "work_ev c =
     (if c_fn c = ''nng_aio_get_msg'' then (case c_ret c of [VW h] \<Rightarrow> Some (Give h) | _ \<Rightarrow> None)
      else if c_fn c = ''nng_aio_set_msg'' then
        (case c_args c of [_, VW h] \<Rightarrow> if h \<noteq> 0 then Some (Kill h) else None | _ \<Rightarrow> None)
      else if c_fn c = ''nng_msg_free'' then (case c_args c of [VW h] \<Rightarrow> Some (Kill h) | _ \<Rightarrow> None)
      else None)"

definition starts_async :: "call \<Rightarrow> bool" where
  "starts_async c \<longleftrightarrow> c_fn c \<in> {''nng_ctx_recv'', ''nng_ctx_send'', ''nng_recv_aio'', ''nng_send_aio'',
     ''nng_sleep_aio''}"

definition operation :: "call \<Rightarrow> ptr" where
  "operation c = (case c_args c of [_, VW a] \<Rightarrow> a | _ \<Rightarrow> null)"

text \<open>The operations that were started, each as often as it was.\<close>

definition started :: "call list \<Rightarrow> ptr multiset" where
  "started cs = image_mset operation (mset (filter starts_async cs))"

lemma started_simps [simp]:
  "started [] = {#}" "started (c # cs) = (if starts_async c then {#operation c#} else {#}) + started cs"
  "started (cs @ cs') = started cs + started cs'"
  by (simp_all add: started_def)

text \<open>
  Between callbacks: the local message is gone, and the message object of the item exists and
  holds a message only while the item waits.
\<close>

definition work_inv :: "work_state \<Rightarrow> ptr store \<Rightarrow> ptr \<Rightarrow> bool" where
  "work_inv st S h \<longleftrightarrow> S = [work_msg \<mapsto> h] \<and> (st \<noteq> WAIT \<longrightarrow> h = 0)"

text \<open>What a callback of the operation \<open>a\<close> may do from an item that holds \<open>h\<close>, with the calls \<open>cs\<close>.\<close>

definition cb_ok :: "ptr \<Rightarrow> ptr \<Rightarrow> call list \<Rightarrow> work_state callback \<Rightarrow> ptr store \<Rightarrow> bool" where
  "cb_ok a h cs x S' \<longleftrightarrow>
     (case x of
        Next st' \<Rightarrow> started cs = {#a#} \<and> (\<exists>h'. work_inv st' S' h' \<and>
          proper (events work_ev cs) (held (Some h)) \<and> live (events work_ev cs) (held (Some h)) = held (Some h'))
      | Exit e \<Rightarrow> started cs = {#} \<and> get_error e \<noteq> 0 \<and> events work_ev cs = []
      | Stuck \<Rightarrow> False)"

locale work_loop =
  fixes nng :: "'w nng"
    and recv send :: "ptr \<Rightarrow> 'w st \<Rightarrow> 'w st"
  assumes starts_recv: "\<exists>c. st_log (recv a s) = st_log s @ [c] \<and> starts_async c \<and> operation c = a \<and> work_ev c = None"
    and starts_send: "\<exists>c. st_log (send a s) = st_log s @ [c] \<and> starts_async c \<and> operation c = a \<and> work_ev c = None"
begin

lemma result_log:
  assumes "aio_view_result nng a s = (r, s1)"
  obtains c where "st_log s1 = st_log s @ [c]" "\<not> starts_async c" "work_ev c = None"
  using assms unfolding aio_view_result_def call_int_def
  by (drule_tac invoke_log) (auto simp: starts_async_def work_ev_def)

lemma release_log:
  assumes "aio_view_release_msg nng a s = (m, s1)"
  obtains cs where "st_log s1 = st_log s @ cs" "started cs = {#}" "events work_ev cs = [Give m]"
proof -
  obtain \<sigma> where g: "call_w64 nng ''nng_aio_get_msg'' [VW a] s = (m, \<sigma>)"
    and s1: "s1 = call_unit nng ''nng_aio_set_msg'' [VW a, VW null] \<sigma>"
    using assms by (auto simp: aio_view_release_msg_def split: prod.splits)
  from g have "st_log \<sigma> = st_log s @ [\<lparr>c_fn = ''nng_aio_get_msg'', c_args = [VW a], c_ret = [VW m]\<rparr>]"
    unfolding call_w64_def by (rule invoke_log)
  with s1 show ?thesis
    by (intro that [of "[\<lparr>c_fn = ''nng_aio_get_msg'', c_args = [VW a], c_ret = [VW m]\<rparr>,
        \<lparr>c_fn = ''nng_aio_set_msg'', c_args = [VW a, VW null], c_ret = []\<rparr>]"])
      (auto simp: starts_async_def work_ev_def)
qed

lemma trim_log:
  assumes "msg_body_trim_u32 nng m s = (x, s1)"
  obtains c where "st_log s1 = st_log s @ [c]" "\<not> starts_async c" "work_ev c = None"
proof -
  have "st_log s1 = st_log (snd (msg_body_trim_u32 nng m s))" using assms by simp
  then show ?thesis
    by (intro that) (auto simp: msg_body_trim_u32_def call_logs starts_async_def work_ev_def)
qed

lemma callback_ok:
  assumes "server_cb nng recv send a st (S, s) = (x, S', s')" "work_inv st S h"
  shows "\<exists>cs. st_log s' = st_log s @ cs \<and> cb_ok a h cs x S'"
proof (cases st)
  case INIT
  obtain c where "st_log (recv a s) = st_log s @ [c]" "starts_async c" "operation c = a" "work_ev c = None"
    using starts_recv by blast
  with assms INIT show ?thesis
    by (intro exI [of _ "[c]"]) (auto simp: work_inv_def cb_ok_def)
next
  case RECV
  then have h: "S = [work_msg \<mapsto> 0]" "h = 0" using assms(2) by (auto simp: work_inv_def)
  obtain r s1 where r: "aio_view_result nng a s = (r, s1)" by fastforce
  then obtain c1 where c1: "st_log s1 = st_log s @ [c1]" "\<not> starts_async c1" "work_ev c1 = None"
    by (rule result_log)
  show ?thesis
  proof (cases "r = 0")
    case False
    with assms(1) RECV r c1 show ?thesis
      by (auto simp: cb_ok_def exception_def get_error_def intro!: exI [of _ "[c1]"])
  next
    case True
    obtain m s2 where m: "aio_view_release_msg nng a s1 = (m, s2)" by fastforce
    then obtain cs2 where cs2: "st_log s2 = st_log s1 @ cs2" "started cs2 = {#}" "events work_ev cs2 = [Give m]"
      by (rule release_log)
    obtain y s4 where y: "msg_body_trim_u32 nng m s2 = (y, s4)" by fastforce
    then obtain c4 where c4: "st_log s4 = st_log s2 @ [c4]" "\<not> starts_async c4" "work_ev c4 = None"
      by (rule trim_log)
    show ?thesis
    proof (cases "\<exists>t. y = Ok t")
      case True
      then obtain t where t: "y = Ok t" by blast
      let ?c5 = "\<lparr>c_fn = ''nng_sleep_aio'', c_args = [VI t, VW a], c_ret = []\<rparr>"
      have "x = Next WAIT" "S' = [work_msg \<mapsto> m]" "s' = aio_sleep nng t a s4"
        using assms(1) RECV r \<open>r = 0\<close> m y t h
        by (auto simp: m_adopt_def m_move_assign_def m_dtor_def fun_upd_twist)
      then show ?thesis using c1 cs2 c4 h
        by (intro exI [of _ "c1 # cs2 @ [c4, ?c5]"])
          (auto simp: cb_ok_def work_inv_def aio_sleep_def starts_async_def operation_def work_ev_def)
    next
      case False
      obtain c5 where c5: "st_log (recv a s4) = st_log s4 @ [c5]" "starts_async c5" "operation c5 = a" "work_ev c5 = None"
        using starts_recv by blast
      let ?c6 = "\<lparr>c_fn = ''nng_msg_free'', c_args = [VW m], c_ret = []\<rparr>"
      have x: "x = Next RECV" "S' = [work_msg \<mapsto> 0]"
        "s' = (if m \<noteq> 0 then call_unit nng ''nng_msg_free'' [VW m] (recv a s4) else recv a s4)"
        using assms(1) RECV r \<open>r = 0\<close> m y False h
        by (auto simp: m_adopt_def m_dtor_def split: result.splits)
      show ?thesis
      proof (cases "m = 0")
        case True
        then show ?thesis using x c1 cs2 c4 c5 h
          by (intro exI [of _ "c1 # cs2 @ [c4, c5]"]) (auto simp: cb_ok_def work_inv_def)
      next
        case m: False
        have "\<not> starts_async ?c6" "work_ev ?c6 = Some (Kill m)"
          by (simp_all add: starts_async_def work_ev_def)
        then show ?thesis using x c1 cs2 c4 c5 h m
          by (intro exI [of _ "c1 # cs2 @ [c4, c5, ?c6]"]) (auto simp: cb_ok_def work_inv_def)
      qed
    qed
  qed
next
  case WAIT
  then have S: "S = [work_msg \<mapsto> h]" using assms(2) by (auto simp: work_inv_def)
  let ?s1 = "call_unit nng ''nng_aio_set_msg'' [VW a, VW h] s"
  let ?c1 = "\<lparr>c_fn = ''nng_aio_set_msg'', c_args = [VW a, VW h], c_ret = []\<rparr>"
  obtain c2 where c2: "st_log (send a ?s1) = st_log ?s1 @ [c2]" "starts_async c2" "operation c2 = a" "work_ev c2 = None"
    using starts_send by blast
  have "x = Next SEND" "S' = [work_msg \<mapsto> 0]" "s' = send a ?s1"
    using assms(1) WAIT S by (auto simp: aio_view_set_msg_move_def m_release_def aio_view_set_msg_def)
  moreover have "\<not> starts_async ?c1" "work_ev ?c1 = (if h \<noteq> 0 then Some (Kill h) else None)"
    by (simp_all add: starts_async_def work_ev_def)
  ultimately show ?thesis using c2
    by (intro exI [of _ "[?c1, c2]"]) (auto simp: cb_ok_def work_inv_def)
next
  case SEND
  then have h: "S = [work_msg \<mapsto> 0]" "h = 0" using assms(2) by (auto simp: work_inv_def)
  obtain r s1 where r: "aio_view_result nng a s = (r, s1)" by fastforce
  then obtain c1 where c1: "st_log s1 = st_log s @ [c1]" "\<not> starts_async c1" "work_ev c1 = None"
    by (rule result_log)
  obtain c2 where c2: "st_log (recv a s1) = st_log s1 @ [c2]" "starts_async c2" "operation c2 = a" "work_ev c2 = None"
    using starts_recv by blast
  show ?thesis
  proof (cases "r = 0")
    case True
    with assms(1) SEND r c1 c2 h show ?thesis
      by (auto simp: cb_ok_def work_inv_def intro!: exI [of _ "[c1, c2]"])
  next
    case False
    with assms(1) SEND r c1 show ?thesis
      by (auto simp: cb_ok_def exception_def get_error_def intro!: exI [of _ "[c1]"])
  qed
qed

end

section \<open>A work item over time\<close>

text \<open>
  From \<open>server_cb\<close> being called on a new item, callback after callback. What else the library
  does between two of them may change its world and the memory in any way.
\<close>

inductive reach ::
  "(work_state \<Rightarrow> (ptr, 'w) cfg \<Rightarrow> work_state callback \<times> (ptr, 'w) cfg) \<Rightarrow> 'w st \<Rightarrow>
     nat \<Rightarrow> work_state \<Rightarrow> ptr store \<Rightarrow> 'w st \<Rightarrow> bool"
  for cb s0 where
  start: "reach cb s0 0 INIT [work_msg \<mapsto> 0] s0"
| callback: "reach cb s0 n st S s \<Longrightarrow>
    cb st (S, s\<lparr>st_lib := w, st_mem := m\<rparr>) = (Next st', S', s') \<Longrightarrow> reach cb s0 (Suc n) st' S' s'"

inductive_cases reach_SucE: "reach cb s0 (Suc n) st S s"

context work_loop
begin

lemma reach_inv:
  assumes "reach (server_cb nng recv send a) s0 n st S s"
  shows "\<exists>cs h. st_log s = st_log s0 @ cs \<and> started cs = replicate_mset n a \<and> work_inv st S h \<and>
    proper (events work_ev cs) {#} \<and> live (events work_ev cs) {#} = held (Some h)"
  using assms
proof induction
  case start
  then show ?case by (auto simp: work_inv_def)
next
  case (callback n st S s w m st' S' s')
  then obtain cs h where cs: "st_log s = st_log s0 @ cs" "started cs = replicate_mset n a" "work_inv st S h"
    "proper (events work_ev cs) {#}" "live (events work_ev cs) {#} = held (Some h)" by blast
  from callback_ok [OF callback.hyps(2) cs(3)] obtain cs' where
    "st_log s' = st_log s @ cs'" "cb_ok a h cs' (Next st') S'" by auto
  with cs show ?case
    by (intro exI [of _ "cs @ cs'"]) (auto simp: cb_ok_def)
qed

end

lemma ctx_starts:
  "\<exists>c. st_log (ctx_view_recv nng k a s) = st_log s @ [c] \<and> starts_async c \<and> operation c = a \<and> work_ev c = None"
  "\<exists>c. st_log (ctx_view_send nng k a s) = st_log s @ [c] \<and> starts_async c \<and> operation c = a \<and> work_ev c = None"
  "\<exists>c. st_log (socket_view_recv_aio nng k a s) = st_log s @ [c] \<and> starts_async c \<and> operation c = a \<and> work_ev c = None"
  "\<exists>c. st_log (socket_view_send_aio nng k a s) = st_log s @ [c] \<and> starts_async c \<and> operation c = a \<and> work_ev c = None"
  by (simp_all add: ctx_view_recv_def ctx_view_send_def socket_view_recv_aio_def
      socket_view_send_aio_def starts_async_def operation_def work_ev_def)

interpretation async_loop: work_loop nng "ctx_view_recv nng c" "ctx_view_send nng c"
  for nng :: "'w nng" and c
  by unfold_locales (rule ctx_starts)+

interpretation raw_loop: work_loop nng "socket_view_recv_aio nng sock" "socket_view_send_aio nng sock"
  for nng :: "'w nng" and sock
  by unfold_locales (rule ctx_starts)+

section \<open>One request\<close>

text \<open>A call that leaves alone the part of the world that \<open>view\<close> shows.\<close>

definition quiet :: "('w, 'r) cfun \<Rightarrow> string \<Rightarrow> ('w \<Rightarrow> 'v) \<Rightarrow> bool" where
  "quiet f fn view \<longleftrightarrow> (\<forall>args w m r w' m'. f fn args (w, m) = (r, w', m') \<longrightarrow> view w' = view w)"

lemma quiet_invoke: "quiet f fn view \<Longrightarrow> view (st_lib (snd (invoke f enc fn args s))) = view (st_lib s)"
  unfolding quiet_def invoke_def by (auto split: prod.splits)

lemma release_msg_slot:
  assumes "slot_contract nng slot" "quiet (f_w64 nng) ''nng_aio_get_msg'' content"
    "quiet (f_unit nng) ''nng_aio_set_msg'' content" "aio_view_release_msg nng a s = (m, s1)"
  shows "m = slot (st_lib s) a" "content (st_lib s1) = content (st_lib s)"
proof -
  obtain \<sigma> where g: "call_w64 nng ''nng_aio_get_msg'' [VW a] s = (m, \<sigma>)"
    and s1: "s1 = call_unit nng ''nng_aio_set_msg'' [VW a, VW null] \<sigma>"
    using assms(4) by (auto simp: aio_view_release_msg_def split: prod.splits)
  show "m = slot (st_lib s) a" by (rule get_slot(1) [OF assms(1) g])
  have "content (st_lib \<sigma>) = content (st_lib s)"
    using quiet_invoke [OF assms(2), where enc = "\<lambda>r. [VW r]" and args = "[VW a]" and s = s] g
    by (simp add: call_w64_def)
  with s1 show "content (st_lib s1) = content (st_lib s)"
    using quiet_invoke [OF assms(3), where enc = "\<lambda>_. []" and args = "[VW a, VW null]" and s = \<sigma>]
    by (simp add: call_unit_def)
qed

section \<open>Properties\<close>

text \<open>However often \<open>server_cb\<close> of the async demo is called, and whatever the library does in
  between: each call started the operation of the item exactly once, so the item always has one
  outstanding and never two; every message it took over was freed or handed over for sending
  exactly once, or is the one the item holds while it waits.\<close>

theorem async_work_safe:
  assumes "reach (async_server_cb nng c a) s0 n st S s"
  shows "\<exists>cs h. st_log s = st_log s0 @ cs \<and> started cs = replicate_mset n a \<and> S = [work_msg \<mapsto> h] \<and> (st \<noteq> WAIT \<longrightarrow> h = 0) \<and>
    proper (events work_ev cs) {#} \<and> live (events work_ev cs) {#} = held (Some h)"
  using async_loop.reach_inv assms unfolding async_server_cb_def work_inv_def by blast

text \<open>The same of the raw demo, which receives and sends on the socket itself.\<close>

theorem raw_work_safe:
  assumes "reach (raw_server_cb nng sock a) s0 n st S s"
  shows "\<exists>cs h. st_log s = st_log s0 @ cs \<and> started cs = replicate_mset n a \<and> S = [work_msg \<mapsto> h] \<and> (st \<noteq> WAIT \<longrightarrow> h = 0) \<and>
    proper (events work_ev cs) {#} \<and> live (events work_ev cs) {#} = held (Some h)"
  using raw_loop.reach_inv assms unfolding raw_server_cb_def work_inv_def by blast

text \<open>A work item never gets stuck: from every state it can reach, the callback either returns
  with the next state of the cycle, having started the next operation, or exits because the
  operation failed, with the status of the operation.\<close>

theorem async_work_progress:
  assumes "reach (async_server_cb nng c a) s0 n st S s"
  shows "(\<exists>st' S' s'. async_server_cb nng c a st (S, s) = (Next st', S', s') \<and>
      (st, st') \<in> {(INIT, RECV), (RECV, RECV), (RECV, WAIT), (WAIT, SEND), (SEND, RECV)}) \<or>
    (\<exists>e s'. async_server_cb nng c a st (S, s) = (Exit e, S, s') \<and> st \<in> {RECV, SEND} \<and>
      get_error e = fst (aio_view_result nng a s) \<and> get_error e \<noteq> 0)"
proof -
  obtain cs h where inv: "work_inv st S h"
    using async_loop.reach_inv assms unfolding async_server_cb_def by blast
  obtain x S' s' where cb: "async_server_cb nng c a st (S, s) = (x, S', s')" by (metis prod_cases3)
  with inv have "\<exists>cs. cb_ok a h cs x S'"
    using async_loop.callback_ok unfolding async_server_cb_def by blast
  then have "x \<noteq> Stuck" by (auto simp: cb_ok_def)
  then show ?thesis using cb inv
    by (cases st)
      (auto simp: async_server_cb_def exception_def get_error_def split: prod.splits result.splits if_splits)
qed

text \<open>C11: a request of at least four bytes is answered with itself, less those bytes, after the number
  of milliseconds they stand for in network byte order: the callback of its arrival puts the
  message into the item and sleeps that long; the next one hands that message to the operation
  and sends.\<close>

theorem async_request_cycle:
  assumes "part_contract nng ''nng_msg'' content" "slot_contract nng slot"
    and "quiet (f_int nng) ''nng_aio_result'' content" "quiet (f_int nng) ''nng_aio_result'' slot"
    and "quiet (f_w64 nng) ''nng_aio_get_msg'' content" "quiet (f_unit nng) ''nng_aio_set_msg'' content"
    and "fst (aio_view_result nng a s) = 0" "slot (st_lib s) a = m"
    and "content (st_lib s) m = be_bytes 4 t @ body"
  shows "\<exists>s1. async_server_cb nng c a RECV ([work_msg \<mapsto> 0], s) =
      (Next WAIT, [work_msg \<mapsto> m], aio_sleep nng t a s1) \<and> content (st_lib s1) m = body \<and>
    (\<forall>s2. async_server_cb nng c a WAIT ([work_msg \<mapsto> m], s2) =
      (Next SEND, [work_msg \<mapsto> 0], ctx_view_send nng c a (aio_view_set_msg nng a m s2)))"
proof -
  obtain s1 where r: "aio_view_result nng a s = (0, s1)" using assms(7) by (metis prod.collapse)
  have q: "content (st_lib s1) = content (st_lib s)" "slot (st_lib s1) = slot (st_lib s)"
    using quiet_invoke [OF assms(3), where enc = "\<lambda>r. [VI r]" and args = "[VW a]" and s = s]
      quiet_invoke [OF assms(4), where enc = "\<lambda>r. [VI r]" and args = "[VW a]" and s = s] r
    by (simp_all add: aio_view_result_def call_int_def)
  obtain m' s2 where m: "aio_view_release_msg nng a s1 = (m', s2)" by fastforce
  note rel = release_msg_slot [OF assms(2,5,6) m]
  then have m': "m' = m" using assms(8) q by simp
  have "content (st_lib s2) m = be_bytes 4 t @ body" using rel(2) q assms(9) by simp
  from msg_body.trims_content(2) [OF assms(1) this] obtain s3 where
    t: "msg_body_trim_u32 nng m s2 = (Ok t, s3)" "content (st_lib s3) m = body" by blast
  have "async_server_cb nng c a RECV ([work_msg \<mapsto> 0], s) = (Next WAIT, [work_msg \<mapsto> m], aio_sleep nng t a s3)"
    using r m m' t by (simp add: async_server_cb_def m_adopt_def m_move_assign_def m_dtor_def fun_upd_twist)
  moreover have "async_server_cb nng c a WAIT ([work_msg \<mapsto> m], s2) =
      (Next SEND, [work_msg \<mapsto> 0], ctx_view_send nng c a (aio_view_set_msg nng a m s2))" for s2
    by (simp add: async_server_cb_def aio_view_set_msg_move_def m_release_def)
  ultimately show ?thesis using t(2) by blast
qed

text \<open>A message too short for the delay is dropped: it is freed, the item receives again, and the
  client gets no answer.\<close>

theorem async_bad_message_dropped:
  assumes "fst (aio_view_result nng a s) = 0"
    and "aio_view_release_msg nng a (snd (aio_view_result nng a s)) = (m, s2)" "m \<noteq> 0"
    and "msg_body_trim_u32 nng m s2 = (Throw e, s3)"
  shows "async_server_cb nng c a RECV ([work_msg \<mapsto> 0], s) =
    (Next RECV, [work_msg \<mapsto> 0], call_unit nng ''nng_msg_free'' [VW m] (ctx_view_recv nng c a s3))"
  using assms
  by (cases "aio_view_result nng a s") (simp add: async_server_cb_def m_adopt_def m_dtor_def fun_upd_twist)

text \<open>A library whose world is the messages of the operations and the bodies of the messages.\<close>

definition lift_fst :: "('r \<times> 'a \<times> mem) \<Rightarrow> 'b \<Rightarrow> 'r \<times> ('a \<times> 'b) \<times> mem" where
  "lift_fst = (\<lambda>(r, w, m) b. (r, (w, b), m))"

definition lift_snd :: "('r \<times> 'b \<times> mem) \<Rightarrow> 'a \<Rightarrow> 'r \<times> ('a \<times> 'b) \<times> mem" where
  "lift_snd = (\<lambda>(r, w, m) a. (r, (a, w), m))"

definition demo_nng :: "((ptr \<Rightarrow> ptr) \<times> (ptr \<Rightarrow> byte list)) nng" where
  "demo_nng = idle_nng\<lparr>
     f_w64 := (\<lambda>fn args ((w, b), m). lift_fst (f_w64 slot_nng fn args (w, m)) b),
     f_unit := (\<lambda>fn args ((w, b), m). lift_fst (f_unit slot_nng fn args (w, m)) b),
     f_int := (\<lambda>fn args ((w, b), m). lift_snd (f_int (store_nng ''nng_msg'') fn args (b, m)) w),
     s_int := (\<lambda>fn args ((w, b), m). lift_snd (s_int (store_nng ''nng_msg'') fn args (b, m)) w),
     s_w64 := (\<lambda>fn args ((w, b), m). lift_snd (s_w64 (store_nng ''nng_msg'') fn args (b, m)) w)\<rparr>"

definition request :: "((ptr \<Rightarrow> ptr) \<times> (ptr \<Rightarrow> byte list)) st" where
  "request = start ((\<lambda>_. 5), (\<lambda>_. [0, 0, 0, 7, 104, 105]))"

definition bad_request :: "((ptr \<Rightarrow> ptr) \<times> (ptr \<Rightarrow> byte list)) st" where
  "bad_request = start ((\<lambda>_. 5), (\<lambda>_. [1]))"

theorem async_bad_message_dropped_witness:
  "let s2 = snd (aio_view_release_msg demo_nng 9 (snd (aio_view_result demo_nng 9 bad_request)));
       s3 = snd (msg_body_trim_u32 demo_nng 5 s2)
   in async_server_cb demo_nng 3 9 RECV ([work_msg \<mapsto> 0], bad_request) =
     (Next RECV, [work_msg \<mapsto> 0], call_unit demo_nng ''nng_msg_free'' [VW 5] (ctx_view_recv demo_nng 3 9 s3))"
  unfolding Let_def
  by (rule async_bad_message_dropped [where e = "exception 3 ''nng_msg_trim_u32''" and
        ?s2.0 = "snd (aio_view_release_msg demo_nng 9 (snd (aio_view_result demo_nng 9 bad_request)))"])
    (simp_all add: aio_view_result_def aio_view_release_msg_def msg_body_trim_u32_def call_simps invoke_def
      demo_nng_def slot_nng_def store_nng_def store_int_def store_get_def lift_fst_def lift_snd_def
      start_def bad_request_def)

theorem async_request_cycle_witness:
  "\<exists>s1. async_server_cb demo_nng 3 9 RECV ([work_msg \<mapsto> 0], request) =
      (Next WAIT, [work_msg \<mapsto> 5], aio_sleep demo_nng 7 9 s1) \<and> snd (st_lib s1) 5 = [104, 105]"
proof -
  have 1: "part_contract demo_nng ''nng_msg'' snd"
    by (simp add: part_contract_def puts_def takes_def demo_nng_def store_nng_def store_int_def
        store_get_def lift_snd_def)
  have 2: "slot_contract demo_nng fst"
    by (auto simp: slot_contract_def demo_nng_def slot_nng_def lift_fst_def)
  have 3: "quiet (f_int demo_nng) ''nng_aio_result'' snd" "quiet (f_int demo_nng) ''nng_aio_result'' fst"
    "quiet (f_w64 demo_nng) ''nng_aio_get_msg'' snd" "quiet (f_unit demo_nng) ''nng_aio_set_msg'' snd"
    by (auto simp: quiet_def demo_nng_def slot_nng_def store_nng_def store_int_def lift_fst_def
        lift_snd_def split: list.splits val.splits)
  have "be_bytes 4 (7 :: i32) = [0, 0, 0, 7]" by code_simp
  then have 4: "snd (st_lib request) 5 = be_bytes 4 (7 :: i32) @ [104, 105]"
    by (simp add: request_def start_def)
  have 5: "fst (aio_view_result demo_nng 9 request) = 0" "fst (st_lib request) 9 = 5"
    by (simp_all add: aio_view_result_def call_int_def invoke_def demo_nng_def store_nng_def
        store_int_def lift_snd_def request_def start_def)
  from async_request_cycle [OF 1 2 3 5 4] show ?thesis by blast
qed

lemma reach_one: "reach (async_server_cb idle_nng 3 9) (start ()) (Suc 0) RECV [work_msg \<mapsto> 0]
    (ctx_view_recv idle_nng 3 9 (start ()))"
proof -
  have "async_server_cb idle_nng 3 9 INIT ([work_msg \<mapsto> 0], (start ())\<lparr>st_lib := (), st_mem := Map.empty\<rparr>) =
      (Next RECV, [work_msg \<mapsto> 0], ctx_view_recv idle_nng 3 9 (start ()))"
    by (simp add: async_server_cb_def start_def)
  from reach.callback [where cb = "async_server_cb idle_nng 3 9" and ?s0.0 = "start ()" and s = "start ()"
      and w = "()" and m = Map.empty, OF reach.start this] show ?thesis .
qed

lemma raw_reach_one: "reach (raw_server_cb idle_nng 3 9) (start ()) (Suc 0) RECV [work_msg \<mapsto> 0]
    (socket_view_recv_aio idle_nng 3 9 (start ()))"
proof -
  have "raw_server_cb idle_nng 3 9 INIT ([work_msg \<mapsto> 0], (start ())\<lparr>st_lib := (), st_mem := Map.empty\<rparr>) =
      (Next RECV, [work_msg \<mapsto> 0], socket_view_recv_aio idle_nng 3 9 (start ()))"
    by (simp add: raw_server_cb_def start_def)
  from reach.callback [where cb = "raw_server_cb idle_nng 3 9" and ?s0.0 = "start ()" and s = "start ()"
      and w = "()" and m = Map.empty, OF reach.start this] show ?thesis .
qed

theorem async_work_safe_witness:
  "\<exists>cs. st_log (ctx_view_recv idle_nng 3 9 (start ())) = st_log (start ()) @ cs \<and> started cs = {#9#}"
  using async_work_safe [OF reach_one] by auto

theorem raw_work_safe_witness:
  "\<exists>cs. st_log (socket_view_recv_aio idle_nng 3 9 (start ())) = st_log (start ()) @ cs \<and> started cs = {#9#}"
  using raw_work_safe [OF raw_reach_one] by auto

theorem async_work_progress_witness:
  "(\<exists>st' S' s'. async_server_cb idle_nng 3 9 RECV ([work_msg \<mapsto> 0], ctx_view_recv idle_nng 3 9 (start ())) = (Next st', S', s')) \<or>
   (\<exists>e s'. async_server_cb idle_nng 3 9 RECV ([work_msg \<mapsto> 0], ctx_view_recv idle_nng 3 9 (start ())) = (Exit e, [work_msg \<mapsto> 0], s'))"
  using async_work_progress [OF reach_one] by blast

end
