(* ===== verification/Control.thy ===== *)
theory Control
  imports Nng_State
begin

text \<open>
  The control flow of the C++ programs that use the library: statements over a state \<open>'s\<close>
  that can throw or be undefined, with the destructors of the objects in scope, and the
  calculus \<open>gives\<close> that says what a statement leads to.
\<close>

section \<open>Statements\<close>

text \<open>
  A statement that can throw; \<open>unwind m d\<close> runs \<open>d\<close> when \<open>m\<close> throws, \<open>scoped m d\<close> in any
  case: the destructors of the objects in scope. \<open>attempt\<close> is a \<open>try\<close> block whose handler the
  code goes on to.
\<close>

type_synonym ('s, 'a) act = "'s \<Rightarrow> 'a result \<times> 's"

definition ret :: "'a \<Rightarrow> ('s, 'a) act" where
  "ret x = (\<lambda>R. (Ok x, R))"

definition bind :: "('s, 'a) act \<Rightarrow> ('a \<Rightarrow> ('s, 'b) act) \<Rightarrow> ('s, 'b) act" where
  "bind m f = (\<lambda>R. (case m R of
     (Ok x, R') \<Rightarrow> f x R' | (Throw e, R') \<Rightarrow> (Throw e, R') | (Ub, R') \<Rightarrow> (Ub, R')))"

definition unwind :: "('s, 'a) act \<Rightarrow> ('s, 'b) act \<Rightarrow> ('s, 'a) act" where
  "unwind m d = (\<lambda>R. (case m R of
     (Throw e, R') \<Rightarrow> (case d R' of (Ok _, R'') \<Rightarrow> (Throw e, R'') | (_, R'') \<Rightarrow> (Ub, R''))
   | r \<Rightarrow> r))"

definition scoped :: "('s, 'a) act \<Rightarrow> ('s, 'b) act \<Rightarrow> ('s, 'a) act" where
  "scoped m d = (\<lambda>R. (case m R of
     (Ok x, R') \<Rightarrow> (case d R' of (Ok _, R'') \<Rightarrow> (Ok x, R'') | (_, R'') \<Rightarrow> (Ub, R''))
   | (Throw e, R') \<Rightarrow> (case d R' of (Ok _, R'') \<Rightarrow> (Throw e, R'') | (_, R'') \<Rightarrow> (Ub, R''))
   | (Ub, R') \<Rightarrow> (Ub, R')))"

definition attempt :: "('s, 'a) act \<Rightarrow> ('s, exn option) act" where
  "attempt m = (\<lambda>R. (case m R of
     (Ok _, R') \<Rightarrow> (Ok None, R') | (Throw e, R') \<Rightarrow> (Ok (Some e), R') | (Ub, R') \<Rightarrow> (Ub, R')))"

definition throw :: "exn \<Rightarrow> ('s, 'a) act" where
  "throw e = (\<lambda>R. (Throw e, R))"

definition caught :: "('s, 'a) act \<Rightarrow> (exn \<Rightarrow> ('s, 'a) act) \<Rightarrow> ('s, 'a) act" where
  "caught m f = (\<lambda>R. (case m R of (Throw e, R') \<Rightarrow> f e R' | r \<Rightarrow> r))"

text \<open>The scope of a local object.\<close>

definition in_scope :: "('s, 'a) act \<Rightarrow> ('s, 'b) act \<Rightarrow> ('s, 'c) act \<Rightarrow> ('s, 'c) act" where
  "in_scope ctor dtor m = bind ctor (\<lambda>_. scoped m dtor)"

section \<open>What a statement leads to\<close>

text \<open>
  \<open>gives m R P E\<close>: from \<open>R\<close> the statement \<open>m\<close> ends with a result and a state of \<open>P\<close>, or throws
  with an exception and a state of \<open>E\<close>, and is not undefined. The rules compute it backwards
  through the control flow.
\<close>

definition gives ::
  "('s, 'a) act \<Rightarrow> 's \<Rightarrow> ('a \<Rightarrow> 's \<Rightarrow> bool) \<Rightarrow> (exn \<Rightarrow> 's \<Rightarrow> bool) \<Rightarrow> bool" where
  "gives m R P E \<longleftrightarrow> (case m R of (Ok x, R') \<Rightarrow> P x R' | (Throw e, R') \<Rightarrow> E e R' | (Ub, _) \<Rightarrow> False)"

named_theorems gives_simps \<open>the statement forms\<close>

lemma gives_ret [gives_simps]: "gives (ret x) R P E \<longleftrightarrow> P x R"
  by (simp add: gives_def ret_def)

lemma gives_pure [gives_simps]: "gives (\<lambda>R. (Ok (x R), f R)) R P E \<longleftrightarrow> P (x R) (f R)"
  by (simp add: gives_def)

lemma gives_bind [gives_simps]: "gives (bind m f) R P E \<longleftrightarrow> gives m R (\<lambda>x R'. gives (f x) R' P E) E"
  by (auto simp: gives_def bind_def split: prod.splits result.splits)

lemma gives_unwind [gives_simps]:
  "gives (unwind m d) R P E \<longleftrightarrow> gives m R P (\<lambda>e R'. gives d R' (\<lambda>_. E e) (\<lambda>_ _. False))"
  by (auto simp: gives_def unwind_def split: prod.splits result.splits)

lemma gives_scoped [gives_simps]:
  "gives (scoped m d) R P E \<longleftrightarrow>
     gives m R (\<lambda>x R'. gives d R' (\<lambda>_. P x) (\<lambda>_ _. False)) (\<lambda>e R'. gives d R' (\<lambda>_. E e) (\<lambda>_ _. False))"
  by (auto simp: gives_def scoped_def split: prod.splits result.splits)

lemma gives_attempt [gives_simps]:
  "gives (attempt m) R P E \<longleftrightarrow> gives m R (\<lambda>_. P None) (\<lambda>e. P (Some e))"
  by (auto simp: gives_def attempt_def split: prod.splits result.splits)

lemma gives_throw [gives_simps]: "gives (throw e) R P E \<longleftrightarrow> E e R"
  by (simp add: gives_def throw_def)

lemma gives_caught [gives_simps]:
  "gives (caught m f) R P E \<longleftrightarrow> gives m R P (\<lambda>e R'. gives (f e) R' P E)"
  by (auto simp: gives_def caught_def split: prod.splits result.splits)

lemma gives_mono:
  assumes "gives m R P E" "\<And>x R'. P x R' \<Longrightarrow> P' x R'" "\<And>e R'. E e R' \<Longrightarrow> E' e R'"
  shows "gives m R P' E'"
  using assms by (auto simp: gives_def split: prod.splits result.splits)

end
