(* ===== verification/Rest.thy ===== *)
theory Rest
  imports Control Http Work_Loop Platform
begin

text \<open>
  The jobs of the REST gateway of \<open>demo/rest/server.cpp\<close>: \<open>rest_handle\<close>, which nng calls for
  every HTTP request, and \<open>rest_job_cb\<close>, which it calls when the operation of a job completes,
  with the free list both take jobs from and return them to.

  The members of a job that are objects of the library live in the stores of their classes, so
  that \<open>job->msg = nng::msg()\<close> is the move assignment of \<open>msg_exec\<close> on a temporary; what else
  a job holds is the record \<open>rest_job\<close>. \<open>std::unique_ptr\<close> is the address it holds, and
  deleting through it is \<open>delete_job\<close>.
\<close>

section \<open>The state\<close>

datatype job_state = SEND_REQ | RECV_REP

record rest_job =
  job_http_aio :: ptr
  job_st       :: job_state
  job_next     :: "nat option"

record 'w rest =
  jobs         :: "nat \<Rightarrow> rest_job option"   \<comment> \<open>the job objects, by address\<close>
  job_freelist :: "nat option"
  res_objs     :: "ptr store"
  msg_objs     :: "ptr store"
  ctx_objs     :: "i32 store"
  aio_objs     :: "ptr store"
  world        :: "'w st"

text \<open>The addresses of a local \<open>res\<close>, of a temporary and of the members of job \<open>j\<close>.\<close>

definition local_res :: nat where "local_res = 0"
definition temp :: nat where "temp = 1"
definition of_job :: "nat \<Rightarrow> nat" where "of_job j = j + 2"

lemma addresses [simp]:
  "local_res \<noteq> temp" "temp \<noteq> local_res" "of_job j \<noteq> temp" "temp \<noteq> of_job j"
  "of_job j \<noteq> local_res" "local_res \<noteq> of_job j" "of_job i = of_job j \<longleftrightarrow> i = j"
  by (auto simp: local_res_def temp_def of_job_def)

section \<open>Operations\<close>

text \<open>The operations of the library on the parts of the state.\<close>

definition on_res :: "'w nng \<Rightarrow> (ptr, http_res_args) raii_op \<Rightarrow> ('w rest, ptr option) act" where
  "on_res nng op = (\<lambda>R. (case http_res_exec nng op (res_objs R, world R) of
     (x, S, s) \<Rightarrow> (x, R\<lparr>res_objs := S, world := s\<rparr>)))"

definition on_msg :: "'w nng \<Rightarrow> (ptr, msg_args) raii_op \<Rightarrow> ('w rest, ptr option) act" where
  "on_msg nng op = (\<lambda>R. (case msg_exec nng op (msg_objs R, world R) of
     (x, S, s) \<Rightarrow> (x, R\<lparr>msg_objs := S, world := s\<rparr>)))"

definition on_ctx :: "'w nng \<Rightarrow> (i32, ctx_args) raii_op \<Rightarrow> ('w rest, i32 option) act" where
  "on_ctx nng op = (\<lambda>R. (case ctx_exec nng op (ctx_objs R, world R) of
     (x, S, s) \<Rightarrow> (x, R\<lparr>ctx_objs := S, world := s\<rparr>)))"

definition on_aio :: "'w nng \<Rightarrow> (ptr, aio_args) raii_op \<Rightarrow> ('w rest, ptr option) act" where
  "on_aio nng op = (\<lambda>R. (case aio_exec nng op (aio_objs R, world R) of
     (x, S, s) \<Rightarrow> (x, R\<lparr>aio_objs := S, world := s\<rparr>)))"

definition on_world :: "('w st \<Rightarrow> 'a result \<times> 'w st) \<Rightarrow> ('w rest, 'a) act" where
  "on_world f = (\<lambda>R. (case f (world R) of (x, s) \<Rightarrow> (x, R\<lparr>world := s\<rparr>)))"

definition get_world :: "('w st \<Rightarrow> 'a \<times> 'w st) \<Rightarrow> ('w rest, 'a) act" where
  "get_world f = on_world (\<lambda>s. (case f s of (x, s') \<Rightarrow> (Ok x, s')))"

definition do_world :: "('w st \<Rightarrow> 'w st) \<Rightarrow> ('w rest, unit) act" where
  "do_world f = on_world (\<lambda>s. (Ok (), f s))"

definition move_msg :: "'w nng \<Rightarrow> ptr \<Rightarrow> nat \<Rightarrow> ('w rest, unit) act" where
  "move_msg nng aio m = (\<lambda>R. (case aio_view_set_msg_move nng aio m (msg_objs R, world R) of
     (z, S, s) \<Rightarrow> (z, R\<lparr>msg_objs := S, world := s\<rparr>)))"

text \<open>The handle of an object, and the fields of a job.\<close>

definition handle :: "('w rest \<Rightarrow> 'h store) \<Rightarrow> nat \<Rightarrow> ('w rest, 'h) act" where
  "handle objs a = (\<lambda>R. (case objs R a of None \<Rightarrow> (Ub, R) | Some h \<Rightarrow> (Ok h, R)))"

definition the_job :: "nat \<Rightarrow> ('w rest, rest_job) act" where
  "the_job j = (\<lambda>R. (case jobs R j of None \<Rightarrow> (Ub, R) | Some J \<Rightarrow> (Ok J, R)))"

definition upd_job :: "nat \<Rightarrow> (rest_job \<Rightarrow> rest_job) \<Rightarrow> ('w rest, unit) act" where
  "upd_job j f = (\<lambda>R. (case jobs R j of
     None \<Rightarrow> (Ub, R) | Some J \<Rightarrow> (Ok (), R\<lparr>jobs := (jobs R)(j \<mapsto> f J)\<rparr>)))"

text \<open>\<open>job->m = C(...)\<close>, with the object \<open>C(...)\<close> a temporary.\<close>

definition assign_temp ::
  "(('h, 'a) raii_op \<Rightarrow> ('w rest, 'h option) act) \<Rightarrow> ('h, 'a) raii_op \<Rightarrow> nat \<Rightarrow> ('w rest, 'h option) act" where
  "assign_temp on ctor j =
     bind (on ctor) (\<lambda>_. scoped (on (Move_assign (of_job j) temp)) (on (Dtor temp)))"

section \<open>Jobs and the free list\<close>

text \<open>The members of a job are destroyed in the reverse order of their declaration.\<close>

definition destroy_members :: "'w nng \<Rightarrow> nat \<Rightarrow> ('w rest, ptr option) act" where
  "destroy_members nng j =
     bind (on_ctx nng (Dtor (of_job j))) (\<lambda>_. bind (on_aio nng (Dtor (of_job j))) (\<lambda>_.
     bind (on_msg nng (Dtor (of_job j))) (\<lambda>_. on_res nng (Dtor (of_job j)))))"

partial_function (option) delete_job :: "'w nng \<Rightarrow> nat \<Rightarrow> 'w rest \<Rightarrow> 'w rest option" where
  "delete_job nng j R =
     (case jobs R j of
        None \<Rightarrow> None
      | Some J \<Rightarrow>
          Option.bind (case job_next J of None \<Rightarrow> Some R | Some k \<Rightarrow> delete_job nng k R)
            (\<lambda>R1. (case destroy_members nng j R1 of
                (Ok _, R2) \<Rightarrow> Some (R2\<lparr>jobs := (jobs R2)(j := None)\<rparr>)
              | _ \<Rightarrow> None)))"

text \<open>Resetting a \<open>unique_ptr\<close> that held \<open>p\<close>.\<close>

definition delete_ptr :: "'w nng \<Rightarrow> nat option \<Rightarrow> ('w rest, unit) act" where
  "delete_ptr nng p = (\<lambda>R. (case p of
     None \<Rightarrow> (Ok (), R)
   | Some j \<Rightarrow> (case delete_job nng j R of None \<Rightarrow> (Ub, R) | Some R' \<Rightarrow> (Ok (), R'))))"

definition set_next :: "'w nng \<Rightarrow> nat \<Rightarrow> nat option \<Rightarrow> ('w rest, unit) act" where
  "set_next nng j p = bind (the_job j) (\<lambda>J.
     bind (upd_job j (\<lambda>J. J\<lparr>job_next := p\<rparr>)) (\<lambda>_. delete_ptr nng (job_next J)))"

definition take_freelist :: "('w rest, nat option) act" where
  "take_freelist = (\<lambda>R. (Ok (job_freelist R), R\<lparr>job_freelist := None\<rparr>))"

definition set_freelist :: "'w nng \<Rightarrow> nat option \<Rightarrow> ('w rest, unit) act" where
  "set_freelist nng p = bind take_freelist (\<lambda>old.
     bind (\<lambda>R. (Ok (), R\<lparr>job_freelist := p\<rparr>)) (\<lambda>_. delete_ptr nng old))"

definition rest_recycle_job :: "'w nng \<Rightarrow> ptr \<Rightarrow> nat \<Rightarrow> ('w rest, unit) act" where
  "rest_recycle_job nng lock j =
     bind (assign_temp (on_res nng) (Default temp) j) (\<lambda>_.
     bind (assign_temp (on_msg nng) (Default temp) j) (\<lambda>_.
     bind (assign_temp (on_ctx nng) (Default temp) j) (\<lambda>_.
     bind (do_world (mtx_view_lock nng lock)) (\<lambda>_.
     bind take_freelist (\<lambda>p.
     bind (set_next nng j p) (\<lambda>_.
     bind (set_freelist nng (Some j)) (\<lambda>_.
     do_world (mtx_view_unlock nng lock))))))))"

text \<open>
  \<open>std::make_unique<rest_job>()\<close>, where \<open>new\<close> returns the address \<open>j\<close>; \<open>cb\<close> is the address
  of \<open>rest_job_cb\<close>. When the operation cannot be allocated the members before it are destroyed.
\<close>

definition make_rest_job :: "'w nng \<Rightarrow> ptr \<Rightarrow> nat \<Rightarrow> ('w rest, nat) act" where
  "make_rest_job nng cb j =
     bind (on_res nng (Default (of_job j))) (\<lambda>_.
     bind (on_msg nng (Default (of_job j))) (\<lambda>_.
     bind (unwind (on_aio nng (Acquire (of_job j) (Aio_alloc cb (of_nat j))))
             (bind (on_msg nng (Dtor (of_job j))) (\<lambda>_. on_res nng (Dtor (of_job j))))) (\<lambda>_.
     bind (on_ctx nng (Default (of_job j))) (\<lambda>_.
     (\<lambda>R. (Ok j, R\<lparr>jobs := (jobs R)(j \<mapsto>
        \<lparr>job_http_aio = null, job_st = SEND_REQ, job_next = None\<rparr>)\<rparr>))))))"

text \<open>
  It returns an object in any case, or throws: \<open>make_unique\<close> never returns null, so that the
  tests for it here and in \<open>rest_handle\<close> have one outcome.
\<close>

definition rest_get_job :: "'w nng \<Rightarrow> ptr \<Rightarrow> ptr \<Rightarrow> nat \<Rightarrow> ('w rest, nat) act" where
  "rest_get_job nng lock cb new =
     bind (do_world (mtx_view_lock nng lock)) (\<lambda>_.
     bind take_freelist (\<lambda>p.
     (case p of
        Some j \<Rightarrow>
          bind (the_job j) (\<lambda>J.
          bind (upd_job j (\<lambda>J. J\<lparr>job_next := None\<rparr>)) (\<lambda>_.
          bind (set_freelist nng (job_next J)) (\<lambda>_.
          bind (do_world (mtx_view_unlock nng lock)) (\<lambda>_. ret j))))
      | None \<Rightarrow>
          bind (do_world (mtx_view_unlock nng lock)) (\<lambda>_. make_rest_job nng cb new))))"

section \<open>The handlers\<close>

text \<open>What \<open>release\<close> returned.\<close>

definition handle_of :: "ptr option \<Rightarrow> ptr" where
  "handle_of x = (case x of None \<Rightarrow> null | Some h \<Rightarrow> h)"

text \<open>\<open>snprintf(buf, 128, "%s: %s", who, to_string(what))\<close>\<close>

definition fatal_text :: "'w nng \<Rightarrow> string \<Rightarrow> i32 \<Rightarrow> string" where
  "fatal_text nng src err = take 127 (src @ '': '' @ strerror nng err)"

definition rest_http_fatal :: "'w nng \<Rightarrow> ptr \<Rightarrow> nat \<Rightarrow> string \<Rightarrow> i32 \<Rightarrow> ('w rest, unit) act" where
  "rest_http_fatal nng lock j src err =
     bind (the_job j) (\<lambda>J.
     bind (upd_job j (\<lambda>J. J\<lparr>job_http_aio := null\<rparr>)) (\<lambda>_.
     bind (on_res nng (Move_ctor local_res (of_job j))) (\<lambda>_.
     scoped
       (bind (handle res_objs local_res) (\<lambda>r.
        bind (on_world (http_res_set_status nng r http_internal_server_error)) (\<lambda>_.
        bind (on_world (http_res_set_reason nng r (fatal_text nng src err))) (\<lambda>_.
        bind (on_res nng (Release local_res)) (\<lambda>out.
        bind (on_world (aio_view_set_output nng (job_http_aio J) 0 (handle_of out))) (\<lambda>_.
        bind (do_world (aio_view_finish nng (job_http_aio J) (error_val nng success))) (\<lambda>_.
        rest_recycle_job nng lock j)))))))
       (on_res nng (Dtor local_res)))))"

definition rest_job_sent :: "'w nng \<Rightarrow> ptr \<Rightarrow> nat \<Rightarrow> ptr \<Rightarrow> ('w rest, unit) act" where
  "rest_job_sent nng lock j aio =
     bind (get_world (aio_view_result nng aio)) (\<lambda>result.
     if result \<noteq> error_val nng success then rest_http_fatal nng lock j ''send REQ failed'' result
     else
       bind (do_world (aio_view_set_msg nng aio null)) (\<lambda>_.
       bind (upd_job j (\<lambda>J. J\<lparr>job_st := RECV_REP\<rparr>)) (\<lambda>_.
       bind (handle ctx_objs (of_job j)) (\<lambda>c.
       do_world (ctx_view_recv nng c aio)))))"

definition rest_job_replied :: "'w nng \<Rightarrow> ptr \<Rightarrow> nat \<Rightarrow> ptr \<Rightarrow> ('w rest, unit) act" where
  "rest_job_replied nng lock j aio =
     bind (get_world (aio_view_result nng aio)) (\<lambda>result.
     if result \<noteq> error_val nng success then rest_http_fatal nng lock j ''recv reply failed'' result
     else
       bind (get_world (aio_view_release_msg nng aio)) (\<lambda>m.
       bind (assign_temp (on_msg nng) (Adopt temp m) j) (\<lambda>_.
       bind (attempt
           (bind (handle msg_objs (of_job j)) (\<lambda>m.
            bind (get_world (msg_body_get nng m)) (\<lambda>v.
            bind (handle res_objs (of_job j)) (\<lambda>r.
            on_world (http_res_copy_data nng r v)))))) (\<lambda>x.
       case x of
         Some e \<Rightarrow> rest_http_fatal nng lock j (who e) (get_error e)
       | None \<Rightarrow>
           bind (on_res nng (Release (of_job j))) (\<lambda>out.
           bind (the_job j) (\<lambda>J.
           bind (on_world (aio_view_set_output nng (job_http_aio J) 0 (handle_of out))) (\<lambda>_.
           bind (do_world (aio_view_finish nng (job_http_aio J) (error_val nng success))) (\<lambda>_.
           bind (upd_job j (\<lambda>J. J\<lparr>job_http_aio := null\<rparr>)) (\<lambda>_.
           rest_recycle_job nng lock j)))))))))"

definition rest_job_body :: "'w nng \<Rightarrow> ptr \<Rightarrow> nat \<Rightarrow> ('w rest, unit) act" where
  "rest_job_body nng lock j =
     bind (the_job j) (\<lambda>J.
     bind (handle aio_objs (of_job j)) (\<lambda>aio.
     case job_st J of
       SEND_REQ \<Rightarrow> rest_job_sent nng lock j aio
     | RECV_REP \<Rightarrow> rest_job_replied nng lock j aio))"

text \<open>
  What a handler does with an exception that escapes: the local \<open>job\<close> is destroyed, the
  message printed, and the process exits.
\<close>

definition or_exit :: "unit result \<times> 'w rest \<Rightarrow> unit callback \<times> 'w rest" where
  "or_exit = (\<lambda>(x, R). (case x of Ok _ \<Rightarrow> Next () | Throw e \<Rightarrow> Exit e | Ub \<Rightarrow> Stuck, R))"

definition rest_job_cb :: "'w nng \<Rightarrow> ptr \<Rightarrow> nat \<Rightarrow> 'w rest \<Rightarrow> unit callback \<times> 'w rest" where
  "rest_job_cb nng lock j R =
     or_exit (unwind (rest_job_body nng lock j) (delete_ptr nng (Some j)) R)"

definition rest_send_request :: "'w nng \<Rightarrow> view \<Rightarrow> nat \<Rightarrow> ('w rest, unit) act" where
  "rest_send_request nng data j =
     bind (handle msg_objs (of_job j)) (\<lambda>m.
     bind (get_world (msg_body_data nng m)) (\<lambda>d.
     bind (on_world (\<lambda>s. (case memcpy (st_mem s) d (v_data data) (v_size data) of
             None \<Rightarrow> (Ub, s) | Some mm \<Rightarrow> (Ok (), s\<lparr>st_mem := mm\<rparr>)))) (\<lambda>_.
     bind (handle aio_objs (of_job j)) (\<lambda>aio.
     bind (move_msg nng aio (of_job j)) (\<lambda>_.
     bind (upd_job j (\<lambda>J. J\<lparr>job_st := SEND_REQ\<rparr>)) (\<lambda>_.
     bind (handle ctx_objs (of_job j)) (\<lambda>c.
     do_world (ctx_view_send nng c aio))))))))"

definition rest_handle_job :: "'w nng \<Rightarrow> ptr \<Rightarrow> i32 \<Rightarrow> ptr \<Rightarrow> ptr \<Rightarrow> nat \<Rightarrow> ('w rest, unit) act" where
  "rest_handle_job nng lock req_sock a req j =
     bind (attempt
        (bind (assign_temp (on_res nng) (Acquire temp Make_res) j) (\<lambda>_.
         assign_temp (on_ctx nng) (Acquire temp (Ctx_open req_sock)) j))) (\<lambda>x.
     case x of
       Some e \<Rightarrow>
         bind (rest_recycle_job nng lock j) (\<lambda>_. do_world (aio_view_finish nng a (get_error e)))
     | None \<Rightarrow>
         bind (get_world (http_req_get_data nng req)) (\<lambda>data.
         bind (upd_job j (\<lambda>J. J\<lparr>job_http_aio := a\<rparr>)) (\<lambda>_.
         bind (attempt (assign_temp (on_msg nng) (Acquire temp (Msg_alloc (v_size data))) j)) (\<lambda>y.
         case y of
           Some e \<Rightarrow> rest_http_fatal nng lock j (who e) (get_error e)
         | None \<Rightarrow> rest_send_request nng data j))))"

definition rest_handle ::
  "'w nng \<Rightarrow> ptr \<Rightarrow> ptr \<Rightarrow> i32 \<Rightarrow> nat \<Rightarrow> ptr \<Rightarrow> 'w rest \<Rightarrow> unit callback \<times> 'w rest" where
  "rest_handle nng lock cb req_sock new a R =
     or_exit (bind (get_world (aio_view_get_input nng a 0)) (\<lambda>req.
       bind (rest_get_job nng lock cb new) (\<lambda>j.
       unwind (rest_handle_job nng lock req_sock a req j) (delete_ptr nng (Some j)))) R)"

section \<open>What a statement leads to\<close>

lemma gives_on_world [gives_simps]:
  "gives (on_world f) R P E \<longleftrightarrow>
     (case f (world R) of (Ok x, s) \<Rightarrow> P x (R\<lparr>world := s\<rparr>) | (Throw e, s) \<Rightarrow> E e (R\<lparr>world := s\<rparr>) | (Ub, _) \<Rightarrow> False)"
  by (auto simp: gives_def on_world_def split: prod.splits result.splits)

lemma gives_get_world [gives_simps]:
  "gives (get_world f) R P E \<longleftrightarrow> P (fst (f (world R))) (R\<lparr>world := snd (f (world R))\<rparr>)"
  by (simp add: get_world_def gives_on_world split: prod.splits)

lemma gives_do_world [gives_simps]: "gives (do_world f) R P E \<longleftrightarrow> P () (R\<lparr>world := f (world R)\<rparr>)"
  by (simp add: do_world_def gives_on_world)

lemma gives_handle [gives_simps]:
  "gives (handle objs a) R P E \<longleftrightarrow> (case objs R a of None \<Rightarrow> False | Some h \<Rightarrow> P h R)"
  by (simp add: gives_def handle_def split: option.splits)

lemma gives_the_job [gives_simps]:
  "gives (the_job j) R P E \<longleftrightarrow> (case jobs R j of None \<Rightarrow> False | Some J \<Rightarrow> P J R)"
  by (simp add: gives_def the_job_def split: option.splits)

lemma gives_upd_job [gives_simps]:
  "gives (upd_job j f) R P E \<longleftrightarrow>
     (case jobs R j of None \<Rightarrow> False | Some J \<Rightarrow> P () (R\<lparr>jobs := (jobs R)(j \<mapsto> f J)\<rparr>))"
  by (simp add: gives_def upd_job_def split: option.splits)

lemma gives_take_freelist [gives_simps]:
  "gives take_freelist R P E \<longleftrightarrow> P (job_freelist R) (R\<lparr>job_freelist := None\<rparr>)"
  by (simp add: gives_def take_freelist_def)

lemma gives_move_msg [gives_simps]:
  "gives (move_msg nng aio m) R P E \<longleftrightarrow>
     (case msg_objs R m of None \<Rightarrow> False
      | Some h \<Rightarrow> P () (R\<lparr>msg_objs := (msg_objs R)(m \<mapsto> 0), world := aio_view_set_msg nng aio h (world R)\<rparr>))"
  by (simp add: gives_def move_msg_def aio_view_set_msg_move_def m_release_def split: option.splits)

lemma gives_delete_none [gives_simps]: "gives (delete_ptr nng None) R P E \<longleftrightarrow> P () R"
  by (simp add: gives_def delete_ptr_def)

section \<open>What the calls amount to\<close>

text \<open>
  An HTTP request is answered by finishing its operation. \<open>adds s s' fs bs\<close>: from \<open>s\<close> to \<open>s'\<close>
  calls were made that finish the operations \<open>fs\<close> and start the operations \<open>bs\<close>.
\<close>

definition finished_by :: "call \<Rightarrow> ptr option" where
  "finished_by c =
     (if c_fn c = ''nng_aio_finish'' then (case c_args c of [VW a, _] \<Rightarrow> Some a | _ \<Rightarrow> None) else None)"

fun finishes :: "call list \<Rightarrow> ptr multiset" where
  "finishes [] = {#}"
| "finishes (c # cs) = (case finished_by c of None \<Rightarrow> {#} | Some a \<Rightarrow> {#a#}) + finishes cs"

lemma finishes_append [simp]: "finishes (cs @ cs') = finishes cs + finishes cs'"
  by (induction cs) (auto simp: add.assoc)

definition adds :: "'w st \<Rightarrow> 'w st \<Rightarrow> ptr multiset \<Rightarrow> ptr multiset \<Rightarrow> bool" where
  "adds s s' fs bs \<longleftrightarrow> (\<exists>cs. st_log s' = st_log s @ cs \<and> finishes cs = fs \<and> started cs = bs)"

lemma adds_refl: "adds s s {#} {#}"
  by (simp add: adds_def)

lemma adds_trans:
  assumes "adds s s1 fs n" "adds s1 s2 fs' n'"
  shows "adds s s2 (fs + fs') (n + n')"
proof -
  obtain cs cs' where "st_log s1 = st_log s @ cs" "finishes cs = fs" "started cs = n"
    "st_log s2 = st_log s1 @ cs'" "finishes cs' = fs'" "started cs' = n'"
    using assms unfolding adds_def by blast
  then show ?thesis unfolding adds_def by (intro exI [of _ "cs @ cs'"]) simp
qed

lemma adds_after: "adds s s1 {#} {#} \<Longrightarrow> adds s1 s2 fs n \<Longrightarrow> adds s s2 fs n"
  using adds_trans [of s s1 "{#}" 0 s2 fs n] by simp

lemma adds_before: "adds s s1 fs n \<Longrightarrow> adds s1 s2 {#} {#} \<Longrightarrow> adds s s2 fs n"
  using adds_trans [of s s1 fs n s2 "{#}" 0] by simp

lemma snd_call_log:
  "st_log (snd (call_int nng fn args s)) = st_log s @ [\<lparr>c_fn = fn, c_args = args, c_ret = [VI (fst (call_int nng fn args s))]\<rparr>]"
  "st_log (snd (call_w64 nng fn args s)) = st_log s @ [\<lparr>c_fn = fn, c_args = args, c_ret = [VW (fst (call_w64 nng fn args s))]\<rparr>]"
  by (simp_all add: call_int_def call_w64_def invoke_snd_log)

lemma adds_unit:
  "adds s (call_unit nng fn args s)
     (finishes [\<lparr>c_fn = fn, c_args = args, c_ret = []\<rparr>]) (started [\<lparr>c_fn = fn, c_args = args, c_ret = []\<rparr>])"
  unfolding adds_def call_unit_log by blast

section \<open>The members of a job\<close>

text \<open>
  Job \<open>j\<close> exists, is not followed by another one, and its objects hold these handles; no
  temporary object is around.
\<close>

definition no_temps :: "'w rest \<Rightarrow> bool" where
  "no_temps R \<longleftrightarrow> res_objs R temp = None \<and> msg_objs R temp = None \<and> ctx_objs R temp = None"

definition holds :: "'w rest \<Rightarrow> nat \<Rightarrow> rest_job \<Rightarrow> ptr \<Rightarrow> ptr \<Rightarrow> i32 \<Rightarrow> ptr \<Rightarrow> bool" where
  "holds R j J h m c a \<longleftrightarrow> jobs R j = Some J \<and> job_next J = None \<and> res_objs R (of_job j) = Some h \<and>
     msg_objs R (of_job j) = Some m \<and> ctx_objs R (of_job j) = Some c \<and> aio_objs R (of_job j) = Some a"

lemma take_temp_away:
  "S temp = None \<Longrightarrow> S(of_job j \<mapsto> y, temp := None) = S(of_job j \<mapsto> y)"
  "S temp = None \<Longrightarrow> S(temp := None) = S"
  by auto

definition free_old :: "('h::zero \<Rightarrow> 'w st \<Rightarrow> 'w st) \<Rightarrow> 'h \<Rightarrow> 'w st \<Rightarrow> 'w st" where
  "free_old fr h s = (if h \<noteq> 0 then fr h s else s)"

lemma assign_res:
  assumes "res_objs R (of_job j) = Some h" "res_objs R temp = None"
  shows "gives (assign_temp (on_res nng) (Default temp) j) R P E \<longleftrightarrow>
      P None (R\<lparr>res_objs := (res_objs R)(of_job j \<mapsto> 0),
        world := free_old (\<lambda>h. call_unit nng ''nng_http_res_free'' [VW h]) h (world R)\<rparr>)"
    and "gives (assign_temp (on_res nng) (Acquire temp Make_res) j) R P E \<longleftrightarrow>
      (case get_w64 nng ''nng_http_res_alloc'' [] (world R) of
         ((r, h'), s) \<Rightarrow> if r \<noteq> 0 then E (exception r ''nng_http_res_alloc'') (R\<lparr>world := s\<rparr>)
           else P None (R\<lparr>res_objs := (res_objs R)(of_job j \<mapsto> h'),
             world := free_old (\<lambda>h. call_unit nng ''nng_http_res_free'' [VW h]) h s\<rparr>))"
  using assms
  by (auto simp: gives_def assign_temp_def bind_def scoped_def on_res_def member_simps check_out_def
      take_temp_away free_old_def split: prod.splits)

lemma assign_msg:
  assumes "msg_objs R (of_job j) = Some h" "msg_objs R temp = None"
  shows "gives (assign_temp (on_msg nng) (Default temp) j) R P E \<longleftrightarrow>
      P None (R\<lparr>msg_objs := (msg_objs R)(of_job j \<mapsto> 0),
        world := free_old (\<lambda>h. call_unit nng ''nng_msg_free'' [VW h]) h (world R)\<rparr>)"
    and "gives (assign_temp (on_msg nng) (Adopt temp m) j) R P E \<longleftrightarrow>
      P None (R\<lparr>msg_objs := (msg_objs R)(of_job j \<mapsto> m),
        world := free_old (\<lambda>h. call_unit nng ''nng_msg_free'' [VW h]) h (world R)\<rparr>)"
    and "gives (assign_temp (on_msg nng) (Acquire temp (Msg_alloc n)) j) R P E \<longleftrightarrow>
      (case get_w64 nng ''nng_msg_alloc'' [VW n] (world R) of
         ((r, h'), s) \<Rightarrow> if r \<noteq> 0 then E (exception r ''nng_msg_alloc'') (R\<lparr>world := s\<rparr>)
           else P None (R\<lparr>msg_objs := (msg_objs R)(of_job j \<mapsto> h'),
             world := free_old (\<lambda>h. call_unit nng ''nng_msg_free'' [VW h]) h s\<rparr>))"
  using assms
  by (auto simp: gives_def assign_temp_def bind_def scoped_def on_msg_def member_simps check_out_def
      take_temp_away free_old_def split: prod.splits)

text \<open>Closing the context of a job can fail; then nothing is assigned.\<close>

definition close_old :: "'w nng \<Rightarrow> i32 \<Rightarrow> 'w st \<Rightarrow> i32 \<times> 'w st" where
  "close_old nng h s = (if h \<noteq> 0 then call_int nng ''nng_ctx_close'' [VId h] s else (0, s))"

lemma assign_ctx_default:
  assumes "ctx_objs R (of_job j) = Some h" "ctx_objs R temp = None"
  shows "gives (assign_temp (on_ctx nng) (Default temp) j) R P E \<longleftrightarrow>
      (case close_old nng h (world R) of (r, s) \<Rightarrow>
         if r \<noteq> 0 \<and> r \<noteq> error_val nng closed then E (exception r ''nng_ctx_close'') (R\<lparr>world := s\<rparr>)
         else P None (R\<lparr>ctx_objs := (ctx_objs R)(of_job j \<mapsto> 0), world := s\<rparr>))"
  using assms
  by (auto simp: gives_def assign_temp_def bind_def scoped_def on_ctx_def member_simps
      take_temp_away close_old_def split: prod.splits)

lemma assign_ctx_open:
  assumes "ctx_objs R (of_job j) = Some 0" "ctx_objs R temp = None"
  shows "gives (assign_temp (on_ctx nng) (Acquire temp (Ctx_open k)) j) R P E \<longleftrightarrow>
      (case get_id nng ''nng_ctx_open'' [VId k] (world R) of
         ((r, c), s) \<Rightarrow> if r \<noteq> 0 then E (exception r ''nng_ctx_open'') (R\<lparr>world := s\<rparr>)
           else P None (R\<lparr>ctx_objs := (ctx_objs R)(of_job j \<mapsto> c), world := s\<rparr>))"
  using assms
  by (auto simp: gives_def assign_temp_def bind_def scoped_def on_ctx_def member_simps check_out_def
      take_temp_away split: prod.splits)

lemma free_old_adds:
  "fn \<noteq> ''nng_aio_finish'' \<Longrightarrow> \<not> starts_async \<lparr>c_fn = fn, c_args = [VW h], c_ret = []\<rparr> \<Longrightarrow>
     adds s (free_old (\<lambda>h. call_unit nng fn [VW h]) h s) {#} {#}"
  using adds_unit [of s nng fn "[VW h]"] by (auto simp: free_old_def adds_refl finished_by_def)

lemma close_old_adds: "close_old nng h s = (r, s') \<Longrightarrow> adds s s' {#} {#}"
proof (cases "h = 0")
  case False
  assume "close_old nng h s = (r, s')"
  then have "call_int nng ''nng_ctx_close'' [VId h] s = (r, s')" using False by (simp add: close_old_def)
  from this [unfolded call_int_def, THEN invoke_log] show ?thesis
    by (auto simp: adds_def finished_by_def starts_async_def)
qed (simp add: close_old_def adds_refl)

section \<open>Giving a job back\<close>

text \<open>A job whose objects are empty, put in front of the free list.\<close>

definition recycled :: "nat \<Rightarrow> 'w rest \<Rightarrow> 'w rest \<Rightarrow> bool" where
  "recycled j R R' \<longleftrightarrow>
     jobs R' = (jobs R)(j \<mapsto> (the (jobs R j))\<lparr>job_next := job_freelist R\<rparr>) \<and> job_freelist R' = Some j \<and>
     res_objs R' = (res_objs R)(of_job j \<mapsto> 0) \<and> msg_objs R' = (msg_objs R)(of_job j \<mapsto> 0) \<and>
     ctx_objs R' = (ctx_objs R)(of_job j \<mapsto> 0) \<and> aio_objs R' = aio_objs R \<and>
     adds (world R) (world R') {#} {#}"

text \<open>What a handler leaves of its job when it throws: all of it.\<close>

definition still_holds :: "nat \<Rightarrow> 'w rest \<Rightarrow> bool" where
  "still_holds j R \<longleftrightarrow> no_temps R \<and> (\<exists>J h m c a. holds R j J h m c a)"

lemma lock_adds:
  "adds s (mtx_view_lock nng lock s) {#} {#}" "adds s (mtx_view_unlock nng lock s) {#} {#}"
  using adds_unit [of s nng "''nng_mtx_lock''" "[VW lock]"] adds_unit [of s nng "''nng_mtx_unlock''" "[VW lock]"]
  by (simp_all add: mtx_view_lock_def mtx_view_unlock_def finished_by_def starts_async_def)

lemma locked_adds: "adds s (mtx_view_unlock nng lock (mtx_view_lock nng lock s)) {#} {#}"
  using lock_adds by (rule adds_after)

lemma recycle_gives:
  assumes "holds R j J h m c a" "no_temps R"
  shows "gives (rest_recycle_job nng lock j) R (\<lambda>_. recycled j R)
    (\<lambda>_ R'. still_holds j R' \<and> res_objs R' local_res = res_objs R local_res)"
proof -
  let ?s1 = "free_old (\<lambda>h. call_unit nng ''nng_http_res_free'' [VW h]) h (world R)"
  let ?s2 = "free_old (\<lambda>h. call_unit nng ''nng_msg_free'' [VW h]) m ?s1"
  obtain r s3 where cl: "close_old nng c ?s2 = (r, s3)" by fastforce
  have "adds (world R) ?s1 {#} {#}" "adds ?s1 ?s2 {#} {#}"
    by (rule free_old_adds; simp add: starts_async_def)+
  then have "adds (world R) s3 {#} {#}"
    using close_old_adds [OF cl] by (blast intro: adds_after)
  then have "adds (world R) (mtx_view_unlock nng lock (mtx_view_lock nng lock s3)) {#} {#}"
    using lock_adds by (blast intro: adds_after)
  then show ?thesis
    using assms cl
    by (auto simp: rest_recycle_job_def gives_simps assign_res assign_msg assign_ctx_default set_next_def
        set_freelist_def holds_def no_temps_def recycled_def still_holds_def)
qed

section \<open>The error response\<close>

lemma gives_res_members [gives_simps]:
  "gives (on_res nng (Move_ctor x y)) R P E \<longleftrightarrow>
     (case res_objs R y of None \<Rightarrow> False | Some h \<Rightarrow> P None (R\<lparr>res_objs := (res_objs R)(x \<mapsto> h, y \<mapsto> 0)\<rparr>))"
  "gives (on_res nng (Release x)) R P E \<longleftrightarrow>
     (case res_objs R x of None \<Rightarrow> False | Some h \<Rightarrow> P (Some h) (R\<lparr>res_objs := (res_objs R)(x \<mapsto> 0)\<rparr>))"
  "gives (on_res nng (Dtor x)) R P E \<longleftrightarrow>
     (case res_objs R x of None \<Rightarrow> False | Some h \<Rightarrow> P None (R\<lparr>res_objs := (res_objs R)(x := None),
        world := free_old (\<lambda>h. call_unit nng ''nng_http_res_free'' [VW h]) h (world R)\<rparr>))"
  by (auto simp: gives_def on_res_def member_simps free_old_def split: option.splits)

text \<open>The request of job \<open>j\<close> is finished, once, and the job given back.\<close>

definition answered :: "nat \<Rightarrow> 'w rest \<Rightarrow> 'w rest \<Rightarrow> bool" where
  "answered j R R' \<longleftrightarrow>
     jobs R' = (jobs R)(j \<mapsto> (the (jobs R j))\<lparr>job_http_aio := null, job_next := job_freelist R\<rparr>) \<and>
     job_freelist R' = Some j \<and>
     res_objs R' = (res_objs R)(of_job j \<mapsto> 0) \<and> msg_objs R' = (msg_objs R)(of_job j \<mapsto> 0) \<and>
     ctx_objs R' = (ctx_objs R)(of_job j \<mapsto> 0) \<and> aio_objs R' = aio_objs R \<and>
     adds (world R) (world R') {#job_http_aio (the (jobs R j))#} {#}"

lemma call_int_adds:
  "call_int nng fn args s = (r, s') \<Longrightarrow> fn \<noteq> ''nng_aio_finish'' \<Longrightarrow>
     \<not> starts_async \<lparr>c_fn = fn, c_args = args, c_ret = [VI r]\<rparr> \<Longrightarrow> adds s s' {#} {#}"
  unfolding call_int_def by (drule invoke_log) (simp add: adds_def finished_by_def)

lemma finish_adds: "adds s (aio_view_finish nng a e s) {#a#} {#}"
  using adds_unit [of s nng "''nng_aio_finish''" "[VW a, VI e]"]
  by (simp add: aio_view_finish_def finished_by_def starts_async_def)

lemma fatal_gives:
  assumes "holds R j J h m c a" "no_temps R" "res_objs R local_res = None"
  shows "gives (rest_http_fatal nng lock j src err) R (\<lambda>_. answered j R) (\<lambda>_. still_holds j)"
proof -
  let ?aio = "job_http_aio J" and ?fin = "\<lambda>s. aio_view_finish nng (job_http_aio J) 0 s"
  obtain r1 s1 where c1: "call_int nng ''nng_http_res_set_status''
      [VW h, VI (ucast (ucast (http_status_val nng http_internal_server_error) :: 16 word))] (world R) = (r1, s1)"
    by fastforce
  obtain r2 s2 where c2: "call_int nng ''nng_http_res_set_reason'' [VW h, VS (fatal_text nng src err)] s1 = (r2, s2)"
    by fastforce
  obtain r3 s3 where c3: "call_int nng ''nng_aio_set_output'' [VW ?aio, VI 0, VW h] s2 = (r3, s3)"
    by fastforce
  have "adds (world R) s1 {#} {#}" "adds s1 s2 {#} {#}" "adds s2 s3 {#} {#}"
    by (rule call_int_adds [OF c1] call_int_adds [OF c2] call_int_adds [OF c3]; simp add: starts_async_def)+
  then have fin: "adds (world R) (?fin s3) {#?aio#} {#}"
    using finish_adds by (blast intro: adds_after)
  let ?R = "R\<lparr>jobs := (jobs R)(j \<mapsto> J\<lparr>job_http_aio := null\<rparr>),
      res_objs := (res_objs R)(of_job j \<mapsto> 0, local_res \<mapsto> 0), world := ?fin s3\<rparr>"
  have "holds ?R j (J\<lparr>job_http_aio := null\<rparr>) 0 m c a" "no_temps ?R"
    using assms by (auto simp: holds_def no_temps_def)
  from recycle_gives [OF this, of nng lock]
  have rec: "gives (rest_recycle_job nng lock j) ?R
      (\<lambda>_ R'. gives (on_res nng (Dtor local_res)) R' (\<lambda>_. answered j R) (\<lambda>_ _. False))
      (\<lambda>_ R'. gives (on_res nng (Dtor local_res)) R' (\<lambda>_. still_holds j) (\<lambda>_ _. False))"
  proof (rule gives_mono, goal_cases)
    case (1 x R')
    with assms fin show ?case
      by (auto simp: recycled_def answered_def gives_simps free_old_def holds_def intro: adds_before)
  next
    case (2 e R')
    with assms show ?case by (auto simp: still_holds_def gives_simps holds_def no_temps_def)
  qed
  show ?thesis
    using assms c1 c2 c3 rec
    by (auto simp: rest_http_fatal_def gives_simps holds_def no_temps_def still_holds_def handle_of_def
        http_res_set_status_def http_res_set_reason_def aio_view_set_output_def check_def)
qed

section \<open>The callback of a job\<close>

lemma gives_other_members [gives_simps]:
  "gives (on_msg nng (Dtor x)) R P E \<longleftrightarrow>
     (case msg_objs R x of None \<Rightarrow> False | Some h \<Rightarrow> P None (R\<lparr>msg_objs := (msg_objs R)(x := None),
        world := free_old (\<lambda>h. call_unit nng ''nng_msg_free'' [VW h]) h (world R)\<rparr>))"
  "gives (on_ctx nng (Dtor x)) R Q E \<longleftrightarrow>
     (case ctx_objs R x of None \<Rightarrow> False | Some h \<Rightarrow> Q None (R\<lparr>ctx_objs := (ctx_objs R)(x := None),
        world := free_old (\<lambda>h s. snd (call_int nng ''nng_ctx_close'' [VId h] s)) h (world R)\<rparr>))"
  "gives (on_aio nng (Dtor x)) R P E \<longleftrightarrow>
     (case aio_objs R x of None \<Rightarrow> False | Some h \<Rightarrow> P None (R\<lparr>aio_objs := (aio_objs R)(x := None),
        world := free_old (\<lambda>h. call_unit nng ''nng_aio_free'' [VW h]) h (world R)\<rparr>))"
  by (auto simp: gives_def on_msg_def on_ctx_def on_aio_def member_simps free_old_def split: option.splits)

lemma delete_gives: "still_holds j R \<Longrightarrow> gives (delete_ptr nng (Some j)) R (\<lambda>_ _. True) (\<lambda>_ _. False)"
proof -
  assume "still_holds j R"
  then obtain J h m c a where R: "holds R j J h m c a" by (auto simp: still_holds_def)
  then have "gives (destroy_members nng j) R (\<lambda>_ _. True) (\<lambda>_ _. False)"
    by (simp add: destroy_members_def gives_simps holds_def)
  then obtain x R' where "destroy_members nng j R = (Ok x, R')"
    by (cases "destroy_members nng j R" rule: prod.exhaust; cases "fst (destroy_members nng j R)")
      (auto simp: gives_def)
  with R show ?thesis
    by (simp add: gives_def delete_ptr_def delete_job.simps [of nng j R] holds_def)
qed

lemma unwound:
  assumes "gives m R P (\<lambda>_. still_holds j)"
  shows "gives (unwind m (delete_ptr nng (Some j))) R P (\<lambda>_ _. True)"
  unfolding gives_unwind by (rule gives_mono [OF assms]) (auto intro: delete_gives)

text \<open>The request was sent: the job waits for the reply, with its operation started.\<close>

definition continued :: "nat \<Rightarrow> 'w rest \<Rightarrow> 'w rest \<Rightarrow> bool" where
  "continued j R R' \<longleftrightarrow>
     jobs R' = (jobs R)(j \<mapsto> (the (jobs R j))\<lparr>job_st := RECV_REP\<rparr>) \<and> job_freelist R' = job_freelist R \<and>
     res_objs R' = res_objs R \<and> msg_objs R' = msg_objs R \<and> ctx_objs R' = ctx_objs R \<and>
     aio_objs R' = aio_objs R \<and> adds (world R) (world R') {#} {#the (aio_objs R (of_job j))#}"

lemma call_w64_adds:
  "call_w64 nng fn args s = (x, s') \<Longrightarrow> fn \<noteq> ''nng_aio_finish'' \<Longrightarrow>
     \<not> starts_async \<lparr>c_fn = fn, c_args = args, c_ret = [VW x]\<rparr> \<Longrightarrow> adds s s' {#} {#}"
  unfolding call_w64_def by (drule invoke_log) (simp add: adds_def finished_by_def)

lemma set_msg_adds: "adds s (aio_view_set_msg nng a m s) {#} {#}"
  using adds_unit [of s nng "''nng_aio_set_msg''" "[VW a, VW m]"]
  by (simp add: aio_view_set_msg_def finished_by_def starts_async_def)

lemma ctx_starts_one:
  "adds s (ctx_view_recv nng c a s) {#} {#a#}" "adds s (ctx_view_send nng c a s) {#} {#a#}"
  using adds_unit [of s nng "''nng_ctx_recv''" "[VId c, VW a]"] adds_unit [of s nng "''nng_ctx_send''" "[VId c, VW a]"]
  by (simp_all add: ctx_view_recv_def ctx_view_send_def finished_by_def starts_async_def operation_def)

lemma answered_later:
  assumes "answered j R1 R'" "adds (world R) (world R1) {#} {#}" "jobs R1 = jobs R"
    "job_freelist R1 = job_freelist R" "aio_objs R1 = aio_objs R"
    "\<And>i. i \<noteq> of_job j \<Longrightarrow> res_objs R1 i = res_objs R i" "\<And>i. i \<noteq> of_job j \<Longrightarrow> msg_objs R1 i = msg_objs R i"
    "\<And>i. i \<noteq> of_job j \<Longrightarrow> ctx_objs R1 i = ctx_objs R i"
  shows "answered j R R'"
proof -
  have "(res_objs R1)(of_job j \<mapsto> 0) = (res_objs R)(of_job j \<mapsto> 0)"
    "(msg_objs R1)(of_job j \<mapsto> 0) = (msg_objs R)(of_job j \<mapsto> 0)"
    "(ctx_objs R1)(of_job j \<mapsto> 0) = (ctx_objs R)(of_job j \<mapsto> 0)"
    using assms(6-8) by (auto simp: fun_eq_iff)
  with assms(1-5) show ?thesis by (auto simp: answered_def intro: adds_after)
qed

lemma sent_gives:
  assumes "holds R j J h m c a" "no_temps R" "res_objs R local_res = None"
  shows "gives (rest_job_sent nng lock j a) R 
    (\<lambda>_ R'. if fst (aio_view_result nng a (world R)) = 0 then continued j R R' else answered j R R') (\<lambda>_. still_holds j)"
proof -
  obtain r s1 where c1: "call_int nng ''nng_aio_result'' [VW a] (world R) = (r, s1)" by fastforce
  then have s1: "adds (world R) s1 {#} {#}" by (rule call_int_adds) (simp_all add: starts_async_def)
  show ?thesis
  proof (cases "r = 0")
    case True
    have "adds (world R) (ctx_view_recv nng c a (aio_view_set_msg nng a null s1)) {#} {#a#}"
      using s1 set_msg_adds ctx_starts_one by (blast intro: adds_after)
    then show ?thesis
      using assms c1 True
      by (simp add: rest_job_sent_def gives_simps aio_view_result_def holds_def continued_def)
  next
    case False
    let ?R = "R\<lparr>world := s1\<rparr>"
    have "gives (rest_http_fatal nng lock j ''send REQ failed'' r) ?R (\<lambda>_. answered j ?R) (\<lambda>_. still_holds j)"
      using assms by (intro fatal_gives [of _ _ J h m c a]) (simp_all add: holds_def no_temps_def)
    then have "gives (rest_http_fatal nng lock j ''send REQ failed'' r) ?R
        (\<lambda>_. answered j R) (\<lambda>_. still_holds j)"
      by (rule gives_mono) (use s1 in \<open>auto intro: answered_later [of j ?R]\<close>)
    then show ?thesis
      using c1 False by (simp add: rest_job_sent_def gives_simps aio_view_result_def)
  qed
qed

lemma fatal_later:
  assumes "holds R j J h m c a" "no_temps R" "res_objs R local_res = None"
    "holds R1 j J h' m' c' a'" "no_temps R1" "adds (world R) (world R1) {#} {#}" "jobs R1 = jobs R"
    "job_freelist R1 = job_freelist R" "aio_objs R1 = aio_objs R"
    "\<And>i. i \<noteq> of_job j \<Longrightarrow> res_objs R1 i = res_objs R i" "\<And>i. i \<noteq> of_job j \<Longrightarrow> msg_objs R1 i = msg_objs R i"
    "\<And>i. i \<noteq> of_job j \<Longrightarrow> ctx_objs R1 i = ctx_objs R i"
  shows "gives (rest_http_fatal nng lock j src err) R1 (\<lambda>_. answered j R) (\<lambda>_. still_holds j)"
proof (rule gives_mono [OF fatal_gives [OF assms(4,5)]])
  show "res_objs R1 local_res = None" using assms(3,10) by simp
  show "answered j R1 R' \<Longrightarrow> answered j R R'" for R'
    using assms(6-12) by (blast intro: answered_later)
qed simp

lemma body_get_log:
  "\<exists>v s'. msg_body_get nng m s = (v, s') \<and> adds s s' {#} {#}"
proof -
  obtain d s1 where c1: "call_w64 nng ''nng_msg_body'' [VW m] s = (d, s1)" by fastforce
  obtain n s2 where c2: "call_w64 nng ''nng_msg_len'' [VW m] s1 = (n, s2)" by fastforce
  have "adds s s1 {#} {#}" "adds s1 s2 {#} {#}"
    by (rule call_w64_adds [OF c1] call_w64_adds [OF c2]; simp add: starts_async_def)+
  with c1 c2 show ?thesis
    by (auto simp: msg_body_get_def msg_body_data_def msg_body_size_def intro: adds_after)
qed

lemma release_msg_log:
  "\<exists>m s'. aio_view_release_msg nng a s = (m, s') \<and> adds s s' {#} {#}"
proof -
  obtain m s1 where c1: "call_w64 nng ''nng_aio_get_msg'' [VW a] s = (m, s1)" by fastforce
  have "adds s s1 {#} {#}" by (rule call_w64_adds [OF c1]; simp add: starts_async_def)
  then have "adds s (aio_view_set_msg nng a null s1) {#} {#}" using set_msg_adds by (rule adds_after)
  with c1 show ?thesis
    by (simp add: aio_view_release_msg_def aio_view_get_msg_def aio_view_set_msg_def)
qed

lemma replied_gives:
  assumes "holds R j J h m c a" "no_temps R" "res_objs R local_res = None"
  shows "gives (rest_job_replied nng lock j a) R (\<lambda>_. answered j R) (\<lambda>_. still_holds j)"
proof -
  let ?aio = "job_http_aio J"
  obtain r s1 where c1: "call_int nng ''nng_aio_result'' [VW a] (world R) = (r, s1)" by fastforce
  then have s1: "adds (world R) s1 {#} {#}" by (rule call_int_adds) (simp_all add: starts_async_def)
  obtain p s2 where c2: "aio_view_release_msg nng a s1 = (p, s2)" and s2: "adds s1 s2 {#} {#}"
    using release_msg_log by blast
  let ?s3 = "free_old (\<lambda>h. call_unit nng ''nng_msg_free'' [VW h]) m s2"
  obtain v s4 where c4: "msg_body_get nng p ?s3 = (v, s4)" and s4: "adds ?s3 s4 {#} {#}"
    using body_get_log by blast
  obtain r5 s5 where c5: "call_int nng ''nng_http_res_copy_data'' [VW h, VW (v_data v), VW (v_size v)] s4 = (r5, s5)"
    by fastforce
  obtain r6 s6 where c6: "call_int nng ''nng_aio_set_output'' [VW ?aio, VI 0, VW h] s5 = (r6, s6)" by fastforce
  have s3: "adds s2 ?s3 {#} {#}" by (rule free_old_adds; simp add: starts_async_def)
  have "adds s4 s5 {#} {#}" "adds s5 s6 {#} {#}"
    by (rule call_int_adds [OF c5] call_int_adds [OF c6]; simp add: starts_async_def)+
  with s1 s2 s3 s4 have s5: "adds (world R) s5 {#} {#}" and "adds (world R) s6 {#} {#}"
    by (blast intro: adds_after)+
  then have fin: "adds (world R) (aio_view_finish nng ?aio 0 s6) {#?aio#} {#}"
    using finish_adds by (blast intro: adds_after)
  have fail: "gives (rest_http_fatal nng lock j src err) (R\<lparr>world := s1\<rparr>) (\<lambda>_. answered j R) (\<lambda>_. still_holds j)"
    "gives (rest_http_fatal nng lock j src err) (R\<lparr>msg_objs := (msg_objs R)(of_job j \<mapsto> p), world := s5\<rparr>)
       (\<lambda>_. answered j R) (\<lambda>_. still_holds j)" for src err
    using assms s1 s5
    by (auto intro!: fatal_later [OF assms, where h' = h and c' = c and a' = a] simp: holds_def no_temps_def)
  let ?R = "R\<lparr>msg_objs := (msg_objs R)(of_job j \<mapsto> p), res_objs := (res_objs R)(of_job j \<mapsto> 0),
      world := aio_view_finish nng ?aio 0 s6, jobs := (jobs R)(j \<mapsto> J\<lparr>job_http_aio := null\<rparr>)\<rparr>"
  have "holds ?R j (J\<lparr>job_http_aio := null\<rparr>) 0 p c a" "no_temps ?R"
    using assms by (auto simp: holds_def no_temps_def)
  from recycle_gives [OF this, of nng lock]
  have rec: "gives (rest_recycle_job nng lock j) ?R (\<lambda>_. answered j R) (\<lambda>_. still_holds j)"
    by (rule gives_mono) (use assms fin in \<open>auto simp: recycled_def answered_def holds_def intro: adds_before\<close>)
  show ?thesis
    using assms c1 c2 c4 c5 c6 fail rec
    by (auto simp: rest_job_replied_def gives_simps aio_view_result_def assign_msg holds_def no_temps_def
        http_res_copy_data_def aio_view_set_output_def check_def handle_of_def still_holds_def)
qed

section \<open>A new request\<close>

text \<open>
  What the documentation of nng says of the data of a request and of the body of a new message:
  the data can be read where it is; the body of a message that is allocated with some size is that much memory
  which was not in use, and memory in use stays so.
\<close>

definition readable_data :: "'w nng \<Rightarrow> bool" where
  "readable_data nng \<longleftrightarrow>
     (\<forall>req s v s1. http_req_get_data nng req s = (v, s1) \<longrightarrow> view_block v \<subseteq> dom (st_mem s1))"

definition fresh_bodies :: "'w nng \<Rightarrow> bool" where
  "fresh_bodies nng \<longleftrightarrow>
     (\<forall>n s m s1 d s2. get_w64 nng ''nng_msg_alloc'' [VW n] s = ((0, m), s1) \<longrightarrow> msg_body_data nng m s1 = (d, s2) \<longrightarrow>
        d \<noteq> null \<and> block d (unat n) \<subseteq> dom (st_mem s2) \<and> block d (unat n) \<inter> dom (st_mem s) = {} \<and>
        dom (st_mem s) \<subseteq> dom (st_mem s2))"

text \<open>The request has a body: where nng returns null for its data, \<open>memcpy\<close> is undefined.\<close>

definition has_body :: "'w nng \<Rightarrow> ptr \<Rightarrow> bool" where
  "has_body nng req \<longleftrightarrow> (\<forall>s. v_data (fst (http_req_get_data nng req s)) \<noteq> null)"

lemma copies_data:
  assumes "readable_data nng" "fresh_bodies nng" "has_body nng req" "http_req_get_data nng req s = (v, s1)"
    and "get_w64 nng ''nng_msg_alloc'' [VW (v_size v)] s1 = ((0, m), s2)" "msg_body_data nng m s2 = (d, s3)"
  shows "memcpy (st_mem s3) d (v_data v) (v_size v) \<noteq> None"
proof -
  have src: "view_block v \<subseteq> dom (st_mem s1)" using assms(1,4) unfolding readable_data_def by blast
  have null: "v_data v \<noteq> null" using assms(3) [unfolded has_body_def, rule_format, of s] assms(4) by simp
  have d: "d \<noteq> null" "block d (unat (v_size v)) \<subseteq> dom (st_mem s3)" "block d (unat (v_size v)) \<inter> dom (st_mem s1) = {}"
    "dom (st_mem s1) \<subseteq> dom (st_mem s3)"
    using assms(2) [unfolded fresh_bodies_def, rule_format, OF assms(5,6)] by blast+
  with src have "view_bytes (st_mem s3) (view_of (v_data v) (v_size v)) \<noteq> None"
    unfolding view_bytes_mapped by (auto simp: view_block_def)
  then obtain xs where "view_bytes (st_mem s3) (view_of (v_data v) (v_size v)) = Some xs" by blast
  moreover have "block d (unat (v_size v)) \<inter> block (v_data v) (unat (v_size v)) = {}"
    using d(3) src by (auto simp: view_block_def)
  ultimately show ?thesis using memcpy_disjoint [OF _ d(2) _ d(1) null] by (metis option.distinct(1))
qed

text \<open>What a statement leads to, where \<open>w\<close> says whether it may be undefined.\<close>

definition weakly :: "bool \<Rightarrow> ('s, 'a) act \<Rightarrow> 's \<Rightarrow> ('a \<Rightarrow> 's \<Rightarrow> bool) \<Rightarrow> (exn \<Rightarrow> 's \<Rightarrow> bool) \<Rightarrow> bool" where
  "weakly w m R P E \<longleftrightarrow> w \<and> fst (m R) = Ub \<or> gives m R P E"

lemma weakly_gives: "gives m R P E \<Longrightarrow> weakly w m R P E"
  by (simp add: weakly_def)

lemma weakly_bind: "gives m R (\<lambda>x R'. weakly w (f x) R' P E) E \<Longrightarrow> weakly w (bind m f) R P E"
  by (auto simp: weakly_def gives_def bind_def split: prod.splits result.splits)

lemma weakly_attempt:
  "gives m R (\<lambda>_ R'. weakly w (f None) R' P E) (\<lambda>e R'. weakly w (f (Some e)) R' P E) \<Longrightarrow>
     weakly w (bind (attempt m) f) R P E"
  by (rule weakly_bind) (simp add: gives_attempt)

lemma weakly_unwind:
  assumes "weakly w m R P E" "\<And>e R'. E e R' \<Longrightarrow> gives d R' (\<lambda>_. F e) (\<lambda>_ _. False)"
  shows "weakly w (unwind m d) R P F"
  using assms(1) unfolding weakly_def
proof
  assume "gives m R P E"
  then have "gives (unwind m d) R P F" unfolding gives_unwind by (rule gives_mono) (auto intro: assms(2))
  then show "w \<and> fst (unwind m d R) = Ub \<or> gives (unwind m d) R P F" ..
qed (cases "m R"; simp add: unwind_def)

lemma weakly_mono: "weakly w m R P E \<Longrightarrow> (\<And>x R'. P x R' \<Longrightarrow> Q x R') \<Longrightarrow> weakly w m R Q E"
  unfolding weakly_def by (blast intro: gives_mono)

text \<open>Job \<open>j\<close> is in flight for the request \<open>a\<close>, or request \<open>a\<close> is finished and the job given back.\<close>

definition launched :: "nat \<Rightarrow> ptr \<Rightarrow> 'w rest \<Rightarrow> 'w rest \<Rightarrow> bool" where
  "launched j a R R' \<longleftrightarrow>
     jobs R' = (jobs R)(j \<mapsto> (the (jobs R j))\<lparr>job_http_aio := a, job_st := SEND_REQ\<rparr>) \<and>
     job_freelist R' = job_freelist R \<and> (\<exists>h. res_objs R' = (res_objs R)(of_job j \<mapsto> h)) \<and>
     msg_objs R' = (msg_objs R)(of_job j \<mapsto> 0) \<and> (\<exists>c. ctx_objs R' = (ctx_objs R)(of_job j \<mapsto> c)) \<and>
     aio_objs R' = aio_objs R \<and> adds (world R) (world R') {#} {#the (aio_objs R (of_job j))#}"

definition rejected :: "nat \<Rightarrow> ptr \<Rightarrow> 'w rest \<Rightarrow> 'w rest \<Rightarrow> bool" where
  "rejected j a R R' \<longleftrightarrow>
     jobs R' = (jobs R)(j \<mapsto> (the (jobs R j))\<lparr>job_http_aio := null, job_next := job_freelist R\<rparr>) \<and>
     job_freelist R' = Some j \<and>
     res_objs R' = (res_objs R)(of_job j \<mapsto> 0) \<and> msg_objs R' = (msg_objs R)(of_job j \<mapsto> 0) \<and>
     ctx_objs R' = (ctx_objs R)(of_job j \<mapsto> 0) \<and> aio_objs R' = aio_objs R \<and>
     adds (world R) (world R') {#a#} {#}"

lemma get_adds:
  "get_w64 nng fn args s = (x, s') \<Longrightarrow> fn \<noteq> ''nng_aio_finish'' \<Longrightarrow>
     \<not> starts_async \<lparr>c_fn = fn, c_args = args, c_ret = [VI (fst x), VW (snd x)]\<rparr> \<Longrightarrow> adds s s' {#} {#}"
  "get_id nng fn args s = (y, s') \<Longrightarrow> fn \<noteq> ''nng_aio_finish'' \<Longrightarrow>
     \<not> starts_async \<lparr>c_fn = fn, c_args = args, c_ret = [VI (fst y), VId (snd y)]\<rparr> \<Longrightarrow> adds s s' {#} {#}"
  unfolding get_w64_def get_id_def
  by (drule invoke_log, force simp: adds_def finished_by_def starts_async_def split: prod.splits)+

lemma get_data_adds: "http_req_get_data nng req s = (v, s') \<Longrightarrow> adds s s' {#} {#}"
proof -
  assume a: "http_req_get_data nng req s = (v, s')"
  obtain y s1 where c: "call_buf nng ''nng_http_req_get_data'' [VW req] s = (y, s1)" by fastforce
  with a have "s' = s1" by (auto simp: http_req_get_data_def split: prod.splits)
  with c show ?thesis
    unfolding call_buf_def by (drule_tac invoke_log) (auto simp: adds_def finished_by_def starts_async_def)
qed

text \<open>The message of the request is handed to the operation, which is started.\<close>

lemma send_request_gives:
  assumes "holds R j J h m c a" "no_temps R" "msg_body_data nng m (world R) = (d, s1)"
    and "memcpy (st_mem s1) d (v_data v) (v_size v) = Some mm"
  shows "gives (rest_send_request nng v j) R
    (\<lambda>_ R'. R' = R\<lparr>jobs := (jobs R)(j \<mapsto> J\<lparr>job_st := SEND_REQ\<rparr>), msg_objs := (msg_objs R)(of_job j \<mapsto> 0), world := world R'\<rparr> \<and>
       adds (world R) (world R') {#} {#a#}) (\<lambda>_. still_holds j)"
proof -
  let ?s2 = "s1\<lparr>st_mem := mm\<rparr>"
  have "adds (world R) s1 {#} {#}"
    using assms(3) by (auto simp: msg_body_data_def starts_async_def intro: call_w64_adds)
  then have "adds (world R) ?s2 {#} {#}" by (simp add: adds_def)
  then have "adds (world R) (ctx_view_send nng c a (aio_view_set_msg nng a m ?s2)) {#} {#a#}"
    using set_msg_adds ctx_starts_one by (blast intro: adds_after)
  then show ?thesis
    using assms
    by (auto simp: rest_send_request_def gives_simps holds_def)
qed

lemma recycle_rejects:
  assumes "holds R j J 0 0 0 b" "no_temps R" "job_http_aio J = null"
    and "holds R1 j J h m c b" "no_temps R1" "adds (world R) (world R1) {#} {#}" "jobs R1 = jobs R"
    "job_freelist R1 = job_freelist R" "aio_objs R1 = aio_objs R"
    "\<And>i. i \<noteq> of_job j \<Longrightarrow> res_objs R1 i = res_objs R i" "\<And>i. i \<noteq> of_job j \<Longrightarrow> msg_objs R1 i = msg_objs R i"
    "\<And>i. i \<noteq> of_job j \<Longrightarrow> ctx_objs R1 i = ctx_objs R i"
  shows "gives (bind (rest_recycle_job nng lock j) (\<lambda>_. do_world (aio_view_finish nng a e))) R1
    (\<lambda>_. rejected j a R) (\<lambda>_. still_holds j)"
proof -
  have "(res_objs R1)(of_job j \<mapsto> 0) = (res_objs R)(of_job j \<mapsto> 0)"
    "(msg_objs R1)(of_job j \<mapsto> 0) = (msg_objs R)(of_job j \<mapsto> 0)"
    "(ctx_objs R1)(of_job j \<mapsto> 0) = (ctx_objs R)(of_job j \<mapsto> 0)"
    using assms(10-12) by (auto simp: fun_eq_iff)
  moreover have "adds (world R) (aio_view_finish nng a e s) {#a#} {#}" if "adds (world R1) s {#} {#}" for s
    using assms(6) that finish_adds by (blast intro: adds_after)
  moreover have "J\<lparr>job_http_aio := null, job_next := p\<rparr> = J\<lparr>job_next := p\<rparr>" for p
    using assms(3) by (cases J) simp
  ultimately show ?thesis
    unfolding gives_simps
    by (intro gives_mono [OF recycle_gives [OF assms(4,5)]])
      (use assms in \<open>auto simp: recycled_def rejected_def holds_def\<close>)
qed

definition copied :: "'w nng \<Rightarrow> ptr \<Rightarrow> bool" where
  "copied nng req \<longleftrightarrow> readable_data nng \<and> fresh_bodies nng \<and> has_body nng req"

lemma handle_job_gives:
  assumes "holds R j J 0 0 0 b" "no_temps R" "res_objs R local_res = None" "job_http_aio J = null" "w \<or> copied nng req"
  shows "weakly w (rest_handle_job nng lock k a req j) R
    (\<lambda>_ R'. launched j a R R' \<or> rejected j a R R') (\<lambda>_. still_holds j)"
proof -
  let ?P = "\<lambda>_ R'. launched j a R R' \<or> rejected j a R R'" and ?E = "\<lambda>_. still_holds j"
  let ?reject = "\<lambda>e. bind (rest_recycle_job nng lock j) (\<lambda>_. do_world (aio_view_finish nng a e))"
  obtain r1 h s1 where c1: "get_w64 nng ''nng_http_res_alloc'' [] (world R) = ((r1, h), s1)" by (metis prod.exhaust)
  obtain r2 c s2 where c2: "get_id nng ''nng_ctx_open'' [VId k] s1 = ((r2, c), s2)" by (metis prod.exhaust)
  obtain v s3 where c3: "http_req_get_data nng req s2 = (v, s3)" by fastforce
  obtain r4 m s4 where c4: "get_w64 nng ''nng_msg_alloc'' [VW (v_size v)] s3 = ((r4, m), s4)" by (metis prod.exhaust)
  obtain d s5 where c5: "msg_body_data nng m s4 = (d, s5)" by fastforce
  have s1: "adds (world R) s1 {#} {#}" by (rule get_adds(1) [OF c1]; simp add: starts_async_def)
  have "adds s1 s2 {#} {#}" by (rule get_adds(2) [OF c2]; simp add: starts_async_def)
  with s1 have s2: "adds (world R) s2 {#} {#}" by (rule adds_after)
  have "adds s3 s4 {#} {#}" by (rule get_adds(1) [OF c4]; simp add: starts_async_def)
  with s2 get_data_adds [OF c3] have s4: "adds (world R) s4 {#} {#}" by (blast intro: adds_after)
  have no1: "gives (?reject e) (R\<lparr>world := s1\<rparr>) ?P ?E" for e
    by (rule gives_mono [OF recycle_rejects [OF assms(1,2,4)]])
      (use assms s1 in \<open>auto simp: holds_def no_temps_def\<close>)
  have no2: "gives (?reject e) (R\<lparr>res_objs := (res_objs R)(of_job j \<mapsto> h), world := s2\<rparr>) ?P ?E" for e
    by (rule gives_mono [OF recycle_rejects [OF assms(1,2,4), where h = h and m = 0 and c = 0]])
      (use assms s2 in \<open>auto simp: holds_def no_temps_def\<close>)
  let ?R4 = "R\<lparr>res_objs := (res_objs R)(of_job j \<mapsto> h), ctx_objs := (ctx_objs R)(of_job j \<mapsto> c),
      jobs := (jobs R)(j \<mapsto> J\<lparr>job_http_aio := a\<rparr>), world := s4\<rparr>"
  have no4: "gives (rest_http_fatal nng lock j src err) ?R4 ?P ?E" for src err
  proof (rule gives_mono [OF fatal_gives])
    show "holds ?R4 j (J\<lparr>job_http_aio := a\<rparr>) h 0 c b" "no_temps ?R4" "res_objs ?R4 local_res = None"
      using assms by (auto simp: holds_def no_temps_def)
    show "launched j a R R' \<or> rejected j a R R'" if "answered j ?R4 R'" for R'
      using that assms(1) s4 by (auto simp: answered_def rejected_def holds_def intro: adds_after)
  qed
  let ?R5 = "R\<lparr>res_objs := (res_objs R)(of_job j \<mapsto> h), ctx_objs := (ctx_objs R)(of_job j \<mapsto> c),
      jobs := (jobs R)(j \<mapsto> J\<lparr>job_http_aio := a\<rparr>), msg_objs := (msg_objs R)(of_job j \<mapsto> m), world := s4\<rparr>"
  have ok: "weakly w (rest_send_request nng v j) ?R5 ?P ?E" if "r4 = 0"
  proof (cases "memcpy (st_mem s5) d (v_data v) (v_size v)")
    case None
    then have w using assms(5) copies_data [OF _ _ _ c3 c4 [unfolded that] c5] unfolding copied_def by blast
    moreover have "fst (rest_send_request nng v j ?R5) = Ub"
      using c5 None by (simp add: rest_send_request_def bind_def handle_def get_world_def on_world_def)
    ultimately show ?thesis by (simp add: weakly_def)
  next
    case (Some mm)
    have "holds ?R5 j (J\<lparr>job_http_aio := a\<rparr>) h m c b" "no_temps ?R5" "msg_body_data nng m (world ?R5) = (d, s5)"
      using assms c5 by (auto simp: holds_def no_temps_def)
    from send_request_gives [OF this Some] show ?thesis
    proof (intro weakly_gives, elim gives_mono)
      fix R'
      assume "R' = ?R5\<lparr>jobs := (jobs ?R5)(j \<mapsto> J\<lparr>job_http_aio := a, job_st := SEND_REQ\<rparr>),
          msg_objs := (msg_objs ?R5)(of_job j \<mapsto> 0), world := world R'\<rparr> \<and> adds (world ?R5) (world R') {#} {#b#}"
      then have eq: "R' = ?R5\<lparr>jobs := (jobs ?R5)(j \<mapsto> J\<lparr>job_http_aio := a, job_st := SEND_REQ\<rparr>),
          msg_objs := (msg_objs ?R5)(of_job j \<mapsto> 0), world := world R'\<rparr>"
        and ad: "adds s4 (world R') {#} {#b#}" by auto
      have "adds (world R) (world R') {#} {#b#}" using s4 ad by (rule adds_after)
      with assms(1) have "launched j a R R'" unfolding launched_def
        by (subst (1 2 3 4 5 6) eq) (auto simp: holds_def)
      then show "launched j a R R' \<or> rejected j a R R'" ..
    qed auto
  qed
  note no = no1 [THEN weakly_gives] no2 [THEN weakly_gives] no4 [THEN weakly_gives]
  let ?R2 = "R\<lparr>res_objs := (res_objs R)(of_job j \<mapsto> h), ctx_objs := (ctx_objs R)(of_job j \<mapsto> c), world := s2\<rparr>"
  let ?R3 = "?R2\<lparr>world := s3, jobs := (jobs R)(j \<mapsto> J\<lparr>job_http_aio := a\<rparr>)\<rparr>"
  let ?alloc = "\<lambda>f. bind (attempt (assign_temp (on_msg nng) (Acquire temp (Msg_alloc (v_size v))) j)) f"
  have alloc: "weakly w (?alloc (\<lambda>y. case y of Some e \<Rightarrow> rest_http_fatal nng lock j (who e) (get_error e)
      | None \<Rightarrow> rest_send_request nng v j)) ?R3 ?P ?E"
    using assms(1,2) c4 no(3) ok by (intro weakly_attempt) (simp add: assign_msg free_old_def holds_def no_temps_def)
  have "weakly w (bind (upd_job j (\<lambda>J. J\<lparr>job_http_aio := a\<rparr>)) (\<lambda>_. ?alloc (\<lambda>y. case y of
      Some e \<Rightarrow> rest_http_fatal nng lock j (who e) (get_error e) | None \<Rightarrow> rest_send_request nng v j))) (?R2\<lparr>world := s3\<rparr>) ?P ?E"
    using assms(1) alloc by (intro weakly_bind [of "upd_job j f" for f]) (simp add: gives_upd_job holds_def)
  then have "weakly w (bind (get_world (http_req_get_data nng req)) (\<lambda>data. bind (upd_job j (\<lambda>J. J\<lparr>job_http_aio := a\<rparr>)) (\<lambda>_.
      bind (attempt (assign_temp (on_msg nng) (Acquire temp (Msg_alloc (v_size data))) j)) (\<lambda>y. case y of
      Some e \<Rightarrow> rest_http_fatal nng lock j (who e) (get_error e) | None \<Rightarrow> rest_send_request nng data j)))) ?R2 ?P ?E"
    using c3 by (intro weakly_bind [of "get_world f" for f]) (simp add: gives_get_world)
  then show ?thesis
    unfolding rest_handle_job_def
    using assms(1,2) c1 c2 no(1,2)
    by (intro weakly_attempt) (simp add: gives_simps assign_res assign_ctx_open free_old_def holds_def no_temps_def)
qed

section \<open>The free list\<close>

text \<open>The addresses that follow each other from \<open>p\<close> on.\<close>

primrec chain :: "(nat \<Rightarrow> rest_job option) \<Rightarrow> nat option \<Rightarrow> nat list \<Rightarrow> bool" where
  "chain jb p [] \<longleftrightarrow> p = None"
| "chain jb p (x # xs) \<longleftrightarrow> p = Some x \<and> (case jb x of None \<Rightarrow> False | Some J \<Rightarrow> chain jb (job_next J) xs)"

lemma chain_upd [simp]: "j \<notin> set xs \<Longrightarrow> chain (jb(j := x)) p xs = chain jb p xs"
  by (induction xs arbitrary: p) (auto split: option.splits)

lemma chain_unique: "chain jb p xs \<Longrightarrow> chain jb p ys \<Longrightarrow> xs = ys"
proof (induction xs arbitrary: p ys)
  case Nil
  then show ?case by (cases ys) auto
next
  case (Cons x xs)
  then show ?case by (cases ys) (auto split: option.splits)
qed

text \<open>
  The invariant, with \<open>xs\<close> the free jobs: no job is twice on the list; the free jobs hold no
  object of the library but their operation, and no request; every other job is in flight, on no
  list, and its message is with its operation.
\<close>

definition free_job :: "'w rest \<Rightarrow> nat \<Rightarrow> bool" where
  "free_job R j \<longleftrightarrow> (\<exists>J b. jobs R j = Some J \<and> job_http_aio J = null \<and> res_objs R (of_job j) = Some 0 \<and>
     msg_objs R (of_job j) = Some 0 \<and> ctx_objs R (of_job j) = Some 0 \<and> aio_objs R (of_job j) = Some b)"

definition busy_job :: "'w rest \<Rightarrow> nat \<Rightarrow> bool" where
  "busy_job R j \<longleftrightarrow> (\<exists>J h c b. holds R j J h 0 c b)"

definition rest_inv :: "'w rest \<Rightarrow> nat list \<Rightarrow> bool" where
  "rest_inv R xs \<longleftrightarrow> chain (jobs R) (job_freelist R) xs \<and> distinct xs \<and> finite (dom (jobs R)) \<and>
     no_temps R \<and> res_objs R local_res = None \<and>
     (\<forall>j\<in>set xs. free_job R j) \<and> (\<forall>j\<in>dom (jobs R) - set xs. busy_job R j)"

text \<open>The requests of the jobs in flight, and the operations of these jobs.\<close>

definition in_flight :: "'w rest \<Rightarrow> nat list \<Rightarrow> ptr multiset" where
  "in_flight R xs = image_mset (\<lambda>j. job_http_aio (the (jobs R j))) (mset_set (dom (jobs R) - set xs))"

definition operations :: "'w rest \<Rightarrow> nat list \<Rightarrow> ptr multiset" where
  "operations R xs = image_mset (\<lambda>j. the (aio_objs R (of_job j))) (mset_set (dom (jobs R) - set xs))"

lemma in_flight_split:
  assumes a: "finite (dom (jobs R))" "jobs R j = Some J" "j \<notin> set xs"
  shows "in_flight R xs = add_mset (job_http_aio J) (in_flight R (j # xs))"
    and "operations R xs = add_mset (the (aio_objs R (of_job j))) (operations R (j # xs))"
proof -
  let ?A = "dom (jobs R) - set (j # xs)"
  have "dom (jobs R) - set xs = insert j ?A" "finite ?A" "j \<notin> ?A" using a by auto
  then have "mset_set (dom (jobs R) - set xs) = add_mset j (mset_set ?A)"
    using mset_set.insert [of ?A j] by metis
  with a(2) show "in_flight R xs = add_mset (job_http_aio J) (in_flight R (j # xs))"
    "operations R xs = add_mset (the (aio_objs R (of_job j))) (operations R (j # xs))"
    by (simp_all only: in_flight_def operations_def image_mset_add_mset option.sel)
qed

lemma in_flight_other:
  assumes a: "\<And>i. i \<noteq> j \<Longrightarrow> jobs R' i = jobs R i"
  shows "in_flight R' (j # xs) = in_flight R (j # xs)"
    and "(\<And>i. i \<noteq> j \<Longrightarrow> aio_objs R' (of_job i) = aio_objs R (of_job i)) \<Longrightarrow> operations R' (j # xs) = operations R (j # xs)"
proof -
  from a have d: "dom (jobs R') - set (j # xs) = dom (jobs R) - set (j # xs)" by (auto simp: dom_def)
  have i: "i \<noteq> j" if "i \<in># mset_set (dom (jobs R) - set (j # xs))" for i
    using that by (cases "finite (dom (jobs R) - set (j # xs))") auto
  with a show "in_flight R' (j # xs) = in_flight R (j # xs)" unfolding in_flight_def d by (intro image_mset_cong) simp
  show "operations R' (j # xs) = operations R (j # xs)"
    if "\<And>i. i \<noteq> j \<Longrightarrow> aio_objs R' (of_job i) = aio_objs R (of_job i)"
    using i that unfolding operations_def d by (intro image_mset_cong) simp
qed

lemma in_flight_unused:
  assumes "jobs R j = None"
  shows "in_flight R (j # xs) = in_flight R xs" "operations R (j # xs) = operations R xs"
proof -
  from assms have "dom (jobs R) - set (j # xs) = dom (jobs R) - set xs" by auto
  then show "in_flight R (j # xs) = in_flight R xs" "operations R (j # xs) = operations R xs"
    by (simp_all only: in_flight_def operations_def)
qed

text \<open>Nothing but job \<open>j\<close> and its objects differs.\<close>

definition only_job :: "nat \<Rightarrow> 'w rest \<Rightarrow> 'w rest \<Rightarrow> bool" where
  "only_job j R R' \<longleftrightarrow> (\<forall>i. i \<noteq> j \<longrightarrow> jobs R' i = jobs R i) \<and>
     (\<forall>i. i \<noteq> of_job j \<longrightarrow> res_objs R' i = res_objs R i \<and> msg_objs R' i = msg_objs R i \<and>
        ctx_objs R' i = ctx_objs R i \<and> aio_objs R' i = aio_objs R i)"

lemma busy_other: "only_job j R R' \<Longrightarrow> i \<noteq> j \<Longrightarrow> busy_job R' i = busy_job R i"
  by (simp add: busy_job_def holds_def only_job_def)

lemma free_other: "only_job j R R' \<Longrightarrow> i \<noteq> j \<Longrightarrow> free_job R' i = free_job R i"
  by (simp add: free_job_def only_job_def)

lemma rest_inv_busy: "rest_inv R xs \<Longrightarrow> jobs R j = Some J \<Longrightarrow> j \<notin> set xs \<Longrightarrow> busy_job R j"
  by (auto simp: rest_inv_def dom_def)

text \<open>
  A step on job \<open>j\<close> that leaves the others alone and after which the free jobs are \<open>ys\<close> keeps the
  invariant, if it leaves \<open>j\<close> in order.
\<close>

lemma rest_inv_step:
  assumes "rest_inv R xs" "only_job j R R'" "chain (jobs R') (job_freelist R') ys" "distinct ys"
    and "set ys - {j} = set xs - {j}" "if j \<in> set ys then free_job R' j else busy_job R' j"
  shows "rest_inv R' ys"
proof -
  have d: "dom (jobs R') \<subseteq> insert j (dom (jobs R))" using assms(2) by (force simp: only_job_def dom_def)
  then have "finite (dom (jobs R'))" using assms(1) by (auto simp: rest_inv_def intro: finite_subset)
  moreover have "no_temps R'" "res_objs R' local_res = None"
    using assms(1,2) by (simp_all add: rest_inv_def no_temps_def only_job_def)
  moreover have "free_job R' i" if "i \<in> set ys" for i
    using that assms by (cases "i = j") (auto simp: rest_inv_def free_other)
  moreover have "busy_job R' i" if "i \<in> dom (jobs R')" "i \<notin> set ys" for i
  proof (cases "i = j")
    case True
    then show ?thesis using that(2) assms(6) by simp
  next
    case False
    with that d assms(5) have "i \<in> dom (jobs R) - set xs" by blast
    with assms(1) have "busy_job R i" unfolding rest_inv_def by blast
    then show ?thesis using assms(2) False by (simp add: busy_other)
  qed
  ultimately show ?thesis using assms(3,4) by (auto simp: rest_inv_def)
qed

text \<open>A job that is given back goes to the front of the list; a job in flight stays there.\<close>

lemma rest_inv_pushed:
  fixes R R' :: "'w rest"
  assumes "rest_inv R xs" "holds R j J h m c b" "j \<notin> set xs"
    and "jobs R' = (jobs R)(j \<mapsto> J'\<lparr>job_http_aio := null, job_next := job_freelist R\<rparr>)" "job_freelist R' = Some j"
    and "res_objs R' = (res_objs R)(of_job j \<mapsto> 0)" "msg_objs R' = (msg_objs R)(of_job j \<mapsto> 0)"
    and "ctx_objs R' = (ctx_objs R)(of_job j \<mapsto> 0)" "aio_objs R' = aio_objs R"
  shows "rest_inv R' (j # xs)"
proof (rule rest_inv_step [OF assms(1)])
  show "only_job j R R'" using assms(4-9) by (simp add: only_job_def)
  show "chain (jobs R') (job_freelist R') (j # xs)" using assms(1,3-5) by (simp add: rest_inv_def)
  show "distinct (j # xs)" using assms(1,3) by (simp add: rest_inv_def)
  show "if j \<in> set (j # xs) then free_job R' j else busy_job R' j"
    using assms(2,4-9) by (auto simp: free_job_def holds_def)
qed auto

lemma rest_inv_kept:
  assumes "rest_inv R xs" "j \<notin> set xs" "holds R' j J h 0 c b" "only_job j R R'" "job_freelist R' = job_freelist R"
  shows "rest_inv R' xs"
proof (rule rest_inv_step [OF assms(1,4)])
  have "jobs R' = (jobs R)(j := jobs R' j)" using assms(4) by (auto simp: only_job_def fun_eq_iff)
  then show "chain (jobs R') (job_freelist R') xs"
    using assms(1,2,5) chain_upd [of j xs "jobs R" "jobs R' j" "job_freelist R"] by (simp add: rest_inv_def)
  show "distinct xs" using assms(1) by (simp add: rest_inv_def)
  show "if j \<in> set xs then free_job R' j else busy_job R' j"
    using assms(2,3) by (auto simp: busy_job_def)
qed auto

text \<open>Getting a job: the first of the list, or a new one.\<close>

definition got_job :: "nat \<Rightarrow> nat \<Rightarrow> 'w rest \<Rightarrow> 'w rest \<Rightarrow> nat list \<Rightarrow> nat list \<Rightarrow> bool" where
  "got_job j new R R' xs ys \<longleftrightarrow>
     rest_inv R' ys \<and> j \<notin> set ys \<and> (case xs of [] \<Rightarrow> j = new \<and> ys = [] | x # xs' \<Rightarrow> j = x \<and> ys = xs') \<and>
     (\<exists>J b. holds R' j J 0 0 0 b \<and> job_http_aio J = null) \<and>
     in_flight R' (j # ys) = in_flight R xs \<and> operations R' (j # ys) = operations R xs \<and>
     adds (world R) (world R') {#} {#}"

lemma make_job_gives:
  assumes "no_temps R"
  shows "gives (make_rest_job nng cb j) R
    (\<lambda>x R'. x = j \<and> only_job j R R' \<and> job_freelist R' = job_freelist R \<and> adds (world R) (world R') {#} {#} \<and>
       (\<exists>b. holds R' j \<lparr>job_http_aio = null, job_st = SEND_REQ, job_next = None\<rparr> 0 0 0 b)) (\<lambda>_ _. True)"
proof -
  obtain r h s1 where c: "get_w64 nng ''nng_aio_alloc'' [VW cb, VW (of_nat j)] (world R) = ((r, h), s1)"
    by (metis prod.exhaust)
  then have "adds (world R) s1 {#} {#}" by (rule get_adds(1)) (simp_all add: starts_async_def)
  with c show ?thesis
    by (auto simp: make_rest_job_def gives_def bind_def unwind_def on_res_def on_msg_def on_ctx_def on_aio_def
        member_simps check_out_def only_job_def holds_def)
qed

lemma get_job_gives:
  assumes "rest_inv R xs" "jobs R new = None"
  shows "gives (rest_get_job nng lock cb new) R (\<lambda>j R'. \<exists>ys. got_job j new R R' xs ys) (\<lambda>_ _. True)"
proof (cases xs)
  case Nil
  let ?R = "R\<lparr>job_freelist := None, world := mtx_view_unlock nng lock (mtx_view_lock nng lock (world R))\<rparr>"
  have fl: "job_freelist R = None" using assms(1) Nil by (simp add: rest_inv_def)
  have lk: "adds (world R) (world ?R) {#} {#}" by (simp add: locked_adds)
  have "gives (make_rest_job nng cb new) ?R (\<lambda>j R'. \<exists>ys. got_job j new R R' xs ys) (\<lambda>_ _. True)"
  proof (rule gives_mono [OF make_job_gives])
    show "no_temps ?R" using assms(1) by (simp add: rest_inv_def no_temps_def)
    fix x R'
    assume made: "x = new \<and> only_job new ?R R' \<and> job_freelist R' = job_freelist ?R \<and> adds (world ?R) (world R') {#} {#} \<and>
      (\<exists>b. holds R' new \<lparr>job_http_aio = null, job_st = SEND_REQ, job_next = None\<rparr> 0 0 0 b)"
    then obtain b where b: "holds R' new \<lparr>job_http_aio = null, job_st = SEND_REQ, job_next = None\<rparr> 0 0 0 b" by blast
    have only: "only_job new R R'" using made by (simp add: only_job_def)
    have "rest_inv R' xs"
      using assms(1) _ b only by (rule rest_inv_kept) (use Nil made fl in auto)
    moreover have "in_flight R' [new] = in_flight R xs" "operations R' [new] = operations R xs"
      using in_flight_other [of new R' R "[]"] only in_flight_unused [OF assms(2), of "[]"] Nil
      by (simp_all add: only_job_def)
    moreover have "adds (world R) (world R') {#} {#}" using lk made by (blast intro: adds_after)
    ultimately show "\<exists>ys. got_job x new R R' xs ys"
      using made b Nil by (intro exI [of _ "[]"]) (auto simp: got_job_def)
  qed simp
  then show ?thesis using fl by (simp add: rest_get_job_def gives_simps)
next
  case (Cons j ys)
  then have ch: "job_freelist R = Some j" and d: "distinct (j # ys)" and "free_job R j"
    using assms(1) by (simp_all add: rest_inv_def)
  then obtain J b where j: "jobs R j = Some J" "job_http_aio J = null" "res_objs R (of_job j) = Some 0"
    "msg_objs R (of_job j) = Some 0" "ctx_objs R (of_job j) = Some 0" "aio_objs R (of_job j) = Some b"
    by (auto simp: free_job_def)
  let ?R = "R\<lparr>jobs := (jobs R)(j \<mapsto> J\<lparr>job_next := None\<rparr>), job_freelist := job_next J,
      world := mtx_view_unlock nng lock (mtx_view_lock nng lock (world R))\<rparr>"
  have only: "only_job j R ?R" by (simp add: only_job_def)
  have h: "holds ?R j (J\<lparr>job_next := None\<rparr>) 0 0 0 b" using j by (simp add: holds_def)
  have "rest_inv ?R ys"
  proof (rule rest_inv_step [OF assms(1) only])
    show "chain (jobs ?R) (job_freelist ?R) ys" using assms(1) Cons d j(1) by (simp add: rest_inv_def)
    show "if j \<in> set ys then free_job ?R j else busy_job ?R j" using d h by (auto simp: busy_job_def)
  qed (use Cons d in auto)
  moreover have "in_flight ?R (j # ys) = in_flight R xs" "operations ?R (j # ys) = operations R xs"
    using in_flight_other [of j ?R R ys] Cons by simp_all
  moreover have "adds (world R) (world ?R) {#} {#}" by (simp add: locked_adds)
  ultimately have "got_job j new R ?R xs ys"
    using Cons d h j(2) by (auto simp: got_job_def)
  then show ?thesis using ch j(1)
    by (auto simp: rest_get_job_def gives_simps set_freelist_def intro!: exI [of _ ys])
qed

section \<open>One step of the gateway\<close>

lemma or_exit_gives:
  assumes "gives m R P (\<lambda>_ _. True)" "or_exit (m R) = (x, R')"
  shows "x \<noteq> Stuck \<and> (x = Next () \<longrightarrow> P () R')"
  using assms by (auto simp: gives_def or_exit_def split: prod.splits result.splits)

text \<open>The operation of job \<open>j\<close> has succeeded.\<close>

definition succeeded :: "'w nng \<Rightarrow> nat \<Rightarrow> 'w rest \<Rightarrow> bool" where
  "succeeded nng j R \<longleftrightarrow> fst (aio_view_result nng (the (aio_objs R (of_job j))) (world R)) = error_val nng success"

lemma callback_outcome:
  assumes "rest_inv R xs" "jobs R j = Some J" "j \<notin> set xs" "rest_job_cb nng lock j R = (x, R')"
  shows "x \<noteq> Stuck \<and> (x = Next () \<longrightarrow>
    (if job_st J = SEND_REQ \<and> succeeded nng j R then continued j R R' else answered j R R'))"
proof -
  obtain h c a where h: "holds R j J h 0 c a" using rest_inv_busy [OF assms(1-3)] assms(2)
    by (auto simp: busy_job_def holds_def)
  have t: "no_temps R" "res_objs R local_res = None" using assms(1) by (simp_all add: rest_inv_def)
  have "gives (rest_job_body nng lock j) R
      (\<lambda>_ R'. if job_st J = SEND_REQ \<and> succeeded nng j R then continued j R R' else answered j R R') (\<lambda>_. still_holds j)"
  proof (cases "job_st J")
    case SEND_REQ
    then have "rest_job_body nng lock j R = rest_job_sent nng lock j a R"
      using h by (simp add: rest_job_body_def bind_def the_job_def handle_def holds_def)
    moreover have "the (aio_objs R (of_job j)) = a" using h by (simp add: holds_def)
    ultimately show ?thesis using sent_gives [OF h t] SEND_REQ by (simp add: gives_def succeeded_def)
  next
    case RECV_REP
    then have "rest_job_body nng lock j R = rest_job_replied nng lock j a R"
      using h by (simp add: rest_job_body_def bind_def the_job_def handle_def holds_def)
    with replied_gives [OF h t] RECV_REP show ?thesis by (simp add: gives_def)
  qed
  from or_exit_gives [OF unwound [OF this]] assms(4) show ?thesis by (simp add: rest_job_cb_def)
qed

lemma or_exit_weakly:
  assumes "weakly w m R P (\<lambda>_ _. True)" "or_exit (m R) = (x, R')"
  shows "(x = Stuck \<longrightarrow> w) \<and> (x = Next () \<longrightarrow> P () R')"
  using assms by (auto simp: weakly_def gives_def or_exit_def split: prod.splits result.splits)

lemma request_outcome:
  assumes "rest_inv R xs" "jobs R new = None" "rest_handle nng lock cb k new a R = (x, R')"
  shows "(copied nng (fst (aio_view_get_input nng a 0 (world R))) \<longrightarrow> x \<noteq> Stuck) \<and> (x = Next () \<longrightarrow>
    (\<exists>j R1 ys. got_job j new R R1 xs ys \<and> (launched j a R1 R' \<or> rejected j a R1 R')))"
proof -
  obtain req s where c: "call_w64 nng ''nng_aio_get_input'' [VW a, VI 0] (world R) = (req, s)" by fastforce
  then have s: "adds (world R) s {#} {#}" by (rule call_w64_adds) (simp_all add: starts_async_def)
  let ?R = "R\<lparr>world := s\<rparr>"
  let ?m = "\<lambda>j. unwind (rest_handle_job nng lock k a req j) (delete_ptr nng (Some j))"
  let ?P = "\<lambda>_ R'. \<exists>j R1 ys. got_job j new R R1 xs ys \<and> (launched j a R1 R' \<or> rejected j a R1 R')"
  have inv: "rest_inv ?R xs"
    using assms(1) by (auto simp: rest_inv_def no_temps_def free_job_def busy_job_def holds_def)
  let ?w = "\<not> copied nng req"
  have "gives (rest_get_job nng lock cb new) ?R (\<lambda>j R1. weakly ?w (?m j) R1 ?P (\<lambda>_ _. True)) (\<lambda>_ _. True)"
  proof (rule gives_mono [OF get_job_gives [OF inv]])
    show "jobs ?R new = None" using assms(2) by simp
    fix j R1
    assume "\<exists>ys. got_job j new ?R R1 xs ys"
    then obtain ys where got: "got_job j new ?R R1 xs ys" ..
    then obtain J b where h: "holds R1 j J 0 0 0 b" "job_http_aio J = null" "no_temps R1" "res_objs R1 local_res = None"
      by (auto simp: got_job_def rest_inv_def)
    from got s have "got_job j new R R1 xs ys"
      by (auto simp: got_job_def in_flight_def operations_def intro: adds_after)
    moreover have "weakly ?w (?m j) R1 (\<lambda>_ R'. launched j a R1 R' \<or> rejected j a R1 R') (\<lambda>_ _. True)"
      by (rule weakly_unwind [OF handle_job_gives [OF h(1,3,4,2)]]) (auto intro: delete_gives)
    ultimately show "weakly ?w (?m j) R1 ?P (\<lambda>_ _. True)" by (auto elim!: weakly_mono)
  qed simp
  then have "weakly ?w (bind (rest_get_job nng lock cb new) ?m) ?R ?P (\<lambda>_ _. True)" by (rule weakly_bind)
  then have "weakly ?w (bind (get_world (aio_view_get_input nng a 0)) (\<lambda>req. bind (rest_get_job nng lock cb new)
      (\<lambda>j. unwind (rest_handle_job nng lock k a req j) (delete_ptr nng (Some j))))) R ?P (\<lambda>_ _. True)"
    using c by (intro weakly_bind) (simp add: gives_get_world aio_view_get_input_def)
  from or_exit_weakly [OF this] assms(3) c show ?thesis by (auto simp: rest_handle_def aio_view_get_input_def)
qed

section \<open>The gateway as a whole\<close>

text \<open>
  nng calls \<open>rest_handle\<close> for each request, on any thread, and \<open>rest_job_cb\<close> for a job whose
  operation completed, hence for one that is not on the free list; in between the library does
  what it does. Handlers of different jobs share only the free list, which they use under the
  lock, so they are taken one after the other. \<open>hs\<close> are the requests so far, \<open>ds\<close> the operations of jobs whose
  callbacks ran, each as often as it did; a step in which the process exits ends the run.
\<close>

definition on_freelist :: "'w rest \<Rightarrow> nat \<Rightarrow> bool" where
  "on_freelist R j \<longleftrightarrow> (\<exists>xs. chain (jobs R) (job_freelist R) xs \<and> j \<in> set xs)"

definition no_jobs :: "'w st \<Rightarrow> 'w rest" where
  "no_jobs s = \<lparr>jobs = Map.empty, job_freelist = None, res_objs = Map.empty, msg_objs = Map.empty,
     ctx_objs = Map.empty, aio_objs = Map.empty, world = s\<rparr>"

inductive rest_reach ::
  "'w nng \<Rightarrow> ptr \<Rightarrow> ptr \<Rightarrow> i32 \<Rightarrow> 'w st \<Rightarrow> ptr multiset \<Rightarrow> ptr multiset \<Rightarrow> 'w rest \<Rightarrow> bool"
  for nng lock cb k s0 where
  rest_start: "rest_reach nng lock cb k s0 {#} {#} (no_jobs s0)"
| rest_library: "rest_reach nng lock cb k s0 hs ds R \<Longrightarrow> st_log s = st_log (world R) \<Longrightarrow>
    rest_reach nng lock cb k s0 hs ds (R\<lparr>world := s\<rparr>)"
| rest_request: "rest_reach nng lock cb k s0 hs ds R \<Longrightarrow> jobs R new = None \<Longrightarrow>
    rest_handle nng lock cb k new a R = (Next (), R') \<Longrightarrow> rest_reach nng lock cb k s0 (add_mset a hs) ds R'"
| rest_callback: "rest_reach nng lock cb k s0 hs ds R \<Longrightarrow> jobs R j \<noteq> None \<Longrightarrow> \<not> on_freelist R j \<Longrightarrow>
    rest_job_cb nng lock j R = (Next (), R') \<Longrightarrow>
    rest_reach nng lock cb k s0 hs (add_mset (the (aio_objs R (of_job j))) ds) R'"

text \<open>
  The books of the gateway: every request is finished or is that of a job in flight, and the operations whose
  callbacks have not run are those of the jobs in flight.
\<close>

definition accounts :: "'w st \<Rightarrow> ptr multiset \<Rightarrow> ptr multiset \<Rightarrow> nat list \<Rightarrow> 'w rest \<Rightarrow> bool" where
  "accounts s0 hs ds xs R \<longleftrightarrow> rest_inv R xs \<and>
     (\<exists>fs. adds s0 (world R) fs (ds + operations R xs) \<and> hs = fs + in_flight R xs)"

lemma answered_accounts:
  assumes "accounts s0 hs ds xs R" "jobs R j = Some J" "j \<notin> set xs" "answered j R R'"
  shows "accounts s0 hs (add_mset (the (aio_objs R (of_job j))) ds) (j # xs) R'"
proof -
  have inv: "rest_inv R xs" using assms(1) by (simp add: accounts_def)
  then obtain h c b where h: "holds R j J h 0 c b"
    using rest_inv_busy [OF _ assms(2,3)] assms(2) by (auto simp: busy_job_def holds_def)
  obtain fs where fs: "adds s0 (world R) fs (ds + operations R xs)" "hs = fs + in_flight R xs"
    using assms(1) by (auto simp: accounts_def)
  have "finite (dom (jobs R))" using inv by (simp add: rest_inv_def)
  note split = in_flight_split [OF this assms(2,3)]
  have "in_flight R' (j # xs) = in_flight R (j # xs)" "operations R' (j # xs) = operations R (j # xs)"
    using assms(4) by (intro in_flight_other; simp add: answered_def)+
  moreover have "rest_inv R' (j # xs)"
    using assms(4) by (intro rest_inv_pushed [OF inv h assms(3)]) (simp_all add: answered_def)
  moreover have "adds s0 (world R') (fs + {#job_http_aio J#}) (ds + operations R xs + {#})"
    using assms(2,4) by (intro adds_trans [OF fs(1)]) (simp add: answered_def)
  ultimately show ?thesis
    using fs(2) split unfolding accounts_def by (intro conjI exI [of _ "add_mset (job_http_aio J) fs"]) simp_all
qed

lemma continued_accounts:
  assumes "accounts s0 hs ds xs R" "jobs R j = Some J" "j \<notin> set xs" "continued j R R'"
  shows "accounts s0 hs (add_mset (the (aio_objs R (of_job j))) ds) xs R'"
proof -
  have inv: "rest_inv R xs" using assms(1) by (simp add: accounts_def)
  then obtain h c b where h: "holds R j J h 0 c b"
    using rest_inv_busy [OF _ assms(2,3)] assms(2) by (auto simp: busy_job_def holds_def)
  obtain fs where fs: "adds s0 (world R) fs (ds + operations R xs)" "hs = fs + in_flight R xs"
    using assms(1) by (auto simp: accounts_def)
  have fin: "finite (dom (jobs R))" "finite (dom (jobs R'))" using inv assms(4) by (simp_all add: rest_inv_def continued_def)
  have j': "jobs R' j = Some (J\<lparr>job_st := RECV_REP\<rparr>)" using assms(2,4) by (simp add: continued_def)
  have "in_flight R' (j # xs) = in_flight R (j # xs)" "operations R' (j # xs) = operations R (j # xs)"
    using assms(4) by (intro in_flight_other; simp add: continued_def)+
  then have "in_flight R' xs = in_flight R xs" "operations R' xs = operations R xs"
    using in_flight_split [OF fin(1) assms(2,3)] in_flight_split [OF fin(2) j' assms(3)] assms(4)
    by (simp_all add: continued_def)
  moreover have "rest_inv R' xs"
    using assms(2,4) h by (intro rest_inv_kept [OF inv assms(3), of R' "J\<lparr>job_st := RECV_REP\<rparr>" h c b])
      (auto simp: continued_def holds_def only_job_def)
  moreover have "adds s0 (world R') (fs + {#}) (ds + operations R xs + {#the (aio_objs R (of_job j))#})"
    using assms(4) by (intro adds_trans [OF fs(1)]) (simp add: continued_def)
  ultimately show ?thesis using fs(2) unfolding accounts_def by (intro conjI exI [of _ fs]) simp_all
qed

lemma request_accounts:
  assumes "accounts s0 hs ds xs R" "got_job j new R R1 xs ys" "launched j a R1 R' \<or> rejected j a R1 R'"
  shows "\<exists>zs. accounts s0 (add_mset a hs) ds zs R'"
proof -
  from assms(2) obtain J b where inv: "rest_inv R1 ys" "j \<notin> set ys" and h: "holds R1 j J 0 0 0 b"
    and fl: "in_flight R1 (j # ys) = in_flight R xs" "operations R1 (j # ys) = operations R xs"
    and ad: "adds (world R) (world R1) {#} {#}"
    by (auto simp: got_job_def)
  have J: "jobs R1 j = Some J" using h by (simp add: holds_def)
  have other: "in_flight R' (j # ys) = in_flight R xs" "operations R' (j # ys) = operations R xs"
    using assms(3) fl in_flight_other [of j R' R1 ys] by (auto simp: launched_def rejected_def)
  from assms(1) obtain fs where fs: "adds s0 (world R) fs (ds + operations R xs)" "hs = fs + in_flight R xs"
    by (auto simp: accounts_def)
  with ad have fs1: "adds s0 (world R1) fs (ds + operations R xs)" by (blast intro: adds_before)
  from assms(3) show ?thesis
  proof
    assume l: "launched j a R1 R'"
    then obtain h' c' where l': "res_objs R' = (res_objs R1)(of_job j \<mapsto> h')" "ctx_objs R' = (ctx_objs R1)(of_job j \<mapsto> c')"
      by (auto simp: launched_def)
    have j': "jobs R' j = Some (J\<lparr>job_http_aio := a, job_st := SEND_REQ\<rparr>)" "finite (dom (jobs R'))"
      using l J inv by (simp_all add: launched_def rest_inv_def)
    have "rest_inv R' ys"
      using l h l' by (intro rest_inv_kept [OF inv, of R' "J\<lparr>job_http_aio := a, job_st := SEND_REQ\<rparr>" h' c' b])
        (auto simp: launched_def holds_def only_job_def)
    moreover have "in_flight R' ys = add_mset a (in_flight R xs)"
      "operations R' ys = add_mset (the (aio_objs R1 (of_job j))) (operations R xs)"
      using in_flight_split [OF j'(2,1) inv(2)] other l by (simp_all add: launched_def)
    moreover have "adds s0 (world R') (fs + {#}) (ds + operations R xs + {#the (aio_objs R1 (of_job j))#})"
      using l by (intro adds_trans [OF fs1]) (simp add: launched_def)
    ultimately have "accounts s0 (add_mset a hs) ds ys R'"
      using fs(2) unfolding accounts_def by (intro conjI exI [of _ fs]) simp_all
    then show ?thesis ..
  next
    assume r: "rejected j a R1 R'"
    then have "rest_inv R' (j # ys)" by (intro rest_inv_pushed [OF inv(1) h inv(2)]) (simp_all add: rejected_def)
    moreover have "adds s0 (world R') (fs + {#a#}) (ds + operations R xs + {#})"
      using r by (intro adds_trans [OF fs1]) (simp add: rejected_def)
    ultimately have "accounts s0 (add_mset a hs) ds (j # ys) R'"
      using fs(2) other unfolding accounts_def by (intro conjI exI [of _ "add_mset a fs"]) simp_all
    then show ?thesis ..
  qed
qed

lemma reach_accounts:
  assumes "rest_reach nng lock cb k s0 hs ds R"
  shows "\<exists>xs. accounts s0 hs ds xs R"
  using assms
proof induction
  case rest_start
  have "accounts s0 {#} {#} [] (no_jobs s0)"
    by (simp add: accounts_def rest_inv_def no_jobs_def no_temps_def in_flight_def operations_def adds_refl)
  then show ?case ..
next
  case (rest_library hs ds R s)
  then obtain xs where "accounts s0 hs ds xs R" by blast
  with rest_library.hyps(2) have "accounts s0 hs ds xs (R\<lparr>world := s\<rparr>)"
    by (auto simp: accounts_def rest_inv_def no_temps_def free_job_def busy_job_def holds_def in_flight_def
        operations_def adds_def)
  then show ?case ..
next
  case (rest_request hs ds R new a R')
  then obtain xs where acc: "accounts s0 hs ds xs R" by blast
  then have "rest_inv R xs" by (simp add: accounts_def)
  from request_outcome [OF this rest_request.hyps(2,3)] request_accounts [OF acc]
  show ?case by blast
next
  case (rest_callback hs ds R j R')
  then obtain xs where acc: "accounts s0 hs ds xs R" by blast
  then have inv: "rest_inv R xs" by (simp add: accounts_def)
  with rest_callback.hyps(3) have j: "j \<notin> set xs" by (auto simp: on_freelist_def rest_inv_def)
  moreover obtain J where J: "jobs R j = Some J" using rest_callback.hyps(2) by blast
  ultimately show ?case
    using callback_outcome [OF inv J j rest_callback.hyps(4)] answered_accounts [OF acc J j] continued_accounts [OF acc J j]
    by (auto split: if_splits)
qed

text \<open>
  The free list is destroyed when the process exits: each job deletes its successor before its
  own members.
\<close>

definition same_job :: "nat \<Rightarrow> 'w rest \<Rightarrow> 'w rest \<Rightarrow> bool" where
  "same_job i R R' \<longleftrightarrow> jobs R' i = jobs R i \<and> res_objs R' (of_job i) = res_objs R (of_job i) \<and>
     msg_objs R' (of_job i) = msg_objs R (of_job i) \<and> ctx_objs R' (of_job i) = ctx_objs R (of_job i) \<and>
     aio_objs R' (of_job i) = aio_objs R (of_job i)"

lemma destroy_members_gives:
  assumes "free_job R j"
  shows "gives (destroy_members nng j) R
    (\<lambda>_ R'. jobs R' = jobs R \<and> (\<forall>i. i \<noteq> j \<longrightarrow> same_job i R R')) (\<lambda>_ _. False)"
  using assms by (auto simp: destroy_members_def gives_simps free_job_def same_job_def)

lemma delete_chain:
  assumes "chain (jobs R) p xs" "distinct xs" "\<forall>j\<in>set xs. free_job R j"
  shows "\<exists>R'. delete_ptr nng p R = (Ok (), R') \<and> (\<forall>j\<in>set xs. jobs R' j = None) \<and>
    (\<forall>i. i \<notin> set xs \<longrightarrow> same_job i R R')"
  using assms
proof (induction xs arbitrary: p R)
  case Nil
  then show ?case by (auto simp: delete_ptr_def same_job_def)
next
  case (Cons j xs)
  then obtain J where J: "p = Some j" "jobs R j = Some J" "chain (jobs R) (job_next J) xs"
    by (auto split: option.splits)
  from Cons.IH [OF J(3)] Cons.prems(2,3) obtain R1 where R1: "delete_ptr nng (job_next J) R = (Ok (), R1)"
    "\<forall>i\<in>set xs. jobs R1 i = None" "\<forall>i. i \<notin> set xs \<longrightarrow> same_job i R R1" by auto
  have next1: "(case job_next J of None \<Rightarrow> Some R | Some k \<Rightarrow> delete_job nng k R) = Some R1"
    using R1(1) by (auto simp: delete_ptr_def split: option.splits)
  have "free_job R1 j"
    using R1(3) Cons.prems(2,3) by (simp add: free_job_def same_job_def)
  from destroy_members_gives [OF this, of nng] obtain x R2 where
    R2: "destroy_members nng j R1 = (Ok x, R2)" "jobs R2 = jobs R1" "\<forall>i. i \<noteq> j \<longrightarrow> same_job i R1 R2"
    by (cases "destroy_members nng j R1") (auto simp: gives_def split: result.splits)
  have "delete_job nng j R = Some (R2\<lparr>jobs := (jobs R2)(j := None)\<rparr>)"
    using J(2) next1 R2(1) by (subst delete_job.simps) simp
  with J(1) R1(2,3) R2(2,3) show ?case
    by (auto simp: delete_ptr_def same_job_def)
qed

section \<open>An instance\<close>

text \<open>
  Every allocation returns the next handle, a request has three bytes of data at 4096, and the
  body of a message is at 8192, where there can be one at a time; all other operations succeed.
\<close>

definition gate_nng :: "w64 nng" where
  "gate_nng = idle_nng\<lparr>
     s_w64 := (\<lambda>fn args (w, m).
        if fn = ''nng_msg_alloc'' then
          (case args of
             [VW n] \<Rightarrow>
               if block 8192 (unat n) \<inter> dom m = {} then ((0, w + 16), w + 16, write_bytes m 8192 (replicate (unat n) 0))
               else ((2, 0), w, m)
           | _ \<Rightarrow> ((2, 0), w, m))
        else ((0, w + 16), w + 16, m)),
     s_id := (\<lambda>_ _ w. ((0, 3), w)),
     f_buf := (\<lambda>_ _ (w, m). ((4096, 3), w, m(4096 \<mapsto> 72, 4097 \<mapsto> 105, 4098 \<mapsto> 33))),
     f_w64 := (\<lambda>fn _ (w, m). (if fn = ''nng_msg_body'' then 8192 else 5, w, m))\<rparr>"

lemma gate_nng_simps [simp]:
  "f_unit gate_nng = f_unit idle_nng" "f_int gate_nng = f_int idle_nng"
  "macro_int gate_nng = (\<lambda>_. 0)" "macro_str gate_nng = (\<lambda>n. n)" "strerror gate_nng = (\<lambda>_. '''')"
  "fn \<noteq> ''nng_msg_alloc'' \<Longrightarrow> s_w64 gate_nng fn args (w, m) = ((0, w + 16), w + 16, m)"
  "s_w64 gate_nng ''nng_msg_alloc'' [VW n] (w, m) =
     (if block 8192 (unat n) \<inter> dom m = {} then ((0, w + 16), w + 16, write_bytes m 8192 (replicate (unat n) 0))
      else ((2, 0), w, m))"
  "s_id gate_nng = (\<lambda>_ _ w. ((0, 3), w))"
  "f_buf gate_nng = (\<lambda>_ _ (w, m). ((4096, 3), w, m(4096 \<mapsto> 72, 4097 \<mapsto> 105, 4098 \<mapsto> 33)))"
  "f_w64 gate_nng = (\<lambda>fn _ (w, m). (if fn = ''nng_msg_body'' then 8192 else 5, w, m))"
  by (simp_all add: gate_nng_def)

lemma gate_contracts: "readable_data gate_nng" "fresh_bodies gate_nng" "has_body gate_nng req"
proof -
  have three: "unat (3 :: w64) = 3" by simp
  then show "readable_data gate_nng"
    by (auto simp: readable_data_def http_req_get_data_def call_simps invoke_def view_block_def view_of_def block_def
        numeral_3_eq_3 less_Suc_eq)
  show "fresh_bodies gate_nng"
    by (auto simp: fresh_bodies_def call_simps invoke_def msg_body_data_def dom_write_bytes split: if_splits)
  show "has_body gate_nng req"
    by (simp add: has_body_def http_req_get_data_def call_simps invoke_def view_of_def)
qed

text \<open>The request is copied into the new message.\<close>

lemma gate_copies [simp]:
  "s_w64 gate_nng ''nng_msg_alloc'' [VW 3] (w, [4096 \<mapsto> a, 4097 \<mapsto> b, 4098 \<mapsto> c]) =
     ((0, w + 16), w + 16, [4096 \<mapsto> a, 4097 \<mapsto> b, 4098 \<mapsto> c, 8192 \<mapsto> 0, 8193 \<mapsto> 0, 8194 \<mapsto> 0])"
  "memcpy [4096 \<mapsto> a, 4097 \<mapsto> b, 4098 \<mapsto> c, 8192 \<mapsto> x, 8193 \<mapsto> y, 8194 \<mapsto> z] 8192 4096 3 =
     Some [4096 \<mapsto> a, 4097 \<mapsto> b, 4098 \<mapsto> c, 8192 \<mapsto> a, 8193 \<mapsto> b, 8194 \<mapsto> c]"
proof -
  have three: "unat (3 :: w64) = Suc (Suc (Suc 0))" by simp
  have "block 8192 (Suc (Suc (Suc 0))) \<inter> dom [4096 \<mapsto> a, 4097 \<mapsto> b, 4098 \<mapsto> c] = {}"
    by (auto simp: block_def less_Suc_eq)
  then show "s_w64 gate_nng ''nng_msg_alloc'' [VW 3] (w, [4096 \<mapsto> a, 4097 \<mapsto> b, 4098 \<mapsto> c]) =
     ((0, w + 16), w + 16, [4096 \<mapsto> a, 4097 \<mapsto> b, 4098 \<mapsto> c, 8192 \<mapsto> 0, 8193 \<mapsto> 0, 8194 \<mapsto> 0])"
    unfolding gate_nng_simps three by (simp add: write_bytes_def)
  show "memcpy [4096 \<mapsto> a, 4097 \<mapsto> b, 4098 \<mapsto> c, 8192 \<mapsto> x, 8193 \<mapsto> y, 8194 \<mapsto> z] 8192 4096 3 =
     Some [4096 \<mapsto> a, 4097 \<mapsto> b, 4098 \<mapsto> c, 8192 \<mapsto> a, 8193 \<mapsto> b, 8194 \<mapsto> c]"
    unfolding memcpy_def three by (simp add: read_bytes_Suc write_bytes_def)
qed

declare gate_nng_simps(7) [simp del]

lemma next_gives: "gives m R P (\<lambda>_ _. False) \<Longrightarrow> \<exists>R'. or_exit (m R) = (Next (), R') \<and> P () R'"
  by (auto simp: gives_def or_exit_def split: prod.splits result.splits)

lemma gives_on [gives_simps]:
  "gives (on_res nng (Default x)) R P E \<longleftrightarrow> P None (R\<lparr>res_objs := (res_objs R)(x \<mapsto> 0)\<rparr>)"
  "gives (on_msg nng (Default x)) R P E \<longleftrightarrow> P None (R\<lparr>msg_objs := (msg_objs R)(x \<mapsto> 0)\<rparr>)"
  "gives (on_ctx nng (Default x)) R Q E \<longleftrightarrow> Q None (R\<lparr>ctx_objs := (ctx_objs R)(x \<mapsto> 0)\<rparr>)"
  "gives (on_aio nng (Acquire x (Aio_alloc cb arg))) R P E \<longleftrightarrow>
     (case get_w64 nng ''nng_aio_alloc'' [VW cb, VW arg] (world R) of
        ((r, h), s) \<Rightarrow> if r \<noteq> 0 then E (exception r ''nng_aio_alloc'') (R\<lparr>world := s\<rparr>)
          else P None (R\<lparr>aio_objs := (aio_objs R)(x \<mapsto> h), world := s\<rparr>))"
  by (auto simp: gives_def on_res_def on_msg_def on_ctx_def on_aio_def member_simps check_out_def split: prod.splits)

lemma not_on_freelist: "job_freelist R = None \<Longrightarrow> \<not> on_freelist R j"
proof -
  assume "job_freelist R = None"
  then have "xs = []" if "chain (jobs R) (job_freelist R) xs" for xs using that by (cases xs) auto
  then show ?thesis unfolding on_freelist_def by fastforce
qed

lemmas gate_eval = gives_simps assign_res assign_msg assign_ctx_open assign_ctx_default call_simps invoke_def
  free_old_def close_old_def aio_view_get_input_def mtx_view_lock_def mtx_view_unlock_def http_req_get_data_def
  msg_body_data_def msg_body_size_def msg_body_get_def aio_view_set_msg_def ctx_view_send_def ctx_view_recv_def
  view_of_def aio_view_result_def aio_view_release_msg_def aio_view_get_msg_def http_res_copy_data_def
  aio_view_set_output_def aio_view_finish_def set_next_def set_freelist_def

text \<open>A request, the completion of its sending, the reply.\<close>

definition gate_job :: "job_state \<Rightarrow> w64 st \<Rightarrow> w64 rest" where
  "gate_job st s = \<lparr>jobs = [0 \<mapsto> \<lparr>job_http_aio = 9, job_st = st, job_next = None\<rparr>], job_freelist = None,
     res_objs = [of_job 0 \<mapsto> 32], msg_objs = [of_job 0 \<mapsto> 0], ctx_objs = [of_job 0 \<mapsto> 3],
     aio_objs = [of_job 0 \<mapsto> 16], world = s\<rparr>"

lemma gate_request: "\<exists>s. rest_handle gate_nng 1 2 3 0 9 (no_jobs (start 0)) = (Next (), gate_job SEND_REQ s)"
proof -
  have "\<exists>R. rest_handle gate_nng 1 2 3 0 9 (no_jobs (start 0)) = (Next (), R) \<and> (\<exists>s. R = gate_job SEND_REQ s)"
    unfolding rest_handle_def
    by (rule next_gives) (simp add: gate_eval rest_get_job_def make_rest_job_def no_jobs_def start_def
        rest_handle_job_def rest_send_request_def gate_job_def)
  then show ?thesis by blast
qed

lemma gate_sent: "\<exists>s'. rest_job_cb gate_nng 1 0 (gate_job SEND_REQ s) = (Next (), gate_job RECV_REP s')"
proof -
  have "\<exists>R. rest_job_cb gate_nng 1 0 (gate_job SEND_REQ s) = (Next (), R) \<and> (\<exists>s'. R = gate_job RECV_REP s')"
    unfolding rest_job_cb_def
    by (rule next_gives) (simp add: gate_eval rest_job_body_def rest_job_sent_def gate_job_def)
  then show ?thesis by blast
qed

lemma gate_replied: "\<exists>R. rest_job_cb gate_nng 1 0 (gate_job RECV_REP s) = (Next (), R)"
proof -
  have "\<exists>R. rest_job_cb gate_nng 1 0 (gate_job RECV_REP s) = (Next (), R) \<and> True"
    unfolding rest_job_cb_def
    apply (rule next_gives)
    apply (simp add: gives_simps rest_job_body_def gate_job_def)
    apply (simp add: gives_simps rest_job_replied_def call_simps invoke_def aio_view_result_def)
    apply (simp add: gives_simps call_simps invoke_def  aio_view_release_msg_def aio_view_get_msg_def aio_view_set_msg_def assign_msg free_old_def)
    apply (simp add: gives_simps call_simps invoke_def  msg_body_data_def msg_body_size_def msg_body_get_def http_res_copy_data_def view_of_def)
    apply (simp add: gives_simps call_simps invoke_def handle_of_def aio_view_set_output_def aio_view_finish_def)
    apply (simp add: rest_recycle_job_def gives_bind)
    apply (simp add: assign_res assign_msg assign_ctx_default free_old_def close_old_def call_simps invoke_def)
    apply (simp add: gives_simps set_next_def set_freelist_def)
    done
  then show ?thesis by blast
qed

lemma gate_operation: "add_mset (the (aio_objs (gate_job st s) (of_job 0))) ds = add_mset 16 ds"
  by (simp add: gate_job_def)

lemma gate_reach:
  "\<exists>s. rest_reach gate_nng 1 2 3 (start 0) {#9#} {#} (gate_job SEND_REQ s)"
  "\<exists>s. rest_reach gate_nng 1 2 3 (start 0) {#9#} {#16#} (gate_job RECV_REP s)"
  "\<exists>R. rest_reach gate_nng 1 2 3 (start 0) {#9#} {#16, 16#} R"
proof -
  have no: "\<not> on_freelist (gate_job st s) j" "jobs (gate_job st s) 0 \<noteq> None" for st s j
    by (simp_all add: not_on_freelist gate_job_def)
  have "jobs (no_jobs (start 0)) 0 = (None :: rest_job option)" by (simp add: no_jobs_def)
  with gate_request rest_request [OF rest_start]
  show 0: "\<exists>s. rest_reach gate_nng 1 2 3 (start 0) {#9#} {#} (gate_job SEND_REQ s)" by metis
  with gate_sent rest_callback [OF _ no(2,1)]
  show 1: "\<exists>s. rest_reach gate_nng 1 2 3 (start 0) {#9#} {#16#} (gate_job RECV_REP s)" by (metis gate_operation)
  with gate_replied rest_callback [OF _ no(2,1)]
  show "\<exists>R. rest_reach gate_nng 1 2 3 (start 0) {#9#} {#16, 16#} R" by (metis gate_operation)
qed

section \<open>Properties\<close>

text \<open>C5: however requests and completions come, and whatever the library does in between: the
  operation of every HTTP request is finished exactly once or is that of a job in flight; the operation of every
  job in flight was started once more than its callback has run, and that of a free job as often as it has run, so
  that a job in flight has one outstanding, never two; the free list has no job twice, none in flight, and
  none whose response, message or context is still there. (A message that could not be sent stays in the operation
  of a free job, see \<open>rest_send_failure_leaks\<close>.)\<close>

theorem rest_requests_answered_once:
  assumes "rest_reach nng lock cb k s0 hs ds R"
  shows "\<exists>xs cs. rest_inv R xs \<and> st_log (world R) = st_log s0 @ cs \<and> hs = finishes cs + in_flight R xs \<and>
    started cs = ds + operations R xs"
  using reach_accounts [OF assms] unfolding accounts_def adds_def by blast

theorem rest_requests_answered_once_witness:
  "\<exists>(R :: w64 rest) xs cs. rest_inv R xs \<and> st_log (world R) = cs \<and> {#9#} = finishes cs + in_flight R xs \<and>
    started cs = {#16, 16#} + operations R xs"
proof -
  obtain R where "rest_reach gate_nng 1 2 3 (start 0) {#9#} {#16, 16#} R" using gate_reach(3) ..
  from rest_requests_answered_once [OF this] obtain xs cs
    where "rest_inv R xs" "st_log (world R) = st_log (start (0 :: w64)) @ cs" "{#9#} = finishes cs + in_flight R xs"
      "started cs = {#16, 16#} + operations R xs" by blast
  then show ?thesis by (intro exI [of _ R] exI [of _ xs] exI [of _ cs]) (simp add: start_def)
qed

text \<open>C6: no handler of the gateway ever runs into undefined behaviour, also on its error paths: not for a new
  request that has a body, wherever a new job is put, and not for a job in flight. For a new request this
  rests on what nng says of its memory: the data of a request can be read, and the body of a new message is fresh
  memory of the size asked for. (A request without a body, for which nng returns null, makes \<open>rest_handle\<close> call
  \<open>memcpy\<close> with it.)\<close>

theorem rest_never_stuck:
  assumes "readable_data nng" "fresh_bodies nng" "rest_reach nng lock cb k s0 hs ds R"
  shows "(jobs R new = None \<and> has_body nng (fst (aio_view_get_input nng a 0 (world R))) \<longrightarrow>
      fst (rest_handle nng lock cb k new a R) \<noteq> Stuck) \<and>
    (jobs R j \<noteq> None \<and> \<not> on_freelist R j \<longrightarrow> fst (rest_job_cb nng lock j R) \<noteq> Stuck)"
proof (intro conjI impI)
  obtain xs where inv: "rest_inv R xs" using reach_accounts [OF assms(3)] by (auto simp: accounts_def)
  show "fst (rest_handle nng lock cb k new a R) \<noteq> Stuck"
    if "jobs R new = None \<and> has_body nng (fst (aio_view_get_input nng a 0 (world R)))"
    using request_outcome [OF inv conjunct1 [OF that] surjective_pairing] that assms(1,2) by (simp add: copied_def)
  show "fst (rest_job_cb nng lock j R) \<noteq> Stuck" if j: "jobs R j \<noteq> None \<and> \<not> on_freelist R j"
  proof -
    have "j \<notin> set xs" using j inv by (auto simp: on_freelist_def rest_inv_def)
    with j callback_outcome [OF inv] show ?thesis by (metis option.exhaust prod.collapse)
  qed
qed

theorem rest_never_stuck_witness:
  "\<exists>s. fst (rest_handle gate_nng 1 2 3 1 10 (gate_job SEND_REQ s)) \<noteq> Stuck \<and>
    fst (rest_job_cb gate_nng 1 0 (gate_job SEND_REQ s)) \<noteq> Stuck"
proof -
  obtain s where s: "rest_reach gate_nng 1 2 3 (start 0) {#9#} {#} (gate_job SEND_REQ s)" using gate_reach(1) ..
  have "\<not> on_freelist (gate_job SEND_REQ s) 0" "jobs (gate_job SEND_REQ s) 1 = None" "jobs (gate_job SEND_REQ s) 0 \<noteq> None"
    by (simp_all add: not_on_freelist gate_job_def)
  with rest_never_stuck [OF gate_contracts(1,2) s, of 1 10 0] gate_contracts(3) show ?thesis by blast
qed

text \<open>C27: the free list is a stack: giving a job back pushes it, getting one pops the job that was
  given back last, and makes a new one only from the empty list.\<close>

theorem rest_freelist_stack:
  assumes "rest_inv R xs"
  shows "(jobs R j \<noteq> None \<longrightarrow> j \<notin> set xs \<longrightarrow> rest_recycle_job nng lock j R = (Ok (), R1) \<longrightarrow>
      chain (jobs R1) (job_freelist R1) (j # xs)) \<and>
    (jobs R new = None \<longrightarrow> rest_get_job nng lock cb new R = (Ok i, R2) \<longrightarrow>
      i = (if xs = [] then new else hd xs) \<and> chain (jobs R2) (job_freelist R2) (tl xs))"
proof (intro conjI impI)
  assume j: "jobs R j \<noteq> None" "j \<notin> set xs" and r: "rest_recycle_job nng lock j R = (Ok (), R1)"
  then have "busy_job R j" using rest_inv_busy [OF assms] by blast
  then obtain J h c b where h: "holds R j J h 0 c b" unfolding busy_job_def by blast
  have "no_temps R" using assms by (simp add: rest_inv_def)
  from recycle_gives [OF h this, of nng lock] r have "recycled j R R1" by (simp add: gives_def)
  then show "chain (jobs R1) (job_freelist R1) (j # xs)"
    using assms j(2) by (simp add: recycled_def rest_inv_def)
next
  assume "jobs R new = None" "rest_get_job nng lock cb new R = (Ok i, R2)"
  with get_job_gives [OF assms, of new nng lock cb] obtain ys where "got_job i new R R2 xs ys"
    by (auto simp: gives_def)
  then show "i = (if xs = [] then new else hd xs)" "chain (jobs R2) (job_freelist R2) (tl xs)"
    by (cases xs; auto simp: got_job_def rest_inv_def)+
qed

theorem rest_freelist_stack_witness:
  "\<exists>i R2. rest_get_job gate_nng 1 2 7 (no_jobs (start 0)) = (Ok i, R2) \<and> i = 7"
proof -
  have inv: "rest_inv (no_jobs (start 0 :: w64 st)) []"
    by (simp add: rest_inv_def no_jobs_def no_temps_def)
  have new: "jobs (no_jobs (start 0 :: w64 st)) 7 = None" by (simp add: no_jobs_def)
  have "gives (rest_get_job gate_nng 1 2 7) (no_jobs (start 0)) (\<lambda>_ _. True) (\<lambda>_ _. False)"
    by (simp add: gate_eval rest_get_job_def make_rest_job_def no_jobs_def start_def)
  then obtain i R2 where g: "rest_get_job gate_nng 1 2 7 (no_jobs (start 0)) = (Ok i, R2)"
    by (auto simp: gives_def split: prod.splits result.splits)
  with rest_freelist_stack [OF inv, of 7 gate_nng 1 _ 7 2 i R2] new show ?thesis by simp
qed

text \<open>C7: a job gets two callbacks. The first starts to receive with the operation of the job and finishes nothing, when
  the result of the operation says that the request was sent. The second, or the first when it says that sending
  failed, finishes the HTTP request of the job, that one only, starts nothing, and puts the job at the front
  of the free list.\<close>

theorem rest_job_two_callbacks:
  assumes "rest_reach nng lock cb k s0 hs ds R" "jobs R j = Some J" "\<not> on_freelist R j"
    and "rest_job_cb nng lock j R = (Next (), R')"
  shows "\<exists>cs. st_log (world R') = st_log (world R) @ cs \<and>
    (if job_st J = SEND_REQ \<and> fst (aio_view_result nng (the (aio_objs R (of_job j))) (world R)) = error_val nng success
     then jobs R' j = Some (J\<lparr>job_st := RECV_REP\<rparr>) \<and> job_freelist R' = job_freelist R \<and>
       finishes cs = {#} \<and> started cs = {#the (aio_objs R (of_job j))#}
     else job_freelist R' = Some j \<and> finishes cs = {#job_http_aio J#} \<and> started cs = {#})"
proof -
  obtain xs where inv: "rest_inv R xs" using reach_accounts [OF assms(1)] by (auto simp: accounts_def)
  with assms(3) have "j \<notin> set xs" by (auto simp: on_freelist_def rest_inv_def)
  from callback_outcome [OF inv assms(2) this assms(4)] assms(2) show ?thesis
    by (auto simp: continued_def answered_def adds_def succeeded_def split: if_splits)
qed

theorem rest_job_two_callbacks_witness:
  "\<exists>s R' cs. rest_job_cb gate_nng 1 0 (gate_job RECV_REP s) = (Next (), R') \<and> st_log (world R') = st_log s @ cs \<and>
     finishes cs = {#9#}"
proof -
  obtain s where s: "rest_reach gate_nng 1 2 3 (start 0) {#9#} {#16#} (gate_job RECV_REP s)" using gate_reach(2) ..
  obtain R' where R': "rest_job_cb gate_nng 1 0 (gate_job RECV_REP s) = (Next (), R')" using gate_replied ..
  have "jobs (gate_job RECV_REP s) 0 = Some \<lparr>job_http_aio = 9, job_st = RECV_REP, job_next = None\<rparr>"
    "\<not> on_freelist (gate_job RECV_REP s) 0" by (simp_all add: not_on_freelist gate_job_def)
  from rest_job_two_callbacks [OF s this R'] R' show ?thesis
    by (auto simp: gate_job_def)
qed

text \<open>What was called, with which arguments.\<close>

definition made :: "'w st \<Rightarrow> 'w st \<Rightarrow> (string \<times> val list) list \<Rightarrow> bool" where
  "made s s' ls \<longleftrightarrow> (\<exists>cs. st_log s' = st_log s @ cs \<and> map (\<lambda>c. (c_fn c, c_args c)) cs = ls)"

lemma made_trans: "made s s1 ls \<Longrightarrow> made s1 s2 ls' \<Longrightarrow> made s s2 (ls @ ls')"
  unfolding made_def by (elim exE conjE, rule_tac x = "cs @ csa" in exI) simp

lemma made_unit: "made s (call_unit nng fn args s) [(fn, args)]"
  by (simp add: made_def)

lemma made_int: "call_int nng fn args s = (r, s') \<Longrightarrow> made s s' [(fn, args)]"
  unfolding call_int_def by (drule invoke_log) (simp add: made_def)

lemma made_free_old: "made s (free_old (\<lambda>h. call_unit nng fn [VW h]) h s) (if h \<noteq> 0 then [(fn, [VW h])] else [])"
  using made_unit by (auto simp: free_old_def made_def)

lemma made_close_old: "close_old nng c s = (r, s') \<Longrightarrow> made s s' (if c \<noteq> 0 then [(''nng_ctx_close'', [VId c])] else [])"
  using made_int by (cases "c = 0") (auto simp: close_old_def made_def)

definition recycling :: "ptr \<Rightarrow> i32 \<Rightarrow> (string \<times> val list) list" where
  "recycling lock c = (if c \<noteq> 0 then [(''nng_ctx_close'', [VId c])] else []) @
     [(''nng_mtx_lock'', [VW lock]), (''nng_mtx_unlock'', [VW lock])]"

lemma recycle_made:
  assumes "holds R j J 0 0 c a" "no_temps R"
  shows "gives (rest_recycle_job nng lock j) R
    (\<lambda>_ R'. made (world R) (world R') (recycling lock c) \<and> job_freelist R' = Some j \<and>
       res_objs R' local_res = res_objs R local_res) (\<lambda>_ R'. res_objs R' local_res = res_objs R local_res)"
proof -
  obtain r s3 where cl: "close_old nng c (world R) = (r, s3)" by fastforce
  have "made s3 (mtx_view_unlock nng lock (mtx_view_lock nng lock s3))
      [(''nng_mtx_lock'', [VW lock]), (''nng_mtx_unlock'', [VW lock])]"
    by (simp add: mtx_view_lock_def mtx_view_unlock_def made_def)
  then have "made (world R) (mtx_view_unlock nng lock (mtx_view_lock nng lock s3)) (recycling lock c)"
    unfolding recycling_def by (rule made_trans [OF made_close_old [OF cl]])
  then show ?thesis
    using assms cl
    by (auto simp: rest_recycle_job_def gives_simps assign_res assign_msg assign_ctx_default set_next_def
        set_freelist_def holds_def no_temps_def free_old_def)
qed

lemma fatal_made:
  assumes "holds R j J h 0 c a" "no_temps R" "res_objs R local_res = None"
  shows "gives (rest_http_fatal nng lock j src err) R
    (\<lambda>_ R'. made (world R) (world R')
       ([(''nng_http_res_set_status'', [VW h, VI (ucast (ucast (http_status_val nng http_internal_server_error) :: 16 word))]),
         (''nng_http_res_set_reason'', [VW h, VS (fatal_text nng src err)]),
         (''nng_aio_set_output'', [VW (job_http_aio J), VI 0, VW h]),
         (''nng_aio_finish'', [VW (job_http_aio J), VI 0])] @ recycling lock c) \<and>
       job_freelist R' = Some j) (\<lambda>_ _. True)"
proof -
  let ?aio = "job_http_aio J" and ?fin = "\<lambda>s. aio_view_finish nng (job_http_aio J) 0 s"
  let ?code = "VI (ucast (ucast (http_status_val nng http_internal_server_error) :: 16 word))"
  obtain r1 s1 where c1: "call_int nng ''nng_http_res_set_status'' [VW h, ?code] (world R) = (r1, s1)"
    by fastforce
  obtain r2 s2 where c2: "call_int nng ''nng_http_res_set_reason'' [VW h, VS (fatal_text nng src err)] s1 = (r2, s2)"
    by fastforce
  obtain r3 s3 where c3: "call_int nng ''nng_aio_set_output'' [VW ?aio, VI 0, VW h] s2 = (r3, s3)"
    by fastforce
  have "made s3 (?fin s3) [(''nng_aio_finish'', [VW ?aio, VI 0])]"
    unfolding aio_view_finish_def by (rule made_unit)
  from made_trans [OF made_int [OF c1] made_trans [OF made_int [OF c2] made_trans [OF made_int [OF c3] this]]]
  have fin: "made (world R) (?fin s3) [(''nng_http_res_set_status'', [VW h, ?code]),
      (''nng_http_res_set_reason'', [VW h, VS (fatal_text nng src err)]),
      (''nng_aio_set_output'', [VW ?aio, VI 0, VW h]), (''nng_aio_finish'', [VW ?aio, VI 0])]" by simp
  let ?R = "R\<lparr>jobs := (jobs R)(j \<mapsto> J\<lparr>job_http_aio := null\<rparr>),
      res_objs := (res_objs R)(of_job j \<mapsto> 0, local_res \<mapsto> 0), world := ?fin s3\<rparr>"
  let ?P = "\<lambda>R'. made (world R) (world R') ([(''nng_http_res_set_status'', [VW h, ?code]),
      (''nng_http_res_set_reason'', [VW h, VS (fatal_text nng src err)]),
      (''nng_aio_set_output'', [VW ?aio, VI 0, VW h]), (''nng_aio_finish'', [VW ?aio, VI 0])] @ recycling lock c) \<and>
      job_freelist R' = Some j"
  have "holds ?R j (J\<lparr>job_http_aio := null\<rparr>) 0 0 c a" "no_temps ?R"
    using assms by (auto simp: holds_def no_temps_def)
  from recycle_made [OF this, of nng lock]
  have rec: "gives (rest_recycle_job nng lock j) ?R
      (\<lambda>_ R'. gives (on_res nng (Dtor local_res)) R' (\<lambda>_. ?P) (\<lambda>_ _. False))
      (\<lambda>_ R'. gives (on_res nng (Dtor local_res)) R' (\<lambda>_ _. True) (\<lambda>_ _. False))"
    by (rule gives_mono) (use made_trans [OF fin] in \<open>auto simp: gives_simps free_old_def\<close>)
  show ?thesis
    using assms c1 c2 c3 rec
    by (auto simp: rest_http_fatal_def gives_simps holds_def handle_of_def
        http_res_set_status_def http_res_set_reason_def aio_view_set_output_def check_def)
qed

text \<open>C18: destroying the free list when the process exits terminates in every state the gateway can be
  in: the recursion through \<open>next\<close> ends after as many steps as there are free jobs, deletes each of
  them once and leaves the jobs in flight alone.\<close>

theorem rest_exit_terminates:
  assumes "rest_reach nng lock cb k s0 hs ds R"
  shows "\<exists>xs R'. chain (jobs R) (job_freelist R) xs \<and> distinct xs \<and>
    delete_ptr nng (job_freelist R) R = (Ok (), R') \<and> dom (jobs R') = dom (jobs R) - set xs"
proof -
  obtain xs where inv: "rest_inv R xs" using reach_accounts [OF assms] by (auto simp: accounts_def)
  then obtain R' where R': "delete_ptr nng (job_freelist R) R = (Ok (), R')"
    "\<forall>j\<in>set xs. jobs R' j = None" "\<forall>i. i \<notin> set xs \<longrightarrow> same_job i R R'"
    using delete_chain [of R "job_freelist R" xs nng] by (auto simp: rest_inv_def)
  then have "dom (jobs R') = dom (jobs R) - set xs" by (auto simp: same_job_def) (metis option.distinct(1))
  with inv R'(1) show ?thesis by (auto simp: rest_inv_def)
qed

theorem rest_exit_terminates_witness:
  "\<exists>R R' :: w64 rest. rest_reach gate_nng 1 2 3 (start 0) {#9#} {#16, 16#} R \<and>
     delete_ptr gate_nng (job_freelist R) R = (Ok (), R')"
proof -
  obtain R where "rest_reach gate_nng 1 2 3 (start 0) {#9#} {#16, 16#} R" using gate_reach(3) ..
  with rest_exit_terminates [OF this] show ?thesis by blast
qed

text \<open>C28: when sending fails the HTTP client gets status 500 with the reason built from the error,
  and the job is given back; but the message, which nng leaves with the operation when a send
  fails, is neither taken out of the operation nor freed: these are all the calls made.\<close>

theorem rest_send_failure_leaks:
  assumes "holds R j J h 0 c b" "no_temps R" "res_objs R local_res = None" "job_st J = SEND_REQ"
    and "call_int nng ''nng_aio_result'' [VW b] (world R) = (r, s1)" "r \<noteq> 0"
    and "rest_job_cb nng lock j R = (Next (), R')"
  shows "made (world R) (world R')
      ([(''nng_aio_result'', [VW b]),
        (''nng_http_res_set_status'', [VW h, VI (ucast (ucast (http_status_val nng http_internal_server_error) :: 16 word))]),
        (''nng_http_res_set_reason'', [VW h, VS (take 127 (''send REQ failed'' @ '': '' @ strerror nng r))]),
        (''nng_aio_set_output'', [VW (job_http_aio J), VI 0, VW h]),
        (''nng_aio_finish'', [VW (job_http_aio J), VI 0])] @ recycling lock c) \<and>
    job_freelist R' = Some j"
proof -
  let ?R = "R\<lparr>world := s1\<rparr>"
  have h: "holds ?R j J h 0 c b" "no_temps ?R" "res_objs ?R local_res = None"
    using assms(1-3) by (simp_all add: holds_def no_temps_def)
  have "rest_job_body nng lock j R = rest_http_fatal nng lock j ''send REQ failed'' r ?R"
    using assms(1,4-6)
    by (simp add: rest_job_body_def bind_def the_job_def handle_def holds_def rest_job_sent_def get_world_def
        on_world_def aio_view_result_def)
  moreover have "unwind (rest_job_body nng lock j) (delete_ptr nng (Some j)) R = (Ok (), R')"
    using assms(7) by (auto simp: rest_job_cb_def or_exit_def split: prod.splits result.splits)
  ultimately have "rest_http_fatal nng lock j ''send REQ failed'' r ?R = (Ok (), R')"
    by (auto simp: unwind_def split: prod.splits result.splits)
  with fatal_made [OF h, of nng lock "''send REQ failed''" r]
  show ?thesis using made_trans [OF made_int [OF assms(5)]] by (auto simp: gives_def fatal_text_def)
qed

text \<open>A library in which the result of every operation is 7.\<close>

definition failing_nng :: "w64 nng" where
  "failing_nng = idle_nng\<lparr>f_int := (\<lambda>fn _ w. (if fn = ''nng_aio_result'' then 7 else 0, w)),
     strerror := (\<lambda>_. ''Closed'')\<rparr>"

theorem rest_send_failure_leaks_witness:
  "\<exists>R'. rest_job_cb failing_nng 1 0 (gate_job SEND_REQ (start 0)) = (Next (), R') \<and>
    made (start 0) (world R') ([(''nng_aio_result'', [VW 16]), (''nng_http_res_set_status'', [VW 32, VI 0]),
      (''nng_http_res_set_reason'', [VW 32, VS ''send REQ failed: Closed'']),
      (''nng_aio_set_output'', [VW 9, VI 0, VW 32]), (''nng_aio_finish'', [VW 9, VI 0]),
      (''nng_ctx_close'', [VId 3]), (''nng_mtx_lock'', [VW 1]), (''nng_mtx_unlock'', [VW 1])])"
proof -
  let ?R = "gate_job SEND_REQ (start 0)"
  have h: "holds ?R 0 \<lparr>job_http_aio = 9, job_st = SEND_REQ, job_next = None\<rparr> 32 0 3 16" "no_temps ?R"
    "res_objs ?R local_res = None" by (simp_all add: gate_job_def holds_def no_temps_def)
  have r: "call_int failing_nng ''nng_aio_result'' [VW 16] (world ?R) = (7, snd (call_int failing_nng ''nng_aio_result'' [VW 16] (world ?R)))"
    by (simp add: call_int_def invoke_def failing_nng_def split: prod.splits)
  obtain R' where R': "rest_job_cb failing_nng 1 0 ?R = (Next (), R')"
  proof -
    have "\<exists>R'. rest_job_cb failing_nng 1 0 ?R = (Next (), R') \<and> True"
      unfolding rest_job_cb_def
      apply (rule next_gives)
      apply (simp add: gives_simps rest_job_body_def rest_job_sent_def gate_job_def start_def)
      apply (simp add: gives_simps call_simps invoke_def aio_view_result_def failing_nng_def rest_http_fatal_def)
      apply (simp add: gives_simps call_simps invoke_def handle_of_def http_res_set_status_def http_res_set_reason_def
          aio_view_set_output_def aio_view_finish_def)
      apply (simp add: rest_recycle_job_def gives_bind)
      apply (simp add: assign_res assign_msg assign_ctx_default free_old_def close_old_def call_simps invoke_def)
      apply (simp add: gives_simps set_next_def set_freelist_def)
      done
    then show ?thesis using that by blast
  qed
  from rest_send_failure_leaks [OF h _ r _ R'] R' show ?thesis
    by (simp add: recycling_def failing_nng_def gate_job_def)
qed

end
