(* ===== verification/Demos.thy ===== *)
theory Demos
  imports Protocols
begin

text \<open>
  The request and reply of \<open>demo/reqrep/reqrep.cpp\<close>, the ROT13 server of
  \<open>demo/rest/server.cpp\<close>, and the argument parser and the ping-pong of \<open>perf/misc.h\<close> and
  \<open>perf/latency.h\<close>. Formatting and printing are left out.
\<close>

section \<open>reqrep: a time in eight bytes\<close>

definition DATECMD :: w64 where "DATECMD = 1"

text \<open>The macros write to and read from eight consecutive bytes.\<close>

definition PUT64 :: "w64 \<Rightarrow> byte list" where
  "PUT64 u =
     [ucast (drop_bit 56 u), ucast (drop_bit 48 u), ucast (drop_bit 40 u), ucast (drop_bit 32 u),
      ucast (drop_bit 24 u), ucast (drop_bit 16 u), ucast (drop_bit 8 u), ucast u]"

definition GET64 :: "byte list \<Rightarrow> w64" where
  "GET64 p =
     push_bit 56 (ucast (p ! 0)) + push_bit 48 (ucast (p ! 1)) + push_bit 40 (ucast (p ! 2)) +
     push_bit 32 (ucast (p ! 3)) + push_bit 24 (ucast (p ! 4)) + push_bit 16 (ucast (p ! 5)) +
     push_bit 8 (ucast (p ! 6)) + ucast (p ! 7)"

text \<open>
  One turn of the server's loop, with the buffer \<open>buf\<close> at address 0; \<open>now\<close> is what
  \<open>time(nullptr)\<close> returns. The buffer is destroyed at the end of the turn, also by an exception.
\<close>

definition end_of_scope :: "'w nng \<Rightarrow> nat \<Rightarrow> 'a result \<times> 'w bufs \<Rightarrow> 'a result \<times> 'w bufs" where
  "end_of_scope nng b = (\<lambda>(x, c).
     (case buffer_dtor nng b c of (Ok _, c') \<Rightarrow> (x, c') | (_, c') \<Rightarrow> (Ub, c')))"

definition reqrep_turn :: "'w nng \<Rightarrow> i32 \<Rightarrow> w64 \<Rightarrow> 'w bufs \<Rightarrow> unit result \<times> 'w bufs" where
  "reqrep_turn nng sock now = (\<lambda>(S, s).
     (case socket_view_recv_buffer nng sock 0 s of
        (Throw e, s1) \<Rightarrow> (Throw e, S, s1)
      | (Ub, s1) \<Rightarrow> (Ub, S, s1)
      | (Ok v, s1) \<Rightarrow>
          end_of_scope nng 0
            (if v_size v = 8 then
               (case read_bytes (st_mem s1) (v_data v) 8 of
                  None \<Rightarrow> (Ub, S(0 \<mapsto> v), s1)
                | Some bs \<Rightarrow>
                    if GET64 bs = DATECMD then
                      socket_view_send_buffer nng sock 0 0
                        (S(0 \<mapsto> v), s1\<lparr>st_mem := write_bytes (st_mem s1) (v_data v) (PUT64 now)\<rparr>)
                    else (Ok (), S(0 \<mapsto> v), s1))
             else (Ok (), S(0 \<mapsto> v), s1))))"

text \<open>What the client does with the reply: the time, or \<open>None\<close> for a wrong size.\<close>

definition reqrep_reply :: "mem \<Rightarrow> view \<Rightarrow> w64 option result" where
  "reqrep_reply m v =
     (if v_size v = 8 then
        (case read_bytes m (v_data v) 8 of None \<Rightarrow> Ub | Some bs \<Rightarrow> Ok (Some (GET64 bs)))
      else Ok None)"

lemma PUT64_be: "PUT64 u = be_bytes 8 u"
  by (simp add: PUT64_def eval_nat_numeral)

lemma take_bit_step:
  "take_bit (8 * n) w + push_bit (8 * n) (take_bit 8 (drop_bit (8 * n) w)) =
     take_bit (8 * Suc n) (w :: w64)"
proof -
  have "take_bit (8 * n) w + push_bit (8 * n) (take_bit 8 (drop_bit (8 * n) w)) =
      take_bit (8 * n) w OR push_bit (8 * n) (take_bit 8 (drop_bit (8 * n) w))"
    by (rule disjunctive_add) (auto simp: bit_simps)
  also have "\<dots> = take_bit (8 * Suc n) w"
    by (rule bit_word_eqI) (auto simp: bit_simps)
  finally show ?thesis .
qed

lemma byte_of_word: "ucast (ucast (w :: w64) :: byte) = take_bit 8 w"
  by (rule bit_word_eqI) (auto simp: bit_simps)

lemma GET64_PUT64: "GET64 (PUT64 u) = u"
proof -
  let ?t = "\<lambda>n. push_bit (8 * n) (take_bit 8 (drop_bit (8 * n) u))"
  have "GET64 (PUT64 u) = ?t 7 + ?t 6 + ?t 5 + ?t 4 + ?t 3 + ?t 2 + ?t 1 + ?t 0"
    by (simp add: GET64_def PUT64_def byte_of_word)
  also have "\<dots> = ((((((((take_bit (8 * 0) u + ?t 0) + ?t 1) + ?t 2) + ?t 3) + ?t 4) + ?t 5) + ?t 6) + ?t 7)"
    by (simp add: add.commute add.left_commute)
  also have "\<dots> = take_bit 64 u"
    using take_bit_step [of 0 u] take_bit_step [of 1 u] take_bit_step [of 2 u] take_bit_step [of 3 u]
      take_bit_step [of 4 u] take_bit_step [of 5 u] take_bit_step [of 6 u] take_bit_step [of 7 u] by simp
  finally show ?thesis by (simp add: take_bit_word_eq_self)
qed

section \<open>rest: ROT13\<close>

text \<open>
  A \<open>char\<close> above 127 is negative, and \<open>isupper\<close> of a negative number that is not \<open>EOF\<close> is
  undefined; the rest is ASCII. The loop runs to \<open>(int)msg.body().size()\<close>.
\<close>

definition rot13_byte :: "byte \<Rightarrow> byte option" where
  "rot13_byte b =
     (if 128 \<le> b then None
      else if 65 \<le> b \<and> b \<le> 90 then Some (word_of_int ((uint b - 65 + 13) mod 26 + 65))
      else if 97 \<le> b \<and> b \<le> 122 then Some (word_of_int ((uint b - 97 + 13) mod 26 + 97))
      else Some b)"

definition rot13_bytes :: "byte list \<Rightarrow> byte list option" where
  "rot13_bytes body =
     (let size = sint (of_nat (length body) :: i32)
      in map_option (\<lambda>xs. xs @ drop (nat size) body) (those (map rot13_byte (take (nat size) body))))"

text \<open>One turn of the server: the message it received, at address 0, is changed in place and sent back.\<close>

definition rot13_turn :: "'w nng \<Rightarrow> i32 \<Rightarrow> (ptr, 'w) cfg \<Rightarrow> unit result \<times> (ptr, 'w) cfg" where
  "rot13_turn nng sock = (\<lambda>(S, s).
     (case socket_view_recv_msg nng sock 0 s of
        (Throw e, s1) \<Rightarrow> (Throw e, S, s1)
      | (Ub, s1) \<Rightarrow> (Ub, S, s1)
      | (Ok m, s1) \<Rightarrow>
          (case msg_body_data nng m s1 of (d, s2) \<Rightarrow>
           case msg_body_size nng m s2 of (n, s3) \<Rightarrow>
             (case Option.bind (read_bytes (st_mem s3) d (unat n)) rot13_bytes of
                None \<Rightarrow> (Ub, S(0 \<mapsto> m), s3)
              | Some ys \<Rightarrow>
                  (case socket_view_send_msg nng sock 0 0
                     (S(0 \<mapsto> m), s3\<lparr>st_mem := write_bytes (st_mem s3) d ys\<rparr>) of
                     (x, c) \<Rightarrow> (case msg_exec nng (Dtor 0) c of (_, c') \<Rightarrow> (x, c')))))))"

lemma rot13_byte_letters:
  assumes "0 \<le> x" "x < 26"
  shows "((x + 13) mod 26 + 13) mod 26 = (x::int)"
  using assms by presburger

lemma byte_of_int: "0 \<le> y \<Longrightarrow> y < 256 \<Longrightarrow> uint (word_of_int y :: byte) = y"
  by (simp add: uint_word_of_int)

lemma rot13_byte_involution: "rot13_byte b = Some c \<Longrightarrow> rot13_byte c = Some b"
proof -
  assume a: "rot13_byte b = Some c"
  have shift: "uint (word_of_int ((x + 13) mod 26 + k) :: byte) = (x + 13) mod 26 + k"
    if "0 \<le> k" "k \<le> 97" for x k :: int
  proof -
    have "0 \<le> (x + 13) mod 26 + k" "(x + 13) mod 26 + k < 256"
      using that pos_mod_sign [of 26 "x + 13"] pos_mod_bound [of 26 "x + 13"] by linarith+
    then show ?thesis by (simp only: byte_of_int)
  qed
  consider "65 \<le> b" "b \<le> 90" | "97 \<le> b" "b \<le> 122" |
    "\<not> (65 \<le> b \<and> b \<le> 90)" "\<not> (97 \<le> b \<and> b \<le> 122)" by blast
  then show ?thesis
  proof cases
    case 1
    then have u: "65 \<le> uint b" "uint b \<le> 90" by (simp_all add: word_le_def)
    then have c: "c = word_of_int ((uint b - 65 + 13) mod 26 + 65)"
      using a 1 by (auto simp: rot13_byte_def split: if_splits)
    then have uc: "uint c = (uint b - 65 + 13) mod 26 + 65" using shift [of 65 "uint b - 65"] by simp
    then have "65 \<le> c \<and> c \<le> 90" "\<not> 128 \<le> c"
      using pos_mod_sign [of 26 "uint b - 65 + 13"] pos_mod_bound [of 26 "uint b - 65 + 13"]
      by (auto simp: word_le_def)
    moreover have "(uint c - 65 + 13) mod 26 + 65 = uint b"
      using uc rot13_byte_letters [of "uint b - 65"] u by simp
    ultimately show ?thesis by (simp add: rot13_byte_def)
  next
    case 2
    then have u: "97 \<le> uint b" "uint b \<le> 122" by (simp_all add: word_le_def)
    then have c: "c = word_of_int ((uint b - 97 + 13) mod 26 + 97)"
      using a 2 by (auto simp: rot13_byte_def word_le_def split: if_splits)
    then have uc: "uint c = (uint b - 97 + 13) mod 26 + 97" using shift [of 97 "uint b - 97"] by simp
    then have "97 \<le> c \<and> c \<le> 122" "\<not> 128 \<le> c" "\<not> c \<le> 90"
      using pos_mod_sign [of 26 "uint b - 97 + 13"] pos_mod_bound [of 26 "uint b - 97 + 13"]
      by (auto simp: word_le_def)
    moreover have "(uint c - 97 + 13) mod 26 + 97 = uint b"
      using uc rot13_byte_letters [of "uint b - 97"] u by simp
    ultimately show ?thesis by (simp add: rot13_byte_def)
  next
    case 3
    with a show ?thesis by (auto simp: rot13_byte_def split: if_splits)
  qed
qed

lemma rot13_map_involution:
  "those (map rot13_byte xs) = Some ys \<Longrightarrow> those (map rot13_byte ys) = Some xs"
  by (induction xs arbitrary: ys) (auto split: option.splits dest: rot13_byte_involution)

lemma rot13_bytes_whole:
  "length xs < 2 ^ 31 \<Longrightarrow> rot13_bytes xs = those (map rot13_byte xs)"
proof -
  assume "length xs < 2 ^ 31"
  then have "sint (of_nat (length xs) :: i32) = int (length xs)"
    by (simp add: signed_of_nat signed_take_bit_int_eq_self)
  then show ?thesis by (simp add: rot13_bytes_def option.map_ident)
qed

lemma those_map_length: "those (map f xs) = Some ys \<Longrightarrow> length ys = length xs"
  unfolding those_map_Some_iff by (metis length_map)

section \<open>perf: numbers on the command line\<close>

text \<open>
  \<open>strtol(arg,&eptr,10)\<close> of the C library, with a 64-bit \<open>long\<close>: the value and what is left
  from \<open>eptr\<close> on. Without a digit nothing is converted and all of the argument is left; a value
  out of range is the nearest one in range.
\<close>

definition digit :: "char \<Rightarrow> int option" where
  "digit c = (let n = (of_char c :: nat) in if 48 \<le> n \<and> n \<le> 57 then Some (int n - 48) else None)"

definition is_space :: "char \<Rightarrow> bool" where
  "is_space c = (of_char c \<in> set [9, 10, 11, 12, 13, 32 :: nat])"

fun digits :: "int \<Rightarrow> string \<Rightarrow> int \<times> string" where
  "digits acc [] = (acc, [])"
| "digits acc (c # cs) = (case digit c of None \<Rightarrow> (acc, c # cs) | Some d \<Rightarrow> digits (acc * 10 + d) cs)"

definition strtol :: "string \<Rightarrow> int \<times> string" where
  "strtol arg =
     (case (case dropWhile is_space arg of
              c # cs \<Rightarrow> if c = CHR ''-'' then (True, cs) else if c = CHR ''+'' then (False, cs) else (False, c # cs)
            | [] \<Rightarrow> (False, [])) of
        (neg, cs) \<Rightarrow>
          (case cs of
             [] \<Rightarrow> (0, arg)
           | c # _ \<Rightarrow>
               if digit c = None then (0, arg)
               else (case digits 0 cs of (v, rest) \<Rightarrow>
                       (if neg then max (- (2 ^ 63)) (- v) else min (2 ^ 63 - 1) v, rest))))"

text \<open>\<open>None\<close> for the \<open>runtime_error\<close>. The pointers \<open>eptr\<close> and \<open>arg\<close> are equal when all is left.\<close>

definition parse_int :: "string \<Rightarrow> i32 option" where
  "parse_int arg =
     (case strtol arg of (val, eptr) \<Rightarrow>
        if val < 0 \<or> val > 2 ^ 30 \<or> eptr \<noteq> [] \<or> length eptr = length arg then None
        else Some (word_of_int val))"

text \<open>How a number is written.\<close>

fun decimal :: "nat \<Rightarrow> string" where
  "decimal n = (if n < 10 then [char_of (48 + n)] else decimal (n div 10) @ [char_of (48 + n mod 10)])"

declare decimal.simps [simp del]

lemma digit_char_of: "d < 10 \<Longrightarrow> digit (char_of (48 + d :: nat)) = Some (int d)"
  by (simp add: digit_def)

lemma digits_append: "digits acc xs = (v, []) \<Longrightarrow> digits acc (xs @ ys) = digits v ys"
  by (induction acc xs rule: digits.induct) (auto split: option.splits)

lemma digits_decimal: "digits 0 (decimal n) = (int n, [])"
proof (induction n rule: decimal.induct)
  case (1 n)
  show ?case
  proof (cases "n < 10")
    case True
    then show ?thesis by (simp add: decimal.simps [of n] digit_char_of)
  next
    case False
    with 1 have "digits 0 (decimal (n div 10)) = (int (n div 10), [])" by blast
    from digits_append [OF this, of "[char_of (48 + n mod 10)]"] False
    show ?thesis by (simp add: decimal.simps [of n] digit_char_of) presburger
  qed
qed

lemma decimal_head: "\<exists>d cs. decimal n = char_of (48 + d) # cs \<and> d < (10::nat)"
proof (induction n rule: decimal.induct)
  case (1 n)
  show ?case
  proof (cases "n < 10")
    case True
    then show ?thesis by (simp add: decimal.simps [of n]) (rule exI [of _ n], simp)
  next
    case False
    with 1 obtain d :: nat and cs where "decimal (n div 10) = char_of (48 + d) # cs" "d < 10" by blast
    with False show ?thesis by (simp add: decimal.simps [of n]) (rule exI [of _ d], simp)
  qed
qed

lemma digit_no_space:
  assumes "d < (10::nat)"
  shows "\<not> is_space (char_of (48 + d))" "char_of (48 + d) \<noteq> CHR ''-''" "char_of (48 + d) \<noteq> CHR ''+''"
proof -
  have o: "of_char (char_of (48 + d) :: char) = 48 + d" using assms by simp
  show "\<not> is_space (char_of (48 + d))" using assms by (simp add: is_space_def)
  have "(of_char (CHR ''-'') :: nat) \<noteq> 48 + d" "(of_char (CHR ''+'') :: nat) \<noteq> 48 + d" by simp_all
  with o show "char_of (48 + d) \<noteq> CHR ''-''" "char_of (48 + d) \<noteq> CHR ''+''" by metis+
qed

lemma strtol_decimal: "n < 2 ^ 63 \<Longrightarrow> strtol (decimal n) = (int n, [])"
proof -
  assume n: "n < 2 ^ 63"
  obtain d :: nat and cs where d: "decimal n = char_of (48 + d) # cs" "d < 10" using decimal_head by blast
  then have "dropWhile is_space (decimal n) = decimal n"
    using digit_no_space(1) [OF d(2)] by simp
  with d n digit_no_space(2,3) [OF d(2)] digits_decimal [of n] digit_char_of [OF d(2)]
  show ?thesis by (simp add: strtol_def)
qed

section \<open>perf: ping-pong\<close>

text \<open>
  The loops of \<open>latency_client\<close> and \<open>latency_server\<close>, with the message at address 0 and the
  temporary that \<open>recv_msg\<close> returns at address 1. \<open>None\<close> is \<open>die\<close>, which exits.
\<close>

fun latency_client_loop :: "'w nng \<Rightarrow> i32 \<Rightarrow> nat \<Rightarrow> (ptr, 'w) cfg \<Rightarrow> unit result \<times> (ptr, 'w) cfg" where
  "latency_client_loop nng k 0 c = (Ok (), c)"
| "latency_client_loop nng k (Suc i) c =
     (case socket_view_send_msg nng k 0 0 c of
        (Ok _, c1) \<Rightarrow>
          (case m_acquire 1 (socket_view_recv_msg nng k 0) c1 of
             (Ok _, c2) \<Rightarrow>
               (case msg_exec nng (Move_assign 0 1) c2 of (_, c3) \<Rightarrow>
                case msg_exec nng (Dtor 1) c3 of (_, c4) \<Rightarrow> latency_client_loop nng k i c4)
           | (Throw e, c2) \<Rightarrow> (Throw e, c2)
           | (Ub, c2) \<Rightarrow> (Ub, c2))
      | (Throw e, c1) \<Rightarrow> (Throw e, c1)
      | (Ub, c1) \<Rightarrow> (Ub, c1))"

fun latency_server_loop ::
  "'w nng \<Rightarrow> i32 \<Rightarrow> w64 \<Rightarrow> nat \<Rightarrow> (ptr, 'w) cfg \<Rightarrow> unit result option \<times> (ptr, 'w) cfg" where
  "latency_server_loop nng k sz 0 c = (Some (Ok ()), c)"
| "latency_server_loop nng k sz (Suc i) c =
     (case m_acquire 0 (socket_view_recv_msg nng k 0) c of
        (Ok _, S1, s1) \<Rightarrow>
          (case S1 0 of
             None \<Rightarrow> (Some Ub, S1, s1)
           | Some m \<Rightarrow>
               (case msg_body_size nng m s1 of (n, s2) \<Rightarrow>
                  if n \<noteq> sz then (None, S1, s2)
                  else
                    (case socket_view_send_msg nng k 0 0 (S1, s2) of (x, c3) \<Rightarrow>
                     case msg_exec nng (Dtor 0) c3 of (_, c4) \<Rightarrow>
                       (case x of
                          Ok _ \<Rightarrow> latency_server_loop nng k sz i c4
                        | Throw e \<Rightarrow> (Some (Throw e), c4)
                        | Ub \<Rightarrow> (Some Ub, c4)))))
      | (Throw e, c1) \<Rightarrow> (Some (Throw e), c1)
      | (Ub, c1) \<Rightarrow> (Some Ub, c1))"

text \<open>A ping-pong of \<open>n\<close> rounds that starts with message \<open>h\<close> and ends with message \<open>h'\<close>.\<close>

definition sent :: "i32 \<Rightarrow> ptr \<Rightarrow> call" where
  "sent k h = \<lparr>c_fn = ''nng_sendmsg'', c_args = [VId k, VW h, VI 0], c_ret = [VI 0]\<rparr>"

definition received :: "i32 \<Rightarrow> ptr \<Rightarrow> call" where
  "received k h = \<lparr>c_fn = ''nng_recvmsg'', c_args = [VId k, VI 0], c_ret = [VI 0, VW h]\<rparr>"

definition measured :: "ptr \<Rightarrow> w64 \<Rightarrow> call" where
  "measured h n = \<lparr>c_fn = ''nng_msg_len'', c_args = [VW h], c_ret = [VW n]\<rparr>"

primrec ping_pong :: "i32 \<Rightarrow> nat \<Rightarrow> ptr \<Rightarrow> call list \<Rightarrow> ptr \<Rightarrow> bool" where
  "ping_pong k 0 h cs h' \<longleftrightarrow> cs = [] \<and> h' = h"
| "ping_pong k (Suc i) h cs h' \<longleftrightarrow>
     (\<exists>m rest. cs = [sent k h, received k m] @ rest \<and> ping_pong k i m rest h')"

lemma send_msg_cases:
  assumes "S b = Some h" "socket_view_send_msg nng k b f (S, s) = (x, S1, s1)"
  obtains "x = Ok ()" "S1 = S(b \<mapsto> 0)"
      "st_log s1 = st_log s @ [\<lparr>c_fn = ''nng_sendmsg'', c_args = [VId k, VW h, VI f], c_ret = [VI 0]\<rparr>]"
    | e where "x = Throw e" "S1 = S"
proof -
  obtain r s' where c: "call_int nng ''nng_sendmsg'' [VId k, VW h, VI f] s = (r, s')" by fastforce
  then have "st_log s' = st_log s @
      [\<lparr>c_fn = ''nng_sendmsg'', c_args = [VId k, VW h, VI f], c_ret = [VI r]\<rparr>]"
    unfolding call_int_def by (rule invoke_log)
  with assms c that show ?thesis
    by (cases "r = 0") (auto simp: socket_view_send_msg_def m_release_def)
qed

lemma recv_msg_cases:
  assumes "m_acquire b (socket_view_recv_msg nng k 0) (S, s) = (x, S1, s1)"
  obtains m where "x = Ok None" "S1 = S(b \<mapsto> m)" "st_log s1 = st_log s @ [received k m]"
    | e where "x = Throw e" "S1 = S"
proof -
  obtain r m s' where c: "get_w64 nng ''nng_recvmsg'' [VId k, VI 0] s = ((r, m), s')"
    by (metis prod.exhaust)
  then have "st_log s' = st_log s @
      [\<lparr>c_fn = ''nng_recvmsg'', c_args = [VId k, VI 0], c_ret = [VI r, VW m]\<rparr>]"
    unfolding get_w64_def by (drule_tac invoke_log) simp
  with assms c that show ?thesis
    by (cases "r = 0") (auto simp: m_acquire_def socket_view_recv_msg_def check_out_def received_def)
qed

text \<open>An instance that delivers the eight bytes at address 16, and the message 7 with these as its body.\<close>

definition wire_nng :: "unit nng" where
  "wire_nng = idle_nng\<lparr>s_buf := (\<lambda>_ _ w. ((0, 16, 8), w)), s_w64 := (\<lambda>_ _ w. ((0, 7), w)),
     f_w64 := (\<lambda>fn _ w. (if fn = ''nng_msg_body'' then 16 else 8, w))\<rparr>"

definition wire_state :: "byte list \<Rightarrow> unit st" where
  "wire_state bs = (start ())\<lparr>st_mem := write_bytes Map.empty 16 bs\<rparr>"

lemma wire_mem:
  "length bs = 8 \<Longrightarrow> read_bytes (write_bytes m 16 bs) 16 8 = Some bs"
  using read_write_bytes [of bs m 16] by simp

lemma wire_message:
  assumes "length bs = 8"
  obtains s1 s2 s3 where "socket_view_recv_msg wire_nng k 0 (wire_state bs) = (Ok 7, s1)"
    "msg_body_data wire_nng 7 s1 = (16, s2)" "msg_body_size wire_nng 7 s2 = (8, s3)"
    "read_bytes (st_mem s3) 16 (unat (8::w64)) = Some bs"
  using wire_mem [OF assms, of Map.empty] that
  by (auto simp: wire_nng_def wire_state_def start_def socket_view_recv_msg_def check_out_def
      get_w64_def call_w64_def invoke_def msg_body_data_def msg_body_size_def)

lemma PUT64_length: "length (PUT64 u) = 8"
  by (simp add: PUT64_def)

section \<open>Properties\<close>

text \<open>C39: a server that receives the date command the client puts into its request writes the time
  into the very buffer it received and sends that buffer; the client decodes the reply to the
  time the server read.\<close>

theorem reqrep_date:
  assumes "socket_view_recv_buffer nng k 0 s = (Ok v, s1)" "v_size v = 8"
    and "view_bytes (st_mem s1) v = Some (PUT64 DATECMD)"
  shows "\<exists>s2. reqrep_turn nng k now (S, s) =
      end_of_scope nng 0 (socket_view_send_buffer nng k 0 0 (S(0 \<mapsto> v), s2)) \<and>
    st_log s2 = st_log s1 \<and> view_bytes (st_mem s2) v = Some (PUT64 now) \<and>
    reqrep_reply (st_mem s2) v = Ok (Some now)"
proof -
  let ?s2 = "s1\<lparr>st_mem := write_bytes (st_mem s1) (v_data v) (PUT64 now)\<rparr>"
  have len: "length (PUT64 now) = 8" by (simp add: PUT64_def)
  have "unat (8 :: w64) = 8" by simp
  then have rd: "read_bytes (st_mem s1) (v_data v) 8 = Some (PUT64 DATECMD)"
    using assms(2,3) by (simp add: view_bytes_def)
  have "read_bytes (write_bytes (st_mem s1) (v_data v) (PUT64 now)) (v_data v) 8 = Some (PUT64 now)"
    using read_write_bytes [of "PUT64 now" "st_mem s1" "v_data v"] by (simp add: len)
  then have "view_bytes (st_mem ?s2) v = Some (PUT64 now)" "reqrep_reply (st_mem ?s2) v = Ok (Some now)"
    using assms(2) by (simp_all add: view_bytes_def reqrep_reply_def GET64_PUT64)
  moreover have "reqrep_turn nng k now (S, s) =
      end_of_scope nng 0 (socket_view_send_buffer nng k 0 0 (S(0 \<mapsto> v), ?s2))"
    using assms(1,2) rd by (simp add: reqrep_turn_def GET64_PUT64)
  ultimately show ?thesis by (intro exI [of _ ?s2]) simp
qed

theorem reqrep_date_witness:
  "reqrep_reply (write_bytes Map.empty 16 (PUT64 99)) (view_of 16 8) = Ok (Some 99) \<and>
   (\<exists>s2. reqrep_turn wire_nng 3 99 (Map.empty, wire_state (PUT64 DATECMD)) =
      end_of_scope wire_nng 0 (socket_view_send_buffer wire_nng 3 0 0 ([0 \<mapsto> view_of 16 8], s2)) \<and>
      view_bytes (st_mem s2) (view_of 16 8) = Some (PUT64 99))"
  using reqrep_date [of wire_nng 3 "wire_state (PUT64 DATECMD)" "view_of 16 8"
      "snd (socket_view_recv_buffer wire_nng 3 0 (wire_state (PUT64 DATECMD)))" 99 Map.empty]
    wire_mem [of "PUT64 99" Map.empty]
  by (auto simp: socket_view_recv_buffer_def check_out_def get_buf_def invoke_def wire_nng_def
      wire_state_def start_def view_of_def view_bytes_def wire_mem PUT64_length reqrep_reply_def GET64_PUT64)

text \<open>Any other request is not answered: the turn ends without a call to nng but the one that
  frees the buffer.\<close>

theorem reqrep_other:
  assumes "socket_view_recv_buffer nng k 0 s = (Ok v, s1)" "view_bytes (st_mem s1) v = Some bs"
    and "v_size v \<noteq> 8 \<or> GET64 bs \<noteq> DATECMD"
  shows "reqrep_turn nng k now (S, s) = (Ok (), S(0 := None),
    if v_data v \<noteq> null then nng_free nng (v_data v) (v_size v) s1 else s1)"
proof -
  have "unat (8 :: w64) = 8" by simp
  then show ?thesis using assms
    by (auto simp: reqrep_turn_def end_of_scope_def buffer_dtor_def view_bytes_def)
qed

theorem reqrep_other_witness:
  "fst (snd (reqrep_turn wire_nng 3 99 (Map.empty, wire_state (PUT64 2)))) = Map.empty"
  using reqrep_other [of wire_nng 3 "wire_state (PUT64 2)" "view_of 16 8"
      "snd (socket_view_recv_buffer wire_nng 3 0 (wire_state (PUT64 2)))" "PUT64 2" 99 Map.empty]
  by (simp add: socket_view_recv_buffer_def check_out_def get_buf_def invoke_def wire_nng_def
      wire_state_def start_def view_of_def view_bytes_def wire_mem PUT64_length GET64_PUT64 DATECMD_def)

text \<open>ROT13 is its own inverse: the reply to the reply of the server is the original body.\<close>

theorem rot13_involution:
  assumes "length xs < 2 ^ 31" "rot13_bytes xs = Some ys"
  shows "rot13_bytes ys = Some xs \<and> length ys = length xs"
  using assms rot13_map_involution [of xs ys] those_map_length [of rot13_byte xs ys]
  by (simp add: rot13_bytes_whole)

theorem rot13_involution_witness:
  "rot13_bytes [72, 105, 33] = Some [85, 118, 33] \<and> rot13_bytes [85, 118, 33] = Some [72, 105, 33]"
proof -
  have "rot13_bytes [72, 105, 33] = Some [85, 118, 33]"
    by (simp add: rot13_bytes_def rot13_byte_def)
  with rot13_involution [of "[72, 105, 33]" "[85, 118, 33]"] show ?thesis by simp
qed

text \<open>The ROT13 server sends back the message it received, with the transformed bytes in place of
  the body and nothing else in memory changed.\<close>

theorem rot13_turn_sends:
  assumes "socket_view_recv_msg nng k 0 s = (Ok m, s1)" "msg_body_data nng m s1 = (d, s2)"
    and "msg_body_size nng m s2 = (n, s3)" "read_bytes (st_mem s3) d (unat n) = Some xs"
    and "rot13_bytes xs = Some ys" "length xs < 2 ^ 31"
  shows "\<exists>s4. rot13_turn nng k (S, s) =
      (case socket_view_send_msg nng k 0 0 (S(0 \<mapsto> m), s4) of
         (x, c) \<Rightarrow> (x, snd (msg_exec nng (Dtor 0) c))) \<and>
    st_log s4 = st_log s3 \<and> read_bytes (st_mem s4) d (unat n) = Some ys \<and>
    (\<forall>p. p \<notin> block d (unat n) \<longrightarrow> st_mem s4 p = st_mem s3 p)"
proof -
  let ?s4 = "s3\<lparr>st_mem := write_bytes (st_mem s3) d ys\<rparr>"
  have xs: "length xs = unat n" using assms(4) by (rule read_bytes_length)
  with assms(5,6) have len: "length ys = unat n"
    using those_map_length [of rot13_byte xs ys] by (simp add: rot13_bytes_whole)
  have "read_bytes (write_bytes (st_mem s3) d ys) d (length ys) = Some ys"
    using unsigned_less [of n, where 'a = nat] len by (intro read_write_bytes) simp
  moreover have "rot13_turn nng k (S, s) =
      (case socket_view_send_msg nng k 0 0 (S(0 \<mapsto> m), ?s4) of
         (x, c) \<Rightarrow> (x, snd (msg_exec nng (Dtor 0) c)))"
    using assms(1-5) by (simp add: rot13_turn_def case_prod_beta')
  ultimately show ?thesis using len
    by (intro exI [of _ ?s4]) (simp add: write_bytes_outside)
qed

theorem rot13_turn_sends_witness:
  "\<exists>s4. rot13_turn wire_nng 3 (Map.empty, wire_state [72, 105, 33, 10, 72, 105, 33, 10]) =
      (case socket_view_send_msg wire_nng 3 0 0 ([0 \<mapsto> 7], s4) of
         (x, c) \<Rightarrow> (x, snd (msg_exec wire_nng (Dtor 0) c))) \<and>
    read_bytes (st_mem s4) 16 8 = Some [85, 118, 33, 10, 85, 118, 33, 10]"
proof -
  let ?xs = "[72, 105, 33, 10, 72, 105, 33, 10]" and ?ys = "[85, 118, 33, 10, 85, 118, 33, 10]"
  have len: "length ?xs = 8" by simp
  obtain s1 s2 s3 where s: "socket_view_recv_msg wire_nng 3 0 (wire_state ?xs) = (Ok 7, s1)"
    "msg_body_data wire_nng 7 s1 = (16, s2)" "msg_body_size wire_nng 7 s2 = (8, s3)"
    "read_bytes (st_mem s3) 16 (unat (8::w64)) = Some ?xs"
    by (rule wire_message [OF len]) blast
  moreover have "rot13_bytes ?xs = Some ?ys" by (simp add: rot13_bytes_def rot13_byte_def)
  ultimately show ?thesis
    using rot13_turn_sends [of wire_nng 3 "wire_state ?xs" 7 s1 16 s2 8 s3 ?xs ?ys Map.empty]
    by auto
qed

text \<open>The number parser of the benchmarks accepts every number from 0 to 2^30 in decimal, zero
  included, as the value it is.\<close>

theorem parse_int_accepts:
  assumes "n \<le> 2 ^ 30"
  shows "parse_int (decimal n) = Some (of_nat n) \<and> sint (of_nat n :: i32) = int n"
proof -
  obtain d :: nat and cs where "decimal n = char_of (48 + d) # cs" using decimal_head by blast
  moreover have "strtol (decimal n) = (int n, [])" using assms by (intro strtol_decimal) simp
  moreover have "int n \<le> 2 ^ 30" using assms by (metis of_nat_le_numeral_power_cancel_iff of_nat_numeral)
  moreover have "sint (of_nat n :: i32) = int n"
    using assms by (simp add: signed_of_nat signed_take_bit_int_eq_self)
  ultimately show ?thesis by (simp add: parse_int_def)
qed

theorem parse_int_accepts_witness:
  "parse_int ''4096'' = Some 4096 \<and> sint (4096 :: i32) = 4096"
  using parse_int_accepts [of 4096] by (simp add: decimal.simps char_of_def bit_0)

text \<open>C40: what the parser accepts is between 0 and 2^30, with nothing after it, so that the narrowing
  to \<open>int\<close> keeps the value.\<close>

theorem parse_int_bounds:
  assumes "parse_int arg = Some w"
  shows "strtol arg = (sint w, []) \<and> 0 \<le> sint w \<and> sint w \<le> 2 ^ 30"
proof -
  obtain v where v: "strtol arg = (v, [])" "0 \<le> v" "v \<le> 2 ^ 30" "w = word_of_int v"
    using assms by (auto simp: parse_int_def split: prod.splits if_splits)
  have "sint (word_of_int v :: i32) = v"
    using v(2,3) by (simp add: signed_of_int signed_take_bit_int_eq_self)
  with v show ?thesis by simp
qed

theorem parse_int_bounds_witness:
  "strtol '' 17'' = (17, []) \<and> sint (17 :: i32) \<le> 2 ^ 30"
proof -
  have "parse_int '' 17'' = Some 17"
    by (simp add: parse_int_def strtol_def is_space_def digit_def)
  from parse_int_bounds [OF this] show ?thesis by simp
qed

text \<open>At the bound the parser accepts, doubling the round trips, as \<open>latency_client\<close> does in
  \<open>int\<close>, overflows.\<close>

theorem latency_trips_overflow:
  "parse_int ''1073741824'' = Some 1073741824 \<and> 2 * sint (1073741824 :: i32) > 2 ^ 31 - 1 \<and>
   sint (1073741824 * 2 :: i32) < 0"
  by (simp add: parse_int_def strtol_def is_space_def digit_def)

text \<open>C38: when the client's loop of the latency benchmark ends without an exception it has sent and
  received exactly as many messages as there are round trips, in strict alternation, each time
  sending on the message it received last; it holds one message, and has freed none.\<close>

theorem latency_client_ping_pong:
  assumes "latency_client_loop nng k n ([0 \<mapsto> h], s) = (x, S', s')"
  shows "x \<noteq> Ub \<and> (x = Ok () \<longrightarrow> (\<exists>cs h'. st_log s' = st_log s @ cs \<and> S' = [0 \<mapsto> h'] \<and> ping_pong k n h cs h'))"
  using assms
proof (induction n arbitrary: h s)
  case 0
  then show ?case by auto
next
  case (Suc n)
  obtain y S1 s1 where snd: "socket_view_send_msg nng k 0 0 ([0 \<mapsto> h], s) = (y, S1, s1)" by (metis prod_cases3)
  have "[0 \<mapsto> h] (0::nat) = Some h" by simp
  from this snd show ?case
  proof (cases rule: send_msg_cases)
    case (2 e)
    with Suc.prems snd have "(Throw e, [0 \<mapsto> h], s1) = (x, S', s')"
      by (simp only: latency_client_loop.simps prod.case result.case)
    then show ?thesis by auto
  next
    case 1
    obtain z S2 s2 where rcv: "m_acquire 1 (socket_view_recv_msg nng k 0) (S1, s1) = (z, S2, s2)"
      by (metis prod_cases3)
    from rcv show ?thesis
    proof (cases rule: recv_msg_cases)
      case (2 e)
      with Suc.prems snd 1 rcv have "(Throw e, S2, s2) = (x, S', s')"
        by (simp only: latency_client_loop.simps prod.case result.case)
      then show ?thesis by auto
    next
      case r: (1 m)
      have "(case msg_exec nng (Move_assign 0 1) (S2, s2) of (_, c3) \<Rightarrow>
          case msg_exec nng (Dtor 1) c3 of (_, c4) \<Rightarrow> latency_client_loop nng k n c4) = (x, S', s')"
        using Suc.prems snd 1(1) rcv r(1)
        by (simp only: latency_client_loop.simps prod.case result.case)
      moreover have "S2 = [0 \<mapsto> null, 1 \<mapsto> m]" using 1 r by simp
      ultimately have "latency_client_loop nng k n ([0 \<mapsto> m], s2) = (x, S', s')"
        by (simp add: m_move_assign_def m_dtor_def fun_upd_twist)
      from Suc.IH [OF this] 1 r show ?thesis by (auto simp: sent_def)
    qed
  qed
qed

theorem latency_client_ping_pong_witness:
  "\<exists>cs h'. st_log (snd (snd (latency_client_loop wire_nng 3 2 ([0 \<mapsto> 5], start ())))) = cs \<and>
    ping_pong 3 2 5 cs h'"
  using latency_client_ping_pong [of wire_nng 3 2 5 "start ()"
      "fst (latency_client_loop wire_nng 3 2 ([0 \<mapsto> 5], start ()))"
      "fst (snd (latency_client_loop wire_nng 3 2 ([0 \<mapsto> 5], start ())))"
      "snd (snd (latency_client_loop wire_nng 3 2 ([0 \<mapsto> 5], start ())))"]
  by (auto simp: eval_nat_numeral socket_view_send_msg_def m_release_def m_acquire_def wire_nng_def
      socket_view_recv_msg_def check_out_def get_w64_def call_int_def invoke_def start_def
      m_move_assign_def m_dtor_def)

text \<open>The loop of the latency server that has run through has answered every message it
  received with that message itself, after measuring its length as the expected one; it ends
  by \<open>die\<close> only when a message has another length, and frees that message not.\<close>

theorem latency_server_echoes:
  assumes "latency_server_loop nng k sz n (S, s) = (x, S', s')"
  shows "\<exists>hs. (let rounds = concat (map (\<lambda>h. [received k h, measured h sz, sent k h]) hs) in
    (x = Some (Ok ()) \<longrightarrow> length hs = n \<and> st_log s' = st_log s @ rounds) \<and>
    (x = None \<longrightarrow> length hs < n \<and> (\<exists>m l. l \<noteq> sz \<and> S' 0 = Some m \<and>
       st_log s' = st_log s @ rounds @ [received k m, measured m l])) \<and> x \<noteq> Some Ub)"
  using assms
proof (induction n arbitrary: S s)
  case 0
  then show ?case by (intro exI [of _ "[]"]) auto
next
  case (Suc n)
  obtain z S1 s1 where rcv: "m_acquire 0 (socket_view_recv_msg nng k 0) (S, s) = (z, S1, s1)"
    by (metis prod_cases3)
  from rcv show ?case
  proof (cases rule: recv_msg_cases)
    case (2 e)
    with Suc.prems rcv show ?thesis by (intro exI [of _ "[]"]) auto
  next
    case r: (1 m)
    obtain l s2 where sz: "msg_body_size nng m s1 = (l, s2)" by fastforce
    then have log2: "st_log s2 = st_log s1 @ [measured m l]"
      unfolding msg_body_size_def call_w64_def measured_def by (drule_tac invoke_log) simp
    show ?thesis
    proof (cases "l = sz")
      case False
      with Suc.prems rcv r sz log2 show ?thesis by (intro exI [of _ "[]"]) auto
    next
      case True
      obtain y S3 s3 where snd: "socket_view_send_msg nng k 0 0 (S1, s2) = (y, S3, s3)" by (metis prod_cases3)
      have "S1 0 = Some m" using r by simp
      from this snd show ?thesis
      proof (cases rule: send_msg_cases)
        case (2 e)
        with Suc.prems rcv r sz True snd show ?thesis
          by (intro exI [of _ "[]"]) (auto split: prod.splits)
      next
        case 1
        have "latency_server_loop nng k sz n (S(0 := None), s3) = (x, S', s')"
          using Suc.prems rcv r sz True snd 1 by (simp add: m_dtor_def)
        from Suc.IH [OF this] obtain hs where hs: "let rounds = concat (map (\<lambda>h. [received k h, measured h sz, sent k h]) hs) in
          (x = Some (Ok ()) \<longrightarrow> length hs = n \<and> st_log s' = st_log s3 @ rounds) \<and>
          (x = None \<longrightarrow> length hs < n \<and> (\<exists>m l. l \<noteq> sz \<and> S' 0 = Some m \<and>
            st_log s' = st_log s3 @ rounds @ [received k m, measured m l])) \<and> x \<noteq> Some Ub" ..
        have "st_log s3 = st_log s @ [received k m, measured m sz, sent k m]"
          using 1 log2 r True by (simp add: sent_def)
        with hs show ?thesis by (intro exI [of _ "m # hs"]) (auto simp: Let_def)
      qed
    qed
  qed
qed

theorem latency_server_echoes_witness:
  "\<exists>hs. length hs = 2 \<and> st_log (snd (snd (latency_server_loop wire_nng 3 8 2 (Map.empty, start ())))) =
    concat (map (\<lambda>h. [received 3 h, measured h 8, sent 3 h]) hs)"
  using latency_server_echoes [of wire_nng 3 8 2 Map.empty "start ()"
      "fst (latency_server_loop wire_nng 3 8 2 (Map.empty, start ()))"
      "fst (snd (latency_server_loop wire_nng 3 8 2 (Map.empty, start ())))"
      "snd (snd (latency_server_loop wire_nng 3 8 2 (Map.empty, start ())))"]
  by (auto simp: eval_nat_numeral socket_view_send_msg_def m_release_def m_acquire_def wire_nng_def
      socket_view_recv_msg_def check_out_def get_w64_def call_w64_def call_int_def invoke_def start_def
      m_dtor_def msg_body_size_def)

end
