(* ===== verification/Program_Logic.thy ===== *)
theory Program_Logic
  imports Control Http Urls Protocols Platform
begin

text \<open>
  Programs that use objects of several classes of the library: their state, with one store per
  class, and a logic of what a statement does to the objects. A triple \<open>leads D m P E\<close> says
  which objects there are afterwards and which of them hold a handle, and that the books were
  kept: in each class every handle that was given back was out, and those that are out then
  are those the objects hold.
\<close>

section \<open>The state\<close>

text \<open>
  One store per class, what was written to the standard output, and the world. An object that
  is the only one of its class has address 0.
\<close>

record 'w prog =
  o_url     :: "ptr store"
  o_client  :: "ptr store"
  o_aio     :: "ptr store"
  o_req     :: "ptr store"
  o_res     :: "ptr store"
  o_buf     :: "nat \<Rightarrow> view option"
  o_msg     :: "ptr store"
  o_sock    :: "i32 store"
  o_ctx     :: "i32 store"
  o_server  :: "ptr store"
  o_handler :: "ptr store"
  o_thread  :: "ptr store"
  written   :: "byte list"
  wrld      :: "'w st"

definition program_start :: "'w st \<Rightarrow> 'w prog" where
  "program_start s = \<lparr>o_url = Map.empty, o_client = Map.empty, o_aio = Map.empty, o_req = Map.empty,
     o_res = Map.empty, o_buf = Map.empty, o_msg = Map.empty, o_sock = Map.empty,
     o_ctx = Map.empty, o_server = Map.empty, o_handler = Map.empty,
     o_thread = Map.empty, written = [], wrld = s\<rparr>"

text \<open>An operation of one class on its store.\<close>

definition on ::
  "('w prog \<Rightarrow> 'p) \<Rightarrow> (('p \<Rightarrow> 'p) \<Rightarrow> 'w prog \<Rightarrow> 'w prog) \<Rightarrow> ('p \<times> 'w st \<Rightarrow> 'a result \<times> 'p \<times> 'w st) \<Rightarrow>
     ('w prog, 'a) act" where
  "on get upd f = (\<lambda>A. (case f (get A, wrld A) of (x, S, s) \<Rightarrow> (x, (upd (\<lambda>_. S) A)\<lparr>wrld := s\<rparr>)))"

definition by_world :: "('w st \<Rightarrow> 'a result \<times> 'w st) \<Rightarrow> ('w prog, 'a) act" where
  "by_world f = (\<lambda>A. (case f (wrld A) of (x, s) \<Rightarrow> (x, A\<lparr>wrld := s\<rparr>)))"

definition from_world :: "('w st \<Rightarrow> 'a \<times> 'w st) \<Rightarrow> ('w prog, 'a) act" where
  "from_world f = by_world (\<lambda>s. (case f s of (x, s') \<Rightarrow> (Ok x, s')))"

definition to_world :: "('w st \<Rightarrow> 'w st) \<Rightarrow> ('w prog, unit) act" where
  "to_world f = by_world (\<lambda>s. (Ok (), f s))"

definition held_by :: "('w prog \<Rightarrow> nat \<Rightarrow> 'h option) \<Rightarrow> nat \<Rightarrow> ('w prog, 'h) act" where
  "held_by get a = (\<lambda>A. (case get A a of None \<Rightarrow> (Ub, A) | Some h \<Rightarrow> (Ok h, A)))"

abbreviation on_url where "on_url nng op \<equiv> on o_url o_url_update (url_exec nng op)"
abbreviation on_client where "on_client nng op \<equiv> on o_client o_client_update (http_client_exec nng op)"
abbreviation on_aio where "on_aio nng op \<equiv> on o_aio o_aio_update (aio_exec nng op)"
abbreviation on_req where "on_req nng op \<equiv> on o_req o_req_update (http_req_exec nng op)"
abbreviation on_res where "on_res nng op \<equiv> on o_res o_res_update (http_res_exec nng op)"
abbreviation on_msg where "on_msg nng op \<equiv> on o_msg o_msg_update (msg_exec nng op)"
abbreviation on_sock where "on_sock nng op \<equiv> on o_sock o_sock_update (socket_exec nng op)"
abbreviation on_ctx where "on_ctx nng op \<equiv> on o_ctx o_ctx_update (ctx_exec nng op)"
abbreviation on_server where "on_server nng op \<equiv> on o_server o_server_update (http_server_exec nng op)"
abbreviation on_handler where "on_handler nng op \<equiv> on o_handler o_handler_update (http_handler_exec nng op)"
abbreviation on_thread where "on_thread nng op \<equiv> on o_thread o_thread_update (thread_exec nng op)"
abbreviation on_buf where "on_buf \<equiv> on o_buf o_buf_update"

text \<open>\<open>auto s = open();\<close>\<close>

definition with_socket ::
  "'w nng \<Rightarrow> ('w st \<Rightarrow> i32 result \<times> 'w st) \<Rightarrow> (i32 \<Rightarrow> ('w prog, 'a) act) \<Rightarrow> ('w prog, 'a) act" where
  "with_socket nng opn m =
     in_scope (on o_sock o_sock_update (m_acquire 0 opn)) (on_sock nng (Dtor 0)) (bind (held_by o_sock 0) m)"

section \<open>References across the classes\<close>

datatype cls = K_url | K_client | K_aio | K_req | K_res | K_buf | K_msg | K_sock | K_ctx | K_server | K_handler | K_thread

fun refs :: "cls \<Rightarrow> 'w prog \<Rightarrow> ptr store" where
  "refs K_url A = o_url A"
| "refs K_client A = o_client A"
| "refs K_aio A = o_aio A"
| "refs K_req A = o_req A"
| "refs K_res A = o_res A"
| "refs K_buf A = map_option v_data \<circ> o_buf A"
| "refs K_msg A = o_msg A"
| "refs K_sock A = map_option ucast \<circ> o_sock A"
| "refs K_ctx A = map_option ucast \<circ> o_ctx A"
| "refs K_server A = o_server A"
| "refs K_handler A = o_handler A"
| "refs K_thread A = o_thread A"

text \<open>
  The memory of a buffer is a reference to it. With the flag \<open>NNG_FLAG_ALLOC\<close>, which is 1 in
  \<open>nng.h\<close>, \<open>nng_recv\<close> delivers memory and \<open>nng_send\<close> takes it when it succeeds; \<open>nng_recv\<close> then
  has no arguments for a buffer of the caller. A socket or context is given back by the attempt
  to close it.
\<close>

definition alloc_bit :: i32 where "alloc_bit = 1"

definition buf_ev :: "call \<Rightarrow> ptr event option" where
  "buf_ev c =
     (if c_fn c = ''nng_alloc'' then (case c_ret c of [VW p] \<Rightarrow> if p = null then None else Some (Give p) | _ \<Rightarrow> None)
      else if c_fn c = ''nng_free'' then (case c_args c of [VW p, _] \<Rightarrow> Some (Kill p) | _ \<Rightarrow> None)
      else if c_fn c = ''nng_recv'' then
        (case (c_args c, c_ret c) of
           ([_, _], [VI r, VW p, VW _]) \<Rightarrow> if r = 0 \<and> p \<noteq> null then Some (Give p) else None
         | _ \<Rightarrow> None)
      else if c_fn c = ''nng_send'' then
        (case (c_args c, c_ret c) of
           ([_, VW p, _, VI flags], [VI r]) \<Rightarrow>
             if r = 0 \<and> p \<noteq> null \<and> flags AND alloc_bit \<noteq> 0 then Some (Kill p) else None
         | _ \<Rightarrow> None)
      else None)"

definition opened_ev :: "string list \<Rightarrow> string \<Rightarrow> call \<Rightarrow> ptr event option" where
  "opened_ev opens close c =
     (if c_fn c = close then (case c_args c of [VId h] \<Rightarrow> Some (Kill (ucast h)) | _ \<Rightarrow> None)
      else if c_fn c \<in> set opens then
        (case c_ret c of [VI r, VId h] \<Rightarrow> if r = 0 then Some (Give (ucast h)) else None | _ \<Rightarrow> None)
      else None)"

definition sock_opens :: "string list" where
  "sock_opens = [''nng_req0_open'', ''nng_rep0_open'', ''nng_rep0_open_raw'', ''nng_pair1_open'']"

definition sock_ev :: "call \<Rightarrow> ptr event option" where
  "sock_ev = opened_ev sock_opens ''nng_close''"

definition context_ev :: "call \<Rightarrow> ptr event option" where
  "context_ev = opened_ev [''nng_ctx_open''] ''nng_ctx_close''"

fun class_ev :: "cls \<Rightarrow> call \<Rightarrow> ptr event option" where
  "class_ev K_url = url_ev"
| "class_ev K_client = http_client_ev"
| "class_ev K_aio = aio_ev"
| "class_ev K_req = http_req_ev"
| "class_ev K_res = http_res_ev"
| "class_ev K_buf = buf_ev"
| "class_ev K_msg = msg_flow_ev"
| "class_ev K_sock = sock_ev"
| "class_ev K_ctx = context_ev"
| "class_ev K_server = http_server_ev"
| "class_ev K_handler = handler_flow_ev"
| "class_ev K_thread = thread_ev"

definition handle_fns :: "string list" where
  "handle_fns = [''nng_url_parse'', ''nng_url_clone'', ''nng_url_free'', ''nng_http_client_alloc'',
     ''nng_http_client_free'', ''nng_aio_alloc'', ''nng_aio_free'', ''nng_http_req_alloc'',
     ''nng_http_req_free'', ''nng_http_res_alloc'', ''nng_http_res_alloc_error'', ''nng_http_res_free'',
     ''nng_alloc'', ''nng_free'', ''nng_msg_alloc'', ''nng_msg_dup'', ''nng_recvmsg'', ''nng_sendmsg'',
     ''nng_msg_free'', ''nng_req0_open'', ''nng_rep0_open'', ''nng_rep0_open_raw'',
     ''nng_pair1_open'', ''nng_close'', ''nng_ctx_open'', ''nng_ctx_close'', ''nng_http_server_hold'',
     ''nng_http_server_release'', ''nng_http_handler_alloc'', ''nng_http_handler_alloc_file'',
     ''nng_http_handler_alloc_directory'', ''nng_http_handler_alloc_static'', ''nng_http_handler_free'',
     ''nng_http_server_add_handler'', ''nng_http_server_del_handler'', ''nng_thread_create'', ''nng_thread_destroy'']"

definition class_fns :: "string list" where
  "class_fns = ''nng_send'' # ''nng_recv'' # handle_fns"

lemmas class_evs = url_ev_def http_client_ev_def aio_ev_def http_req_ev_def http_res_ev_def buf_ev_def
  msg_flow_ev_def sock_ev_def context_ev_def opened_ev_def sock_opens_def http_server_ev_def handler_flow_ev_def thread_ev_def ptr_ev_def

definition silent :: "call \<Rightarrow> bool" where
  "silent c \<longleftrightarrow> (\<forall>j. class_ev j c = None)"

definition only :: "cls \<Rightarrow> ptr event \<Rightarrow> call \<Rightarrow> bool" where
  "only k e c \<longleftrightarrow> (\<forall>j. class_ev j c = (if j = k then Some e else None))"

lemma silent_fn: "c_fn c \<notin> set class_fns \<Longrightarrow> silent c"
  unfolding silent_def by (intro allI, case_tac j) (simp_all add: class_evs class_fns_def handle_fns_def)

text \<open>The books between two states, with any references that others hold.\<close>

definition books_kept :: "'w prog \<Rightarrow> 'w prog \<Rightarrow> bool" where
  "books_kept A A' \<longleftrightarrow>
     (\<exists>cs. st_log (wrld A') = st_log (wrld A) @ cs \<and>
        (\<forall>k L. proper (events (class_ev k) cs) (L + owned (refs k A)) \<and>
               live (events (class_ev k) cs) (L + owned (refs k A)) = L + owned (refs k A')))"

lemma books_kept_refl: "books_kept A A"
  by (simp add: books_kept_def)

lemma books_kept_trans:
  assumes "books_kept A B" "books_kept B C"
  shows "books_kept A C"
proof -
  obtain cs cs' where "st_log (wrld B) = st_log (wrld A) @ cs" "st_log (wrld C) = st_log (wrld B) @ cs'"
    "\<forall>k L. proper (events (class_ev k) cs) (L + owned (refs k A)) \<and>
       live (events (class_ev k) cs) (L + owned (refs k A)) = L + owned (refs k B)"
    "\<forall>k L. proper (events (class_ev k) cs') (L + owned (refs k B)) \<and>
       live (events (class_ev k) cs') (L + owned (refs k B)) = L + owned (refs k C)"
    using assms unfolding books_kept_def by blast
  then show ?thesis unfolding books_kept_def by (intro exI [of _ "cs @ cs'"]) simp
qed

lemma events_silent: "\<forall>c\<in>set cs. silent c \<Longrightarrow> events (class_ev k) cs = []"
  by (induction cs) (simp_all add: silent_def)

lemma books_kept_silent:
  assumes "st_log (wrld A') = st_log (wrld A) @ cs" "\<forall>c\<in>set cs. silent c"
    and "\<And>k. owned (refs k A') = owned (refs k A)"
  shows "books_kept A A'"
  using assms events_silent unfolding books_kept_def by (intro exI [of _ cs]) simp

text \<open>One call that delivers or takes back the handle of one object.\<close>

lemma books_kept_give:
  assumes "st_log (wrld A') = st_log (wrld A) @ [c]" "only k (Give h) c"
    and "\<And>j. j \<noteq> k \<Longrightarrow> refs j A' = refs j A" "finite (dom (refs k A))"
    and "refs k A a = None" "refs k A' = (refs k A)(a \<mapsto> h)"
  shows "books_kept A A'"
  using assms unfolding books_kept_def only_def
  by (intro exI [of _ "[c]"]) (simp add: owned_new add.left_commute)

lemma owned_drop:
  assumes "finite (dom S)" "S a = Some h" "h \<noteq> 0" "x = None \<or> x = Some 0"
  shows "owned S = add_mset h (owned (S(a := x)))"
  using assms owned_split [of S a] owned_upd [of S a 0] by auto

lemma books_kept_kill:
  assumes "st_log (wrld A') = st_log (wrld A) @ [c]" "only k (Kill h) c"
    and "\<And>j. j \<noteq> k \<Longrightarrow> refs j A' = refs j A" "finite (dom (refs k A))"
    and "refs k A a = Some h" "h \<noteq> 0" "refs k A' = (refs k A)(a := x)" "x = None \<or> x = Some 0"
  shows "books_kept A A'"
  using assms(1-3,7) owned_drop [OF assms(4,5,6,8)] unfolding books_kept_def only_def
  by (intro exI [of _ "[c]"]) simp

section \<open>The logic\<close>

text \<open>
  \<open>shape A k a\<close> is whether the object of class \<open>k\<close> at \<open>a\<close> holds a handle, if there is one; the
  memory of buffers stays mapped.
\<close>

type_synonym shape = "cls \<Rightarrow> nat \<Rightarrow> bool option"

definition shape :: "'w prog \<Rightarrow> shape" where
  "shape A k a = map_option (\<lambda>h. h \<noteq> 0) (refs k A a)"

definition put :: "shape \<Rightarrow> cls \<Rightarrow> nat \<Rightarrow> bool option \<Rightarrow> shape" where
  "put D k a x = D(k := (D k)(a := x))"

definition tidy :: "'w prog \<Rightarrow> bool" where
  "tidy A \<longleftrightarrow> (\<forall>k. finite (dom (refs k A))) \<and>
     (\<forall>a v. o_buf A a = Some v \<longrightarrow> view_block v \<subseteq> dom (st_mem (wrld A)))"

definition ends :: "(shape \<Rightarrow> bool) \<Rightarrow> 'w prog \<Rightarrow> 'w prog \<Rightarrow> bool" where
  "ends P A A' \<longleftrightarrow> P (shape A') \<and> tidy A' \<and> books_kept A A'"

definition leads :: "shape \<Rightarrow> ('w prog, 'a) act \<Rightarrow> (shape \<Rightarrow> bool) \<Rightarrow> (shape \<Rightarrow> bool) \<Rightarrow> bool" where
  "leads D m P E \<longleftrightarrow> (\<forall>A. shape A = D \<longrightarrow> tidy A \<longrightarrow> gives m A (\<lambda>_. ends P A) (\<lambda>_. ends E A))"

abbreviation (input) never :: "shape \<Rightarrow> bool" where "never \<equiv> \<lambda>_. False"

lemma put_simps [simp]:
  "put (put D k a x) k a y = put D k a y" "put D k a x k a = x" "D k a = x \<Longrightarrow> put D k a x = D"
  "j \<noteq> k \<or> b \<noteq> a \<Longrightarrow> put D k a x j b = D j b"
  by (auto simp: put_def fun_eq_iff)

lemma ends_trans: "ends P A B \<Longrightarrow> ends Q B C \<Longrightarrow> ends Q A C"
  unfolding ends_def using books_kept_trans by blast

lemma leads_mono:
  assumes "leads D m P E" "\<And>D'. P D' \<Longrightarrow> P' D'" "\<And>D'. E D' \<Longrightarrow> E' D'"
  shows "leads D m P' E'"
  using assms unfolding leads_def ends_def by (blast intro: gives_mono)

lemma leads_ret: "P D \<Longrightarrow> leads D (ret x) P E"
  by (simp add: leads_def gives_simps ends_def books_kept_refl)

lemma leads_throw: "E D \<Longrightarrow> leads D (throw e) P E"
  by (simp add: leads_def gives_simps ends_def books_kept_refl)

lemma gives_after:
  assumes "ends P A B" "\<And>D. P D \<Longrightarrow> leads D m Q E"
  shows "gives m B (\<lambda>_. ends Q A) (\<lambda>_. ends E A)"
proof -
  have "P (shape B)" "tidy B" using assms(1) by (simp_all add: ends_def)
  with assms(2) [of "shape B"] have "gives m B (\<lambda>_. ends Q B) (\<lambda>_. ends E B)" by (simp add: leads_def)
  then show ?thesis by (rule gives_mono) (rule ends_trans [OF assms(1)], assumption)+
qed

lemma ends_never: "ends never A = (\<lambda>_. False)"
  by (simp add: ends_def fun_eq_iff)

lemma gives_after_total:
  assumes "ends P A B" "\<And>D. P D \<Longrightarrow> leads D m Q never"
  shows "gives m B (\<lambda>_. ends Q A) (\<lambda>_ _. False)"
  using gives_after [OF assms] by (simp add: ends_never)

lemma leads_bind:
  fixes m :: "('w prog, 'a) act"
  assumes "leads D m P E" "\<And>x D'. P D' \<Longrightarrow> leads D' (f x) Q E"
  shows "leads D (bind m f) Q E"
  unfolding leads_def gives_bind
proof (intro allI impI)
  fix A :: "'w prog" assume "shape A = D" "tidy A"
  with assms(1) have "gives m A (\<lambda>_. ends P A) (\<lambda>_. ends E A)" by (simp add: leads_def)
  then show "gives m A (\<lambda>x A'. gives (f x) A' (\<lambda>_. ends Q A) (\<lambda>_. ends E A)) (\<lambda>_. ends E A)"
    by (rule gives_mono) (auto intro: gives_after assms(2))
qed

lemma leads_scoped:
  fixes m :: "('w prog, 'a) act"
  assumes "leads D m P E" "\<And>D'. P D' \<Longrightarrow> leads D' d Q never" "\<And>D'. E D' \<Longrightarrow> leads D' d F never"
  shows "leads D (scoped m d) Q F"
  unfolding leads_def gives_scoped
proof (intro allI impI)
  fix A :: "'w prog" assume "shape A = D" "tidy A"
  with assms(1) have "gives m A (\<lambda>_. ends P A) (\<lambda>_. ends E A)" by (simp add: leads_def)
  then show "gives m A (\<lambda>x A'. gives d A' (\<lambda>_. ends Q A) (\<lambda>_ _. False))
      (\<lambda>e A'. gives d A' (\<lambda>_. ends F A) (\<lambda>_ _. False))"
    by (rule gives_mono) (erule gives_after_total, erule assms)+
qed

lemma leads_unwind:
  fixes m :: "('w prog, 'a) act"
  assumes "leads D m P E" "\<And>D'. E D' \<Longrightarrow> leads D' d F never"
  shows "leads D (unwind m d) P F"
  unfolding leads_def gives_unwind
proof (intro allI impI)
  fix A :: "'w prog" assume "shape A = D" "tidy A"
  with assms(1) have "gives m A (\<lambda>_. ends P A) (\<lambda>_. ends E A)" by (simp add: leads_def)
  then show "gives m A (\<lambda>_. ends P A) (\<lambda>e A'. gives d A' (\<lambda>_. ends F A) (\<lambda>_ _. False))"
    by (rule gives_mono) (assumption | erule gives_after_total, erule assms)+
qed

lemma leads_caught:
  fixes m :: "('w prog, 'a) act"
  assumes "leads D m P E" "\<And>e D'. E D' \<Longrightarrow> leads D' (f e) P F"
  shows "leads D (caught m f) P F"
  unfolding leads_def gives_caught
proof (intro allI impI)
  fix A :: "'w prog" assume "shape A = D" "tidy A"
  with assms(1) have "gives m A (\<lambda>_. ends P A) (\<lambda>_. ends E A)" by (simp add: leads_def)
  then show "gives m A (\<lambda>_. ends P A) (\<lambda>e A'. gives (f e) A' (\<lambda>_. ends P A) (\<lambda>_. ends F A))"
    by (rule gives_mono) (auto intro: gives_after assms(2))
qed

text \<open>The rules where it is known what is left.\<close>

lemma leads_seq:
  "leads D m ((=) D1) E \<Longrightarrow> (\<And>x. leads D1 (f x) Q E) \<Longrightarrow> leads D (bind m f) Q E"
  by (rule leads_bind [where P = "(=) D1"]) auto

lemma leads_guard:
  "leads D m P ((=) D1) \<Longrightarrow> leads D1 d F never \<Longrightarrow> leads D (unwind m d) P F"
  by (rule leads_unwind [where E = "(=) D1"]) auto

lemma leads_total: "leads D m P never \<Longrightarrow> leads D m P E"
  by (erule leads_mono) auto

section \<open>Steps in the library\<close>

text \<open>
  What the rules need of nng: a successful call that delivers a handle does not deliver the
  null one; no call but \<open>nng_free\<close>, and a successful \<open>nng_send\<close> of a buffer, takes memory away;
  \<open>nng_alloc\<close> maps what it returns, and \<open>nng_recv\<close> the buffer it delivers, which is
  the null one only for no bytes.
\<close>

definition keeps_memory :: "string list \<Rightarrow> ('w, 'r) cfun \<Rightarrow> bool" where
  "keeps_memory except f \<longleftrightarrow>
     (\<forall>fn args l m. fn \<notin> set except \<longrightarrow> dom m \<subseteq> dom (snd (snd (f fn args (l, m)))))"

definition delivers :: "('w, i32 \<times> 'h::zero) cfun \<Rightarrow> bool" where
  "delivers f \<longleftrightarrow> (\<forall>fn args x. fn \<in> set handle_fns \<longrightarrow> fst (fst (f fn args x)) = 0 \<longrightarrow> snd (fst (f fn args x)) \<noteq> 0)"

definition keeps_unsent :: "('w, i32) cfun \<Rightarrow> bool" where
  "keeps_unsent f \<longleftrightarrow>
     (\<forall>k p n flags l m r l' m'. f ''nng_send'' [k, p, n, VI flags] (l, m) = (r, l', m') \<longrightarrow>
        r \<noteq> 0 \<or> flags AND alloc_bit = 0 \<longrightarrow> dom m \<subseteq> dom m')"

definition maps_received :: "('w, i32 \<times> ptr \<times> w64) cfun \<Rightarrow> bool" where
  "maps_received f \<longleftrightarrow>
     (\<forall>args l m p n l' m'. f ''nng_recv'' args (l, m) = ((0, p, n), l', m') \<longrightarrow>
        block p (unat n) \<subseteq> dom m' \<and> (p = 0 \<longrightarrow> n = 0))"

definition lawful :: "'w nng \<Rightarrow> bool" where
  "lawful nng \<longleftrightarrow> delivers (s_w64 nng) \<and> delivers (s_id nng) \<and>
     keeps_memory [''nng_free''] (f_unit nng) \<and> keeps_memory [''nng_send''] (f_int nng) \<and> keeps_memory [] (f_w64 nng) \<and>
     keeps_memory [] (s_w64 nng) \<and> keeps_memory [] (s_id nng) \<and> keeps_memory [] (s_buf nng) \<and>
     (\<forall>n l m p l' m'. f_w64 nng ''nng_alloc'' [VW n] (l, m) = (p, l', m') \<longrightarrow> p \<noteq> 0 \<longrightarrow>
        block p (unat n) \<subseteq> dom m') \<and>
     flag_alloc nng = alloc_bit \<and> keeps_unsent (f_int nng) \<and> maps_received (s_buf nng)"

text \<open>\<open>grew s s' c\<close>: the call \<open>c\<close> was made, and no memory was taken away.\<close>

definition grew :: "'w st \<Rightarrow> 'w st \<Rightarrow> call \<Rightarrow> bool" where
  "grew s s' c \<longleftrightarrow> st_log s' = st_log s @ [c] \<and> dom (st_mem s) \<subseteq> dom (st_mem s')"

lemma invoke_grew:
  assumes "keeps_memory except f" "fn \<notin> set except" "invoke f enc fn args s = (r, s')"
  shows "grew s s' \<lparr>c_fn = fn, c_args = args, c_ret = enc r\<rparr>"
proof -
  obtain l m where c: "f fn args (st_lib s, st_mem s) = (r, l, m)"
    using assms(3) by (auto simp: invoke_def split: prod.splits)
  then have "dom (st_mem s) \<subseteq> dom m"
    using assms(1,2) unfolding keeps_memory_def by (metis snd_conv)
  with c assms(3) show ?thesis by (auto simp: grew_def invoke_def)
qed

lemma lawful_grew:
  assumes "lawful nng"
  shows "fn \<noteq> ''nng_free'' \<Longrightarrow> grew s (call_unit nng fn args s) \<lparr>c_fn = fn, c_args = args, c_ret = []\<rparr>"
    and "fn \<noteq> ''nng_send'' \<Longrightarrow> call_int nng fn args s = (r, s') \<Longrightarrow> grew s s' \<lparr>c_fn = fn, c_args = args, c_ret = [VI r]\<rparr>"
    and "call_w64 nng fn args s = (p, s') \<Longrightarrow> grew s s' \<lparr>c_fn = fn, c_args = args, c_ret = [VW p]\<rparr>"
    and "get_w64 nng fn args s = ((r, p), s') \<Longrightarrow> grew s s' \<lparr>c_fn = fn, c_args = args, c_ret = [VI r, VW p]\<rparr>"
    and "get_id nng fn args s = ((r, h), s') \<Longrightarrow> grew s s' \<lparr>c_fn = fn, c_args = args, c_ret = [VI r, VId h]\<rparr>"
    and "get_buf nng fn args s = ((r, p, n), s') \<Longrightarrow>
      grew s s' \<lparr>c_fn = fn, c_args = args, c_ret = [VI r, VW p, VW n]\<rparr>"
proof -
  show "grew s (call_unit nng fn args s) \<lparr>c_fn = fn, c_args = args, c_ret = []\<rparr>" if "fn \<noteq> ''nng_free''"
    using assms that invoke_grew [of "[''nng_free'']" "f_unit nng" fn "\<lambda>_. []" args s]
    by (cases "invoke (f_unit nng) (\<lambda>_. []) fn args s") (auto simp: lawful_def call_unit_def)
  show "grew s s' \<lparr>c_fn = fn, c_args = args, c_ret = [VI r]\<rparr>" if "fn \<noteq> ''nng_send''" "call_int nng fn args s = (r, s')"
    using assms that invoke_grew [of "[''nng_send'']" "f_int nng" fn "\<lambda>r. [VI r]"] by (auto simp: lawful_def call_int_def)
  show "grew s s' \<lparr>c_fn = fn, c_args = args, c_ret = [VW p]\<rparr>" if "call_w64 nng fn args s = (p, s')"
    using assms that invoke_grew [of "[]" "f_w64 nng" fn "\<lambda>r. [VW r]"] by (auto simp: lawful_def call_w64_def)
  show "grew s s' \<lparr>c_fn = fn, c_args = args, c_ret = [VI r, VW p]\<rparr>" if "get_w64 nng fn args s = ((r, p), s')"
    using assms that invoke_grew [of "[]" "s_w64 nng" fn "\<lambda>(r, x). [VI r, VW x]" args s "(r, p)"]
    by (auto simp: lawful_def get_w64_def)
  show "grew s s' \<lparr>c_fn = fn, c_args = args, c_ret = [VI r, VId h]\<rparr>" if "get_id nng fn args s = ((r, h), s')"
    using assms that invoke_grew [of "[]" "s_id nng" fn "\<lambda>(r, x). [VI r, VId x]" args s "(r, h)"]
    by (auto simp: lawful_def get_id_def)
  show "grew s s' \<lparr>c_fn = fn, c_args = args, c_ret = [VI r, VW p, VW n]\<rparr>" if "get_buf nng fn args s = ((r, p, n), s')"
    using assms that invoke_grew [of "[]" "s_buf nng" fn "\<lambda>(r, p, n). [VI r, VW p, VW n]" args s "(r, p, n)"]
    by (auto simp: lawful_def get_buf_def)
qed

lemma invoke_delivers:
  assumes "delivers f" "fn \<in> set handle_fns" "invoke f enc fn args s = ((0, h), s')"
  shows "h \<noteq> 0"
proof -
  have "fst (f fn args (st_lib s, st_mem s)) = (0, h)"
    using assms(3) by (auto simp: invoke_def split: prod.splits)
  with assms(1,2) show ?thesis unfolding delivers_def by (metis fst_conv snd_conv)
qed

lemma lawful_handles:
  assumes "lawful nng" "fn \<in> set handle_fns"
  shows "get_w64 nng fn args s = ((0, h), s') \<Longrightarrow> h \<noteq> 0"
    and "get_id nng fn args s = ((0, k), s') \<Longrightarrow> k \<noteq> 0"
  using assms unfolding lawful_def get_w64_def get_id_def by (metis invoke_delivers)+

lemma ends_same:
  assumes "books_kept A A'" "tidy A" "\<And>k. refs k A' = refs k A" "o_buf A' = o_buf A"
    and "dom (st_mem (wrld A)) \<subseteq> dom (st_mem (wrld A'))"
  shows "ends ((=) (shape A)) A A'"
proof -
  have "shape A' = shape A" by (intro ext) (simp add: shape_def assms(3))
  moreover have "tidy A'" using assms(2-5) unfolding tidy_def by fastforce
  ultimately show ?thesis using assms(1) by (simp add: ends_def)
qed

lemma ends_grew:
  assumes "grew (wrld A) (wrld A') c" "silent c" "tidy A" "\<And>k. refs k A' = refs k A" "o_buf A' = o_buf A"
  shows "ends ((=) (shape A)) A A'"
  using assms by (intro ends_same books_kept_silent [of _ _ "[c]"]) (auto simp: grew_def)

text \<open>A step of the library that touches no object, and is defined.\<close>

definition quiet :: "('w st \<Rightarrow> 'a result \<times> 'w st) \<Rightarrow> bool" where
  "quiet f \<longleftrightarrow> (\<forall>s. (\<exists>c. grew s (snd (f s)) c \<and> silent c) \<and> fst (f s) \<noteq> Ub)"

lemma refs_wrld [simp]: "refs k (A\<lparr>wrld := s\<rparr>) = refs k A"
  by (cases k) simp_all

lemma leads_quiet:
  assumes "quiet f"
  shows "leads D (by_world f) ((=) D) ((=) D)"
  unfolding leads_def
proof (intro allI impI)
  fix A :: "'a prog" assume A: "shape A = D" "tidy A"
  obtain x s where f: "f (wrld A) = (x, s)" by fastforce
  with assms obtain c where "grew (wrld A) s c" "silent c" "x \<noteq> Ub" unfolding quiet_def by (metis fst_conv snd_conv)
  with A f ends_grew [of A "A\<lparr>wrld := s\<rparr>" c]
  show "gives (by_world f) A (\<lambda>_. ends ((=) D) A) (\<lambda>_. ends ((=) D) A)"
    by (cases x) (auto simp: gives_def by_world_def)
qed

lemma quiet_calls:
  assumes "lawful nng" "fn \<notin> set class_fns"
  shows "quiet (\<lambda>s. check src (call_int nng fn args s))"
    and "quiet (\<lambda>s. (case call_int nng fn args s of (x, s') \<Rightarrow> (Ok x, s')))"
    and "quiet (\<lambda>s. (case call_w64 nng fn args s of (x, s') \<Rightarrow> (Ok x, s')))"
    and "quiet (\<lambda>s. (Ok (), call_unit nng fn args s))"
proof -
  have s: "silent \<lparr>c_fn = fn, c_args = args, c_ret = r\<rparr>" for r using assms(2) by (simp add: silent_fn)
  have "fn \<noteq> ''nng_free''" "fn \<noteq> ''nng_send''" using assms(2) by (auto simp: class_fns_def handle_fns_def)
  then have u: "\<exists>c. grew s (call_unit nng fn args s) c \<and> silent c" for s
    using s lawful_grew(1) [OF assms(1)] by blast
  have i: "\<exists>c. grew s s' c \<and> silent c" if "call_int nng fn args s = (r, s')" for s s' r
    using s lawful_grew(2) [OF assms(1) \<open>fn \<noteq> ''nng_send''\<close> that] by blast
  have w: "\<exists>c. grew s s' c \<and> silent c" if "call_w64 nng fn args s = (r, s')" for s s' r
    using s lawful_grew(3) [OF assms(1) that] by blast
  show "quiet (\<lambda>s. check src (call_int nng fn args s))"
    "quiet (\<lambda>s. (case call_int nng fn args s of (x, s') \<Rightarrow> (Ok x, s')))"
    "quiet (\<lambda>s. (case call_w64 nng fn args s of (x, s') \<Rightarrow> (Ok x, s')))"
    "quiet (\<lambda>s. (Ok (), call_unit nng fn args s))"
    unfolding quiet_def check_def using u i w by (auto split: prod.splits)
qed

section \<open>The objects of a class\<close>

text \<open>
  The interface of a class of the state: where its store is, and that an update of the store
  touches nothing else. The rules for construction, destruction and use follow once for all.
\<close>

text \<open>What the acquiring function and the releasing one say of the handle.\<close>

definition obtains_handle :: "cls \<Rightarrow> ('h \<Rightarrow> ptr) \<Rightarrow> ('w st \<Rightarrow> 'h result \<times> 'w st) \<Rightarrow> bool" where
  "obtains_handle k conv acq \<longleftrightarrow>
     (\<forall>s. \<exists>c. grew s (snd (acq s)) c \<and>
        (case fst (acq s) of
           Ok h \<Rightarrow> conv h \<noteq> 0 \<and> only k (Give (conv h)) c | Throw _ \<Rightarrow> silent c | Ub \<Rightarrow> False))"

definition returns_handle :: "cls \<Rightarrow> ('h \<Rightarrow> ptr) \<Rightarrow> ('h \<Rightarrow> 'w st \<Rightarrow> 'w st) \<Rightarrow> bool" where
  "returns_handle k conv free \<longleftrightarrow> (\<forall>h s. \<exists>c. grew s (free h s) c \<and> only k (Kill (conv h)) c)"

definition hands_over ::
  "cls \<Rightarrow> ('h::zero \<Rightarrow> ptr) \<Rightarrow> nat \<Rightarrow> ('h store \<times> 'w st \<Rightarrow> 'a result \<times> 'h store \<times> 'w st) \<Rightarrow> bool" where
  "hands_over k conv a f \<longleftrightarrow>
     (\<forall>S s h. S a = Some h \<longrightarrow> h \<noteq> 0 \<longrightarrow> (\<exists>c s'. grew s s' c \<and>
        ((\<exists>x. f (S, s) = (Ok x, S(a \<mapsto> 0), s')) \<and> only k (Kill (conv h)) c \<or>
         (\<exists>e. f (S, s) = (Throw e, S, s')) \<and> silent c)))"

locale part =
  fixes k :: cls
    and get :: "'w prog \<Rightarrow> 'h::zero store"
    and upd :: "('h store \<Rightarrow> 'h store) \<Rightarrow> 'w prog \<Rightarrow> 'w prog"
    and conv :: "'h \<Rightarrow> ptr"
  assumes refs_get: "refs k A = map_option conv \<circ> get A"
    and get_upd: "get (upd f A) = f (get A)"
    and get_wrld: "get (A\<lparr>wrld := s\<rparr>) = get A"
    and other_refs: "j \<noteq> k \<Longrightarrow> refs j (upd f A) = refs j A"
    and wrld_upd: "wrld (upd f A) = wrld A"
    and buf_upd: "o_buf (upd f A) = o_buf A"
    and conv_null: "conv h = 0 \<longleftrightarrow> h = 0"
    and upd_upd: "upd f ((upd g A)\<lparr>wrld := s\<rparr>) = (upd (f \<circ> g) A)\<lparr>wrld := s\<rparr>"
begin

abbreviation stored :: "'w prog \<Rightarrow> nat \<Rightarrow> 'h option \<Rightarrow> 'w st \<Rightarrow> 'w prog" where
  "stored A a x s \<equiv> (upd (\<lambda>_. (get A)(a := x)) A)\<lparr>wrld := s\<rparr>"

lemma refs_stored:
  "refs k (stored A a x s) = (refs k A)(a := map_option conv x)"
  "j \<noteq> k \<Longrightarrow> refs j (stored A a x s) = refs j A"
  by (auto simp: refs_get get_upd get_wrld other_refs)

lemma shape_get: "shape A k a = map_option (\<lambda>h. h \<noteq> 0) (get A a)"
  by (simp add: shape_def refs_get conv_null option.map_comp comp_def)

lemma stored_handle:
  assumes "shape A k a = Some y"
  obtains h where "get A a = Some h" "y \<longleftrightarrow> h \<noteq> 0"
  using assms by (cases "get A a") (auto simp: shape_get)

lemma shape_stored: "shape (stored A a x s) = put (shape A) k a (map_option (\<lambda>h. h \<noteq> 0) x)"
proof (intro ext)
  fix j b
  show "shape (stored A a x s) j b = put (shape A) k a (map_option (\<lambda>h. h \<noteq> 0) x) j b"
    by (cases "j = k")
      (auto simp: shape_def put_def refs_stored conv_null option.map_comp comp_def simp del: refs_wrld)
qed

lemma tidy_stored:
  assumes "tidy A" "dom (st_mem (wrld A)) \<subseteq> dom (st_mem s)"
  shows "tidy (stored A a x s)"
proof -
  have "finite (dom (refs j (stored A a x s)))" for j
    using assms(1) by (cases "j = k") (auto simp: tidy_def refs_stored simp del: refs_wrld)
  moreover have "o_buf (stored A a x s) = o_buf A" by (simp add: buf_upd)
  ultimately show ?thesis using assms unfolding tidy_def by fastforce
qed

lemma acquire:
  assumes "obtains_handle k conv acq" "D k a = None"
  shows "leads D (on get upd (m_acquire a acq)) ((=) (put D k a (Some True))) ((=) D)"
  unfolding leads_def
proof (intro allI impI)
  fix A :: "'w prog" assume A: "shape A = D" "tidy A"
  obtain x s where f: "acq (wrld A) = (x, s)" by fastforce
  with assms(1) obtain c where c: "grew (wrld A) s c"
    "case x of Ok h \<Rightarrow> conv h \<noteq> 0 \<and> only k (Give (conv h)) c | Throw _ \<Rightarrow> silent c | Ub \<Rightarrow> False"
    using spec [OF assms(1) [unfolded obtains_handle_def], of "wrld A"] by auto
  have free: "refs k A a = None" using assms(2) A by (auto simp: shape_def)
  show "gives (on get upd (m_acquire a acq)) A (\<lambda>_. ends ((=) (put D k a (Some True))) A) (\<lambda>_. ends ((=) D) A)"
  proof (cases x)
    case (Ok h)
    have "books_kept A (stored A a (Some h) s)"
      using c Ok A(2) free refs_stored [where A = A and a = a and x = "Some h" and s = s]
      by (intro books_kept_give [of _ _ c k "conv h" a])
        (auto simp: grew_def wrld_upd tidy_def simp del: refs_wrld)
    moreover have "tidy (stored A a (Some h) s)" using A(2) c by (intro tidy_stored) (auto simp: grew_def)
    moreover have "shape (stored A a (Some h) s) = put D k a (Some True)"
      using c Ok A(1) conv_null [of h] by (simp add: shape_stored)
    moreover have "on get upd (m_acquire a acq) A = (Ok None, stored A a (Some h) s)"
      using Ok f by (simp add: on_def m_acquire_def)
    ultimately show ?thesis by (simp add: gives_def ends_def)
  next
    case (Throw e)
    have "refs j (stored A a (get A a) s) = refs j A" for j
      using refs_stored [where A = A and a = a and x = "get A a" and s = s]
      by (cases "j = k") (auto simp: refs_get simp del: refs_wrld)
    then have "ends ((=) D) A (stored A a (get A a) s)"
      using c Throw A ends_grew [of A "stored A a (get A a) s" c] by (simp add: buf_upd)
    with Throw f show ?thesis by (simp add: gives_def on_def m_acquire_def)
  next
    case Ub
    with c show ?thesis by simp
  qed
qed

lemma construct_null:
  assumes "D k a = None"
  shows "leads D (on get upd (m_default a)) ((=) (put D k a (Some False))) never"
  unfolding leads_def
proof (intro allI impI)
  fix A :: "'w prog" assume A: "shape A = D" "tidy A"
  have "refs k A a = None" using assms A by (auto simp: shape_def)
  then have "owned ((refs k A)(a \<mapsto> 0)) = owned (refs k A)" using A(2) by (simp add: owned_new tidy_def)
  then have "owned (refs j (stored A a (Some 0) (wrld A))) = owned (refs j A)" for j
    using refs_stored [where A = A and a = a and x = "Some 0" and s = "wrld A"] conv_null [of 0]
    by (cases "j = k") (simp_all del: refs_wrld)
  then have "books_kept A (stored A a (Some 0) (wrld A))"
    by (intro books_kept_silent [of _ _ "[]"]) (auto simp: wrld_upd)
  with A show "gives (on get upd (m_default a)) A (\<lambda>_. ends ((=) (put D k a (Some False))) A) (\<lambda>_. ends never A)"
    by (simp add: gives_def on_def m_default_def ends_def shape_stored tidy_stored)
qed

lemma destroy:
  assumes "returns_handle k conv free" "D k a \<noteq> None"
  shows "leads D (on get upd (m_dtor free a)) ((=) (put D k a None)) never"
  unfolding leads_def
proof (intro allI impI)
  fix A :: "'w prog" assume A: "shape A = D" "tidy A"
  then obtain h where h: "get A a = Some h" using assms(2) shape_get [of A a] by auto
  let ?s = "if h = 0 then wrld A else free h (wrld A)"
  have "\<exists>c. grew (wrld A) (free h (wrld A)) c \<and> only k (Kill (conv h)) c"
    using assms(1) by (simp add: returns_handle_def)
  moreover have fin: "finite (dom (refs k A))" using A(2) by (simp add: tidy_def)
  ultimately obtain c where c: "grew (wrld A) (free h (wrld A)) c" "only k (Kill (conv h)) c" by blast
  have mem: "dom (st_mem (wrld A)) \<subseteq> dom (st_mem ?s)" using c by (simp add: grew_def)
  have b: "books_kept A (stored A a None ?s)"
  proof (cases "h = 0")
    case True
    have "refs k A a = Some 0" using h True conv_null [of 0] by (simp add: refs_get)
    then have "owned ((refs k A)(a := None)) = owned (refs k A)"
      using A(2) owned_split [of "refs k A" a] by (simp add: tidy_def)
    then have "owned (refs j (stored A a None ?s)) = owned (refs j A)" for j
      using refs_stored [where A = A and a = a and x = None and s = ?s] by (cases "j = k") (simp_all del: refs_wrld)
    then show ?thesis using True by (intro books_kept_silent [of _ _ "[]"]) (auto simp: wrld_upd)
  next
    case False
    then show ?thesis
      using c A(2) h refs_stored [where A = A and a = a and x = None and s = ?s] conv_null [of h]
      by (intro books_kept_kill [of _ _ c k "conv h" a None] fin)
        (auto simp: grew_def wrld_upd refs_get simp del: refs_wrld)
  qed
  have "m_dtor free a (get A, wrld A) = (Ok None, (get A)(a := None), ?s)"
    using h by (simp add: m_dtor_def)
  with b mem A show "gives (on get upd (m_dtor free a)) A (\<lambda>_. ends ((=) (put D k a None)) A) (\<lambda>_. ends never A)"
    by (auto simp: gives_def on_def ends_def shape_stored intro!: tidy_stored)
qed

lemma give_away:
  assumes "hands_over k conv a f" "D k a = Some True"
  shows "leads D (on get upd f) ((=) (put D k a (Some False))) ((=) D)"
  unfolding leads_def
proof (intro allI impI)
  fix A :: "'w prog" assume A: "shape A = D" "tidy A"
  then obtain h where h: "get A a = Some h" "h \<noteq> 0" using assms(2) by (auto elim: stored_handle)
  let ?P = "\<lambda>x S c s. grew (wrld A) s c \<and>
    (case x of Ok _ \<Rightarrow> S = (get A)(a \<mapsto> 0) \<and> only k (Kill (conv h)) c | Throw _ \<Rightarrow> S = get A \<and> silent c | Ub \<Rightarrow> False)"
  obtain x S s where f: "f (get A, wrld A) = (x, S, s)" by (metis prod_cases3)
  with assms(1) [unfolded hands_over_def, rule_format, of "get A" h "wrld A"] h
  obtain c where c: "?P x S c s" by auto
  have mem: "dom (st_mem (wrld A)) \<subseteq> dom (st_mem s)" using c by (simp add: grew_def)
  have fin: "finite (dom (refs k A))" using A(2) by (simp add: tidy_def)
  show "gives (on get upd f) A (\<lambda>_. ends ((=) (put D k a (Some False))) A) (\<lambda>_. ends ((=) D) A)"
  proof (cases x)
    case (Ok y)
    have "books_kept A (stored A a (Some 0) s)"
      using c Ok h refs_stored [where A = A and a = a and x = "Some 0" and s = s] conv_null
      by (intro books_kept_kill [of _ _ c k "conv h" a "Some 0"] fin)
        (auto simp: grew_def wrld_upd refs_get simp del: refs_wrld)
    then have "ends ((=) (put D k a (Some False))) A (stored A a (Some 0) s)"
      using A tidy_stored [OF A(2) mem, of a "Some 0"] by (simp add: ends_def shape_stored)
    with c Ok f show ?thesis by (simp add: gives_def on_def)
  next
    case (Throw e)
    have "refs j (stored A a (get A a) s) = refs j A" for j
      using refs_stored [where A = A and a = a and x = "get A a" and s = s]
      by (cases "j = k") (auto simp: refs_get simp del: refs_wrld)
    then have "ends ((=) D) A (stored A a (get A a) s)"
      using c Throw A ends_grew [of A "stored A a (get A a) s" c] by (simp add: buf_upd)
    with c Throw f show ?thesis by (simp add: gives_def on_def)
  next
    case Ub
    with c show ?thesis by simp
  qed
qed

lemma move_into_null:
  assumes "\<And>S s h. S b = Some h \<Longrightarrow> S a = Some 0 \<Longrightarrow> \<exists>x. f (S, s) = (Ok x, S(a \<mapsto> h, b \<mapsto> 0), s)"
    and "a \<noteq> b" "D k a = Some False" "D k b = Some y"
  shows "leads D (on get upd f) ((=) (put (put D k a (Some y)) k b (Some False))) never"
  unfolding leads_def
proof (intro allI impI)
  fix A :: "'w prog" assume A: "shape A = D" "tidy A"
  then obtain h where h: "get A a = Some 0" "get A b = Some h" "y \<longleftrightarrow> h \<noteq> 0"
    using assms(3,4) stored_handle [of A a] stored_handle [of A b] by metis
  let ?A = "stored (stored A a (Some h) (wrld A)) b (Some 0) (wrld A)"
  have sh: "shape ?A = put (put D k a (Some y)) k b (Some False)" and ti: "tidy ?A"
    using A h(3) by (simp_all add: shape_stored tidy_stored wrld_upd)
  have fin: "finite (dom (refs k A))" using A(2) by (simp add: tidy_def)
  have "refs k ?A = (refs k A)(a \<mapsto> conv h, b \<mapsto> 0)" "\<And>j. j \<noteq> k \<Longrightarrow> refs j ?A = refs j A"
    using refs_stored [where A = A and a = a and x = "Some h" and s = "wrld A"]
      refs_stored [where A = "stored A a (Some h) (wrld A)" and a = b and x = "Some 0" and s = "wrld A"] conv_null [of 0]
    by (simp_all del: refs_wrld)
  moreover have "owned ((refs k A)(a \<mapsto> conv h, b \<mapsto> 0)) = owned (refs k A)"
  proof -
    obtain R where "owned (refs k A) = held (refs k A a) + held (Some (conv h)) + R"
      "owned ((refs k A)(a \<mapsto> conv h, b \<mapsto> 0)) = held (Some (conv h)) + R"
      using owned_transfer [OF fin, of b "conv h" a] h(2) assms(2) by (auto simp: refs_get)
    then show ?thesis using h(1) conv_null [of 0] by (simp add: refs_get)
  qed
  ultimately have "owned (refs j ?A) = owned (refs j A)" for j by (cases "j = k") simp_all
  then have "books_kept A ?A" by (intro books_kept_silent [of _ _ "[]"]) (simp_all add: wrld_upd)
  with sh ti have "ends ((=) (put (put D k a (Some y)) k b (Some False))) A ?A" by (simp add: ends_def)
  moreover have "?A = (upd (\<lambda>_. (get A)(a \<mapsto> h, b \<mapsto> 0)) A)\<lparr>wrld := wrld A\<rparr>"
    by (simp add: get_upd get_wrld upd_upd comp_def fun_upd_def)
  ultimately show "gives (on get upd f) A (\<lambda>_. ends ((=) (put (put D k a (Some y)) k b (Some False))) A) (\<lambda>_. ends never A)"
    using assms(1) [OF h(2,1), of "wrld A"] by (auto simp: gives_def on_def)
qed

text \<open>The scope of an object that is still there at its end, whatever happened to others.\<close>

lemma scope_of:
  assumes "obtains_handle k conv acq" "returns_handle k conv free" "D k a = None"
    and "leads (put D k a (Some True)) m (\<lambda>D'. D' k a \<noteq> None \<and> P (put D' k a None))
      (\<lambda>D'. D' k a \<noteq> None \<and> E (put D' k a None))" "E D"
  shows "leads D (in_scope (on get upd (m_acquire a acq)) (on get upd (m_dtor free a)) m) P E"
  unfolding in_scope_def
proof (rule leads_bind)
  show "leads D (on get upd (m_acquire a acq)) ((=) (put D k a (Some True))) E"
    using assms(5) by (intro leads_mono [OF acquire [of acq D a, OF assms(1,3)]]) auto
next
  fix x :: "'h option" and D' assume D': "put D k a (Some True) = D'"
  have out: "leads D1 (on get upd (m_dtor free a)) Q never" if "D1 k a \<noteq> None \<and> Q (put D1 k a None)" for D1 Q
    using that by (intro leads_mono [OF destroy [of free D1 a, OF assms(2)]]) auto
  show "leads D' (scoped m (on get upd (m_dtor free a))) P E"
    unfolding D' [symmetric] by (rule leads_scoped [OF assms(4)]) (erule out)+
qed

lemma scope:
  assumes "obtains_handle k conv acq" "returns_handle k conv free" "D k a = None"
    and "leads (put D k a (Some True)) m (\<lambda>D'. \<exists>b. D' = put D k a (Some b)) (\<lambda>D'. \<exists>b. D' = put D k a (Some b))"
  shows "leads D (in_scope (on get upd (m_acquire a acq)) (on get upd (m_dtor free a)) m) ((=) D) ((=) D)"
  using assms(3)
  by (intro scope_of [of acq free D a m, OF assms(1-3)] leads_mono [OF assms(4)]) auto

text \<open>An object that holds nothing is assigned a new one.\<close>

lemma refill:
  assumes "obtains_handle k conv acq" "returns_handle k conv free"
    and "a \<noteq> b" "D k a = Some False" "D k b = None"
    and "\<And>S s h. S b = Some h \<Longrightarrow> S a = Some 0 \<Longrightarrow> \<exists>x. f (S, s) = (Ok x, S(a \<mapsto> h, b \<mapsto> 0), s)"
  shows "leads D (in_scope (on get upd (m_acquire b acq)) (on get upd (m_dtor free b)) (on get upd f))
    ((=) (put D k a (Some True))) ((=) D)"
proof (rule scope_of [of acq free D b "on get upd f", OF assms(1,2,5)])
  let ?D = "put D k b (Some True)"
  have "leads ?D (on get upd f) ((=) (put (put ?D k a (Some True)) k b (Some False))) never"
    using assms(3,4) by (intro move_into_null [of b a f] assms(6)) auto
  moreover have "put (put (put ?D k a (Some True)) k b (Some False)) k b None = put D k a (Some True)"
    using assms(3,5) by (auto simp: put_def fun_eq_iff)
  ultimately show "leads ?D (on get upd f) (\<lambda>D'. D' k b \<noteq> None \<and> put D k a (Some True) = put D' k b None)
      (\<lambda>D'. D' k b \<noteq> None \<and> D = put D' k b None)"
    by (elim leads_mono) auto
qed simp

lemma use:
  assumes "D k a \<noteq> None"
  shows "leads D (held_by get a) ((=) D) never"
  using assms shape_get unfolding leads_def
  by (auto simp: gives_def held_by_def ends_def books_kept_refl split: option.splits)

end

lemma refs_upd [simp]:
  "j \<noteq> K_url \<Longrightarrow> refs j (o_url_update f A) = refs j A"
  "j \<noteq> K_client \<Longrightarrow> refs j (o_client_update f A) = refs j A"
  "j \<noteq> K_aio \<Longrightarrow> refs j (o_aio_update f A) = refs j A"
  "j \<noteq> K_req \<Longrightarrow> refs j (o_req_update f A) = refs j A"
  "j \<noteq> K_res \<Longrightarrow> refs j (o_res_update f A) = refs j A"
  "j \<noteq> K_buf \<Longrightarrow> refs j (o_buf_update g A) = refs j A"
  "j \<noteq> K_msg \<Longrightarrow> refs j (o_msg_update f A) = refs j A"
  "j \<noteq> K_sock \<Longrightarrow> refs j (o_sock_update i A) = refs j A"
  "j \<noteq> K_ctx \<Longrightarrow> refs j (o_ctx_update i A) = refs j A"
  "j \<noteq> K_server \<Longrightarrow> refs j (o_server_update f A) = refs j A"
  "j \<noteq> K_handler \<Longrightarrow> refs j (o_handler_update f A) = refs j A"
  "j \<noteq> K_thread \<Longrightarrow> refs j (o_thread_update f A) = refs j A"
  by (cases j; simp)+

lemma ucast_id_null: "(ucast (h :: i32) :: ptr) = 0 \<longleftrightarrow> h = 0"
  using ucast_up_ucast_id [where 'a = 32 and 'b = 64, of h] by (auto simp: is_up)

interpretation url_class: part K_url o_url o_url_update "\<lambda>h. h"
  by unfold_locales (simp_all add: option.map_ident comp_def)

interpretation client_class: part K_client o_client o_client_update "\<lambda>h. h"
  by unfold_locales (simp_all add: option.map_ident comp_def)

interpretation aio_class: part K_aio o_aio o_aio_update "\<lambda>h. h"
  by unfold_locales (simp_all add: option.map_ident comp_def)

interpretation req_class: part K_req o_req o_req_update "\<lambda>h. h"
  by unfold_locales (simp_all add: option.map_ident comp_def)

interpretation res_class: part K_res o_res o_res_update "\<lambda>h. h"
  by unfold_locales (simp_all add: option.map_ident comp_def)

interpretation msg_class: part K_msg o_msg o_msg_update "\<lambda>h. h"
  by unfold_locales (simp_all add: option.map_ident comp_def)

interpretation server_class: part K_server o_server o_server_update "\<lambda>h. h"
  by unfold_locales (simp_all add: option.map_ident comp_def)

interpretation handler_class: part K_handler o_handler o_handler_update "\<lambda>h. h"
  by unfold_locales (simp_all add: option.map_ident comp_def)

interpretation thread_class: part K_thread o_thread o_thread_update "\<lambda>h. h"
  by unfold_locales (simp_all add: option.map_ident comp_def)

interpretation sock_class: part K_sock o_sock o_sock_update ucast
  by unfold_locales (simp_all add: ucast_id_null)

interpretation ctx_class: part K_ctx o_ctx o_ctx_update ucast
  by unfold_locales (simp_all add: ucast_id_null)

text \<open>The functions of the classes.\<close>

definition giver :: "cls \<Rightarrow> string \<Rightarrow> bool" where
  "giver k fn \<longleftrightarrow> (k, fn) \<in> {(K_url, ''nng_url_parse''), (K_client, ''nng_http_client_alloc''),
     (K_aio, ''nng_aio_alloc''), (K_req, ''nng_http_req_alloc''), (K_res, ''nng_http_res_alloc''),
     (K_msg, ''nng_msg_alloc''), (K_msg, ''nng_recvmsg''), (K_server, ''nng_http_server_hold''),
     (K_handler, ''nng_http_handler_alloc''), (K_thread, ''nng_thread_create'')}"

definition taker :: "cls \<Rightarrow> string \<Rightarrow> bool" where
  "taker k fn \<longleftrightarrow> (k, fn) \<in> {(K_url, ''nng_url_free''), (K_client, ''nng_http_client_free''),
     (K_aio, ''nng_aio_free''), (K_req, ''nng_http_req_free''), (K_res, ''nng_http_res_free''),
     (K_msg, ''nng_msg_free''), (K_server, ''nng_http_server_release''), (K_handler, ''nng_http_handler_free''),
     (K_thread, ''nng_thread_destroy'')}"

lemma giver_call:
  assumes "giver k fn"
  shows "only k (Give h) \<lparr>c_fn = fn, c_args = args, c_ret = [VI 0, VW h]\<rparr>"
    and "r \<noteq> 0 \<Longrightarrow> silent \<lparr>c_fn = fn, c_args = args, c_ret = [VI r, VW h]\<rparr>"
  using assms unfolding giver_def only_def silent_def
  by (intro allI, case_tac j; auto simp: class_evs)+

lemma taker_call:
  "taker k fn \<Longrightarrow> only k (Kill h) \<lparr>c_fn = fn, c_args = [VW h], c_ret = []\<rparr>"
  unfolding taker_def only_def by (intro allI, case_tac j; auto simp: class_evs)

lemma obtains_giver:
  assumes "lawful nng" "giver k fn"
  shows "obtains_handle k (\<lambda>h. h) (\<lambda>s. check_out src (get_w64 nng fn args s))"
  unfolding obtains_handle_def
proof
  fix s :: "'a st"
  obtain r h s' where c: "get_w64 nng fn args s = ((r, h), s')" by (metis prod.exhaust)
  have "fn \<in> set handle_fns" using assms(2) by (auto simp: giver_def handle_fns_def)
  then have "r = 0 \<Longrightarrow> h \<noteq> 0" using lawful_handles [OF assms(1)] c by blast
  moreover have "grew s s' \<lparr>c_fn = fn, c_args = args, c_ret = [VI r, VW h]\<rparr>"
    by (rule lawful_grew(4) [OF assms(1) c])
  ultimately show "\<exists>d. grew s (snd (check_out src (get_w64 nng fn args s))) d \<and>
      (case fst (check_out src (get_w64 nng fn args s)) of
         Ok h \<Rightarrow> h \<noteq> 0 \<and> only k (Give h) d | Throw _ \<Rightarrow> silent d | Ub \<Rightarrow> False)"
    using giver_call [OF assms(2)] c by (cases "r = 0") (auto simp: check_out_def)
qed

lemma returns_taker:
  assumes "lawful nng" "taker k fn"
  shows "returns_handle k (\<lambda>h. h) (\<lambda>h. call_unit nng fn [VW h])"
proof -
  have "fn \<noteq> ''nng_free''" using assms(2) by (auto simp: taker_def)
  then show ?thesis
    using lawful_grew(1) [OF assms(1)] taker_call [OF assms(2)] unfolding returns_handle_def by blast
qed

text \<open>Classes over an integer id.\<close>

definition opener :: "cls \<Rightarrow> string \<Rightarrow> bool" where
  "opener k fn \<longleftrightarrow> k = K_sock \<and> fn \<in> set sock_opens \<or> k = K_ctx \<and> fn = ''nng_ctx_open''"

lemma obtains_opened:
  assumes "lawful nng" "opener k fn"
  shows "obtains_handle k ucast (\<lambda>s. check_out src (get_id nng fn args s))"
  unfolding obtains_handle_def
proof
  fix s :: "'a st"
  obtain r h s' where c: "get_id nng fn args s = ((r, h), s')" by (metis prod.exhaust)
  have "fn \<in> set handle_fns" using assms(2) by (auto simp: handle_fns_def opener_def sock_opens_def)
  then have "r = 0 \<Longrightarrow> ucast h \<noteq> (0 :: ptr)" using lawful_handles [OF assms(1)] c ucast_id_null by blast
  moreover have "grew s s' \<lparr>c_fn = fn, c_args = args, c_ret = [VI r, VId h]\<rparr>"
    by (rule lawful_grew(5) [OF assms(1) c])
  moreover have "only k (Give (ucast h)) \<lparr>c_fn = fn, c_args = args, c_ret = [VI 0, VId h]\<rparr>"
    "r \<noteq> 0 \<Longrightarrow> silent \<lparr>c_fn = fn, c_args = args, c_ret = [VI r, VId h]\<rparr>"
    using assms(2) unfolding only_def silent_def opener_def
    by (intro allI, case_tac j; auto simp: class_evs)+
  ultimately show "\<exists>d. grew s (snd (check_out src (get_id nng fn args s))) d \<and>
      (case fst (check_out src (get_id nng fn args s)) of
         Ok h \<Rightarrow> ucast h \<noteq> (0 :: ptr) \<and> only k (Give (ucast h)) d | Throw _ \<Rightarrow> silent d | Ub \<Rightarrow> False)"
    using c by (cases "r = 0") (auto simp: check_out_def)
qed

lemma returns_opened:
  assumes "lawful nng" "k = K_sock \<and> fn = ''nng_close'' \<or> k = K_ctx \<and> fn = ''nng_ctx_close''"
  shows "returns_handle k ucast (\<lambda>h s. snd (call_int nng fn [VId h] s))"
proof -
  have "fn \<noteq> ''nng_send''" using assms(2) by auto
  have "only k (Kill (ucast h)) \<lparr>c_fn = fn, c_args = [VId h], c_ret = [VI r]\<rparr>" for h r
    using assms(2) unfolding only_def by (intro allI, case_tac j) (auto simp: class_evs)
  then show ?thesis
    using lawful_grew(2) [OF assms(1) \<open>fn \<noteq> ''nng_send''\<close>] unfolding returns_handle_def by (metis prod.collapse)
qed

lemma hands_message:
  assumes "lawful nng"
  shows "hands_over K_msg (\<lambda>h. h) a (socket_view_send_msg nng k a flags)"
  unfolding hands_over_def
proof (intro allI impI)
  fix S and s :: "'a st" and h :: ptr assume h: "S a = Some h" "h \<noteq> 0"
  obtain r s' where c: "call_int nng ''nng_sendmsg'' [VId k, VW h, VI flags] s = (r, s')" by fastforce
  let ?c = "\<lparr>c_fn = ''nng_sendmsg'', c_args = [VId k, VW h, VI flags], c_ret = [VI r]\<rparr>"
  have g: "grew s s' ?c" by (rule lawful_grew(2) [OF assms _ c]) simp
  have "r = 0 \<Longrightarrow> only K_msg (Kill h) ?c" "r \<noteq> 0 \<Longrightarrow> silent ?c"
    unfolding only_def silent_def by (intro allI, case_tac j; simp add: class_evs)+
  with g c h show "\<exists>c s'. grew s s' c \<and>
      ((\<exists>x. socket_view_send_msg nng k a flags (S, s) = (Ok x, S(a \<mapsto> 0), s')) \<and> only K_msg (Kill h) c \<or>
       (\<exists>e. socket_view_send_msg nng k a flags (S, s) = (Throw e, S, s')) \<and> silent c)"
    by (intro exI [of _ ?c] exI [of _ s'], cases "r = 0")
      (simp_all add: socket_view_send_msg_def m_release_def)
qed

lemma hands_handler:
  assumes "lawful nng"
  shows "hands_over K_handler (\<lambda>h. h) a (http_server_add_handler nng srv a)"
  unfolding hands_over_def
proof (intro allI impI)
  fix S and s :: "'a st" and h :: ptr assume h: "S a = Some h" "h \<noteq> 0"
  obtain r s' where c: "call_int nng ''nng_http_server_add_handler'' [VW srv, VW h] s = (r, s')" by fastforce
  let ?c = "\<lparr>c_fn = ''nng_http_server_add_handler'', c_args = [VW srv, VW h], c_ret = [VI r]\<rparr>"
  have g: "grew s s' ?c" by (rule lawful_grew(2) [OF assms _ c]) simp
  have "r = 0 \<Longrightarrow> only K_handler (Kill h) ?c" "r \<noteq> 0 \<Longrightarrow> silent ?c"
    unfolding only_def silent_def by (intro allI, case_tac j; simp add: class_evs)+
  with g c h show "\<exists>c s'. grew s s' c \<and>
      ((\<exists>x. http_server_add_handler nng srv a (S, s) = (Ok x, S(a \<mapsto> 0), s')) \<and> only K_handler (Kill h) c \<or>
       (\<exists>e. http_server_add_handler nng srv a (S, s) = (Throw e, S, s')) \<and> silent c)"
    by (intro exI [of _ ?c] exI [of _ s'], cases "r = 0")
      (simp_all add: http_server_add_handler_def m_release_def)
qed

text \<open>
  Buffers: their memory is mapped, and is given back with them or sent away. There is one buffer
  at a time, so that what goes away is the memory of no other.
\<close>

lemma buffer_shape: "shape (A\<lparr>o_buf := B, wrld := s\<rparr>) = (shape A)(K_buf := map_option (\<lambda>v. v_data v \<noteq> 0) \<circ> B)"
proof (intro ext)
  fix j a
  have "j \<noteq> K_buf \<Longrightarrow> refs j (A\<lparr>o_buf := B, wrld := s\<rparr>) = refs j A" using refs_upd(6) [of j "\<lambda>_. B" A] by simp
  then show "shape (A\<lparr>o_buf := B, wrld := s\<rparr>) j a = ((shape A)(K_buf := map_option (\<lambda>v. v_data v \<noteq> 0) \<circ> B)) j a"
    by (cases "j = K_buf") (auto simp: shape_def option.map_comp comp_def simp del: refs_wrld)
qed

lemma buffer_tidy:
  assumes "tidy A" "\<And>b v. B b = Some v \<Longrightarrow> b = a \<and> view_block v \<subseteq> dom (st_mem s)"
  shows "tidy (A\<lparr>o_buf := B, wrld := s\<rparr>)"
proof -
  have "dom B \<subseteq> {a}" using assms(2) by auto
  then have "finite (dom B)" using finite_subset by blast
  moreover have "j \<noteq> K_buf \<Longrightarrow> refs j (A\<lparr>o_buf := B, wrld := s\<rparr>) = refs j A" for j
    using refs_upd(6) [of j "\<lambda>_. B" A] by simp
  ultimately have "finite (dom (refs j (A\<lparr>o_buf := B, wrld := s\<rparr>)))" for j
    using assms(1) by (cases "j = K_buf") (simp_all add: tidy_def del: refs_wrld)
  with assms(2) show ?thesis by (simp add: tidy_def del: refs_wrld refs.simps)
qed

lemma buffer_store:
  "shape A K_buf = Map.empty \<Longrightarrow> o_buf A = Map.empty"
  "shape A K_buf = [a \<mapsto> b] \<Longrightarrow> \<exists>v. o_buf A = [a \<mapsto> v] \<and> (v_data v \<noteq> 0 \<longleftrightarrow> b)"
proof -
  have at: "shape A K_buf c = map_option (\<lambda>v. v_data v \<noteq> 0) (o_buf A c)" for c
    by (simp add: shape_def option.map_comp comp_def)
  show "o_buf A = Map.empty" if "shape A K_buf = Map.empty"
  proof
    fix c show "o_buf A c = None" using at [of c] that by simp
  qed
  show "\<exists>v. o_buf A = [a \<mapsto> v] \<and> (v_data v \<noteq> 0 \<longleftrightarrow> b)" if s: "shape A K_buf = [a \<mapsto> b]"
  proof -
    have "map_option (\<lambda>v. v_data v \<noteq> 0) (o_buf A a) = Some b" using at [of a] unfolding s by simp
    then obtain v where v: "o_buf A a = Some v" "v_data v \<noteq> 0 \<longleftrightarrow> b" by (cases "o_buf A a") auto
    have "o_buf A = [a \<mapsto> v]"
    proof
      fix c show "o_buf A c = [a \<mapsto> v] c" using at [of c] s v by auto
    qed
    with v(2) show ?thesis by blast
  qed
qed

text \<open>One call that gives memory to the only buffer, or takes it.\<close>

lemma buffer_gained:
  assumes "tidy A" "shape A K_buf = Map.empty" "grew (wrld A) s c" "view_block v \<subseteq> dom (st_mem s)"
    and "v_data v \<noteq> 0 \<Longrightarrow> only K_buf (Give (v_data v)) c" "v_data v = 0 \<Longrightarrow> silent c"
  shows "ends ((=) (put (shape A) K_buf a (Some (v_data v \<noteq> 0)))) A (A\<lparr>o_buf := [a \<mapsto> v], wrld := s\<rparr>)"
proof -
  let ?A = "A\<lparr>o_buf := [a \<mapsto> v], wrld := s\<rparr>"
  have empty: "o_buf A = Map.empty" by (rule buffer_store(1) [OF assms(2)])
  then have refs: "refs K_buf ?A = (refs K_buf A)(a \<mapsto> v_data v)" "refs K_buf A = Map.empty"
    "\<And>j. j \<noteq> K_buf \<Longrightarrow> refs j ?A = refs j A"
    using refs_upd(6) [of _ "\<lambda>_. [a \<mapsto> v]" A] by auto
  have "books_kept A ?A"
  proof (cases "v_data v = 0")
    case True
    have "owned [a \<mapsto> (0 :: ptr)] = {#}" using owned_new [of "Map.empty :: ptr store" a 0] by simp
    then have "owned (refs j ?A) = owned (refs j A)" for j using refs True by (cases "j = K_buf") (simp_all del: refs.simps)
    then show ?thesis using True assms(3,6) by (intro books_kept_silent [of _ _ "[c]"]) (simp_all add: grew_def)
  next
    case False
    then show ?thesis
      using assms(1,3,5) refs by (intro books_kept_give [of _ _ c K_buf "v_data v" a]) (simp_all add: grew_def tidy_def del: refs.simps)
  qed
  moreover have "tidy ?A" using assms(1,4) by (intro buffer_tidy [where a = a]) (auto split: if_splits)
  moreover have "shape ?A = put (shape A) K_buf a (Some (v_data v \<noteq> 0))"
    using assms(2) by (auto simp: buffer_shape put_def fun_eq_iff)
  ultimately show ?thesis by (simp add: ends_def)
qed

lemma buffer_lost:
  assumes "tidy A" "shape A K_buf = [a \<mapsto> b]" "o_buf A = [a \<mapsto> v]" "x = None \<or> x = Some view_default"
    and "v_data v \<noteq> 0 \<Longrightarrow> st_log s = st_log (wrld A) @ [c] \<and> only K_buf (Kill (v_data v)) c"
    and "v_data v = 0 \<Longrightarrow> \<exists>cs. st_log s = st_log (wrld A) @ cs \<and> (\<forall>c\<in>set cs. silent c)"
  shows "ends ((=) (put (shape A) K_buf a (map_option (\<lambda>_. False) x))) A (A\<lparr>o_buf := (Map.empty)(a := x), wrld := s\<rparr>)"
proof -
  let ?A = "A\<lparr>o_buf := (Map.empty)(a := x), wrld := s\<rparr>"
  have refs: "refs K_buf ?A = (refs K_buf A)(a := map_option v_data x)" "refs K_buf A = [a \<mapsto> v_data v]"
    "\<And>j. j \<noteq> K_buf \<Longrightarrow> refs j ?A = refs j A"
    using assms(3) refs_upd(6) [of _ "\<lambda>_. (Map.empty)(a := x)" A] by auto
  have null: "map_option v_data x = None \<or> map_option v_data x = Some 0"
    using assms(4) by (auto simp: view_default_def)
  have "books_kept A ?A"
  proof (cases "v_data v = 0")
    case True
    have "owned [a \<mapsto> (0 :: ptr)] = {#}" "owned (Map.empty :: ptr store) = {#}"
      using owned_new [of "Map.empty :: ptr store" a 0] by simp_all
    then have "owned (refs j ?A) = owned (refs j A)" for j
      using refs True null by (cases "j = K_buf") (auto simp del: refs.simps)
    then show ?thesis using assms(6) [OF True] by (auto intro: books_kept_silent)
  next
    case False
    then show ?thesis
      using assms(1,5) refs null by (intro books_kept_kill [of _ _ c K_buf "v_data v" a "map_option v_data x"])
        (simp_all add: tidy_def del: refs.simps)
  qed
  moreover have "tidy ?A" using assms(1,4) by (intro buffer_tidy [where a = a]) (auto split: if_splits)
  moreover have "shape ?A = put (shape A) K_buf a (map_option (\<lambda>_. False) x)"
    using assms(2,4) by (auto simp: buffer_shape put_def fun_eq_iff view_default_def)
  ultimately show ?thesis by (simp add: ends_def)
qed

lemma alloc_buffer:
  assumes "lawful nng" "D K_buf = Map.empty"
  shows "leads D (on_buf (buffer_alloc nng a n)) ((=) (put D K_buf a (Some True))) ((=) D)"
  unfolding leads_def
proof (intro allI impI)
  fix A :: "'a prog" assume A: "shape A = D" "tidy A"
  obtain p s where c: "call_w64 nng ''nng_alloc'' [VW n] (wrld A) = (p, s)" by fastforce
  let ?c = "\<lparr>c_fn = ''nng_alloc'', c_args = [VW n], c_ret = [VW p]\<rparr>"
  have g: "grew (wrld A) s ?c" by (rule lawful_grew(3) [OF assms(1) c])
  show "gives (on_buf (buffer_alloc nng a n)) A (\<lambda>_. ends ((=) (put D K_buf a (Some True))) A) (\<lambda>_. ends ((=) D) A)"
  proof (cases "p = null")
    case True
    have "silent ?c" unfolding silent_def using True by (intro allI, case_tac j) (simp_all add: class_evs)
    with True c g A show ?thesis
      by (auto simp: gives_def on_def buffer_alloc_def nng_alloc_def intro!: ends_grew [of _ _ ?c])
  next
    case False
    have "only K_buf (Give p) ?c"
      unfolding only_def using False by (intro allI, case_tac j) (simp_all add: class_evs)
    moreover obtain m where "f_w64 nng ''nng_alloc'' [VW n] (st_lib (wrld A), st_mem (wrld A)) = (p, st_lib s, m)"
      "st_mem s = m" using c by (auto simp: call_w64_def invoke_def split: prod.splits)
    then have "block p (unat n) \<subseteq> dom (st_mem s)" using assms(1) False unfolding lawful_def by blast
    ultimately show ?thesis
      using A False c g assms(2) buffer_store(1) [of A] buffer_gained [of A s ?c "view_of p n" a]
      by (simp add: gives_def on_def buffer_alloc_def nng_alloc_def view_block_def view_of_def)
  qed
qed

lemma free_buffer:
  assumes "D K_buf = [a \<mapsto> b]"
  shows "leads D (on_buf (buffer_dtor nng a)) ((=) (put D K_buf a None)) never"
  unfolding leads_def
proof (intro allI impI)
  fix A :: "'a prog" assume A: "shape A = D" "tidy A"
  then obtain v where v: "o_buf A = [a \<mapsto> v]" using assms buffer_store(2) [of A a b] by blast
  let ?s = "if v_data v \<noteq> null then nng_free nng (v_data v) (v_size v) (wrld A) else wrld A"
  let ?c = "\<lparr>c_fn = ''nng_free'', c_args = [VW (v_data v), VW (v_size v)], c_ret = []\<rparr>"
  have "only K_buf (Kill (v_data v)) ?c"
    unfolding only_def by (intro allI, case_tac j) (simp_all add: class_evs)
  then have "ends ((=) (put (shape A) K_buf a (map_option (\<lambda>_. False) (None :: view option)))) A
      (A\<lparr>o_buf := (Map.empty)(a := None), wrld := ?s\<rparr>)"
    using A assms v by (intro buffer_lost [where v = v and b = b and c = ?c]) (auto simp: nng_free_def)
  moreover have "on_buf (buffer_dtor nng a) A = (Ok (), A\<lparr>o_buf := Map.empty, wrld := ?s\<rparr>)"
    using v by (simp add: on_def buffer_dtor_def)
  ultimately show "gives (on_buf (buffer_dtor nng a)) A (\<lambda>_. ends ((=) (put D K_buf a None)) A) (\<lambda>_. ends never A)"
    using A(1) by (simp add: gives_def)
qed

text \<open>A buffer arrives, and one is sent.\<close>

lemma receive_buffer:
  assumes "lawful nng" "D K_buf = Map.empty"
  shows "leads D (on_buf (m_acquire a (socket_view_recv_buffer nng k f)))
    (\<lambda>D'. \<exists>b. D' = put D K_buf a (Some b)) ((=) D)"
  unfolding leads_def
proof (intro allI impI)
  fix A :: "'a prog" assume A: "shape A = D" "tidy A"
  let ?args = "[VId k, VI (f OR flag_alloc nng)]"
  obtain r p n s where c: "get_buf nng ''nng_recv'' ?args (wrld A) = ((r, p, n), s)" by (metis prod.exhaust)
  let ?c = "\<lparr>c_fn = ''nng_recv'', c_args = ?args, c_ret = [VI r, VW p, VW n]\<rparr>"
  have g: "grew (wrld A) s ?c" by (rule lawful_grew(6) [OF assms(1) c])
  show "gives (on_buf (m_acquire a (socket_view_recv_buffer nng k f))) A
      (\<lambda>_. ends (\<lambda>D'. \<exists>b. D' = put D K_buf a (Some b)) A) (\<lambda>_. ends ((=) D) A)"
  proof (cases "r = 0")
    case True
    then have ev: "p \<noteq> 0 \<Longrightarrow> only K_buf (Give p) ?c" "p = 0 \<Longrightarrow> silent ?c"
      unfolding only_def silent_def by (intro allI, case_tac j; simp add: class_evs)+
    have "f_lib (st_lib (wrld A), st_mem (wrld A)) = ((0, p, n), st_lib s, st_mem s) \<Longrightarrow> maps_received (\<lambda>_ _. f_lib) \<Longrightarrow>
        block p (unat n) \<subseteq> dom (st_mem s)" for f_lib :: "'a \<times> mem \<Rightarrow> (i32 \<times> ptr \<times> w64) \<times> 'a \<times> mem"
      unfolding maps_received_def by blast
    moreover have "s_buf nng ''nng_recv'' ?args (st_lib (wrld A), st_mem (wrld A)) = ((0, p, n), st_lib s, st_mem s)"
      using c True by (auto simp: get_buf_def invoke_def split: prod.splits)
    ultimately have "block p (unat n) \<subseteq> dom (st_mem s)"
      using assms(1) unfolding lawful_def maps_received_def by blast
    then have "ends ((=) (put (shape A) K_buf a (Some (v_data (view_of p n) \<noteq> 0)))) A
        (A\<lparr>o_buf := [a \<mapsto> view_of p n], wrld := s\<rparr>)"
      using A g assms(2) ev by (intro buffer_gained [where c = ?c]) (simp_all add: view_block_def view_of_def)
    then have "ends (\<lambda>D'. \<exists>b. D' = put D K_buf a (Some b)) A (A\<lparr>o_buf := [a \<mapsto> view_of p n], wrld := s\<rparr>)"
      using A(1) unfolding ends_def by metis
    with A assms(2) c True show ?thesis
      using buffer_store(1) [of A]
      by (simp add: gives_def on_def m_acquire_def socket_view_recv_buffer_def check_out_def)
  next
    case False
    have "silent ?c" using False unfolding silent_def by (intro allI, case_tac j) (simp_all add: class_evs)
    with False c g A show ?thesis
      by (auto simp: gives_def on_def m_acquire_def socket_view_recv_buffer_def check_out_def
          intro!: ends_grew [of _ _ ?c])
  qed
qed

lemma bit_of_alloc: "(f OR alloc_bit) AND alloc_bit \<noteq> 0" "(f AND NOT alloc_bit) AND alloc_bit = 0"
proof -
  have "(f OR alloc_bit) AND alloc_bit = alloc_bit" by (rule bit_word_eqI) (auto simp: bit_simps)
  then show "(f OR alloc_bit) AND alloc_bit \<noteq> 0" by (simp add: alloc_bit_def)
  show "(f AND NOT alloc_bit) AND alloc_bit = 0" by (rule bit_word_eqI) (auto simp: bit_simps)
qed

lemma send_call:
  assumes "call_int nng ''nng_send'' [VId k, VW p, VW n, VI f] s = (r, s')"
  shows "st_log s' = st_log s @ [\<lparr>c_fn = ''nng_send'', c_args = [VId k, VW p, VW n, VI f], c_ret = [VI r]\<rparr>]"
    and "lawful nng \<Longrightarrow> r \<noteq> 0 \<or> f AND alloc_bit = 0 \<Longrightarrow> dom (st_mem s) \<subseteq> dom (st_mem s')"
proof -
  show "st_log s' = st_log s @ [\<lparr>c_fn = ''nng_send'', c_args = [VId k, VW p, VW n, VI f], c_ret = [VI r]\<rparr>]"
    using assms unfolding call_int_def by (rule invoke_log)
  have "f_int nng ''nng_send'' [VId k, VW p, VW n, VI f] (st_lib s, st_mem s) = (r, st_lib s', st_mem s')"
    using assms by (auto simp: call_int_def invoke_def split: prod.splits)
  then show "lawful nng \<Longrightarrow> r \<noteq> 0 \<or> f AND alloc_bit = 0 \<Longrightarrow> dom (st_mem s) \<subseteq> dom (st_mem s')"
    unfolding lawful_def keeps_unsent_def by blast
qed

lemma quiet_send:
  assumes l: "lawful nng"
  shows "quiet (socket_view_send nng k v f)"
  unfolding quiet_def
proof
  fix s :: "'a st"
  let ?f = "f AND NOT alloc_bit" and ?args = "\<lambda>f. [VId k, VW (v_data v), VW (v_size v), VI f]"
  obtain r s' where c: "call_int nng ''nng_send'' (?args ?f) s = (r, s')" by fastforce
  let ?c = "\<lparr>c_fn = ''nng_send'', c_args = ?args ?f, c_ret = [VI r]\<rparr>"
  have "silent ?c" unfolding silent_def by (intro allI, case_tac j) (simp_all add: class_evs bit_of_alloc)
  moreover have "grew s s' ?c" using send_call [OF c] l bit_of_alloc(2) [of f] by (simp add: grew_def)
  moreover have "flag_alloc nng = alloc_bit" using l by (simp add: lawful_def)
  ultimately show "(\<exists>c. grew s (snd (socket_view_send nng k v f s)) c \<and> silent c) \<and> fst (socket_view_send nng k v f s) \<noteq> Ub"
    using c by (auto simp: socket_view_send_def check_def)
qed

lemma send_buffer:
  assumes "lawful nng" "D K_buf = [a \<mapsto> b]"
  shows "leads D (on_buf (socket_view_send_buffer nng k a f)) ((=) (put D K_buf a (Some False))) ((=) D)"
  unfolding leads_def
proof (intro allI impI)
  fix A :: "'a prog" assume A: "shape A = D" "tidy A"
  then obtain v where v: "o_buf A = [a \<mapsto> v]" using assms(2) buffer_store(2) [of A a b] by blast
  have flag: "flag_alloc nng = alloc_bit" using assms(1) by (simp add: lawful_def)
  let ?args = "[VId k, VW (v_data v), VW (v_size v), VI (f OR alloc_bit)]"
  obtain r s where c: "call_int nng ''nng_send'' ?args (wrld A) = (r, s)" by fastforce
  let ?c = "\<lparr>c_fn = ''nng_send'', c_args = ?args, c_ret = [VI r]\<rparr>"
  have ev: "r = 0 \<Longrightarrow> v_data v \<noteq> 0 \<Longrightarrow> only K_buf (Kill (v_data v)) ?c" "r \<noteq> 0 \<or> v_data v = 0 \<Longrightarrow> silent ?c"
    unfolding only_def silent_def
    by (intro allI, case_tac j; auto simp: class_evs alloc_bit_def)+
  show "gives (on_buf (socket_view_send_buffer nng k a f)) A
      (\<lambda>_. ends ((=) (put D K_buf a (Some False))) A) (\<lambda>_. ends ((=) D) A)"
  proof (cases "r = 0")
    case True
    then have "ends ((=) (put (shape A) K_buf a (map_option (\<lambda>_. False) (Some view_default)))) A
        (A\<lparr>o_buf := (Map.empty)(a := Some view_default), wrld := s\<rparr>)"
      using A assms(2) v ev send_call(1) [OF c] by (intro buffer_lost [where v = v and b = b and c = ?c]) auto
    with A(1) c True v flag show ?thesis
      by (simp add: gives_def on_def socket_view_send_buffer_def buffer_release_def)
  next
    case False
    have "grew (wrld A) s ?c" using send_call [OF c] assms(1) False by (simp add: grew_def)
    moreover have "A\<lparr>o_buf := [a \<mapsto> v], wrld := s\<rparr> = A\<lparr>wrld := s\<rparr>" using v by simp
    ultimately have "ends ((=) D) A (A\<lparr>o_buf := [a \<mapsto> v], wrld := s\<rparr>)"
      using False ev(2) A ends_grew [of A "A\<lparr>wrld := s\<rparr>" ?c] by simp
    with False c v flag show ?thesis by (simp add: gives_def on_def socket_view_send_buffer_def)
  qed
qed

lemma use_buffer: "D K_buf a \<noteq> None \<Longrightarrow> leads D (held_by o_buf a) ((=) D) never"
  unfolding leads_def by (auto simp: gives_def held_by_def shape_def ends_def books_kept_refl split: option.splits)

section \<open>Scopes\<close>

text \<open>
  A statement is \<open>calm\<close> when in any case it leaves the objects as they were, and \<open>slack\<close> at an
  object when it may have emptied that one.
\<close>

abbreviation calm :: "shape \<Rightarrow> ('w prog, 'a) act \<Rightarrow> bool" where
  "calm D m \<equiv> leads D m ((=) D) ((=) D)"

definition slack :: "cls \<Rightarrow> nat \<Rightarrow> shape \<Rightarrow> ('w prog, 'a) act \<Rightarrow> bool" where
  "slack k a D m \<longleftrightarrow> leads D m (\<lambda>D'. \<exists>b. D' = put D k a (Some b)) (\<lambda>D'. \<exists>b. D' = put D k a (Some b))"

lemma calm_slack: "calm D m \<Longrightarrow> D k a = Some b \<Longrightarrow> slack k a D m"
  unfolding slack_def by (erule leads_mono) (auto intro!: exI [of _ b])

lemma calm_bind: "calm D m \<Longrightarrow> (\<And>x. calm D (f x)) \<Longrightarrow> calm D (bind m f)"
  by (rule leads_bind [where P = "(=) D"]) auto

lemma used_bind:
  "leads D (held_by get a) ((=) D) never \<Longrightarrow> (\<And>x. leads D (f x) P E) \<Longrightarrow> leads D (bind (held_by get a) f) P E"
  by (rule leads_bind [where P = "(=) D"]) (auto intro: leads_mono)

lemma slack_bind:
  assumes "slack k a D m" "\<And>x b. slack k a (put D k a (Some b)) (f x)"
  shows "slack k a D (bind m f)"
  unfolding slack_def
proof (rule leads_bind [OF assms(1) [unfolded slack_def]])
  fix x D' assume "\<exists>b. D' = put D k a (Some b)"
  then obtain b where "D' = put D k a (Some b)" by blast
  with assms(2) [of b x]
  show "leads D' (f x) (\<lambda>D'. \<exists>b. D' = put D k a (Some b)) (\<lambda>D'. \<exists>b. D' = put D k a (Some b))"
    by (simp add: slack_def)
qed

text \<open>Before the object is emptied.\<close>

lemma slack_after:
  "calm D m \<Longrightarrow> (\<And>x. slack k a D (f x)) \<Longrightarrow> D k a = Some b \<Longrightarrow> slack k a D (bind m f)"
  "leads D (held_by get i) ((=) D) never \<Longrightarrow> (\<And>x. slack k a D (f x)) \<Longrightarrow> slack k a D (bind (held_by get i) f)"
  unfolding slack_def
  by (rule leads_bind [where P = "(=) D"], erule leads_mono, auto intro!: exI [of _ b])
    (rule used_bind)

lemma calm_simple [intro]: "calm D (ret x)" "calm D (throw e)"
  by (auto intro: leads_ret leads_throw)

lemma calm_if: "(b \<Longrightarrow> calm D x) \<Longrightarrow> (\<not> b \<Longrightarrow> calm D y) \<Longrightarrow> calm D (if b then x else y)"
  by simp

lemma calm_option: "calm D x \<Longrightarrow> (\<And>v. calm D (f v)) \<Longrightarrow> calm D (case z of None \<Rightarrow> x | Some v \<Rightarrow> f v)"
  by (cases z) simp_all

lemma calm_caught: "calm D m \<Longrightarrow> (\<And>e. calm D (f e)) \<Longrightarrow> calm D (caught m f)"
  by (rule leads_caught [where E = "(=) D"]) auto

lemma calm_world:
  "quiet f \<Longrightarrow> calm D (by_world f)"
  "quiet (\<lambda>s. (case g s of (x, s') \<Rightarrow> (Ok x, s'))) \<Longrightarrow> calm D (from_world g)"
  "quiet (\<lambda>s. (Ok (), h s)) \<Longrightarrow> calm D (to_world h)"
  unfolding from_world_def to_world_def by (blast intro: leads_quiet)+

lemma put_class [simp]:
  "j \<noteq> k \<Longrightarrow> put D k a x j = D j" "put D k a x k = (D k)(a := x)"
  by (simp_all add: put_def)

lemma calm_use [simp]:
  "D K_url a \<noteq> None \<Longrightarrow> leads D (held_by o_url a) ((=) D) never"
  "D K_client a \<noteq> None \<Longrightarrow> leads D (held_by o_client a) ((=) D) never"
  "D K_aio a \<noteq> None \<Longrightarrow> leads D (held_by o_aio a) ((=) D) never"
  "D K_req a \<noteq> None \<Longrightarrow> leads D (held_by o_req a) ((=) D) never"
  "D K_res a \<noteq> None \<Longrightarrow> leads D (held_by o_res a) ((=) D) never"
  "D K_buf a \<noteq> None \<Longrightarrow> leads D (held_by o_buf a) ((=) D) never"
  "D K_msg a \<noteq> None \<Longrightarrow> leads D (held_by o_msg a) ((=) D) never"
  "D K_sock a \<noteq> None \<Longrightarrow> leads D (held_by o_sock a) ((=) D) never"
  "D K_ctx a \<noteq> None \<Longrightarrow> leads D (held_by o_ctx a) ((=) D) never"
  "D K_server a \<noteq> None \<Longrightarrow> leads D (held_by o_server a) ((=) D) never"
  "D K_handler a \<noteq> None \<Longrightarrow> leads D (held_by o_handler a) ((=) D) never"
  "D K_thread a \<noteq> None \<Longrightarrow> leads D (held_by o_thread a) ((=) D) never"
  by (fact url_class.use client_class.use aio_class.use req_class.use res_class.use use_buffer msg_class.use
      sock_class.use ctx_class.use server_class.use handler_class.use thread_class.use)+

lemma scopes:
  assumes "lawful nng"
  shows "D K_url a = None \<Longrightarrow> slack K_url a (put D K_url a (Some True)) m \<Longrightarrow>
      calm D (in_scope (on_url nng (Acquire a (Url_parse t))) (on_url nng (Dtor a)) m)"
    and "D K_client a = None \<Longrightarrow> slack K_client a (put D K_client a (Some True)) m \<Longrightarrow>
      calm D (in_scope (on_client nng (Acquire a (Client_alloc u))) (on_client nng (Dtor a)) m)"
    and "D K_aio a = None \<Longrightarrow> slack K_aio a (put D K_aio a (Some True)) m \<Longrightarrow>
      calm D (in_scope (on_aio nng (Acquire a (Aio_alloc cb arg))) (on_aio nng (Dtor a)) m)"
    and "D K_req a = None \<Longrightarrow> slack K_req a (put D K_req a (Some True)) m \<Longrightarrow>
      calm D (in_scope (on_req nng (Acquire a (Req_alloc u))) (on_req nng (Dtor a)) m)"
    and "D K_res a = None \<Longrightarrow> slack K_res a (put D K_res a (Some True)) m \<Longrightarrow>
      calm D (in_scope (on_res nng (Acquire a Make_res)) (on_res nng (Dtor a)) m)"
    and "D K_msg a = None \<Longrightarrow> slack K_msg a (put D K_msg a (Some True)) m \<Longrightarrow>
      calm D (in_scope (on_msg nng (Acquire a (Msg_alloc n))) (on_msg nng (Dtor a)) m)"
    and "D K_msg a = None \<Longrightarrow> slack K_msg a (put D K_msg a (Some True)) m \<Longrightarrow>
      calm D (in_scope (on o_msg o_msg_update (m_acquire a (socket_view_recv_msg nng k f))) (on_msg nng (Dtor a)) m)"
    and "D K_handler a = None \<Longrightarrow> slack K_handler a (put D K_handler a (Some True)) m \<Longrightarrow>
      calm D (in_scope (on_handler nng (Acquire a (Handler_alloc path cb))) (on_handler nng (Dtor a)) m)"
  unfolding url_exec.simps http_client_exec.simps aio_exec.simps http_req_exec.simps http_res_exec.simps
    msg_exec.simps http_handler_exec.simps slack_def socket_view_recv_msg_def
  by (rule url_class.scope client_class.scope aio_class.scope req_class.scope res_class.scope
      msg_class.scope handler_class.scope,
      simp_all add: assms obtains_giver returns_taker giver_def taker_def)+

lemma socket_scope:
  assumes "lawful nng" "D K_sock a = None" "slack K_sock a (put D K_sock a (Some True)) m"
    and "opn = (\<lambda>s. check_out src (get_id nng fn [] s))" "fn \<in> set sock_opens"
  shows "calm D (in_scope (on o_sock o_sock_update (m_acquire a opn)) (on_sock nng (Dtor a)) m)"
  using assms obtains_opened [of nng K_sock fn, OF assms(1)] returns_opened [of nng K_sock, OF assms(1)]
  unfolding opener_def socket_exec.simps slack_def by (intro sock_class.scope) simp_all

lemma buffer_scope:
  assumes "lawful nng" "D K_buf = Map.empty" "calm (put D K_buf a (Some True)) m"
  shows "calm D (in_scope (on_buf (buffer_alloc nng a n)) (on_buf (buffer_dtor nng a)) m)"
  unfolding in_scope_def
proof (rule leads_bind [OF alloc_buffer [of nng D a n, OF assms(1,2)]])
  fix x D' assume D': "put D K_buf a (Some True) = D'"
  have "put (put D K_buf a (Some True)) K_buf a None = D" using assms(2) by simp
  with free_buffer [of D' a True nng]
  have out: "leads D' (on_buf (buffer_dtor nng a)) ((=) D) never"
    using assms(2) by (simp add: D' [symmetric])
  show "leads D' (scoped m (on_buf (buffer_dtor nng a))) ((=) D) ((=) D)"
    using assms(3) out unfolding D' by (intro leads_scoped [of D' m "(=) D'" "(=) D'"]) auto
qed

section \<open>Messages that leave and arrive\<close>

lemma leads_send:
  "lawful nng \<Longrightarrow> D K_msg a = Some True \<Longrightarrow>
     leads D (on o_msg o_msg_update (socket_view_send_msg nng k a f)) ((=) (put D K_msg a (Some False))) ((=) D)"
  by (rule msg_class.give_away [OF hands_message])

lemma slack_send:
  "lawful nng \<Longrightarrow> D K_msg a = Some True \<Longrightarrow> slack K_msg a D (on o_msg o_msg_update (socket_view_send_msg nng k a f))"
  unfolding slack_def by (rule leads_mono [OF leads_send]) (blast, assumption, blast, metis put_simps(3))

lemma slack_add_handler:
  assumes "lawful nng" "D K_handler a = Some True"
  shows "slack K_handler a D (on o_handler o_handler_update (http_server_add_handler nng srv a))"
  unfolding slack_def using assms(2)
  by (intro leads_mono [OF handler_class.give_away [OF hands_handler [OF assms(1)]]])
    (assumption, blast, metis put_simps(3))

text \<open>\<open>m = s.recv_msg();\<close> where \<open>m\<close> was sent.\<close>

lemma leads_receive:
  assumes "lawful nng" "a \<noteq> b" "D K_msg a = Some False" "D K_msg b = None"
  shows "leads D (in_scope (on o_msg o_msg_update (m_acquire b (socket_view_recv_msg nng k f)))
      (on_msg nng (Dtor b)) (on_msg nng (Move_assign a b))) ((=) (put D K_msg a (Some True))) ((=) D)"
  unfolding msg_exec.simps socket_view_recv_msg_def using assms(2-4)
  by (intro msg_class.refill obtains_giver returns_taker assms(1))
    (auto simp: m_move_assign_def giver_def taker_def)

text \<open>\<open>k = open();\<close> where \<open>k\<close> is no socket.\<close>

lemma leads_reopen:
  assumes "lawful nng" "a \<noteq> b" "D K_sock a = Some False" "D K_sock b = None"
  shows "leads D (in_scope (on o_sock o_sock_update (m_acquire b (req0_open nng)))
      (on_sock nng (Dtor b)) (on_sock nng (Move_assign a b))) ((=) (put D K_sock a (Some True))) ((=) D)"
  unfolding socket_exec.simps req0_open_def using assms(2-4)
  by (intro sock_class.refill obtains_opened returns_opened assms(1))
    (auto simp: m_close_move_assign_def opener_def sock_opens_def)

end
