(* ===== verification/Programs.thy ===== *)
theory Programs
  imports Program_Logic Demos
begin

text \<open>
  The straight-line programs over the library: the client of \<open>demo/http_client\<close>, the clients of
  \<open>demo/async\<close> and \<open>demo/raw\<close>, the two clients of \<open>perf\<close> and \<open>rest_start\<close> of \<open>demo/rest\<close>. Their
  local objects are destroyed in the reverse order of their construction, in whichever way the
  program ends. The logic of
  \<open>Program_Logic\<close> shows that this gives back every handle they acquired, across all the classes a
  program uses.
\<close>

section \<open>The HTTP client\<close>

text \<open>
  \<open>atoi(s)\<close> of the C string at \<open>p\<close>. It is undefined when the value is no \<open>int\<close>.
\<close>

definition text_at :: "mem \<Rightarrow> ptr \<Rightarrow> string option" where
  "text_at m p =
     (case strlen m p of None \<Rightarrow> None
      | Some n \<Rightarrow> map_option (map (\<lambda>b. char_of (unat b))) (read_bytes m p (unat n)))"

definition atoi :: "string \<Rightarrow> i32 option" where
  "atoi s = (let v = fst (strtol s) in if - (2 ^ 31) \<le> v \<and> v < 2 ^ 31 then Some (word_of_int v) else None)"

text \<open>\<open>aio.wait(); auto result = aio.result(); if( result != success ) throw exception(result);\<close>\<close>

definition await :: "'w nng \<Rightarrow> ptr \<Rightarrow> ('w prog, unit) act" where
  "await nng a =
     bind (to_world (aio_view_wait nng a)) (\<lambda>_.
     bind (from_world (aio_view_result nng a)) (\<lambda>r.
     if r \<noteq> error_val nng success then throw (exception r '''') else ret ()))"

text \<open>The value of the header, if there is one: \<open>get_header\<close>, the null test and \<open>atoi\<close>.\<close>

definition content_length :: "'w nng \<Rightarrow> ptr \<Rightarrow> 'w st \<Rightarrow> i32 option result \<times> 'w st" where
  "content_length nng s = (\<lambda>\<sigma>.
     (case http_res_get_header nng s ''Content-Length'' \<sigma> of
        (hdr, \<sigma>') \<Rightarrow>
          if hdr = null then (Ok None, \<sigma>')
          else (case Option.bind (text_at (st_mem \<sigma>') hdr) atoi of
                  None \<Rightarrow> (Ub, \<sigma>') | Some len \<Rightarrow> (Ok (Some len), \<sigma>'))))"

text \<open>
  The struct \<open>nng_iov\<close> is a temporary at the address \<open>tmp\<close> of the stack; \<open>layout\<close> is its object
  representation.
\<close>

definition put_iov :: "(nng_iov \<Rightarrow> byte list) \<Rightarrow> ptr \<Rightarrow> view \<Rightarrow> 'w st \<Rightarrow> 'w st" where
  "put_iov layout tmp v = (\<lambda>\<sigma>. \<sigma>\<lparr>st_mem := write_bytes (st_mem \<sigma>) tmp (layout (iov_of_view v))\<rparr>)"

text \<open>\<open>fwrite(data.data(), 1, data.size(), stdout)\<close>\<close>

definition write_out :: "view \<Rightarrow> ('w prog, unit) act" where
  "write_out v = (\<lambda>A. (case view_bytes (st_mem (wrld A)) v of
     None \<Rightarrow> (Ub, A) | Some bs \<Rightarrow> (Ok (), A\<lparr>written := written A @ bs\<rparr>)))"

definition http_client_body ::
  "'w nng \<Rightarrow> (nng_iov \<Rightarrow> byte list) \<Rightarrow> ptr \<Rightarrow> ptr \<Rightarrow> ptr \<Rightarrow> w64 \<Rightarrow> ('w prog, i32) act" where
  "http_client_body nng layout tmp a conn len =
     in_scope (on_buf (buffer_alloc nng 0 len)) (on_buf (buffer_dtor nng 0))
       (bind (held_by o_buf 0) (\<lambda>data.
        bind (to_world (put_iov layout tmp data)) (\<lambda>_.
        bind (by_world (aio_view_set_iov_one nng a tmp)) (\<lambda>_.
        bind (to_world (http_conn_read_all nng conn a)) (\<lambda>_.
        bind (await nng a) (\<lambda>_.
        bind (held_by o_buf 0) (\<lambda>data.
        bind (write_out data) (\<lambda>_. ret 0))))))))"

definition http_client_response ::
  "'w nng \<Rightarrow> (nng_iov \<Rightarrow> byte list) \<Rightarrow> ptr \<Rightarrow> ptr \<Rightarrow> ptr \<Rightarrow> ('w prog, i32) act" where
  "http_client_response nng layout tmp a conn =
     in_scope (on_res nng (Acquire 0 Make_res)) (on_res nng (Dtor 0))
       (bind (held_by o_res 0) (\<lambda>s.
        bind (to_world (http_conn_read_res nng conn s a)) (\<lambda>_.
        bind (await nng a) (\<lambda>_.
        bind (from_world (http_res_get_status nng s)) (\<lambda>code.
        bind (if code \<noteq> http_status_val nng http_ok
              then bind (from_world (http_res_get_status nng s)) (\<lambda>_.
                   bind (from_world (http_res_get_reason nng s)) (\<lambda>_. ret ()))
              else ret ()) (\<lambda>_.
        bind (by_world (content_length nng s)) (\<lambda>hdr.
        case hdr of
          None \<Rightarrow> ret 1
        | Some len \<Rightarrow>
            if len = 0 then ret 0 else http_client_body nng layout tmp a conn (scast len))))))))"

definition http_client_request ::
  "'w nng \<Rightarrow> (nng_iov \<Rightarrow> byte list) \<Rightarrow> ptr \<Rightarrow> ptr \<Rightarrow> ptr \<Rightarrow> ('w prog, i32) act" where
  "http_client_request nng layout tmp u a =
     bind (from_world (aio_view_get_output nng a 0)) (\<lambda>conn.
     in_scope (on_req nng (Acquire 0 (Req_alloc u))) (on_req nng (Dtor 0))
       (bind (held_by o_req 0) (\<lambda>q.
        bind (to_world (http_conn_write_req nng conn q a)) (\<lambda>_.
        bind (await nng a) (\<lambda>_. http_client_response nng layout tmp a conn)))))"

text \<open>\<open>main\<close>, with its exit code.\<close>

definition http_client_main ::
  "'w nng \<Rightarrow> (nng_iov \<Rightarrow> byte list) \<Rightarrow> ptr \<Rightarrow> string list \<Rightarrow> ('w prog, i32) act" where
  "http_client_main nng layout tmp argv =
     (if length argv < 2 then ret 1
      else caught
        (in_scope (on_url nng (Acquire 0 (Url_parse (argv ! 1)))) (on_url nng (Dtor 0))
          (bind (held_by o_url 0) (\<lambda>u.
           in_scope (on_client nng (Acquire 0 (Client_alloc u))) (on_client nng (Dtor 0))
             (in_scope (on_aio nng (Acquire 0 (Aio_alloc null null))) (on_aio nng (Dtor 0))
               (bind (held_by o_client 0) (\<lambda>c.
                bind (held_by o_aio 0) (\<lambda>a.
                bind (to_world (http_client_connect nng c a)) (\<lambda>_.
                bind (await nng a) (\<lambda>_. http_client_request nng layout tmp u a)))))))))
        (\<lambda>e. ret 1))"

section \<open>The clients of the timers\<close>

text \<open>
  The clients of the asynchronous and of the raw server: \<open>request\<close> is what they share. The
  raw one multiplies by 1000, which is undefined when the product is no \<open>int\<close>.
\<close>

definition timer_request :: "'w nng \<Rightarrow> string \<Rightarrow> i32 \<Rightarrow> ('w prog, unit) act" where
  "timer_request nng url msec =
     with_socket nng (req0_open nng) (\<lambda>k.
       bind (by_world (socket_view_dial nng k url 0)) (\<lambda>_.
       bind (from_world (nng_clock nng)) (\<lambda>_.
       in_scope (on_msg nng (Acquire 0 (Msg_alloc 0))) (on_msg nng (Dtor 0))
         (bind (held_by o_msg 0) (\<lambda>m.
          bind (by_world (msg_body_append_u32 nng m msec)) (\<lambda>_.
          bind (on o_msg o_msg_update (socket_view_send_msg nng k 0 0)) (\<lambda>_.
          bind (in_scope (on o_msg o_msg_update (m_acquire 1 (socket_view_recv_msg nng k 0))) (on_msg nng (Dtor 1))
            (on_msg nng (Move_assign 0 1))) (\<lambda>_.
          bind (from_world (nng_clock nng)) (\<lambda>_. ret ())))))))))"

definition async_client :: "'w nng \<Rightarrow> string \<Rightarrow> string \<Rightarrow> ('w prog, unit) act" where
  "async_client nng url msecstr =
     (case atoi msecstr of None \<Rightarrow> (\<lambda>A. (Ub, A)) | Some msec \<Rightarrow> timer_request nng url msec)"

definition async_client_main :: "'w nng \<Rightarrow> string list \<Rightarrow> ('w prog, i32) act" where
  "async_client_main nng argv =
     (if length argv \<noteq> 3 then ret 1
      else caught (bind (async_client nng (argv ! 1) (argv ! 2)) (\<lambda>_. ret 0)) (\<lambda>e. ret 1))"

definition raw_client :: "'w nng \<Rightarrow> string \<Rightarrow> string \<Rightarrow> ('w prog, unit) act" where
  "raw_client nng url msecstr =
     (case atoi msecstr of
        None \<Rightarrow> (\<lambda>A. (Ub, A))
      | Some secs \<Rightarrow>
          if sint secs * 1000 < - (2 ^ 31) \<or> 2 ^ 31 \<le> sint secs * 1000 then (\<lambda>A. (Ub, A))
          else timer_request nng url (secs * 1000))"

section \<open>The clients of perf\<close>

text \<open>The block in \<open>latency_client\<close>, and the function: what follows the block doubles the number of trips in an \<open>int\<close>.\<close>

definition latency_block :: "'w nng \<Rightarrow> string \<Rightarrow> w64 \<Rightarrow> nat \<Rightarrow> ('w prog, unit) act" where
  "latency_block nng addr sz trips =
     with_socket nng (pair1_open nng) (\<lambda>k.
       bind (by_world (socket_view_dial nng k addr 0)) (\<lambda>_.
       in_scope (on_msg nng (Acquire 0 (Msg_alloc sz))) (on_msg nng (Dtor 0))
         (bind (from_world (nng_clock nng)) (\<lambda>_.
          bind (on o_msg o_msg_update (latency_client_loop nng k trips)) (\<lambda>_.
          bind (from_world (nng_clock nng)) (\<lambda>_. ret ()))))))"

definition latency_client :: "'w nng \<Rightarrow> string \<Rightarrow> w64 \<Rightarrow> nat \<Rightarrow> ('w prog, unit) act" where
  "latency_client nng addr sz trips =
     bind (latency_block nng addr sz trips) (\<lambda>_. if trips * 2 < 2 ^ 31 then ret () else (\<lambda>A. (Ub, A)))"

text \<open>\<open>s.send( nng::make_msg(n) )\<close>\<close>

definition send_new :: "'w nng \<Rightarrow> i32 \<Rightarrow> w64 \<Rightarrow> ('w prog, unit) act" where
  "send_new nng k n =
     in_scope (on_msg nng (Acquire 0 (Msg_alloc n))) (on_msg nng (Dtor 0))
       (on o_msg o_msg_update (socket_view_send_msg nng k 0 0))"

primrec send_many :: "'w nng \<Rightarrow> i32 \<Rightarrow> w64 \<Rightarrow> nat \<Rightarrow> ('w prog, unit) act" where
  "send_many nng k n 0 = ret ()"
| "send_many nng k n (Suc i) = bind (send_new nng k n) (\<lambda>_. send_many nng k n i)"

definition throughput_client :: "'w nng \<Rightarrow> string \<Rightarrow> w64 \<Rightarrow> nat \<Rightarrow> ('w prog, unit) act" where
  "throughput_client nng addr sz n =
     with_socket nng (pair1_open nng) (\<lambda>k.
       bind (by_world (socket_set_opt_send_buffer nng k 128)) (\<lambda>_.
       bind (by_world (socket_set_opt_recv_timeout nng k 5000)) (\<lambda>_.
       bind (by_world (socket_view_dial nng k addr 0)) (\<lambda>_.
       bind (send_new nng k 0) (\<lambda>_.
       bind (send_many nng k sz n) (\<lambda>_.
       in_scope (on o_msg o_msg_update (m_acquire 0 (socket_view_recv_msg nng k 0))) (on_msg nng (Dtor 0))
         (ret ())))))))"

section \<open>Starting the REST server\<close>

text \<open>
  \<open>rest_start\<close>, whose result is the server object at address 0. \<open>u_path\<close> is the field of that
  name of a parsed URL. The global \<open>req_sock\<close> has address 1, what it is assigned address 2.
\<close>

abbreviation (input) req_sock :: nat where "req_sock \<equiv> 1"

definition rest_url :: "nat \<Rightarrow> string" where
  "rest_url port = take 127 (''http://127.0.0.1:'' @ decimal port @ ''/api/rest/rot13'')"

definition rest_handler :: "'w nng \<Rightarrow> ptr \<Rightarrow> string \<Rightarrow> ptr \<Rightarrow> ('w prog, unit) act" where
  "rest_handler nng srv path cb =
     in_scope (on_handler nng (Acquire 0 (Handler_alloc path cb))) (on_handler nng (Dtor 0))
       (bind (held_by o_handler 0) (\<lambda>h.
        bind (by_world (http_handler_set_method_verb nng h verb_post)) (\<lambda>_.
        bind (by_world (http_handler_collect_body nng h True (1024 * 128))) (\<lambda>_.
        bind (on o_handler o_handler_update (http_server_add_handler nng srv 0)) (\<lambda>_.
        by_world (http_server_start nng srv))))))"

definition rest_server :: "'w nng \<Rightarrow> (mem \<Rightarrow> ptr \<Rightarrow> string) \<Rightarrow> ptr \<Rightarrow> ptr \<Rightarrow> ('w prog, unit) act" where
  "rest_server nng u_path cb u =
     bind (on_server nng (Acquire 0 (Server_hold u))) (\<lambda>_.
     unwind
       (bind (held_by o_server 0) (\<lambda>srv.
        bind (\<lambda>A. (Ok (u_path (st_mem (wrld A)) u), A)) (\<lambda>path. rest_handler nng srv path cb)))
       (on_server nng (Dtor 0)))"

definition rest_start :: "'w nng \<Rightarrow> (mem \<Rightarrow> ptr \<Rightarrow> string) \<Rightarrow> ptr \<Rightarrow> 16 word \<Rightarrow> ('w prog, unit) act" where
  "rest_start nng u_path cb port =
     in_scope (on_url nng (Acquire 0 (Url_parse (rest_url (unat port))))) (on_url nng (Dtor 0))
       (bind (held_by o_url 0) (\<lambda>u.
        bind (in_scope (on o_sock o_sock_update (m_acquire 2 (req0_open nng))) (on_sock nng (Dtor 2))
               (on_sock nng (Move_assign req_sock 2))) (\<lambda>_.
        bind (held_by o_sock req_sock) (\<lambda>k.
        bind (by_world (socket_view_dial nng k ''inproc://rot13'' (flag_nonblock nng))) (\<lambda>_.
        rest_server nng u_path cb u)))))"

lemma bind_assoc: "bind (bind m f) g = bind m (\<lambda>x. bind (f x) g)"
  by (rule ext) (simp add: bind_def split: prod.split result.split)

lemma bind_ret: "bind (ret x) f = f x"
  by (simp add: bind_def ret_def)

section \<open>The objects of the programs\<close>

text \<open>The header is missing, or the text of an \<open>int\<close>.\<close>

definition sound_header :: "'w nng \<Rightarrow> bool" where
  "sound_header nng \<longleftrightarrow> (\<forall>s \<sigma>. fst (content_length nng s \<sigma>) \<noteq> Ub)"

lemma quiet_content_length:
  assumes "lawful nng" "sound_header nng"
  shows "quiet (content_length nng s)"
  unfolding quiet_def
proof
  fix \<sigma> :: "'a st"
  let ?fn = "''nng_http_res_get_header''" and ?args = "[VW s, VS ''Content-Length'']"
  obtain p \<sigma>' where c: "call_w64 nng ?fn ?args \<sigma> = (p, \<sigma>')" by fastforce
  have "grew \<sigma> \<sigma>' \<lparr>c_fn = ?fn, c_args = ?args, c_ret = [VW p]\<rparr>" by (rule lawful_grew(3) [OF assms(1) c])
  moreover have "silent \<lparr>c_fn = ?fn, c_args = ?args, c_ret = [VW p]\<rparr>" by (rule silent_fn) (simp add: class_fns_def handle_fns_def)
  moreover have "snd (content_length nng s \<sigma>) = \<sigma>'"
    using c by (auto simp: content_length_def http_res_get_header_def split: option.splits)
  ultimately show "(\<exists>c. grew \<sigma> (snd (content_length nng s \<sigma>)) c \<and> silent c) \<and> fst (content_length nng s \<sigma>) \<noteq> Ub"
    using assms(2) unfolding sound_header_def by metis
qed

lemma calm_await: "lawful nng \<Longrightarrow> calm D (await nng a)"
  unfolding await_def aio_view_wait_def aio_view_result_def
  by (intro calm_bind calm_world quiet_calls) (auto simp: class_fns_def handle_fns_def)

lemma calm_write: "D K_buf a \<noteq> None \<Longrightarrow> calm D (bind (held_by o_buf a) (\<lambda>v. bind (write_out v) (\<lambda>_. ret c)))"
  unfolding leads_def
proof (intro allI impI)
  fix A :: "'a prog" assume A: "shape A = D" "tidy A" "D K_buf a \<noteq> None"
  then obtain v where v: "o_buf A a = Some v" by (auto simp: shape_def)
  then have "view_bytes (st_mem (wrld A)) v \<noteq> None"
    using A(2) view_bytes_mapped unfolding tidy_def by blast
  then obtain bs where bs: "view_bytes (st_mem (wrld A)) v = Some bs" by blast
  have "refs k (A\<lparr>written := w\<rparr>) = refs k A" for k w by (cases k) simp_all
  then have "ends ((=) (shape A)) A (A\<lparr>written := written A @ bs\<rparr>)"
    using A(2) by (intro ends_same books_kept_silent [of _ _ "[]"]) (simp_all add: tidy_def del: refs.simps)
  with v bs A(1)
  show "gives (bind (held_by o_buf a) (\<lambda>v. bind (write_out v) (\<lambda>_. ret c))) A (\<lambda>_. ends ((=) D) A) (\<lambda>_. ends ((=) D) A)"
    by (simp add: gives_def held_by_def write_out_def bind_def ret_def)
qed

lemma calm_put_iov: "calm D (to_world (put_iov layout tmp v))"
  unfolding leads_def
proof (intro allI impI)
  fix A :: "'a prog" assume A: "shape A = D" "tidy A"
  let ?s = "put_iov layout tmp v (wrld A)"
  have "ends ((=) (shape A)) A (A\<lparr>wrld := ?s\<rparr>)"
    using A(2) by (intro ends_same books_kept_silent [of _ _ "[]"])
      (auto simp: tidy_def put_iov_def dom_write_bytes simp del: refs.simps)
  with A(1) show "gives (to_world (put_iov layout tmp v)) A (\<lambda>_. ends ((=) D) A) (\<lambda>_. ends ((=) D) A)"
    by (simp add: gives_def to_world_def by_world_def)
qed

text \<open>The thin methods the programs call touch no object.\<close>

lemma quiet_methods:
  assumes "lawful nng"
  shows "quiet (aio_view_set_iov_one nng a p)"
    and "quiet (\<lambda>s. (Ok (), http_conn_read_all nng n a s))"
    and "quiet (\<lambda>s. (Ok (), http_conn_read_res nng n r a s))"
    and "quiet (\<lambda>s. (Ok (), http_conn_write_req nng n q a s))"
    and "quiet (\<lambda>s. (Ok (), http_client_connect nng c a s))"
    and "quiet (\<lambda>s. (case http_res_get_status nng r s of (x, s') \<Rightarrow> (Ok x, s')))"
    and "quiet (\<lambda>s. (case http_res_get_reason nng r s of (x, s') \<Rightarrow> (Ok x, s')))"
    and "quiet (\<lambda>s. (case aio_view_get_output nng a i s of (x, s') \<Rightarrow> (Ok x, s')))"
    and "quiet (\<lambda>s. (case nng_clock nng s of (x, s') \<Rightarrow> (Ok x, s')))"
    and "quiet (socket_view_dial nng k addr f)"
    and "quiet (socket_set_opt_send_buffer nng k v)"
    and "quiet (socket_set_opt_recv_timeout nng k v)"
    and "quiet (msg_body_append_u32 nng m v)"
    and "quiet (http_handler_set_method_verb nng h b)"
    and "quiet (http_handler_collect_body nng h w z)"
    and "quiet (http_server_start nng srv)"
  unfolding aio_view_set_iov_one_def aio_view_set_iov_def http_conn_read_all_def http_conn_read_res_def
    http_conn_write_req_def http_client_connect_def http_res_get_status_def http_res_get_reason_def
    aio_view_get_output_def nng_clock_def socket_view_dial_def socket_set_opt_send_buffer_def
    socket_set_opt_recv_timeout_def socket_view_set_opt_int_def socket_view_set_opt_ms_def
    msg_body_append_u32_def http_handler_set_method_verb_def http_handler_set_method_def
    http_handler_collect_body_def http_server_start_def
  by (rule quiet_calls [OF assms]; simp add: class_fns_def handle_fns_def)+

lemmas calm_rules = calm_bind calm_if calm_option calm_simple calm_world calm_put_iov calm_write

lemma calm_body:
  assumes "lawful nng" "D K_buf = Map.empty"
  shows "calm D (http_client_body nng layout tmp a conn len)"
  unfolding http_client_body_def
  by (intro buffer_scope [of nng D, OF assms] used_bind calm_rules quiet_methods [OF assms(1)]
      calm_await [OF assms(1)]) simp_all

lemma calm_response:
  assumes "lawful nng" "sound_header nng" "D K_buf = Map.empty" "D K_res 0 = None"
  shows "calm D (http_client_response nng layout tmp a conn)"
  unfolding http_client_response_def
  by (intro scopes(5) [OF assms(1)] calm_slack [where b = True] used_bind calm_rules
      quiet_methods [OF assms(1)] quiet_content_length [OF assms(1,2)] calm_await [OF assms(1)]
      calm_body [OF assms(1)]) (simp_all add: assms assms(4) [unfolded One_nat_def])

lemma calm_request:
  assumes "lawful nng" "sound_header nng" "D K_buf = Map.empty" "D K_res 0 = None" "D K_req 0 = None"
  shows "calm D (http_client_request nng layout tmp u a)"
  unfolding http_client_request_def
  by (intro scopes(4) [OF assms(1)] calm_slack [where b = True] used_bind calm_rules
      quiet_methods [OF assms(1)] calm_await [OF assms(1)] calm_response [OF assms(1,2)]) (simp_all add: assms assms(4) [unfolded One_nat_def])

lemma calm_main:
  assumes "lawful nng" "sound_header nng"
  shows "calm (\<lambda>_. Map.empty) (http_client_main nng layout tmp argv)"
  unfolding http_client_main_def
  by (intro calm_caught scopes(1-3) [OF assms(1)] calm_slack [where b = True] used_bind calm_rules
      quiet_methods [OF assms(1)] calm_await [OF assms(1)] calm_request [OF assms]) simp_all

text \<open>The message is sent, and the slot filled again by the reply.\<close>

lemma slack_exchange:
  assumes "lawful nng" "D K_msg 0 = Some True" "D K_msg 1 = None" "\<And>x. slack K_msg 0 D (m x)"
  shows "slack K_msg 0 D (bind (on o_msg o_msg_update (socket_view_send_msg nng k 0 0)) (\<lambda>_.
      bind (in_scope (on o_msg o_msg_update (m_acquire 1 (socket_view_recv_msg nng k 0))) (on_msg nng (Dtor 1))
        (on_msg nng (Move_assign 0 1))) m))"
proof -
  let ?P = "\<lambda>D'. \<exists>b. D' = put D K_msg 0 (Some b)" and ?D = "put D K_msg 0 (Some False)"
  have "?P D" using assms(2) by (metis put_simps(3))
  have receive: "leads ?D (in_scope (on o_msg o_msg_update (m_acquire 1 (socket_view_recv_msg nng k 0)))
      (on_msg nng (Dtor 1)) (on_msg nng (Move_assign 0 1))) ((=) D) ?P"
    using assms(1-3) by (intro leads_mono [OF leads_receive [of nng 0 1 ?D]]) auto
  have rest: "leads ?D (bind (in_scope (on o_msg o_msg_update (m_acquire 1 (socket_view_recv_msg nng k 0)))
      (on_msg nng (Dtor 1)) (on_msg nng (Move_assign 0 1))) m) ?P ?P"
    using assms(4) by (intro leads_bind [OF receive]) (auto simp: slack_def)
  have send: "leads D (on o_msg o_msg_update (socket_view_send_msg nng k 0 0)) ((=) ?D) ?P"
    using assms(1,2) \<open>?P D\<close> by (intro leads_mono [OF leads_send]) auto
  show ?thesis unfolding slack_def by (rule leads_bind [OF send]) (erule subst, rule rest)
qed

lemma calm_socket:
  assumes "lawful nng" "D K_sock 0 = None" "\<And>k. calm (put D K_sock 0 (Some True)) (m k)"
  shows "calm D (with_socket nng (req0_open nng) m)" "calm D (with_socket nng (pair1_open nng) m)"
proof -
  have "slack K_sock 0 (put D K_sock 0 (Some True)) (bind (held_by o_sock 0) m)"
    using assms(3) by (intro calm_slack [where b = True] used_bind) simp_all
  then show "calm D (with_socket nng (req0_open nng) m)" "calm D (with_socket nng (pair1_open nng) m)"
    unfolding with_socket_def
    by (rule socket_scope [of nng D, OF assms(1,2) _ req0_open_def] socket_scope [of nng D, OF assms(1,2) _ pair1_open_def];
      simp add: sock_opens_def)+
qed

lemma calm_timer:
  assumes "lawful nng"
  shows "calm (\<lambda>_. Map.empty) (timer_request nng url msec)"
  unfolding timer_request_def
  by (intro calm_socket [OF assms] calm_slack [where b = True] used_bind calm_rules quiet_methods [OF assms] scopes(6) [OF assms]
      slack_after slack_exchange [OF assms], simp_all)

lemma calm_send_new:
  assumes "lawful nng" "D K_msg 0 = None"
  shows "calm D (send_new nng k n)"
  unfolding send_new_def using assms(2) by (intro scopes(6) slack_send assms(1)) simp_all

lemma calm_send_many: "lawful nng \<Longrightarrow> D K_msg 0 = None \<Longrightarrow> calm D (send_many nng k n i)"
  by (induction i) (auto intro!: calm_bind calm_send_new)

lemma calm_throughput:
  assumes "lawful nng" "D K_sock 0 = None" "D K_msg 0 = None"
  shows "calm D (throughput_client nng addr sz n)"
  unfolding throughput_client_def using assms(2,3)
  by (intro calm_socket [OF assms(1)] calm_slack [where b = True] used_bind calm_rules quiet_methods [OF assms(1)]
      scopes(7) [OF assms(1)] calm_send_new [OF assms(1)] calm_send_many [OF assms(1)], simp_all)

text \<open>A round of the ping-pong, where the message object exists.\<close>

lemma ping_step:
  assumes "o_msg A 0 = Some h"
  shows "gives (on o_msg o_msg_update (latency_client_loop nng k (Suc i))) A P E =
    gives (bind (on o_msg o_msg_update (socket_view_send_msg nng k 0 0)) (\<lambda>_.
      bind (in_scope (on o_msg o_msg_update (m_acquire 1 (socket_view_recv_msg nng k 0))) (on_msg nng (Dtor 1))
        (on_msg nng (Move_assign 0 1))) (\<lambda>_. on o_msg o_msg_update (latency_client_loop nng k i)))) A P E"
proof -
  obtain x S1 s1 where send: "socket_view_send_msg nng k 0 0 (o_msg A, wrld A) = (x, S1, s1)" by (metis prod_cases3)
  obtain y s2 where recv: "socket_view_recv_msg nng k 0 s1 = (y, s2)" by fastforce
  have some: "x = Ok () \<Longrightarrow> S1 = (o_msg A)(0 \<mapsto> 0)"
    using send assms by (auto simp: socket_view_send_msg_def m_release_def split: prod.splits if_splits)
  show ?thesis
    using send recv some
    by (cases x; cases y)
      (simp_all add: gives_def on_def bind_def in_scope_def scoped_def m_acquire_def m_move_assign_def m_dtor_def
        split: prod.splits result.splits)
qed

lemma slack_ping_pong:
  assumes "lawful nng" "D K_msg 0 = Some True" "D K_msg 1 = None"
  shows "slack K_msg 0 D (on o_msg o_msg_update (latency_client_loop nng k i))"
proof (induction i)
  case 0
  have "on o_msg o_msg_update (latency_client_loop nng k 0) = ret ()"
    by (simp add: on_def ret_def fun_eq_iff)
  then show ?case using assms(2) by (auto simp only: intro: calm_slack)
next
  case (Suc i)
  have "slack K_msg 0 D (bind (on o_msg o_msg_update (socket_view_send_msg nng k 0 0)) (\<lambda>_.
      bind (in_scope (on o_msg o_msg_update (m_acquire 1 (socket_view_recv_msg nng k 0))) (on_msg nng (Dtor 1))
        (on_msg nng (Move_assign 0 1))) (\<lambda>_. on o_msg o_msg_update (latency_client_loop nng k i))))"
    by (rule slack_exchange [OF assms Suc.IH])
  then show ?case unfolding slack_def leads_def
  proof (intro allI impI, goal_cases)
    case (1 A)
    then obtain h where "o_msg A 0 = Some h" using assms(2) by (auto simp: shape_def)
    with 1 show ?case by (simp only: ping_step)
  qed
qed

lemma calm_latency_block:
  assumes "lawful nng" "D K_sock 0 = None" "D K_msg 0 = None" "D K_msg 1 = None"
  shows "calm D (latency_block nng addr sz n)"
  unfolding latency_block_def
proof (intro calm_socket [OF assms(1)] calm_bind calm_world quiet_methods [OF assms(1)] scopes(6) [OF assms(1)])
  fix k
  let ?D = "put (put D K_sock 0 (Some True)) K_msg 0 (Some True)"
  have clock: "calm D (from_world (nng_clock nng))" for D
    by (intro calm_world quiet_methods [OF assms(1)])
  have "slack K_msg 0 (put ?D K_msg 0 (Some b)) (bind (from_world (nng_clock nng)) (\<lambda>_. ret ()))" for b
    by (intro calm_slack [where b = b] calm_bind clock calm_simple) simp
  then show "slack K_msg 0 ?D (bind (from_world (nng_clock nng)) (\<lambda>_.
      bind (on o_msg o_msg_update (latency_client_loop nng k n)) (\<lambda>_.
      bind (from_world (nng_clock nng)) (\<lambda>_. ret ()))))"
    by (rule_tac slack_after(1) [OF clock], rule_tac slack_bind [OF slack_ping_pong [OF assms(1)]]) (simp_all add: assms assms(4) [unfolded One_nat_def])
qed (simp_all add: assms assms(4) [unfolded One_nat_def])

lemma calm_latency:
  assumes "lawful nng" "D K_sock 0 = None" "D K_msg 0 = None" "D K_msg 1 = None" "n < 2 ^ 30"
  shows "calm D (latency_client nng addr sz n)"
  unfolding latency_client_def using assms(5) by (intro calm_bind calm_latency_block assms(1-4)) auto

text \<open>Starting the REST server: what is left in each case.\<close>

lemma calm_pure: "calm D (\<lambda>A. (Ok (f A), A))"
  unfolding leads_def by (simp add: gives_def ends_def books_kept_refl)

lemma calm_handler:
  assumes "lawful nng" "D K_handler 0 = None"
  shows "calm D (rest_handler nng srv path cb)"
  unfolding rest_handler_def
proof (rule scopes(8) [of nng D 0, OF assms])
  note quiet = quiet_methods [OF assms(1)]
  show "slack K_handler 0 (put D K_handler 0 (Some True)) (bind (held_by o_handler 0) (\<lambda>h.
      bind (by_world (http_handler_set_method_verb nng h verb_post)) (\<lambda>_.
      bind (by_world (http_handler_collect_body nng h True (1024 * 128))) (\<lambda>_.
      bind (on o_handler o_handler_update (http_server_add_handler nng srv 0)) (\<lambda>_.
      by_world (http_server_start nng srv))))))"
    by (rule slack_after(2), simp, rule slack_after(1) [OF calm_world(1) [OF quiet(14)]],
        rule slack_after(1) [OF calm_world(1) [OF quiet(15)]],
        rule slack_bind [OF slack_add_handler [OF assms(1)]], simp,
        rule calm_slack [OF calm_world(1) [OF quiet(16)]], simp_all)
qed

lemma rest_server_leads:
  assumes "lawful nng" "D K_server 0 = None" "D K_handler 0 = None"
  shows "leads D (rest_server nng u_path cb u) ((=) (put D K_server 0 (Some True))) ((=) D)"
  unfolding rest_server_def http_server_exec.simps(3)
proof (rule leads_bind [OF server_class.acquire])
  show "obtains_handle K_server (\<lambda>h. h)
      (\<lambda>s. check_out ''nng_http_server_hold'' (get_w64 nng ''nng_http_server_hold'' [VW u] s))"
    by (intro obtains_giver assms(1)) (simp add: giver_def)
next
  fix x :: "ptr option" and D' assume D': "put D K_server 0 (Some True) = D'"
  have body: "calm D' (bind (held_by o_server 0) (\<lambda>srv.
      bind (\<lambda>A. (Ok (u_path (st_mem (wrld A)) u), A)) (\<lambda>path. rest_handler nng srv path cb)))"
    using assms D' by (intro used_bind calm_bind calm_pure calm_handler) auto
  have "leads D' (on o_server o_server_update (m_dtor (\<lambda>h. call_unit nng ''nng_http_server_release'' [VW h]) 0))
      ((=) (put D' K_server 0 None)) never"
    using D' by (intro server_class.destroy returns_taker assms(1)) (auto simp: taker_def)
  then have "leads D' (on_server nng (Dtor 0)) ((=) D) never" using assms(2) D' by auto
  then show "leads D' (unwind (bind (held_by o_server 0) (\<lambda>srv.
      bind (\<lambda>A. (Ok (u_path (st_mem (wrld A)) u), A)) (\<lambda>path. rest_handler nng srv path cb)))
      (on_server nng (Dtor 0))) ((=) (put D K_server 0 (Some True))) ((=) D)"
    unfolding D' by (intro leads_unwind [OF body]) auto
qed (simp add: assms)

lemma rest_start_leads:
  assumes "lawful nng" "D K_url 0 = None" "D K_sock 1 = Some False" "D K_sock 2 = None"
    "D K_server 0 = None" "D K_handler 0 = None"
  shows "leads D (rest_start nng u_path cb port)
    ((=) (put (put D K_sock 1 (Some True)) K_server 0 (Some True))) (\<lambda>D'. \<exists>b. D' = put D K_sock 1 (Some b))"
  unfolding rest_start_def url_exec.simps
proof (rule url_class.scope_of)
  let ?E = "\<lambda>D'. \<exists>b. D' = put D K_sock 1 (Some b)"
  show "?E D" using assms(3) by (metis put_simps(3))
  define D1 where "D1 = put D K_url 0 (Some True)"
  define D2 where "D2 = put D1 K_sock 1 (Some True)"
  define D3 where "D3 = put D2 K_server 0 (Some True)"
  let ?P = "\<lambda>D'. D' K_url 0 \<noteq> None \<and> put (put D K_sock 1 (Some True)) K_server 0 (Some True) = put D' K_url 0 None"
  let ?F = "\<lambda>D'. D' K_url 0 \<noteq> None \<and> ?E (put D' K_url 0 None)"
  have swap: "put (put D1 K_sock 1 b) K_url 0 None = put D K_sock 1 b" for b
    using assms(2) by (auto simp: D1_def put_def fun_eq_iff)
  have fail: "?F D2" using swap [of "Some True"] by (auto simp: D1_def D2_def)
  have fail1: "?F D1"
    using swap [of "Some False"] assms(3) by (auto simp: D1_def intro!: exI [of _ False])
  have good: "?P D3"
    using swap [of "Some True"] assms(2) by (auto simp: D3_def D2_def D1_def put_def fun_eq_iff)
  have serve: "leads D2 (rest_server nng u_path cb u) ?P ?F" for u
    using assms good fail by (intro leads_mono [OF rest_server_leads]) (auto simp: D1_def D2_def D3_def)
  have reopen: "leads D1 (in_scope (on o_sock o_sock_update (m_acquire 2 (req0_open nng))) (on_sock nng (Dtor 2))
      (on_sock nng (Move_assign 1 2))) ((=) D2) ?F"
    using assms fail1 unfolding D2_def by (intro leads_mono [OF leads_reopen]) (auto simp: D1_def)
  have dial: "leads D2 (by_world (socket_view_dial nng k addr f)) ((=) D2) ?F" for k addr f
    using fail by (intro leads_mono [OF leads_quiet [OF quiet_methods(10) [OF assms(1)]]]) auto
  show "leads (put D K_url 0 (Some True)) (bind (held_by o_url 0) (\<lambda>u.
        bind (in_scope (on o_sock o_sock_update (m_acquire 2 (req0_open nng))) (on_sock nng (Dtor 2))
               (on_sock nng (Move_assign req_sock 2))) (\<lambda>_.
        bind (held_by o_sock req_sock) (\<lambda>k.
        bind (by_world (socket_view_dial nng k ''inproc://rot13'' (flag_nonblock nng))) (\<lambda>_.
        rest_server nng u_path cb u))))) ?P ?F"
    unfolding D1_def [symmetric]
    by (rule used_bind, simp add: D1_def, rule leads_bind [OF reopen], erule subst, rule used_bind,
        simp add: D2_def, rule leads_bind [OF dial], erule subst, rule serve)
qed (simp_all add: assms obtains_giver returns_taker giver_def taker_def)

text \<open>
  A program gives everything back: it is defined, no object is left, and in every class the
  handles that were delivered are the ones that were taken back, each of them when it was out.
\<close>

definition settled :: "'w st \<Rightarrow> 'w prog \<Rightarrow> bool" where
  "settled s A \<longleftrightarrow> A = (program_start (wrld A))\<lparr>written := written A\<rparr> \<and>
     (\<forall>k. proper (events (class_ev k) (new_calls s (wrld A))) {#} \<and>
          live (events (class_ev k) (new_calls s (wrld A))) {#} = {#})"

definition gives_back :: "('w prog, 'a) act \<Rightarrow> bool" where
  "gives_back m \<longleftrightarrow> (\<forall>s. case m (program_start s) of (x, A) \<Rightarrow> x \<noteq> Ub \<and> settled s A)"

lemma start_refs: "refs k (program_start s) = Map.empty"
  by (cases k) (auto simp: program_start_def)

lemma start_shape: "shape (program_start s) = (\<lambda>_. Map.empty)" "tidy (program_start s)"
  by (simp_all add: shape_def tidy_def start_refs fun_eq_iff) (simp add: program_start_def)

text \<open>The same with the global \<open>req_sock\<close> of the REST server, which is no socket yet.\<close>

lemma globals_start:
  "shape ((program_start s)\<lparr>o_sock := [req_sock \<mapsto> 0]\<rparr>) = put (\<lambda>_. Map.empty) K_sock req_sock (Some False)"
  "tidy ((program_start s)\<lparr>o_sock := [req_sock \<mapsto> 0]\<rparr>)"
  "owned (refs k ((program_start s)\<lparr>o_sock := [req_sock \<mapsto> 0]\<rparr>)) = {#}"
proof -
  let ?A = "(program_start s)\<lparr>o_sock := [req_sock \<mapsto> 0]\<rparr>"
  have r: "refs k ?A = (if k = K_sock then [req_sock \<mapsto> 0] else Map.empty)" for k
    using start_refs [of k s] refs_upd(8) [of k "\<lambda>_. [req_sock \<mapsto> 0]" "program_start s"] by (cases "k = K_sock") auto
  show "shape ?A = put (\<lambda>_. Map.empty) K_sock req_sock (Some False)"
    by (intro ext) (simp add: shape_def put_def r start_refs)
  have "finite (dom (refs k ?A))" for k by (simp only: r) simp
  moreover have "o_buf ?A = Map.empty" by (simp add: program_start_def)
  ultimately show "tidy ?A" by (simp add: tidy_def del: refs.simps refs_upd)
  show "owned (refs k ?A) = {#}" by (simp only: r) (simp add: owned_new)
qed

lemma shape_empty:
  assumes "shape A = (\<lambda>_. Map.empty)"
  shows "refs k A = Map.empty" "A = (program_start (wrld A))\<lparr>written := written A\<rparr>"
proof -
  show r: "refs k A = Map.empty" for k
  proof
    fix a
    have "shape A k a = None" using assms by simp
    then show "refs k A a = None" by (simp add: shape_def)
  qed
  have b: "o_buf A = Map.empty" "o_sock A = Map.empty" "o_ctx A = Map.empty"
    using r [of K_buf] r [of K_sock] r [of K_ctx] by (auto simp: fun_eq_iff)
  show "A = (program_start (wrld A))\<lparr>written := written A\<rparr>"
    using b r [of K_url] r [of K_client] r [of K_aio] r [of K_req] r [of K_res] r [of K_msg] r [of K_server]
      r [of K_handler] r [of K_thread]
    by (intro prog.equality) (simp_all add: program_start_def)
qed

lemma shape_class:
  "shape A k = Map.empty \<Longrightarrow> refs k A = Map.empty"
  "shape A k = [a \<mapsto> True] \<Longrightarrow> \<exists>h. h \<noteq> 0 \<and> refs k A = [a \<mapsto> h]"
proof -
  show "refs k A = Map.empty" if "shape A k = Map.empty"
  proof
    fix b show "refs k A b = None" using fun_cong [OF that, of b] by (simp add: shape_def)
  qed
  show "\<exists>h. h \<noteq> 0 \<and> refs k A = [a \<mapsto> h]" if s: "shape A k = [a \<mapsto> True]"
  proof -
    obtain h where h: "refs k A a = Some h" "h \<noteq> 0"
      using fun_cong [OF s, of a] by (auto simp: shape_def)
    have "refs k A b = [a \<mapsto> h] b" for b
      using fun_cong [OF s, of b] h by (auto simp: shape_def split: if_splits)
    then show ?thesis using h(2) by blast
  qed
qed

lemma books_from_start:
  assumes "books_kept A0 A" "\<And>k. owned (refs k A0) = {#}" "st_log (wrld A0) = st_log s"
  shows "proper (events (class_ev k) (new_calls s (wrld A))) {#}"
    and "live (events (class_ev k) (new_calls s (wrld A))) {#} = owned (refs k A)"
proof -
  from assms(1,3) obtain cs where cs: "st_log (wrld A) = st_log s @ cs"
    "\<And>k L. proper (events (class_ev k) cs) (L + owned (refs k A0))"
    "\<And>k L. live (events (class_ev k) cs) (L + owned (refs k A0)) = L + owned (refs k A)"
    unfolding books_kept_def by auto
  then have "new_calls s (wrld A) = cs" by (simp add: new_calls_def)
  then show "proper (events (class_ev k) (new_calls s (wrld A))) {#}"
    "live (events (class_ev k) (new_calls s (wrld A))) {#} = owned (refs k A)"
    using cs(2) [of k "{#}"] cs(3) [of k "{#}"] assms(2) by simp_all
qed

lemma ends_settled:
  assumes "ends ((=) (\<lambda>_. Map.empty)) (program_start s) A"
  shows "settled s A"
proof -
  have sh: "shape A = (\<lambda>_. Map.empty)" and b: "books_kept (program_start s) A" using assms by (simp_all add: ends_def)
  show ?thesis
    using shape_empty [OF sh] books_from_start [OF b, of s] start_refs [of _ s]
    by (simp add: settled_def program_start_def del: refs.simps)
qed

lemma calm_gives_back:
  assumes "calm (\<lambda>_. Map.empty) m"
  shows "gives_back m"
  unfolding gives_back_def
proof
  fix s
  have "gives m (program_start s) (\<lambda>_. ends ((=) (\<lambda>_. Map.empty)) (program_start s))
      (\<lambda>_. ends ((=) (\<lambda>_. Map.empty)) (program_start s))"
    using assms start_shape unfolding leads_def by blast
  then show "case m (program_start s) of (x, A) \<Rightarrow> x \<noteq> Ub \<and> settled s A"
    by (cases "m (program_start s)") (auto simp: gives_def intro: ends_settled split: result.splits)
qed

section \<open>An instance\<close>

text \<open>
  A library in which every call succeeds, all memory is mapped once it is allocated, and a
  response has a \<open>Content-Length\<close> of 5.
\<close>

definition web_nng :: "unit nng" where
  "web_nng = idle_nng\<lparr>s_w64 := \<lambda>_ _ w. ((0, 7), w), s_id := \<lambda>_ _ w. ((0, 1), w),
     f_w64 := \<lambda>fn _ (l, m).
       (if fn = ''nng_http_res_get_header'' then (16, l, write_bytes m 16 [53, 0])
        else if fn = ''nng_alloc'' then (64, l, \<lambda>a. case m a of None \<Rightarrow> Some 0 | Some b \<Rightarrow> Some b)
        else (0, l, m)),
     macro_int := \<lambda>c. if c = ''NNG_FLAG_ALLOC'' then 1 else 0\<rparr>"

lemma web_nng_lawful: "lawful web_nng"
  unfolding lawful_def delivers_def keeps_memory_def keeps_unsent_def maps_received_def web_nng_def
  by (auto simp: flag_alloc_def alloc_bit_def block_def split: option.splits)

lemma five: "text_at (write_bytes m 16 [53, 0]) 16 = Some ''5''" "atoi ''5'' = Some 5"
proof -
  have "c_string (write_bytes m 16 [53, 0]) 16 [53]"
    using read_write_bytes [of "[53, 0]" m 16] by (simp add: c_string_def)
  from strlen_c_string [OF this] c_string_bytes(1) [OF this]
  show "text_at (write_bytes m 16 [53, 0]) 16 = Some ''5''"
    by (simp add: text_at_def view_bytes_def view_of_def char_of_def bit_0)
  show "atoi ''5'' = Some 5"
    using strtol_decimal [of 5] by (simp add: atoi_def decimal.simps char_of_def bit_0)
qed

lemma web_nng_header: "fst (content_length web_nng srv \<sigma>) = Ok (Some 5)"
  by (simp add: content_length_def http_res_get_header_def call_w64_def invoke_def web_nng_def five del: write_bytes.simps)

text \<open>A run of the client in this library.\<close>

lemma web_nng_simps: "s_w64 web_nng = (\<lambda>_ _ w. ((0, 7), w))" "f_int web_nng = (\<lambda>_ _ w. (0, w))"
  "f_unit web_nng = (\<lambda>_ _ w. ((), w))" "macro_int web_nng = (\<lambda>c. if c = ''NNG_FLAG_ALLOC'' then 1 else 0)"
  "fn \<noteq> ''nng_http_res_get_header'' \<Longrightarrow> fn \<noteq> ''nng_alloc'' \<Longrightarrow> f_w64 web_nng fn args w = (0, w)"
  by (auto simp: web_nng_def split: prod.splits)

lemmas run_defs = in_scope_def bind_def scoped_def caught_def on_def member_simps by_world_def from_world_def
  to_world_def held_by_def ret_def throw_def await_def call_simps invoke_def web_nng_simps aio_view_wait_def
  aio_view_result_def

lemma web_body:
  assumes "o_buf A = Map.empty"
  shows "\<exists>w s. http_client_body web_nng (\<lambda>_. []) 32 a conn 5 A = (Ok 0, A\<lparr>written := w, wrld := s\<rparr>)"
proof -
  obtain s where al: "nng_alloc web_nng 5 (wrld A) = (64, s)" and full: "dom (st_mem s) = UNIV"
    by (force simp: nng_alloc_def call_w64_def invoke_def web_nng_def split: option.splits)
  then obtain bs where bs: "view_bytes (st_mem s) (view_of 64 5) = Some bs"
    using view_bytes_mapped [of "st_mem s" "view_of 64 5"] by auto
  show ?thesis
    using assms al bs
    by (cases A) (simp add: http_client_body_def run_defs buffer_alloc_def buffer_dtor_def put_iov_def
        aio_view_set_iov_one_def aio_view_set_iov_def http_conn_read_all_def write_out_def nng_free_def)
qed

lemma web_run:
  "\<exists>A. http_client_main web_nng (\<lambda>_. []) 32 [''http_client'', ''http://localhost/''] (program_start (start ())) = (Ok 0, A)"
proof -
  define L where "L = (\<lambda>srv s. snd (content_length web_nng srv s))"
  have len: "content_length web_nng srv s = (Ok (Some 5), L srv s)" for srv s
    using web_nng_header [of srv s] unfolding L_def by (metis prod.collapse)
  define B where "B = (\<lambda>a conn A. snd (http_client_body web_nng (\<lambda>_. []) 32 a conn 5 A))"
  have body: "http_client_body web_nng (\<lambda>_. []) 32 a conn 5 A =
      (Ok 0, A\<lparr>written := written (B a conn A), wrld := wrld (B a conn A)\<rparr>)" if "o_buf A = Map.empty" for a conn A
    using web_body [OF that, of a conn] by (auto simp: B_def)
  show ?thesis
    by (simp add: http_client_main_def http_client_request_def http_client_response_def run_defs
        http_client_connect_def aio_view_get_output_def http_conn_write_req_def http_conn_read_res_def
        http_res_get_status_def http_res_get_reason_def program_start_def start_def len) (simp add: body run_defs)
qed

section \<open>Properties\<close>

text \<open>C12: the HTTP client, with a library that keeps its contract and a server that sends a number as
  the length, is never undefined, and whichever of its steps fails it has destroyed every object
  and given back every handle of the URL, the client, the operation, the request, the response
  and the buffer exactly once when it ends.\<close>

theorem http_client_gives_back:
  assumes "lawful nng" "sound_header nng"
  shows "gives_back (http_client_main nng layout tmp argv)"
  by (rule calm_gives_back [OF calm_main [OF assms]])

theorem http_client_gives_back_witness:
  "gives_back (http_client_main web_nng (\<lambda>_. []) 32 [''http_client'', ''http://localhost/''])"
  using web_nng_header by (intro http_client_gives_back web_nng_lawful) (simp add: sound_header_def)

text \<open>C13: the clients of the demos and of the measurements give back their socket and every message they still have,
  whichever call fails: a message whose sending fails is freed by its object, one that is sent is not freed. This
  holds of the program of the asynchronous demo unless it is called with two arguments of which the second is
  no \<open>int\<close> for \<open>atoi\<close>, and of the raw client unless the product of that number and 1000 is no
  \<open>int\<close>; then they are undefined. The latency client gives everything back for fewer than \<open>2 ^ 30\<close> trips, its
  block and the throughput client always.\<close>

theorem clients_give_back:
  assumes "lawful nng"
  shows "(gives_back (async_client_main nng argv) \<longleftrightarrow> (length argv = 3 \<longrightarrow> atoi (argv ! 2) \<noteq> None)) \<and>
    (gives_back (raw_client nng url msecstr) \<longleftrightarrow>
      (\<exists>secs. atoi msecstr = Some secs \<and> - (2 ^ 31) \<le> sint secs * 1000 \<and> sint secs * 1000 < 2 ^ 31)) \<and>
    (n < 2 ^ 30 \<longrightarrow> gives_back (latency_client nng addr sz n)) \<and>
    gives_back (latency_block nng addr sz n) \<and> gives_back (throughput_client nng addr sz n)"
proof (intro conjI impI)
  have stuck: "\<not> gives_back m" if "\<And>A. fst (m A) = Ub" for m :: "('a prog, 'b) act"
    unfolding gives_back_def using that by (metis (mono_tags, lifting) case_prod_beta)
  show "gives_back (async_client_main nng argv) \<longleftrightarrow> (length argv = 3 \<longrightarrow> atoi (argv ! 2) \<noteq> None)"
  proof (cases "length argv = 3 \<and> atoi (argv ! 2) = None")
    case True
    then show ?thesis
      using stuck [of "async_client_main nng argv"]
      by (simp add: async_client_main_def async_client_def caught_def bind_def)
  next
    case False
    then show ?thesis using calm_timer [OF assms]
      by (auto simp: async_client_main_def async_client_def intro!: calm_gives_back calm_caught calm_bind)
  qed
  show "gives_back (raw_client nng url msecstr) \<longleftrightarrow>
      (\<exists>secs. atoi msecstr = Some secs \<and> - (2 ^ 31) \<le> sint secs * 1000 \<and> sint secs * 1000 < 2 ^ 31)"
  proof (cases "\<exists>secs. atoi msecstr = Some secs \<and> - (2 ^ 31) \<le> sint secs * 1000 \<and> sint secs * 1000 < 2 ^ 31")
    case True
    then have "calm (\<lambda>_. Map.empty) (raw_client nng url msecstr)"
      using calm_timer [OF assms] by (auto simp: raw_client_def)
    with True show ?thesis by (simp add: calm_gives_back)
  next
    case False
    then have "\<not> gives_back (raw_client nng url msecstr)"
      by (intro stuck) (auto simp: raw_client_def not_le split: option.split)
    with False show ?thesis by blast
  qed
qed (use calm_latency [OF assms] calm_latency_block [OF assms] calm_throughput [OF assms] in \<open>auto intro!: calm_gives_back\<close>)

theorem clients_give_back_witness:
  "gives_back (async_client_main web_nng [''client'', ''inproc://x'', ''5'']) \<and> gives_back (raw_client web_nng ''inproc://x'' ''5'') \<and>
   gives_back (latency_client web_nng ''inproc://x'' 8 3) \<and> gives_back (throughput_client web_nng ''inproc://x'' 8 3)"
  using clients_give_back [OF web_nng_lawful, of "[''client'', ''inproc://x'', ''5'']" "''inproc://x''" "''5''" 3 "''inproc://x''" 8]
  by (simp add: five)

text \<open>C19: starting the REST server ends with the server held by the object it returns, or throws and
  holds no server; in both cases the URL is freed and the handler belongs to the server or is
  freed.\<close>

theorem rest_start_hands_over:
  assumes "lawful nng"
    and "rest_start nng u_path cb port ((program_start s)\<lparr>o_sock := [req_sock \<mapsto> 0]\<rparr>) = (x, A)"
  shows "(case x of
      Ok _ \<Rightarrow> \<exists>srv. srv \<noteq> 0 \<and> o_server A = [0 \<mapsto> srv] \<and> live (events http_server_ev (new_calls s (wrld A))) {#} = {#srv#}
    | Throw _ \<Rightarrow> o_server A = Map.empty \<and> live (events http_server_ev (new_calls s (wrld A))) {#} = {#}
    | Ub \<Rightarrow> False) \<and>
    o_handler A = Map.empty \<and> live (events handler_flow_ev (new_calls s (wrld A))) {#} = {#} \<and>
    o_url A = Map.empty \<and> live (events url_ev (new_calls s (wrld A))) {#} = {#}"
proof -
  let ?A = "(program_start s)\<lparr>o_sock := [req_sock \<mapsto> 0]\<rparr>" and ?D = "put (\<lambda>_. Map.empty) K_sock req_sock (Some False)"
  note A = globals_start(1) [of s] and t = globals_start(2) [of s] and o = globals_start(3) [of _ s]
  have "gives (rest_start nng u_path cb port) ?A
      (\<lambda>_. ends ((=) (put (put ?D K_sock req_sock (Some True)) K_server 0 (Some True))) ?A)
      (\<lambda>_. ends (\<lambda>D'. \<exists>b. D' = put ?D K_sock req_sock (Some b)) ?A)"
    using rest_start_leads [OF assms(1), of ?D u_path cb port] A t unfolding leads_def by simp
  then have end_state: "case x of Ok _ \<Rightarrow> ends ((=) (put (put ?D K_sock req_sock (Some True)) K_server 0 (Some True))) ?A A
      | Throw _ \<Rightarrow> ends (\<lambda>D'. \<exists>b. D' = put ?D K_sock req_sock (Some b)) ?A A | Ub \<Rightarrow> False"
    using assms(2) by (simp add: gives_def split: result.splits)
  then have books: "books_kept ?A A" and "shape A K_url = Map.empty" "shape A K_handler = Map.empty"
    by (auto simp: ends_def eq_commute [of _ "shape A"] split: result.splits)
  then have e: "refs K_url A = Map.empty" "refs K_handler A = Map.empty" by (auto intro!: shape_class(1) simp del: refs.simps)
  have live: "live (events (class_ev k) (new_calls s (wrld A))) {#} = owned (refs k A)" for k
    by (rule books_from_start(2) [OF books o]) (simp add: program_start_def)
  have srv: "case x of Ok _ \<Rightarrow> \<exists>srv. srv \<noteq> 0 \<and> o_server A = [0 \<mapsto> srv] | Throw _ \<Rightarrow> o_server A = Map.empty | Ub \<Rightarrow> False"
  proof (cases x)
    case (Ok y)
    with end_state have "shape A K_server = [0 \<mapsto> True]" by (auto simp: ends_def eq_commute [of _ "shape A"])
    from shape_class(2) [OF this] Ok show ?thesis by simp
  next
    case (Throw y)
    with end_state have "shape A K_server = Map.empty" by (auto simp: ends_def)
    from shape_class(1) [OF this] Throw show ?thesis by simp
  qed (use end_state in simp)
  show ?thesis
    using e srv live [of K_url] live [of K_handler] live [of K_server]
    by (auto simp: owned_new split: result.splits)
qed

theorem rest_start_hands_over_witness:
  "\<exists>x A. rest_start web_nng (\<lambda>_ _. ''/api'') 99 8888 ((program_start (start ()))\<lparr>o_sock := [req_sock \<mapsto> 0]\<rparr>) = (x, A) \<and>
     o_handler A = Map.empty \<and> live (events handler_flow_ev (new_calls (start ()) (wrld A))) {#} = {#}"
proof -
  obtain x A where "rest_start web_nng (\<lambda>_ _. ''/api'') 99 8888
      ((program_start (start ()))\<lparr>o_sock := [req_sock \<mapsto> 0]\<rparr>) = (x, A)" by fastforce
  with rest_start_hands_over [OF web_nng_lawful this] show ?thesis by blast
qed

end
