(* ===== verification/Servers.thy ===== *)
theory Servers
  imports Work_Loop Programs
begin

text \<open>
  The function \<open>server\<close> of \<open>demo/async/server.cpp\<close> and of \<open>demo/raw/raw.cpp\<close>: opening the socket,
  making the \<open>PARALLEL\<close> work items, listening and starting the items, and then the items running
  next to each other, each with its own callbacks, in any order. \<open>Work_Loop\<close> has the callback and one item;
  here the items share the library and the books of the messages.
\<close>

section \<open>Bringing a server up\<close>

text \<open>
  The members of an item in their order: the operation, the message and, in the asynchronous demo,
  the context. The object at index \<open>i\<close> of each store belongs to item \<open>i\<close>; \<open>cb\<close> and \<open>this\<close> are
  the callback and the address of the item, which \<open>nng_aio_alloc\<close> gets.
\<close>

definition async_make_work :: "'w nng \<Rightarrow> ptr \<Rightarrow> ptr \<Rightarrow> i32 \<Rightarrow> nat \<Rightarrow> ('w prog, unit) act" where
  "async_make_work nng cb this k i =
     bind (on_aio nng (Acquire i (Aio_alloc cb this))) (\<lambda>_.
     unwind
       (bind (on_msg nng (Default i)) (\<lambda>_.
        unwind (bind (on_ctx nng (Acquire i (Ctx_open k))) (\<lambda>_. ret ())) (on_msg nng (Dtor i))))
       (on_aio nng (Dtor i)))"

definition async_delete_work :: "'w nng \<Rightarrow> nat \<Rightarrow> ('w prog, unit) act" where
  "async_delete_work nng i =
     bind (on_ctx nng (Dtor i)) (\<lambda>_. bind (on_msg nng (Dtor i)) (\<lambda>_. bind (on_aio nng (Dtor i)) (\<lambda>_. ret ())))"

definition raw_make_work :: "'w nng \<Rightarrow> ptr \<Rightarrow> ptr \<Rightarrow> nat \<Rightarrow> ('w prog, unit) act" where
  "raw_make_work nng cb this i =
     bind (on_aio nng (Acquire i (Aio_alloc cb this))) (\<lambda>_. bind (on_msg nng (Default i)) (\<lambda>_. ret ()))"

definition raw_delete_work :: "'w nng \<Rightarrow> nat \<Rightarrow> ('w prog, unit) act" where
  "raw_delete_work nng i = bind (on_msg nng (Dtor i)) (\<lambda>_. bind (on_aio nng (Dtor i)) (\<lambda>_. ret ()))"

text \<open>
  The array \<open>works\<close> is filled from index \<open>i\<close> on, then \<open>m\<close> runs; an exception destroys what there is
  of it, the last element first. The function does not return, so nothing else destroys it.
\<close>

fun with_works ::
  "(nat \<Rightarrow> ('w prog, unit) act) \<Rightarrow> (nat \<Rightarrow> ('w prog, unit) act) \<Rightarrow> nat \<Rightarrow> nat \<Rightarrow> ('w prog, unit) act \<Rightarrow>
     ('w prog, unit) act" where
  "with_works mk del i 0 m = m"
| "with_works mk del i (Suc r) m = bind (mk i) (\<lambda>_. unwind (with_works mk del (Suc i) r m) (del i))"

definition server_up ::
  "'w nng \<Rightarrow> ('w st \<Rightarrow> i32 result \<times> 'w st) \<Rightarrow> (i32 \<Rightarrow> nat \<Rightarrow> ('w prog, unit) act) \<Rightarrow> (nat \<Rightarrow> ('w prog, unit) act) \<Rightarrow>
     string \<Rightarrow> nat \<Rightarrow> ('w prog, unit) act" where
  "server_up nng opn mk del url n =
     bind (on o_sock o_sock_update (m_acquire 0 opn)) (\<lambda>_.
     unwind
       (bind (held_by o_sock 0) (\<lambda>k. with_works (mk k) del 0 n (by_world (socket_view_listen nng k url 0))))
       (on_sock nng (Dtor 0)))"

definition async_server_up :: "'w nng \<Rightarrow> ptr \<Rightarrow> (nat \<Rightarrow> ptr) \<Rightarrow> string \<Rightarrow> nat \<Rightarrow> ('w prog, unit) act" where
  "async_server_up nng cb addr url n =
     server_up nng (rep0_open nng) (\<lambda>k i. async_make_work nng cb (addr i) k i) (async_delete_work nng) url n"

definition raw_server_up :: "'w nng \<Rightarrow> ptr \<Rightarrow> (nat \<Rightarrow> ptr) \<Rightarrow> string \<Rightarrow> nat \<Rightarrow> ('w prog, unit) act" where
  "raw_server_up nng cb addr url n =
     server_up nng (rep0_open_raw nng) (\<lambda>_ i. raw_make_work nng cb (addr i) i) (raw_delete_work nng) url n"

section \<open>The items at work\<close>

text \<open>
  The objects, the state of each item, and how many of them \<open>server\<close> has started.
\<close>

record 'w fleet =
  fl_prog  :: "'w prog"
  fl_state :: "nat \<Rightarrow> work_state"
  fl_next  :: nat

definition fleet_start :: "'w prog \<Rightarrow> 'w fleet" where
  "fleet_start A = \<lparr>fl_prog = A, fl_state = (\<lambda>_. INIT), fl_next = 0\<rparr>"

text \<open>
  \<open>server_cb(works[i])\<close>, where \<open>ep\<close> says what item \<open>i\<close> receives from and sends to. The local \<open>msg\<close>
  of the callback is in no store of the program.
\<close>

definition run_item ::
  "(i32 \<Rightarrow> ptr \<Rightarrow> work_state \<Rightarrow> (ptr, 'w) cfg \<Rightarrow> work_state callback \<times> (ptr, 'w) cfg) \<Rightarrow>
     ('w prog \<Rightarrow> nat \<Rightarrow> i32 option) \<Rightarrow> nat \<Rightarrow> 'w fleet \<Rightarrow> unit callback \<times> 'w fleet" where
  "run_item cb ep i F =
     (case (ep (fl_prog F) i, o_aio (fl_prog F) i) of
        (Some c, Some a) \<Rightarrow>
          (case cb c a (fl_state F i)
             ((\<lambda>b. if b = work_msg then o_msg (fl_prog F) i else None), wrld (fl_prog F)) of (x, S, s) \<Rightarrow>
           let F' = F\<lparr>fl_prog := (fl_prog F)\<lparr>o_msg := (o_msg (fl_prog F))(i := S work_msg), wrld := s\<rparr>\<rparr> in
           (case x of
              Next st \<Rightarrow> (Next (), F'\<lparr>fl_state := (fl_state F)(i := st)\<rparr>)
            | Exit e \<Rightarrow> (Exit e, F')
            | Stuck \<Rightarrow> (Stuck, F')))
      | _ \<Rightarrow> (Stuck, F))"

definition run_async :: "'w nng \<Rightarrow> nat \<Rightarrow> 'w fleet \<Rightarrow> unit callback \<times> 'w fleet" where
  "run_async nng = run_item (async_server_cb nng) o_ctx"

definition run_raw :: "'w nng \<Rightarrow> nat \<Rightarrow> 'w fleet \<Rightarrow> unit callback \<times> 'w fleet" where
  "run_raw nng = run_item (raw_server_cb nng) (\<lambda>A _. o_sock A 0)"

text \<open>What the library does on its own.\<close>

definition disturb :: "'w \<Rightarrow> mem \<Rightarrow> 'w fleet \<Rightarrow> 'w fleet" where
  "disturb w m F = F\<lparr>fl_prog := (fl_prog F)\<lparr>wrld := (wrld (fl_prog F))\<lparr>st_lib := w, st_mem := m\<rparr>\<rparr>\<rparr>"

text \<open>
  \<open>serves run n F0 c F\<close>: from \<open>F0\<close> the loop of \<open>server\<close> started items, in order, and \<open>c i\<close> callbacks
  of the started item \<open>i\<close> ran, in any order, also before the loop is done. A callback runs as a whole:
  it shares nothing with the others but the library, which is thread-safe.
\<close>

inductive serves ::
  "(nat \<Rightarrow> 'w fleet \<Rightarrow> unit callback \<times> 'w fleet) \<Rightarrow> nat \<Rightarrow> 'w fleet \<Rightarrow> (nat \<Rightarrow> nat) \<Rightarrow> 'w fleet \<Rightarrow> bool"
  for run n F0 where
  up: "serves run n F0 (\<lambda>_. 0) F0"
| start_item: "serves run n F0 c F \<Longrightarrow> fl_next F < n \<Longrightarrow> run (fl_next F) (disturb w m F) = (Next (), F') \<Longrightarrow>
    serves run n F0 c (F'\<lparr>fl_next := Suc (fl_next F)\<rparr>)"
| item_callback: "serves run n F0 c F \<Longrightarrow> i < fl_next F \<Longrightarrow> run i (disturb w m F) = (Next (), F') \<Longrightarrow>
    serves run n F0 (c(i := Suc (c i))) F'"

section \<open>Bringing a server up keeps the books\<close>

text \<open>The objects of the first \<open>i\<close> items; \<open>c\<close> says whether they have contexts.\<close>

definition staffed :: "bool \<Rightarrow> shape \<Rightarrow> nat \<Rightarrow> shape" where
  "staffed c D i = (\<lambda>k a. if a < i then
     (if k = K_aio \<or> k = K_ctx \<and> c then Some True else if k = K_msg then Some False else D k a) else D k a)"

definition vacant :: "shape \<Rightarrow> bool" where
  "vacant D \<longleftrightarrow> D K_aio = Map.empty \<and> D K_msg = Map.empty \<and> D K_ctx = Map.empty"

lemma staffed_0 [simp]: "staffed c D 0 = D"
  by (simp add: staffed_def)

lemma staffed_Suc:
  "staffed c D (Suc i) =
     (let D' = put (put (staffed c D i) K_aio i (Some True)) K_msg i (Some False) in
      if c then put D' K_ctx i (Some True) else D')"
  by (intro ext) (auto simp: staffed_def put_def less_Suc_eq Let_def)

lemma staffed_next:
  assumes "vacant D"
  shows "staffed c D i K_aio i = None" "staffed c D i K_msg i = None" "staffed c D i K_ctx i = None"
  using assms by (simp_all add: staffed_def vacant_def)

lemma works_lead:
  assumes "\<And>j. i \<le> j \<Longrightarrow> j < i + r \<Longrightarrow> leads (E j) (mk j) ((=) (E (Suc j))) ((=) (E j))"
    and "\<And>j. i \<le> j \<Longrightarrow> j < i + r \<Longrightarrow> leads (E (Suc j)) (del j) ((=) (E j)) never"
    and "calm (E (i + r)) m"
  shows "leads (E i) (with_works mk del i r m) ((=) (E (i + r))) ((=) (E i))"
  using assms
proof (induction r arbitrary: i)
  case 0
  then show ?case by simp
next
  case (Suc r)
  have "leads (E (Suc i)) (with_works mk del (Suc i) r m) ((=) (E (i + Suc r))) ((=) (E (Suc i)))"
    using Suc.IH [of "Suc i"] Suc.prems by simp
  then show ?case using Suc.prems(1,2) [of i] by (auto intro!: leads_seq leads_guard)
qed

lemma member_leads:
  assumes "lawful nng"
  shows "D K_aio a = None \<Longrightarrow>
      leads D (on_aio nng (Acquire a (Aio_alloc cb this))) ((=) (put D K_aio a (Some True))) ((=) D)"
    and "D K_ctx a = None \<Longrightarrow>
      leads D (on_ctx nng (Acquire a (Ctx_open k))) ((=) (put D K_ctx a (Some True))) ((=) D)"
    and "D K_msg a = None \<Longrightarrow> leads D (on_msg nng (Default a)) ((=) (put D K_msg a (Some False))) never"
    and "D K_aio a \<noteq> None \<Longrightarrow> leads D (on_aio nng (Dtor a)) ((=) (put D K_aio a None)) never"
    and "D K_ctx a \<noteq> None \<Longrightarrow> leads D (on_ctx nng (Dtor a)) ((=) (put D K_ctx a None)) never"
    and "D K_msg a \<noteq> None \<Longrightarrow> leads D (on_msg nng (Dtor a)) ((=) (put D K_msg a None)) never"
  unfolding aio_exec.simps ctx_exec.simps msg_exec.simps
  by (rule aio_class.acquire ctx_class.acquire msg_class.construct_null aio_class.destroy ctx_class.destroy
      msg_class.destroy,
      simp_all add: assms obtains_giver obtains_opened returns_taker returns_opened giver_def taker_def opener_def)+

lemma put_back: "D k a = None \<Longrightarrow> put (put D k a x) k a None = D"
  by (auto simp: put_def fun_eq_iff)

lemma async_make_leads:
  assumes "lawful nng" "vacant D"
  shows "leads (staffed True D i) (async_make_work nng cb this k i) ((=) (staffed True D (Suc i)))
    ((=) (staffed True D i))"
proof -
  define E where "E = staffed True D i"
  define E1 where "E1 = put E K_aio i (Some True)"
  define E2 where "E2 = put E1 K_msg i (Some False)"
  have free: "E K_aio i = None" "E K_msg i = None" "E K_ctx i = None"
    using staffed_next [OF assms(2)] by (simp_all add: E_def)
  have last: "put E2 K_ctx i (Some True) = staffed True D (Suc i)"
    by (simp add: staffed_Suc Let_def E2_def E1_def E_def)
  have undo: "put E2 K_msg i None = E1" "put E1 K_aio i None = E"
    using free by (simp_all add: E1_def E2_def put_back)
  have at: "E1 K_msg i = None" "E2 K_ctx i = None" "E2 K_msg i \<noteq> None" "E1 K_aio i \<noteq> None"
    using free by (simp_all add: E1_def E2_def)
  note step = member_leads [OF assms(1)]
  have ctx: "leads E2 (on_ctx nng (Acquire i (Ctx_open k))) ((=) (staffed True D (Suc i))) ((=) E2)"
    using step(2) [of E2 i, OF at(2)] by (simp only: last)
  have del: "leads E2 (on_msg nng (Dtor i)) ((=) E1) never" "leads E1 (on_aio nng (Dtor i)) ((=) E) never"
    using step(6) [of E2 i, OF at(3)] step(4) [of E1 i, OF at(4)] by (simp_all only: undo)
  have make: "leads E (on_aio nng (Acquire i (Aio_alloc cb this))) ((=) E1) ((=) E)"
    "leads E1 (on_msg nng (Default i)) ((=) E2) never"
    using step(1) [of E i, OF free(1)] step(3) [of E1 i, OF at(1)] by (simp_all only: E1_def E2_def)
  show ?thesis
    unfolding async_make_work_def E_def [symmetric]
    by (rule leads_seq [OF make(1)], rule leads_guard [OF _ del(2)], rule leads_seq [OF leads_total [OF make(2)]],
        rule leads_guard [OF leads_seq [OF ctx leads_ret] del(1)]) (rule refl)
qed

lemma async_delete_leads:
  assumes "lawful nng" "vacant D"
  shows "leads (staffed True D (Suc i)) (async_delete_work nng i) ((=) (staffed True D i)) never"
proof -
  define E where "E = staffed True D i"
  define E1 where "E1 = put E K_aio i (Some True)"
  define E2 where "E2 = put E1 K_msg i (Some False)"
  have free: "E K_aio i = None" "E K_msg i = None" "E K_ctx i = None"
    using staffed_next [OF assms(2)] by (simp_all add: E_def)
  have last: "staffed True D (Suc i) = put E2 K_ctx i (Some True)"
    by (simp add: staffed_Suc Let_def E2_def E1_def E_def)
  have undo: "put (put E2 K_ctx i (Some True)) K_ctx i None = E2" "put E2 K_msg i None = E1" "put E1 K_aio i None = E"
    using free by (simp_all add: E1_def E2_def put_back)
  have at: "put E2 K_ctx i (Some True) K_ctx i \<noteq> None" "E2 K_msg i \<noteq> None" "E1 K_aio i \<noteq> None"
    by (simp_all add: E1_def E2_def)
  note step = member_leads [OF assms(1)]
  show ?thesis
    unfolding async_delete_work_def E_def [symmetric] last
    by (rule leads_seq [OF step(5) [of "put E2 K_ctx i (Some True)" i, OF at(1), unfolded undo]], rule leads_seq [OF step(6) [of E2 i, OF at(2), unfolded undo]],
        rule leads_seq [OF step(4) [of E1 i, OF at(3), unfolded undo]], rule leads_ret) (rule refl)
qed

lemma raw_work_leads:
  assumes "lawful nng" "vacant D"
  shows "leads (staffed False D i) (raw_make_work nng cb this i) ((=) (staffed False D (Suc i))) ((=) (staffed False D i))"
    and "leads (staffed False D (Suc i)) (raw_delete_work nng i) ((=) (staffed False D i)) never"
proof -
  define E where "E = staffed False D i"
  define E1 where "E1 = put E K_aio i (Some True)"
  define E2 where "E2 = put E1 K_msg i (Some False)"
  have free: "E K_aio i = None" "E K_msg i = None"
    using staffed_next [OF assms(2)] by (simp_all add: E_def)
  have last: "staffed False D (Suc i) = E2"
    by (simp add: staffed_Suc Let_def E2_def E1_def E_def)
  have undo: "put E2 K_msg i None = E1" "put E1 K_aio i None = E"
    using free by (simp_all add: E1_def E2_def put_back)
  have at: "E1 K_msg i = None" "E2 K_msg i \<noteq> None" "E1 K_aio i \<noteq> None"
    using free by (simp_all add: E1_def E2_def)
  note step = member_leads [OF assms(1)]
  show "leads (staffed False D i) (raw_make_work nng cb this i) ((=) (staffed False D (Suc i))) ((=) (staffed False D i))"
    unfolding raw_make_work_def E_def [symmetric] last
    by (rule leads_seq [OF step(1) [of E i, OF free(1), folded E1_def]],
        rule leads_seq [OF leads_total [OF step(3) [of E1 i, OF at(1), folded E2_def]]], rule leads_ret) (rule refl)
  show "leads (staffed False D (Suc i)) (raw_delete_work nng i) ((=) (staffed False D i)) never"
    unfolding raw_delete_work_def E_def [symmetric] last
    by (rule leads_seq [OF step(6) [of E2 i, OF at(2), unfolded undo]],
        rule leads_seq [OF step(4) [of E1 i, OF at(3), unfolded undo]], rule leads_ret) (rule refl)
qed

text \<open>A server whose socket is opened by \<open>opn\<close>, with the items that \<open>mk\<close> and \<open>del\<close> make and destroy.\<close>

definition opened :: "shape" where
  "opened = put (\<lambda>_. Map.empty) K_sock 0 (Some True)"

lemma server_up_leads:
  assumes "lawful nng" "opn = (\<lambda>s. check_out src (get_id nng fn [] s))" "fn \<in> set sock_opens"
    and "\<And>k i. leads (staffed c opened i) (mk k i) ((=) (staffed c opened (Suc i))) ((=) (staffed c opened i))"
    and "\<And>i. leads (staffed c opened (Suc i)) (del i) ((=) (staffed c opened i)) never"
  shows "leads (\<lambda>_. Map.empty) (server_up nng opn mk del url n) ((=) (staffed c opened n)) ((=) (\<lambda>_. Map.empty))"
proof -
  have sock: "obtains_handle K_sock ucast opn"
    unfolding assms(2) using assms(3) by (intro obtains_opened assms(1)) (simp add: opener_def)
  have listen: "quiet (socket_view_listen nng k url 0)" for k
    unfolding socket_view_listen_def by (rule quiet_calls [OF assms(1)]) (simp add: class_fns_def handle_fns_def)
  have works: "leads opened (with_works (mk k) del 0 n (by_world (socket_view_listen nng k url 0)))
      ((=) (staffed c opened n)) ((=) opened)" for k
    using works_lead [of 0 n "staffed c opened" "mk k" del] assms(4,5) calm_world(1) [OF listen] by simp
  have close: "leads opened (on_sock nng (Dtor 0)) ((=) (\<lambda>_. Map.empty)) never"
  proof -
    have "put opened K_sock 0 None = (\<lambda>_. Map.empty)" by (simp add: opened_def put_def fun_eq_iff)
    moreover have "leads opened (on_sock nng (Dtor 0)) ((=) (put opened K_sock 0 None)) never"
      unfolding socket_exec.simps
      by (rule sock_class.destroy [OF returns_opened [OF assms(1)]]) (simp_all add: opened_def)
    ultimately show ?thesis by simp
  qed
  have "opened K_sock 0 \<noteq> None" by (simp add: opened_def)
  then show ?thesis
    unfolding server_up_def
    by (intro leads_seq [OF sock_class.acquire [OF sock, of "\<lambda>_. Map.empty" 0, folded opened_def]]
        leads_guard [OF _ close] used_bind works calm_use(8)) simp
qed

lemma opened_vacant: "vacant opened"
  by (simp add: vacant_def opened_def)

lemma servers_lead:
  assumes "lawful nng"
  shows "leads (\<lambda>_. Map.empty) (async_server_up nng cb addr url n) ((=) (staffed True opened n)) ((=) (\<lambda>_. Map.empty))"
    and "leads (\<lambda>_. Map.empty) (raw_server_up nng cb addr url n) ((=) (staffed False opened n)) ((=) (\<lambda>_. Map.empty))"
  unfolding async_server_up_def raw_server_up_def
  by (rule server_up_leads [OF assms rep0_open_def], simp add: sock_opens_def,
      rule async_make_leads [OF assms opened_vacant], rule async_delete_leads [OF assms opened_vacant],
      rule server_up_leads [OF assms rep0_open_raw_def], simp add: sock_opens_def,
      rule raw_work_leads(1) [OF assms opened_vacant], rule raw_work_leads(2) [OF assms opened_vacant])

section \<open>All items together\<close>

text \<open>References that others hold do not matter.\<close>

lemma live_frame:
  "proper es L \<Longrightarrow> proper es (L + M) \<and> live es (L + M) = live es L + M"
proof (induction es L rule: proper.induct)
  case (3 h es L)
  then have "L + M - {#h#} = (L - {#h#}) + M" by simp
  with 3 show ?case by simp
qed (simp_all add: add.assoc)

text \<open>The objects from which the items start, and what holds of them at any time.\<close>

definition crew :: "('w prog \<Rightarrow> nat \<Rightarrow> i32 option) \<Rightarrow> nat \<Rightarrow> 'w prog \<Rightarrow> bool" where
  "crew ep n A \<longleftrightarrow> (\<forall>i<n. ep A i \<noteq> None \<and> o_aio A i \<noteq> None) \<and>
     o_msg A = (\<lambda>i. if i < n then Some 0 else None)"

text \<open>
  The operations of the first \<open>r\<close> items, that of item \<open>i\<close> once more than the \<open>c i\<close> times it completed.
\<close>

definition outstanding :: "'w prog \<Rightarrow> (nat \<Rightarrow> nat) \<Rightarrow> nat \<Rightarrow> ptr multiset" where
  "outstanding A c r = (\<Sum>i<r. replicate_mset (Suc (c i)) (the (o_aio A i)))"

lemma outstanding_Suc: "c r = 0 \<Longrightarrow> outstanding A c (Suc r) = outstanding A c r + {#the (o_aio A r)#}"
  by (simp add: outstanding_def)

lemma outstanding_step:
  assumes "i < r"
  shows "outstanding A (c(i := Suc (c i))) r = outstanding A c r + {#the (o_aio A i)#}"
proof -
  have split: "outstanding A d r = replicate_mset (Suc (d i)) (the (o_aio A i)) +
      (\<Sum>j\<in>{..<r} - {i}. replicate_mset (Suc (d j)) (the (o_aio A j)))" for d
    unfolding outstanding_def using assms by (intro sum.remove) simp_all
  have "(\<Sum>j\<in>{..<r} - {i}. replicate_mset (Suc ((c(i := Suc (c i))) j)) (the (o_aio A j))) =
      (\<Sum>j\<in>{..<r} - {i}. replicate_mset (Suc (c j)) (the (o_aio A j)))"
    by (rule sum.cong) auto
  with split [of c] split [of "c(i := Suc (c i))"] show ?thesis by simp
qed

definition at_work :: "nat \<Rightarrow> 'w prog \<Rightarrow> (nat \<Rightarrow> nat) \<Rightarrow> 'w fleet \<Rightarrow> call list \<Rightarrow> bool" where
  "at_work n A c F cs \<longleftrightarrow>
     (\<exists>M s. fl_prog F = A\<lparr>o_msg := M, wrld := s\<rparr> \<and> st_log s = st_log (wrld A) @ cs \<and>
        dom M = {..<n} \<and> (\<forall>i. fl_state F i \<noteq> WAIT \<longrightarrow> held (M i) = {#}) \<and>
        proper (events work_ev cs) {#} \<and> live (events work_ev cs) {#} = owned M) \<and>
     started cs = outstanding A c (fl_next F) \<and> fl_next F \<le> n \<and>
     (\<forall>i\<ge>fl_next F. fl_state F i = INIT \<and> c i = 0)"

lemma at_workI:
  assumes "fl_prog F = A\<lparr>o_msg := M, wrld := s\<rparr>" "st_log s = st_log (wrld A) @ cs" "dom M = {..<n}"
    and "\<forall>i. fl_state F i \<noteq> WAIT \<longrightarrow> held (M i) = {#}"
    and "proper (events work_ev cs) {#}" "live (events work_ev cs) {#} = owned M"
    and "started cs = outstanding A c (fl_next F)" "fl_next F \<le> n" "\<forall>i\<ge>fl_next F. fl_state F i = INIT \<and> c i = 0"
  shows "at_work n A c F cs"
  using assms unfolding at_work_def by blast

lemma at_work_counts:
  assumes "at_work n A c F cs"
  shows "started cs = outstanding A c (fl_next F)" "fl_next F \<le> n" "\<forall>i\<ge>fl_next F. fl_state F i = INIT \<and> c i = 0"
  using assms unfolding at_work_def by blast+

locale item_loop =
  fixes cb :: "i32 \<Rightarrow> ptr \<Rightarrow> work_state \<Rightarrow> (ptr, 'w) cfg \<Rightarrow> work_state callback \<times> (ptr, 'w) cfg"
    and ep :: "'w prog \<Rightarrow> nat \<Rightarrow> i32 option"
  assumes one_callback: "cb k a st (S, s) = (x, S', s') \<Longrightarrow> work_inv st S h \<Longrightarrow>
      \<exists>cs. st_log s' = st_log s @ cs \<and> cb_ok a h cs x S'"
    and endpoint: "ep (A\<lparr>o_msg := M, wrld := s\<rparr>) = ep A"
begin

lemma one_item:
  assumes "crew ep n A" "at_work n A c F cs" "i \<le> fl_next F" "i < n"
    and "run_item cb ep i (disturb w m F) = (x, F')"
  obtains st M s cs' where "x = Next ()" "F' = F\<lparr>fl_prog := A\<lparr>o_msg := M, wrld := s\<rparr>, fl_state := (fl_state F)(i := st)\<rparr>"
      "st_log s = st_log (wrld A) @ cs @ cs'" "started cs' = {#the (o_aio A i)#}" "dom M = {..<n}"
      "\<forall>j. fl_state F' j \<noteq> WAIT \<longrightarrow> held (M j) = {#}"
      "proper (events work_ev (cs @ cs')) {#}" "live (events work_ev (cs @ cs')) {#} = owned M"
    | e where "x = Exit e" "get_error e \<noteq> 0"
proof -
  obtain M s where F: "fl_prog F = A\<lparr>o_msg := M, wrld := s\<rparr>" "st_log s = st_log (wrld A) @ cs" "dom M = {..<n}"
    "\<forall>j. fl_state F j \<noteq> WAIT \<longrightarrow> held (M j) = {#}"
    "proper (events work_ev cs) {#}" "live (events work_ev cs) {#} = owned M"
    using assms(2) unfolding at_work_def by blast
  obtain k a where ka: "ep A i = Some k" "o_aio A i = Some a" using assms(1,4) unfolding crew_def by blast
  obtain h where h: "M i = Some h" using F(3) assms(4) by (metis domD lessThan_iff)
  define \<sigma> where "\<sigma> = s\<lparr>st_lib := w, st_mem := m\<rparr>"
  obtain y S s' where y: "cb k a (fl_state F i) ([work_msg \<mapsto> h], \<sigma>) = (y, S, s')" by (metis prod_cases3)
  have "(\<lambda>b. if b = work_msg then M i else None) = [work_msg \<mapsto> h]" using h by auto
  then have run: "run_item cb ep i (disturb w m F) =
      (case y of Next st \<Rightarrow> (Next (), F\<lparr>fl_prog := A\<lparr>o_msg := M(i := S work_msg), wrld := s'\<rparr>,
          fl_state := (fl_state F)(i := st)\<rparr>)
       | Exit e \<Rightarrow> (Exit e, F\<lparr>fl_prog := A\<lparr>o_msg := M(i := S work_msg), wrld := s'\<rparr>\<rparr>)
       | Stuck \<Rightarrow> (Stuck, F\<lparr>fl_prog := A\<lparr>o_msg := M(i := S work_msg), wrld := s'\<rparr>\<rparr>))"
    using F(1) ka y by (simp add: run_item_def disturb_def endpoint \<sigma>_def Let_def cong: if_cong split: callback.splits)
  have "fl_state F i \<noteq> WAIT \<longrightarrow> h = 0" using F(4) h by (auto simp: held_def split: if_splits)
  then have "work_inv (fl_state F i) [work_msg \<mapsto> h] h" by (simp add: work_inv_def)
  from one_callback [OF y this] obtain cs' where cs': "st_log s' = st_log s @ cs'" "cb_ok a h cs' y S"
    by (auto simp: \<sigma>_def)
  show ?thesis
  proof (cases y)
    case (Next st)
    with cs' obtain h' where h': "S = [work_msg \<mapsto> h']" "st \<noteq> WAIT \<longrightarrow> h' = 0" "started cs' = {#the (o_aio A i)#}"
      "proper (events work_ev cs') (held (Some h))" "live (events work_ev cs') (held (Some h)) = held (Some h')"
      using ka(2) by (auto simp: cb_ok_def work_inv_def)
    have fin: "finite (dom M)" using F(3) by simp
    let ?R = "owned (M(i := None))"
    have "owned M = held (Some h) + ?R" "owned (M(i \<mapsto> h')) = held (Some h') + ?R"
      using owned_split [OF fin, of i] owned_upd [OF fin, of i h'] h by simp_all
    then have "proper (events work_ev (cs @ cs')) {#}" "live (events work_ev (cs @ cs')) {#} = owned (M(i \<mapsto> h'))"
      using F(5,6) live_frame [OF h'(4), of ?R] h'(5) by simp_all
    with Next run assms(4,5) F(2-4) cs'(1) h'(1-3) show ?thesis
      by (intro that(1) [where st = st and M = "M(i \<mapsto> h')" and s = s' and cs' = cs']) (auto simp: insert_absorb)
  next
    case (Exit e)
    with run assms(5) cs'(2) show ?thesis by (intro that(2)) (auto simp: cb_ok_def)
  next
    case Stuck
    with cs'(2) show ?thesis by (simp add: cb_ok_def)
  qed
qed

lemma serves_at_work:
  assumes "serves (run_item cb ep) n (fleet_start A) c F" "crew ep n A"
  shows "\<exists>cs. at_work n A c F cs"
  using assms(1)
proof induction
  case up
  have "owned (o_msg A) = {#}" using assms(2) by (auto simp: crew_def owned_def held_def dom_def intro!: sum.neutral)
  then have "at_work n A (\<lambda>_. 0) (fleet_start A) []"
    using assms(2) unfolding crew_def fleet_start_def
    by (intro at_workI [where M = "o_msg A" and s = "wrld A"]) (auto simp: held_def outstanding_def split: if_splits)
  then show ?case ..
next
  case (start_item c F w m F')
  then obtain cs where cs: "at_work n A c F cs" by blast
  from one_item [OF assms(2) cs order_refl start_item.hyps(2,3)] show ?case
  proof cases
    case (1 st M s cs')
    with start_item.hyps(2) at_work_counts [OF cs] have "at_work n A c (F'\<lparr>fl_next := Suc (fl_next F)\<rparr>) (cs @ cs')"
      by (intro at_workI [where M = M and s = s]) (auto simp: outstanding_Suc)
    then show ?thesis ..
  qed simp
next
  case (item_callback c F i w m F')
  then obtain cs where cs: "at_work n A c F cs" by blast
  then have "i < n" using item_callback.hyps(2) by (simp add: at_work_def)
  from one_item [OF assms(2) cs less_imp_le [OF item_callback.hyps(2)] this item_callback.hyps(3)] show ?case
  proof cases
    case (1 st M s cs')
    with item_callback.hyps(2) at_work_counts [OF cs] have "at_work n A (c(i := Suc (c i))) F' (cs @ cs')"
      by (intro at_workI [where M = M and s = s]) (auto simp: outstanding_step)
    then show ?thesis ..
  qed simp
qed

lemma never_stuck:
  assumes "serves (run_item cb ep) n (fleet_start A) c F" "crew ep n A" "i \<le> fl_next F" "i < n"
  shows "case fst (run_item cb ep i (disturb w m F)) of
    Next _ \<Rightarrow> True | Exit e \<Rightarrow> get_error e \<noteq> 0 | Stuck \<Rightarrow> False"
proof -
  obtain cs where cs: "at_work n A c F cs" using serves_at_work [OF assms(1,2)] by blast
  obtain x F' where r: "run_item cb ep i (disturb w m F) = (x, F')" by fastforce
  from one_item [OF assms(2) cs assms(3,4) r] r show ?thesis by cases auto
qed

end

interpretation async_items: item_loop "async_server_cb nng" o_ctx for nng :: "'w nng"
  by unfold_locales (auto simp: async_server_cb_def intro: async_loop.callback_ok)

interpretation raw_items: item_loop "raw_server_cb nng" "\<lambda>A _. o_sock A 0" for nng :: "'w nng"
  by unfold_locales (auto simp: raw_server_cb_def intro: raw_loop.callback_ok)

section \<open>Properties\<close>

text \<open>
  What bringing up a server with \<open>n\<close> items leads to: the socket and all items, or nothing; and in
  either case the handles that are out are those the objects hold.
\<close>

definition comes_up :: "bool \<Rightarrow> nat \<Rightarrow> ('w prog, unit) act \<Rightarrow> bool" where
  "comes_up contexts n m \<longleftrightarrow> (\<forall>s. case m (program_start s) of (x, A) \<Rightarrow>
     (case x of
        Ok _ \<Rightarrow> (\<exists>k. k \<noteq> 0 \<and> o_sock A = [0 \<mapsto> k]) \<and>
          (\<forall>i. (o_aio A i \<noteq> None) = (i < n) \<and> o_aio A i \<noteq> Some 0 \<and>
               (o_ctx A i \<noteq> None) = (contexts \<and> i < n) \<and> o_ctx A i \<noteq> Some 0 \<and>
               o_msg A i = (if i < n then Some 0 else None))
      | Throw _ \<Rightarrow> (\<forall>k. refs k A = Map.empty)
      | Ub \<Rightarrow> False) \<and>
     (\<forall>k. proper (events (class_ev k) (new_calls s (wrld A))) {#} \<and>
          live (events (class_ev k) (new_calls s (wrld A))) {#} = owned (refs k A)))"

lemma staffed_objects:
  assumes "shape A = staffed c opened n"
  shows "\<exists>k. k \<noteq> 0 \<and> o_sock A = [0 \<mapsto> k]"
    and "(o_aio A i \<noteq> None) = (i < n)" "o_aio A i \<noteq> Some 0"
    and "(o_ctx A i \<noteq> None) = (c \<and> i < n)" "o_ctx A i \<noteq> Some 0"
    and "o_msg A i = (if i < n then Some 0 else None)"
proof -
  have at: "shape A k j = staffed c opened n k j" for k j using assms by simp
  have msg: "map_option (\<lambda>h. h \<noteq> 0) (o_msg A i) = (if i < n then Some False else None)"
    using at [of K_msg i] by (simp add: shape_def staffed_def opened_def)
  have aio: "map_option (\<lambda>h. h \<noteq> 0) (o_aio A i) = (if i < n then Some True else None)"
    using at [of K_aio i] by (simp add: shape_def staffed_def opened_def)
  have ctx: "map_option (\<lambda>h. h \<noteq> 0) (o_ctx A i) = (if c \<and> i < n then Some True else None)"
    using at [of K_ctx i] by (auto simp: shape_def staffed_def opened_def option.map_comp comp_def ucast_id_null)
  have sock: "map_option (\<lambda>h. h \<noteq> 0) (o_sock A j) = [0 \<mapsto> True] j" for j
    using at [of K_sock j] by (auto simp: shape_def staffed_def opened_def option.map_comp comp_def ucast_id_null)
  obtain k where k: "o_sock A 0 = Some k" "k \<noteq> 0" using sock [of 0] by auto
  have "o_sock A = [0 \<mapsto> k]"
  proof
    fix j show "o_sock A j = [0 \<mapsto> k] j" using sock [of j] k by auto
  qed
  with k show "\<exists>k. k \<noteq> 0 \<and> o_sock A = [0 \<mapsto> k]" by blast
  show "o_msg A i = (if i < n then Some 0 else None)" using msg by (auto split: if_splits)
  show "(o_aio A i \<noteq> None) = (i < n)" "o_aio A i \<noteq> Some 0" using aio by (auto split: if_splits)
  show "(o_ctx A i \<noteq> None) = (c \<and> i < n)" "o_ctx A i \<noteq> Some 0" using ctx by (auto split: if_splits)
qed

lemma leads_comes_up:
  assumes "leads (\<lambda>_. Map.empty) m ((=) (staffed c opened n)) ((=) (\<lambda>_. Map.empty))"
  shows "comes_up c n m"
  unfolding comes_up_def
proof
  fix s
  obtain x A where m: "m (program_start s) = (x, A)" by fastforce
  have "gives m (program_start s) (\<lambda>_. ends ((=) (staffed c opened n)) (program_start s))
      (\<lambda>_. ends ((=) (\<lambda>_. Map.empty)) (program_start s))"
    using assms start_shape unfolding leads_def by blast
  then have x: "case x of Ok _ \<Rightarrow> shape A = staffed c opened n | Throw _ \<Rightarrow> shape A = (\<lambda>_. Map.empty) | Ub \<Rightarrow> False"
    and b: "books_kept (program_start s) A"
    using m by (auto simp: gives_def ends_def split: result.splits)
  have "refs k A = Map.empty" if "shape A = (\<lambda>_. Map.empty)" for k using shape_empty(1) [OF that] .
  with x m books_from_start [OF b, of s] start_refs [of _ s] staffed_objects [of A c n]
  show "case m (program_start s) of (x, A) \<Rightarrow>
     (case x of
        Ok _ \<Rightarrow> (\<exists>k. k \<noteq> 0 \<and> o_sock A = [0 \<mapsto> k]) \<and>
          (\<forall>i. (o_aio A i \<noteq> None) = (i < n) \<and> o_aio A i \<noteq> Some 0 \<and>
               (o_ctx A i \<noteq> None) = (c \<and> i < n) \<and> o_ctx A i \<noteq> Some 0 \<and>
               o_msg A i = (if i < n then Some 0 else None))
      | Throw _ \<Rightarrow> (\<forall>k. refs k A = Map.empty)
      | Ub \<Rightarrow> False) \<and>
     (\<forall>k. proper (events (class_ev k) (new_calls s (wrld A))) {#} \<and>
          live (events (class_ev k) (new_calls s (wrld A))) {#} = owned (refs k A))"
    by (cases x) (simp_all add: program_start_def del: refs.simps)
qed

lemma comes_up_ok:
  assumes "comes_up c n m" "m (program_start s) = (Ok (), A)"
  shows "o_msg A = (\<lambda>i. if i < n then Some 0 else None)" "i < n \<Longrightarrow> o_aio A i \<noteq> None"
    "c \<Longrightarrow> i < n \<Longrightarrow> o_ctx A i \<noteq> None" "o_sock A 0 \<noteq> None"
proof -
  have *: "(\<exists>k. k \<noteq> 0 \<and> o_sock A = [0 \<mapsto> k]) \<and> (\<forall>i. (o_aio A i \<noteq> None) = (i < n) \<and> o_aio A i \<noteq> Some 0 \<and>
      (o_ctx A i \<noteq> None) = (c \<and> i < n) \<and> o_ctx A i \<noteq> Some 0 \<and> o_msg A i = (if i < n then Some 0 else None))"
    using spec [OF assms(1) [unfolded comes_up_def], of s] assms(2) by simp
  then show "o_msg A = (\<lambda>i. if i < n then Some 0 else None)" by (intro ext) blast
  from * show "i < n \<Longrightarrow> o_aio A i \<noteq> None" "c \<Longrightarrow> i < n \<Longrightarrow> o_ctx A i \<noteq> None" "o_sock A 0 \<noteq> None"
    by auto
qed

lemma servers_come_up_all:
  assumes "lawful nng"
  shows "comes_up True n (async_server_up nng cb addr url n) \<and> comes_up False n (raw_server_up nng cb addr url n)"
  using servers_lead [OF assms] by (auto intro: leads_comes_up)

text \<open>C14: bringing up the asynchronous or the raw server is never undefined; it ends with the socket open
  and every one of the work items complete, its message empty, or it throws and has given back
  the socket and what was made of the items, whichever step failed.\<close>

theorem servers_come_up:
  assumes "lawful nng"
  shows "comes_up True n (async_server_up nng cb addr url n) \<and> comes_up False n (raw_server_up nng cb addr url n)"
  by (rule servers_come_up_all [OF assms])

text \<open>C2: while the items of the asynchronous server run, started one after the other and called back
  in any order with anything happening in the library in between: every started item has started its own
  operation once more than that operation has completed, so that each has exactly one outstanding; an item holds a message only while it waits, the messages that are
  out are exactly those the items hold, and none was given back twice; no callback is ever stuck.\<close>

theorem async_items_share:
  assumes "lawful nng" "async_server_up nng cb addr url n (program_start s) = (Ok (), A)"
    and "serves (run_async nng) n (fleet_start A) c F"
  shows "(\<exists>cs. at_work n A c F cs) \<and>
    (\<forall>i w m. i \<le> fl_next F \<and> i < n \<longrightarrow> (case fst (run_async nng i (disturb w m F)) of
       Next _ \<Rightarrow> True | Exit e \<Rightarrow> get_error e \<noteq> 0 | Stuck \<Rightarrow> False))"
proof -
  from comes_up_ok [OF conjunct1 [OF servers_come_up_all [OF assms(1)]] assms(2)] have crew: "crew o_ctx n A" by (simp add: crew_def)
  have run: "serves (run_item (async_server_cb nng) o_ctx) n (fleet_start A) c F"
    using assms(3) by (simp add: run_async_def)
  show ?thesis
    using async_items.serves_at_work [OF run crew] unfolding run_async_def
    by (auto intro: async_items.never_stuck [OF run crew])
qed

text \<open>C17: the same of the raw server, whose items share one socket.\<close>

theorem raw_items_share:
  assumes "lawful nng" "raw_server_up nng cb addr url n (program_start s) = (Ok (), A)"
    and "serves (run_raw nng) n (fleet_start A) c F"
  shows "(\<exists>cs. at_work n A c F cs) \<and>
    (\<forall>i w m. i \<le> fl_next F \<and> i < n \<longrightarrow> (case fst (run_raw nng i (disturb w m F)) of
       Next _ \<Rightarrow> True | Exit e \<Rightarrow> get_error e \<noteq> 0 | Stuck \<Rightarrow> False))"
proof -
  from comes_up_ok [OF conjunct2 [OF servers_come_up_all [OF assms(1)]] assms(2)] have crew: "crew (\<lambda>A _. o_sock A 0) n A" by (simp add: crew_def)
  have run: "serves (run_item (raw_server_cb nng) (\<lambda>A _. o_sock A 0)) n (fleet_start A) c F"
    using assms(3) by (simp add: run_raw_def)
  show ?thesis
    using raw_items.serves_at_work [OF run crew] unfolding run_raw_def
    by (auto intro: raw_items.never_stuck [OF run crew])
qed

text \<open>A server with two items, the first one started.\<close>

lemmas up_defs = async_server_up_def raw_server_up_def server_up_def async_make_work_def raw_make_work_def
  unwind_def socket_view_listen_def rep0_open_def rep0_open_raw_def

lemma web_nng_ids: "s_id web_nng = (\<lambda>_ _ w. ((0, 1), w))"
  by (simp add: web_nng_def)

lemma web_up:
  "\<exists>A. async_server_up web_nng 7 (\<lambda>_. 8) ''inproc://x'' 2 (program_start (start ())) = (Ok (), A)"
  "\<exists>A. raw_server_up web_nng 7 (\<lambda>_. 8) ''inproc://x'' 2 (program_start (start ())) = (Ok (), A)"
  by (simp_all add: up_defs run_defs web_nng_ids program_start_def start_def numeral_2_eq_2)

lemma one_started:
  assumes "\<And>k a S s. cb k a INIT (S, s) = (Next RECV, S, f k a s)"
    and "ep A 0 \<noteq> None" "o_aio A 0 \<noteq> None" "0 < n"
  shows "\<exists>F. serves (run_item cb ep) n (fleet_start A) (\<lambda>_. 0) F \<and> fl_next F = 1"
proof -
  have still: "disturb (st_lib (wrld A)) (st_mem (wrld A)) (fleet_start A) = fleet_start A"
    by (simp add: disturb_def fleet_start_def)
  obtain k a where ka: "ep A 0 = Some k" "o_aio A 0 = Some a" using assms(2,3) by blast
  then obtain F' where "run_item cb ep (fl_next (fleet_start A)) (fleet_start A) = (Next (), F')"
    by (auto simp: run_item_def fleet_start_def assms(1) Let_def)
  then have run: "run_item cb ep (fl_next (fleet_start A))
      (disturb (st_lib (wrld A)) (st_mem (wrld A)) (fleet_start A)) = (Next (), F')"
    by (simp only: still)
  have "fl_next (fleet_start A) < n" using assms(4) by (simp add: fleet_start_def)
  from serves.start_item [where run = "run_item cb ep" and F = "fleet_start A", OF serves.up this run] show ?thesis
    by (intro exI conjI) (assumption, simp add: fleet_start_def)
qed

theorem servers_come_up_witness:
  "comes_up True 128 (async_server_up web_nng 7 (\<lambda>i. 8 * of_nat i) ''inproc://x'' 128) \<and>
   comes_up False 32 (raw_server_up web_nng 7 (\<lambda>i. 8 * of_nat i) ''inproc://x'' 32)"
  using servers_come_up [OF web_nng_lawful] by blast

theorem async_items_share_witness:
  "\<exists>A F cs. async_server_up web_nng 7 (\<lambda>_. 8) ''inproc://x'' 2 (program_start (start ())) = (Ok (), A) \<and>
     fl_next F = 1 \<and> at_work 2 A (\<lambda>_. 0) F cs"
proof -
  obtain A where A: "async_server_up web_nng 7 (\<lambda>_. 8) ''inproc://x'' 2 (program_start (start ())) = (Ok (), A)"
    using web_up by blast
  note up = comes_up_ok [OF conjunct1 [OF servers_come_up_all [OF web_nng_lawful]] A]
  have "\<exists>F. serves (run_async web_nng) 2 (fleet_start A) (\<lambda>_. 0) F \<and> fl_next F = 1"
    unfolding run_async_def using up by (intro one_started) (auto simp: async_server_cb_def)
  with async_items_share [OF web_nng_lawful A] A show ?thesis by blast
qed

theorem raw_items_share_witness:
  "\<exists>A F cs. raw_server_up web_nng 7 (\<lambda>_. 8) ''inproc://x'' 2 (program_start (start ())) = (Ok (), A) \<and>
     fl_next F = 1 \<and> at_work 2 A (\<lambda>_. 0) F cs"
proof -
  obtain A where A: "raw_server_up web_nng 7 (\<lambda>_. 8) ''inproc://x'' 2 (program_start (start ())) = (Ok (), A)"
    using web_up by blast
  note up = comes_up_ok [OF conjunct2 [OF servers_come_up_all [OF web_nng_lawful]] A]
  have "\<exists>F. serves (run_raw web_nng) 2 (fleet_start A) (\<lambda>_. 0) F \<and> fl_next F = 1"
    unfolding run_raw_def using up by (intro one_started) (auto simp: raw_server_cb_def)
  with raw_items_share [OF web_nng_lawful A] A show ?thesis by blast
qed

end
