(* ===== verification/Perf.thy ===== *)
theory Perf
  imports Programs
begin

text \<open>
  The measurements of \<open>perf\<close>: the two servers, which end the process when a message has the wrong
  size, and the four \<open>main\<close> functions that run one side. What they measure and print is left out.
\<close>

section \<open>Programs that end the process\<close>

text \<open>
  A statement goes on with a value, or the process ends: with \<open>exit\<close>, or in \<open>std::terminate\<close>
  for an exception that nothing catches. Then no object is destroyed any more.
\<close>

datatype 'a flow = On 'a | Exits i32 | Terminates




section \<open>The servers\<close>







section \<open>The \<open>main\<close> functions\<close>






section \<open>The logic for them\<close>






















section \<open>The lengths that were read\<close>

text \<open>What \<open>nng_msg_len\<close> said in a list of calls, in order.\<close>

definition length_read :: "call \<Rightarrow> w64 list" where
  "length_read c = (if c_fn c = ''nng_msg_len'' then (case c_ret c of [VW n] \<Rightarrow> [n] | _ \<Rightarrow> []) else [])"

definition lengths_read :: "call list \<Rightarrow> w64 list" where
  "lengths_read cs = concat (map length_read cs)"

lemma lengths_read_simps [simp]: "lengths_read [] = []" "lengths_read (cs @ ds) = lengths_read cs @ lengths_read ds"
  "lengths_read (c # cs) = length_read c @ lengths_read cs"
  by (simp_all add: lengths_read_def)

lemma length_read_other [simp]: "fn \<noteq> ''nng_msg_len'' \<Longrightarrow> length_read \<lparr>c_fn = fn, c_args = args, c_ret = r\<rparr> = []"
  by (simp add: length_read_def)










text \<open>A loop that reads one length each turn, and goes on when it is \<open>z\<close>.\<close>

definition checked :: "w64 \<Rightarrow> nat \<Rightarrow> 'a flow result \<Rightarrow> w64 list \<Rightarrow> bool" where
  "checked z n x ns \<longleftrightarrow> (case x of
     Ok (On _) \<Rightarrow> ns = replicate n z
   | Ok (Exits _) \<Rightarrow> (\<exists>i v. i < n \<and> v \<noteq> z \<and> ns = replicate i z @ [v])
   | Ok Terminates \<Rightarrow> False
   | Throw _ \<Rightarrow> (\<exists>i\<le>n. ns = replicate i z)
   | Ub \<Rightarrow> True)"

lemma checked_simps [simp]:
  "checked z n (Ok (On y)) ns \<longleftrightarrow> ns = replicate n z" "\<not> checked z n (Ok Terminates) ns"
  by (simp_all add: checked_def)










section \<open>Properties\<close>
















end
