(* ===== verification/Buffer_Flow.thy ===== *)
theory Buffer_Flow
  imports Sockets
begin

text \<open>
  The owner class \<open>buffer\<close> over time: programs that allocate, adopt, copy, move, release and destroy
  buffers, send them and receive them. A reference is the pair of address and size, since \<open>nng_free\<close> has to get
  the size the memory was allocated with.
\<close>

section \<open>Blocks of memory as references\<close>

text \<open>The null reference is the default view.\<close>

instantiation view_ext :: (type) zero
begin

definition zero_view_ext :: "'a view_ext" where
  "zero_view_ext = \<lparr>v_data = null, v_size = 0, \<dots> = undefined\<rparr>"

instance ..

end

lemma view_default_zero: "view_default = 0"
  by (simp add: view_default_def zero_view_ext_def)

lemma view_zero: "(v :: view) = 0 \<longleftrightarrow> v_data v = null \<and> v_size v = 0"
  by (cases v) (simp add: zero_view_ext_def)

datatype buffer_op =
    B_default nat
  | B_adopt nat ptr w64
  | B_alloc nat w64
  | B_copy_ctor nat nat
  | B_move_ctor nat nat
  | B_copy_assign nat nat
  | B_move_assign nat nat
  | B_dtor nat
  | B_release nat
  | B_send nat i32
  | B_recv nat i32

definition done_op :: "unit result \<times> 'w bufs \<Rightarrow> (view, 'w) outcome" where
  "done_op = (\<lambda>(x, c). (case x of Ok _ \<Rightarrow> Ok None | Throw e \<Rightarrow> Throw e | Ub \<Rightarrow> Ub, c))"

text \<open>Who releases a buffer keeps its address with the size it had.\<close>

fun buffer_op_exec :: "'w nng \<Rightarrow> i32 \<Rightarrow> buffer_op \<Rightarrow> 'w bufs \<Rightarrow> (view, 'w) outcome" where
  "buffer_op_exec nng k (B_default this) c = done_op (buffer_default this c)"
| "buffer_op_exec nng k (B_adopt this d n) c = done_op (buffer_adopt this d n c)"
| "buffer_op_exec nng k (B_alloc this n) c = done_op (buffer_alloc nng this n c)"
| "buffer_op_exec nng k (B_copy_ctor this rhs) c = done_op (buffer_copy_ctor nng this rhs c)"
| "buffer_op_exec nng k (B_move_ctor this rhs) c = done_op (buffer_move_ctor this rhs c)"
| "buffer_op_exec nng k (B_copy_assign this rhs) c = done_op (buffer_copy_assign nng this rhs c)"
| "buffer_op_exec nng k (B_move_assign this rhs) c = done_op (buffer_move_assign nng this rhs c)"
| "buffer_op_exec nng k (B_dtor this) c = done_op (buffer_dtor nng this c)"
| "buffer_op_exec nng k (B_release this) c =
     (case buffer_release this c of
        (Ok d, c') \<Rightarrow> (Ok (map_option (\<lambda>b. view_of d (v_size b)) (fst c this)), c')
      | (Throw e, c') \<Rightarrow> (Throw e, c')
      | (Ub, c') \<Rightarrow> (Ub, c'))"
| "buffer_op_exec nng k (B_send this flags) c = done_op (socket_view_send_buffer nng k this flags c)"
| "buffer_op_exec nng k (B_recv this flags) c = m_acquire this (socket_view_recv_buffer nng k flags) c"

text \<open>
  Memory is delivered by \<open>nng_alloc\<close> and by \<open>nng_recv\<close> with the flag that asks for it, and given back
  to \<open>nng_free\<close> and to \<open>nng_send\<close> with that flag. Null is no memory.
\<close>

definition buffer_flow_ev :: "'w nng \<Rightarrow> call \<Rightarrow> view event option" where
  "buffer_flow_ev nng c =
     (if c_fn c = ''nng_alloc'' then
        (case (c_args c, c_ret c) of
           ([VW n], [VW p]) \<Rightarrow> if p = null then None else Some (Give (view_of p n)) | _ \<Rightarrow> None)
      else if c_fn c = ''nng_free'' then
        (case c_args c of [VW p, VW n] \<Rightarrow> Some (Kill (view_of p n)) | _ \<Rightarrow> None)
      else if c_fn c = ''nng_recv'' then
        (case (c_args c, c_ret c) of
           ([_, VI f], [VI r, VW p, VW n]) \<Rightarrow>
             if r = 0 \<and> f AND flag_alloc nng = flag_alloc nng then Some (Give (view_of p n)) else None
         | _ \<Rightarrow> None)
      else if c_fn c = ''nng_send'' then
        (case (c_args c, c_ret c) of
           ([_, VW p, VW n, VI f], [VI r]) \<Rightarrow>
             if r = 0 \<and> f AND flag_alloc nng = flag_alloc nng \<and> p \<noteq> null then Some (Kill (view_of p n)) else None
         | _ \<Rightarrow> None)
      else None)"

text \<open>
  What C++ asks of the program: as for the owner classes, and an adopted block is one that nobody owns.
  Nothing is asked of copies, whose failure leaves an empty target here. \<open>nng_recv\<close> delivers no null
  block with a size.
\<close>

definition sound_recv :: "'w nng \<Rightarrow> bool" where
  "sound_recv nng \<longleftrightarrow> (\<forall>args x. case fst (s_buf nng ''nng_recv'' args x) of (r, p, n) \<Rightarrow> r = 0 \<longrightarrow> p = null \<longrightarrow> n = 0)"

text \<open>A buffer is empty, or has an address.\<close>

definition proper_buffers :: "view store \<Rightarrow> bool" where
  "proper_buffers S \<longleftrightarrow> (\<forall>a v. S a = Some v \<longrightarrow> v_data v = null \<longrightarrow> v_size v = 0)"

fun buffer_op_ok :: "'w nng \<Rightarrow> buffer_op \<Rightarrow> view store \<Rightarrow> view multiset \<Rightarrow> view option result \<Rightarrow> bool" where
  "buffer_op_ok nng (B_default this) S L r = (S this = None)"
| "buffer_op_ok nng (B_adopt this d n) S L r = (S this = None \<and> (view_of d n = 0 \<or> d \<noteq> null \<and> view_of d n \<in># L - owned S))"
| "buffer_op_ok nng (B_alloc this n) S L r = (S this = None)"
| "buffer_op_ok nng (B_copy_ctor this rhs) S L r = (S this = None \<and> S rhs \<noteq> None)"
| "buffer_op_ok nng (B_move_ctor this rhs) S L r = (S this = None \<and> S rhs \<noteq> None)"
| "buffer_op_ok nng (B_copy_assign this rhs) S L r = (S this \<noteq> None \<and> S rhs \<noteq> None)"
| "buffer_op_ok nng (B_move_assign this rhs) S L r = (S this \<noteq> None \<and> S rhs \<noteq> None)"
| "buffer_op_ok nng (B_dtor this) S L r = (S this \<noteq> None)"
| "buffer_op_ok nng (B_release this) S L r = (S this \<noteq> None)"
| "buffer_op_ok nng (B_send this flags) S L r = (S this \<noteq> None)"
| "buffer_op_ok nng (B_recv this flags) S L r = (S this = None)"

section \<open>The books\<close>

lemma store_ok_split:
  assumes "store_ok S L"
  obtains R where "finite (dom S)" "L = held (S a) + owned (S(a := None)) + R" "owned S = held (S a) + owned (S(a := None))"
    "\<And>h. owned (S(a \<mapsto> h)) = held (Some h) + owned (S(a := None))"
proof -
  have fin: "finite (dom S)" using assms by (simp add: store_ok_def)
  obtain R where "L = owned S + R" using assms by (metis store_ok_def subset_mset.le_iff_add)
  with owned_split [OF fin, of a] owned_upd [OF fin, of a] fin show ?thesis by (intro that [of R]) simp_all
qed

lemma books_gain:
  assumes "store_ok S L" "S a = None \<or> S a = Some 0"
  shows "books True S L [Give h] (S(a \<mapsto> h)) {#}"
  using assms(2) by (rule_tac a = a in store_ok_split [OF assms(1)]) (auto simp: books_def store_ok_def)

lemma books_lose: "store_ok S L \<Longrightarrow> S a = Some h \<Longrightarrow> h \<noteq> 0 \<Longrightarrow> books True S L [Kill h] (S(a \<mapsto> 0)) {#}"
  by (rule books_send)

lemma books_null:
  assumes "store_ok S L" "S a = None \<or> S a = Some 0" "x = None \<or> x = Some 0"
  shows "books True S L [] (S(a := x)) {#}"
  using assms(2,3) by (rule_tac a = a in store_ok_split [OF assms(1)]) (auto simp: books_def store_ok_def)

lemma books_detach:
  assumes "store_ok S L" "S a = Some h"
  shows "books True S L [] (S(a \<mapsto> 0)) (held (Some h))"
  using assms(2) by (rule_tac a = a in store_ok_split [OF assms(1)]) (auto simp: books_def store_ok_def)

lemma books_adopt:
  assumes "store_ok S L" "S a = None" "h = 0 \<or> h \<in># L - owned S"
  shows "books True S L [] (S(a \<mapsto> h)) {#}"
proof -
  have fin: "finite (dom S)" using assms(1) by (simp add: store_ok_def)
  obtain R where "L = owned S + R" using assms(1) by (metis store_ok_def subset_mset.le_iff_add)
  then show ?thesis using assms fin
    by (auto simp: books_def store_ok_def owned_new held_def)
qed

lemma books_move:
  assumes "store_ok S L" "S a = None \<or> S a = Some 0" "S b = Some h" "a \<noteq> b"
  shows "books True S L [] (S(a \<mapsto> h, b \<mapsto> 0)) {#}"
proof -
  have fin: "finite (dom S)" using assms(1) by (simp add: store_ok_def)
  from owned_transfer [OF fin assms(3,4)] obtain R where "owned S = held (S a) + held (Some h) + R"
    "owned (S(a \<mapsto> h, b \<mapsto> 0)) = held (Some h) + R" .
  with assms fin show ?thesis by (auto simp: books_def store_ok_def)
qed

text \<open>What the calls are in the books.\<close>

lemma alloc_log:
  assumes "nng_alloc nng n s = (p, s')"
  obtains c where "st_log s' = st_log s @ [c]"
    "buffer_flow_ev nng c = (if p = null then None else Some (Give (view_of p n)))"
  using assms unfolding nng_alloc_def call_w64_def
  by (drule_tac invoke_log) (auto simp: buffer_flow_ev_def)

lemma free_log:
  obtains c where "st_log (nng_free nng p n s) = st_log s @ [c]" "buffer_flow_ev nng c = Some (Kill (view_of p n))"
  by (simp add: nng_free_def buffer_flow_ev_def)

text \<open>\<open>kept nng S s L R S' s'\<close>: the calls from \<open>s\<close> to \<open>s'\<close> keep the books, and \<open>R\<close> is handed to the program.\<close>

definition kept ::
  "'w nng \<Rightarrow> view store \<Rightarrow> 'w st \<Rightarrow> view multiset \<Rightarrow> view multiset \<Rightarrow> view store \<Rightarrow> 'w st \<Rightarrow> bool" where
  "kept nng S s L R S' s' \<longleftrightarrow>
     (\<exists>cs. st_log s' = st_log s @ cs \<and> books True S L (events (buffer_flow_ev nng) cs) S' R)"

lemma kept_none: "books True S L [] S' R \<Longrightarrow> st_log s' = st_log s \<Longrightarrow> kept nng S s L R S' s'"
  unfolding kept_def by (intro exI [of _ "[]"]) simp

lemma kept_call:
  "st_log s' = st_log s @ [c] \<Longrightarrow> buffer_flow_ev nng c = Some e \<Longrightarrow> books True S L [e] S' R \<Longrightarrow> kept nng S s L R S' s'"
  "st_log s' = st_log s @ [c] \<Longrightarrow> buffer_flow_ev nng c = None \<Longrightarrow> books True S L [] S' R \<Longrightarrow> kept nng S s L R S' s'"
  unfolding kept_def by (intro exI [of _ "[c]"]; simp)+

lemma kept_trans:
  assumes "kept nng S s L {#} S1 s1" "\<And>L. store_ok S1 L \<Longrightarrow> kept nng S1 s1 L R S' s'"
  shows "kept nng S s L R S' s'"
proof -
  from assms(1) obtain cs where cs: "st_log s1 = st_log s @ cs" "books True S L (events (buffer_flow_ev nng) cs) S1 {#}"
    unfolding kept_def by blast
  then have "store_ok S1 (live (events (buffer_flow_ev nng) cs) L)" by (simp add: books_def)
  from assms(2) [OF this] obtain cs' where cs': "st_log s' = st_log s1 @ cs'"
    "books True S1 (live (events (buffer_flow_ev nng) cs) L) (events (buffer_flow_ev nng) cs') S' R"
    unfolding kept_def by blast
  from books_append [OF cs(2) cs'(2)] cs(1) cs'(1) show ?thesis
    unfolding kept_def by (intro exI [of _ "cs @ cs'"]) simp
qed

text \<open>Giving up what a buffer holds.\<close>

lemma kept_drop:
  assumes "store_ok S L" "proper_buffers S" "S this = Some b"
  shows "kept nng S s L {#} (S(this \<mapsto> 0)) (if v_data b \<noteq> null then nng_free nng (v_data b) (v_size b) s else s)"
proof (cases "v_data b = null")
  case True
  then have "b = 0" using assms(2,3) by (auto simp: proper_buffers_def view_zero)
  with True assms(1,3) show ?thesis by (auto intro!: kept_none books_null)
next
  case False
  then have b: "b \<noteq> 0" "view_of (v_data b) (v_size b) = b" by (simp_all add: view_zero view_of_def)
  obtain c where "st_log (nng_free nng (v_data b) (v_size b) s) = st_log s @ [c]"
    "buffer_flow_ev nng c = Some (Kill b)" using free_log [of nng "v_data b" "v_size b" s] b(2) by metis
  from kept_call(1) [OF this books_lose [OF assms(1,3) b(1)]] False show ?thesis by simp
qed

text \<open>Allocating for a buffer that has nothing.\<close>

lemma kept_alloc:
  assumes "store_ok S L" "S this = None \<or> S this = Some 0" "nng_alloc nng n s = (d, s')"
  shows "d \<noteq> null \<Longrightarrow> kept nng S s L {#} (S(this \<mapsto> view_of d n)) s'" "d = null \<Longrightarrow> kept nng S s L {#} S s'"
proof -
  obtain c where c: "st_log s' = st_log s @ [c]"
    "buffer_flow_ev nng c = (if d = null then None else Some (Give (view_of d n)))" by (rule alloc_log [OF assms(3)])
  show "d \<noteq> null \<Longrightarrow> kept nng S s L {#} (S(this \<mapsto> view_of d n)) s'"
    using c books_gain [OF assms(1,2)] by (auto intro: kept_call)
  show "d = null \<Longrightarrow> kept nng S s L {#} S s'" using c books_nil [OF assms(1), of True] by (auto intro: kept_call)
qed

lemma kept_memory: "kept nng S s L R S' s' \<Longrightarrow> kept nng S s L R S' (s'\<lparr>st_mem := m\<rparr>)"
  by (simp add: kept_def)

lemma dtor_kept:
  assumes "buffer_dtor nng this (S, s) = (x, S', s')" "store_ok S L" "proper_buffers S" "S this \<noteq> None"
  shows "kept nng S s L {#} S' s'"
proof -
  obtain b where b: "S this = Some b" using assms(4) by blast
  let ?s = "if v_data b \<noteq> null then nng_free nng (v_data b) (v_size b) s else s"
  have "kept nng (S(this \<mapsto> 0)) ?s L' {#} (S(this := None)) ?s" if "store_ok (S(this \<mapsto> 0)) L'" for L'
    using books_null [OF that, of this None] by (auto intro: kept_none)
  from kept_trans [OF kept_drop [OF assms(2,3) b] this] show ?thesis
    using assms(1) b by (simp add: buffer_dtor_def)
qed

lemma move_assign_kept:
  assumes "buffer_move_assign nng this rhs (S, s) = (x, S', s')" "store_ok S L" "proper_buffers S"
    "S this \<noteq> None" "S rhs \<noteq> None"
  shows "kept nng S s L {#} S' s'"
proof -
  obtain b r where b: "S this = Some b" "S rhs = Some r" using assms(4,5) by blast
  show ?thesis
  proof (cases "this = rhs")
    case True
    with assms(1) b books_nil [OF assms(2), of True] show ?thesis
      by (simp add: buffer_move_assign_def kept_none)
  next
    case False
    let ?s = "if v_data b \<noteq> null then nng_free nng (v_data b) (v_size b) s else s"
    have "kept nng (S(this \<mapsto> 0)) ?s L' {#} (S(this \<mapsto> r, rhs \<mapsto> 0)) ?s" if "store_ok (S(this \<mapsto> 0)) L'" for L'
      using books_move [OF that, of this rhs r] b(2) False by (auto intro: kept_none)
    from kept_trans [OF kept_drop [OF assms(2,3) b(1)] this] show ?thesis
      using assms(1) b False by (simp add: buffer_move_assign_def view_default_zero)
  qed
qed

lemma copy_ctor_kept:
  assumes "buffer_copy_ctor nng this rhs (S, s) = (x, S', s')" "store_ok S L" "S this = None" "S rhs \<noteq> None"
  shows "kept nng S s L {#} S' s'"
proof -
  obtain r where r: "S rhs = Some r" using assms(4) by blast
  obtain d s1 where al: "nng_alloc nng (v_size r) s = (d, s1)" by fastforce
  from kept_alloc [OF assms(2) disjI1 [OF assms(3)] al] show ?thesis
    using assms(1) r al
    by (cases "d = null")
      (auto simp: buffer_copy_ctor_def buffer_alloc_def kept_memory split: option.splits)
qed

lemma copy_assign_kept:
  assumes "buffer_copy_assign nng this rhs (S, s) = (x, S', s')" "store_ok S L" "proper_buffers S"
    "S this \<noteq> None" "S rhs \<noteq> None"
  shows "kept nng S s L {#} S' s'"
proof -
  obtain b r where b: "S this = Some b" "S rhs = Some r" using assms(4,5) by blast
  have idle: "kept nng S s L {#} S s" using books_nil [OF assms(2), of True] by (simp add: kept_none)
  consider "this = rhs" | "this \<noteq> rhs" "v_size b = v_size r" | "this \<noteq> rhs" "v_size b \<noteq> v_size r" by blast
  then show ?thesis
  proof cases
    case 1
    with assms(1) b have "S' = S \<and> s' = s" by (auto simp: buffer_copy_assign_def)
    with idle show ?thesis by simp
  next
    case 2
    then have "view_of (v_data b) (v_size r) = b" by (simp add: view_of_def flip: 2)
    then have "S(this \<mapsto> view_of (v_data b) (v_size r)) = S" using b(1) by auto
    with 2 assms(1) b idle show ?thesis
      by (auto simp: buffer_copy_assign_def kept_memory split: option.splits)
  next
    case 3
    let ?s = "if v_data b \<noteq> null then nng_free nng (v_data b) (v_size b) s else s"
    obtain d s1 where al: "nng_alloc nng (v_size r) ?s = (d, s1)" by fastforce
    have old: "kept nng S s L {#} (S(this \<mapsto> 0)) ?s" by (rule kept_drop [OF assms(2,3) b(1)])
    have "kept nng S s L {#} (S(this \<mapsto> view_of d (v_size r))) s1" if "d \<noteq> null"
      using kept_trans [OF old kept_alloc(1) [OF _ _ al that, of _ _ this]] by simp
    moreover have "kept nng S s L {#} (S(this \<mapsto> 0)) s1" if "d = null"
      using kept_trans [OF old kept_alloc(2) [OF _ _ al that, of _ _ this]] by simp
    moreover have "view_of null 0 = 0" by (simp add: view_zero)
    ultimately show ?thesis using 3 assms(1) b al
      by (auto simp: buffer_copy_assign_def kept_memory split: option.splits if_splits)
  qed
qed

lemma send_kept:
  assumes "socket_view_send_buffer nng k this flags (S, s) = (x, S', s')" "store_ok S L" "proper_buffers S" "S this \<noteq> None"
  shows "kept nng S s L {#} S' s'"
proof -
  obtain b where b: "S this = Some b" using assms(4) by blast
  let ?args = "[VId k, VW (v_data b), VW (v_size b), VI (flags OR flag_alloc nng)]"
  obtain r s1 where c: "call_int nng ''nng_send'' ?args s = (r, s1)" by fastforce
  let ?c = "\<lparr>c_fn = ''nng_send'', c_args = ?args, c_ret = [VI r]\<rparr>"
  from c have log: "st_log s1 = st_log s @ [?c]" unfolding call_int_def by (rule invoke_log)
  have ev: "buffer_flow_ev nng ?c = (if r = 0 \<and> v_data b \<noteq> null then Some (Kill b) else None)"
    by (simp add: buffer_flow_ev_def view_of_def)
  have out: "S' = (if r = 0 then S(this \<mapsto> 0) else S)" "s' = s1"
    using assms(1) b c
    by (auto simp: socket_view_send_buffer_def buffer_release_def view_default_zero split: if_splits)
  have empty: "v_data b = null \<Longrightarrow> b = 0" using assms(3) b by (auto simp: proper_buffers_def view_zero)
  have full: "v_data b \<noteq> null \<Longrightarrow> b \<noteq> 0" by (auto simp: view_zero)
  consider "r \<noteq> 0" | "r = 0" "v_data b = null" | "r = 0" "v_data b \<noteq> null" by blast
  then show ?thesis
  proof cases
    case 1
    with out ev log books_nil [OF assms(2), of True] show ?thesis by (auto intro: kept_call(2))
  next
    case 2
    with empty have "books True S L [] (S(this \<mapsto> 0)) {#}" using books_null [OF assms(2), of this "Some 0"] b by simp
    with 2 out ev log show ?thesis by (auto intro: kept_call(2))
  next
    case 3
    with out ev log books_lose [OF assms(2) b full] show ?thesis by (auto intro: kept_call(1))
  qed
qed

lemma recv_cases:
  assumes "m_acquire this (socket_view_recv_buffer nng k flags) (S, s) = (x, S', s')"
  obtains c v where "st_log s' = st_log s @ [c]" "buffer_flow_ev nng c = Some (Give v)" "S' = S(this \<mapsto> v)" "x = Ok None"
      "sound_recv nng \<Longrightarrow> v_data v = null \<Longrightarrow> v_size v = 0"
    | c e where "st_log s' = st_log s @ [c]" "buffer_flow_ev nng c = None" "S' = S" "x = Throw e"
proof -
  let ?args = "[VId k, VI (flags OR flag_alloc nng)]"
  obtain r p n s1 where c: "get_buf nng ''nng_recv'' ?args s = ((r, p, n), s1)" by (metis prod.exhaust)
  let ?c = "\<lparr>c_fn = ''nng_recv'', c_args = ?args, c_ret = [VI r, VW p, VW n]\<rparr>"
  from c have log: "st_log s1 = st_log s @ [?c]" unfolding get_buf_def by (drule_tac invoke_log) simp
  have ev: "buffer_flow_ev nng ?c = (if r = 0 then Some (Give (view_of p n)) else None)"
    by (simp add: buffer_flow_ev_def)
  have out: "S' = (if r = 0 then S(this \<mapsto> view_of p n) else S)" "s' = s1"
    "x = (if r = 0 then Ok None else Throw (exception r ''nng_recv''))"
    using assms c by (auto simp: m_acquire_def socket_view_recv_buffer_def check_out_def split: if_splits)
  have "fst (s_buf nng ''nng_recv'' ?args (st_lib s, st_mem s)) = (r, p, n)"
    using c by (auto simp: get_buf_def invoke_def split: prod.splits)
  moreover have "case fst (s_buf nng ''nng_recv'' ?args (st_lib s, st_mem s)) of (r, p, n) \<Rightarrow> r = 0 \<longrightarrow> p = null \<longrightarrow> n = 0"
    if "sound_recv nng" using that unfolding sound_recv_def by (elim allE)
  ultimately have sound: "sound_recv nng \<Longrightarrow> r = 0 \<Longrightarrow> p = null \<Longrightarrow> n = 0" by simp
  show ?thesis
  proof (cases "r = 0")
    case True
    with out ev log sound show ?thesis by (intro that(1) [of ?c "view_of p n"]) simp_all
  next
    case False
    with out ev log show ?thesis by (intro that(2) [of ?c]) simp_all
  qed
qed

lemma recv_kept:
  assumes "m_acquire this (socket_view_recv_buffer nng k flags) (S, s) = (x, S', s')" "store_ok S L" "S this = None"
  shows "kept nng S s L (released [x]) S' s'"
  using assms(1)
proof (cases rule: recv_cases)
  case (1 c v)
  with kept_call(1) [OF 1(1,2) books_gain [OF assms(2) disjI1 [OF assms(3)]]] show ?thesis by simp
next
  case (2 c e)
  with kept_call(2) [OF 2(1,2) books_nil [OF assms(2)]] show ?thesis by simp
qed

lemma release_done: "released [fst (done_op y)] = {#}"
  by (cases y; cases "fst y") (auto simp: done_op_def)

lemma op_kept:
  assumes "buffer_op_exec nng k op (S, s) = (r, S', s')" "buffer_op_ok nng op S L r" "store_ok S L" "proper_buffers S"
  shows "kept nng S s L (released [r]) S' s'"
proof -
  have done_opE: "done_op y = (r, S', s') \<Longrightarrow> (\<And>x. y = (x, S', s') \<Longrightarrow> kept nng S s L {#} S' s') \<Longrightarrow>
      kept nng S s L (released [r]) S' s'" for y
    using release_done [of y] by (cases y) (auto simp: done_op_def)
  note none = kept_none [where s' = s and s = s, OF _ refl]
  show ?thesis
  proof (cases op)
    case (B_default this)
    then have "kept nng S s L {#} (S(this \<mapsto> 0)) s" using assms by (intro none books_null) auto
    with B_default assms(1) show ?thesis by (auto intro!: done_opE simp: buffer_default_def view_default_zero)
  next
    case (B_adopt this d n)
    then have "kept nng S s L {#} (S(this \<mapsto> view_of d n)) s" using assms by (intro none books_adopt) auto
    with B_adopt assms(1) show ?thesis by (auto intro!: done_opE simp: buffer_adopt_def)
  next
    case (B_alloc this n)
    obtain d s1 where al: "nng_alloc nng n s = (d, s1)" by fastforce
    from B_alloc assms kept_alloc [OF assms(3) _ al, of this] al show ?thesis
      by (intro done_opE) (auto simp: buffer_alloc_def split: if_splits)
  next
    case (B_copy_ctor this rhs)
    with assms show ?thesis by (intro done_opE copy_ctor_kept) auto
  next
    case (B_move_ctor this rhs)
    then obtain h where h: "S this = None" "S rhs = Some h" using assms(2) by auto
    then have "this \<noteq> rhs" by auto
    with h have "kept nng S s L {#} (S(this \<mapsto> h, rhs \<mapsto> 0)) s" by (intro none books_move assms(3)) auto
    with B_move_ctor assms(1) h show ?thesis
      by (auto intro!: done_opE simp: buffer_move_ctor_def view_default_zero)
  next
    case (B_copy_assign this rhs)
    with assms show ?thesis by (intro done_opE copy_assign_kept) auto
  next
    case (B_move_assign this rhs)
    with assms show ?thesis by (intro done_opE move_assign_kept) auto
  next
    case (B_dtor this)
    with assms show ?thesis by (intro done_opE dtor_kept) auto
  next
    case (B_release this)
    then obtain b where b: "S this = Some b" using assms(2) by auto
    with B_release assms(1) have "r = Ok (Some b)" "S' = S(this \<mapsto> 0)" "s' = s"
      by (auto simp: buffer_release_def view_default_zero view_of_def)
    with none [OF books_detach [OF assms(3) b]] show ?thesis by simp
  next
    case (B_send this flags)
    with assms show ?thesis by (intro done_opE send_kept) auto
  next
    case (B_recv this flags)
    with assms show ?thesis by (intro recv_kept) auto
  qed
qed

lemma proper_upd:
  assumes "proper_buffers S"
  shows "proper_buffers (S(a := None))" "proper_buffers (S(a \<mapsto> view_default))"
    "v_data v \<noteq> null \<or> v_size v = 0 \<Longrightarrow> proper_buffers (S(a \<mapsto> v))"
    "S b = Some w \<Longrightarrow> proper_buffers (S(a \<mapsto> w, b \<mapsto> view_default))"
  using assms by (auto simp: proper_buffers_def view_default_def)

lemma done_snd: "done_op y = (r, c) \<Longrightarrow> snd y = c"
  by (cases y) (simp add: done_op_def)

lemma copy_proper:
  assumes "proper_buffers S"
  shows "proper_buffers (fst (snd (buffer_copy_ctor nng this rhs (S, s))))"
    and "proper_buffers (fst (snd (buffer_copy_assign nng this rhs (S, s))))"
proof -
  show "proper_buffers (fst (snd (buffer_copy_ctor nng this rhs (S, s))))"
    using assms
    by (auto simp: buffer_copy_ctor_def buffer_alloc_def proper_upd(3) simp del: fun_upd_apply split: option.splits prod.splits)
  show "proper_buffers (fst (snd (buffer_copy_assign nng this rhs (S, s))))"
  proof (cases "S this = None \<or> S rhs = None \<or> this = rhs")
    case True
    with assms show ?thesis by (auto simp: buffer_copy_assign_def split: option.splits)
  next
    case False
    then obtain b r where b: "S this = Some b" "S rhs = Some r" "this \<noteq> rhs" by auto
    then have size: "v_data b = null \<Longrightarrow> v_size b = 0" using assms by (auto simp: proper_buffers_def)
    have null: "proper_buffers (S(this \<mapsto> view_of null 0))" using assms by (intro proper_upd(3)) (simp_all add: view_of_def)
    have "proper_buffers (S(this \<mapsto> view_of d (v_size r)))" if "d \<noteq> null \<or> v_size r = 0" for d
      using assms that by (intro proper_upd(3)) (simp_all add: view_of_def)
    with b size null show ?thesis
      by (auto simp: buffer_copy_assign_def simp del: fun_upd_apply split: option.splits prod.splits)
  qed
qed

lemma op_proper:
  assumes "buffer_op_exec nng k op (S, s) = (r, S', s')" "buffer_op_ok nng op S L r" "proper_buffers S" "sound_recv nng"
  shows "proper_buffers S'"
proof (cases op)
  case (B_copy_ctor this rhs)
  with assms(1) copy_proper(1) [OF assms(3), of nng this rhs s] show ?thesis by (auto dest!: done_snd)
next
  case (B_copy_assign this rhs)
  with assms(1) copy_proper(2) [OF assms(3), of nng this rhs s] show ?thesis by (auto dest!: done_snd)
next
  case (B_recv this flags)
  with assms(1) have "m_acquire this (socket_view_recv_buffer nng k flags) (S, s) = (r, S', s')" by simp
  then show ?thesis
  proof (cases rule: recv_cases)
    case (1 c v)
    with assms(3,4) show ?thesis by (auto intro: proper_upd(3))
  qed (use assms(3) in simp)
next
  case (B_adopt this d n)
  then have "v_data (view_of d n) \<noteq> null \<or> v_size (view_of d n) = 0"
    using assms(2) view_zero [of "view_of d n"] by (auto simp: view_of_def)
  then have "proper_buffers (S(this \<mapsto> view_of d n))" by (rule proper_upd(3) [OF assms(3)])
  with assms(1) B_adopt show ?thesis by (auto dest!: done_snd simp: buffer_adopt_def)
next
  case (B_alloc this n)
  have "d \<noteq> null \<Longrightarrow> proper_buffers (S(this \<mapsto> view_of d n))" for d
    by (rule proper_upd(3) [OF assms(3)]) (simp add: view_of_def)
  with assms(1,3) B_alloc show ?thesis
    by (auto dest!: done_snd simp: buffer_alloc_def simp del: fun_upd_apply split: prod.splits if_splits)
next
  case (B_send this flags)
  with assms(1,3) show ?thesis
    by (auto dest!: done_snd simp: socket_view_send_buffer_def buffer_release_def proper_upd(2) simp del: fun_upd_apply
        split: option.splits prod.splits if_splits)
next
  case (B_release this)
  with assms(1,3) show ?thesis
    by (auto simp: buffer_release_def proper_upd(2) simp del: fun_upd_apply split: option.splits)
next
  case (B_default this)
  with assms(1,3) show ?thesis by (auto dest!: done_snd simp: buffer_default_def intro: proper_upd(2))
next
  case (B_dtor this)
  with assms(1,3) show ?thesis
    by (auto dest!: done_snd simp: buffer_dtor_def simp del: fun_upd_apply intro: proper_upd(1) split: option.splits)
next
  case (B_move_ctor this rhs)
  with assms(1,3) show ?thesis
    by (auto dest!: done_snd simp: buffer_move_ctor_def simp del: fun_upd_apply intro: proper_upd(4) split: option.splits)
next
  case (B_move_assign this rhs)
  with assms(1,3) show ?thesis
    by (auto dest!: done_snd simp: buffer_move_assign_def simp del: fun_upd_apply intro: proper_upd(4)
        split: option.splits if_splits)
qed

interpretation buffer_flow: flow True "\<lambda>op S L r. buffer_op_ok nng op S L r \<and> proper_buffers S" "buffer_op_exec nng k"
    "buffer_flow_ev nng" for nng :: "'w nng" and k
  by unfold_locales (auto dest: op_kept simp: kept_def)

lemma legal_proper:
  assumes "legal (buffer_op_ok nng) (buffer_op_exec nng k) (buffer_flow_ev nng) ops (S, s) L"
    and "proper_buffers S" "sound_recv nng"
  shows "legal (\<lambda>op S L r. buffer_op_ok nng op S L r \<and> proper_buffers S) (buffer_op_exec nng k)
    (buffer_flow_ev nng) ops (S, s) L"
  using assms(1,2)
proof (induction ops arbitrary: S s L)
  case (Cons op ops)
  obtain r S1 s1 where e: "buffer_op_exec nng k op (S, s) = (r, S1, s1)" by (metis prod_cases3)
  with Cons.prems have "proper_buffers S1" by (auto intro: op_proper [OF e _ _ assms(3)])
  with Cons e show ?case by auto
qed simp

section \<open>Properties\<close>

text \<open>C4: a program that allocates, adopts, copies, moves, releases and destroys buffers, sends them and receives
  them gives back only memory it has, with the size it was delivered with and once; at its end
  all memory it has not given back is in a buffer or was handed out by \<open>release\<close>. This holds
  whichever operations fail, the copy assignment included.\<close>

theorem buffer_flow_safe:
  assumes "run (buffer_op_exec nng k) ops (Map.empty, s) = (rs, S, s')"
    and "legal (buffer_op_ok nng) (buffer_op_exec nng k) (buffer_flow_ev nng) ops (Map.empty, s) {#}"
    and "sound_recv nng"
  shows "\<exists>cs. st_log s' = st_log s @ cs \<and> proper (events (buffer_flow_ev nng) cs) {#} \<and>
    store_ok S (live (events (buffer_flow_ev nng) cs) {#}) \<and>
    live (events (buffer_flow_ev nng) cs) {#} - owned S \<subseteq># released rs"
proof -
  have "proper_buffers Map.empty" by (simp add: proper_buffers_def)
  from buffer_flow.run_safe [OF assms(1) legal_proper [OF assms(2) this assms(3)] store_ok_empty]
  show ?thesis by (simp add: books_def)
qed

text \<open>A run: a buffer is allocated, another received and moved into the first, which is sent.\<close>

definition supply_nng :: "w64 nng" where
  "supply_nng = idle_nng\<lparr>f_w64 := (\<lambda>_ _ (w, m). (w + 16, w + 16, m)),
     s_buf := (\<lambda>_ _ x. ((0, 96, 4), x)), macro_int := (\<lambda>_. 1)\<rparr>"

definition buffer_program :: "buffer_op list" where
  "buffer_program = [B_alloc 0 8, B_recv 1 0, B_move_assign 0 1, B_send 0 0, B_release 0, B_dtor 0, B_dtor 1]"

lemma buffer_run:
  "run (buffer_op_exec supply_nng 3) buffer_program (Map.empty, start 0) =
     ([Ok None, Ok None, Ok None, Ok None, Ok (Some 0), Ok None, Ok None], Map.empty,
      snd (snd (run (buffer_op_exec supply_nng 3) buffer_program (Map.empty, start 0))))"
  "legal (buffer_op_ok supply_nng) (buffer_op_exec supply_nng 3) (buffer_flow_ev supply_nng) buffer_program
     (Map.empty, start 0) {#}"
  by (simp_all add: buffer_program_def done_op_def buffer_alloc_def nng_alloc_def buffer_move_assign_def nng_free_def
      socket_view_send_buffer_def buffer_release_def buffer_dtor_def m_acquire_def socket_view_recv_buffer_def
      check_out_def call_simps invoke_def supply_nng_def start_def view_of_def view_default_def zero_view_ext_def)

theorem buffer_flow_safe_witness:
  "\<exists>cs. st_log (snd (snd (run (buffer_op_exec supply_nng 3) buffer_program (Map.empty, start 0)))) = cs \<and>
     proper (events (buffer_flow_ev supply_nng) cs) {#} \<and> live (events (buffer_flow_ev supply_nng) cs) {#} = {#}"
proof -
  have "sound_recv supply_nng" by (auto simp: sound_recv_def supply_nng_def)
  from buffer_flow_safe [OF buffer_run this] show ?thesis by (simp add: start_def)
qed

end
