(* ===== verification/Http_Get.thy ===== *)
theory Http_Get
  imports Programs
begin

text \<open>
  What the HTTP client of \<open>Programs\<close> does to the outside: the same client without objects, as a sequence of calls,
  and the proof that the program with its objects and exceptions is an implementation of it.
\<close>

section \<open>The client without objects\<close>









text \<open>
  \<open>tracks A m g\<close>: from \<open>A\<close> the statement \<open>m\<close> of the program returns the code and prints the output that \<open>g\<close> says,
  and throws, without any output, when \<open>g\<close> throws; where \<open>g\<close> is undefined, so is \<open>m\<close>.
\<close>

definition agrees :: "byte list \<Rightarrow> i32 result \<Rightarrow> byte list \<Rightarrow> (i32 \<times> byte list) result \<Rightarrow> bool" where
  "agrees w x w' y \<longleftrightarrow> x = Ub \<or> (case y of
     Ok (c, bs) \<Rightarrow> x = Ok c \<and> w' = w @ bs
   | Throw _ \<Rightarrow> (\<exists>e. x = Throw e) \<and> w' = w
   | Ub \<Rightarrow> False)"

lemma agrees_simps [simp]:
  "agrees w Ub w' y" "agrees w (Ok c) w' (Ok (c', bs)) \<longleftrightarrow> c = c' \<and> w' = w @ bs"
  "agrees w (Throw e) w' (Throw e') \<longleftrightarrow> w' = w"
  by (auto simp: agrees_def)
















section \<open>Properties\<close>




end
