(* ===== verification/Endless.thy ===== *)
theory Endless
  imports Program_Logic "HOL-Library.While_Combinator"
begin

text \<open>
  Statements that may not return: the loops \<open>while(true)\<close> of the servers, and \<open>nng_thread_destroy\<close>,
  which waits for a thread. A statement ends, with a result and a state, or it goes on for ever; then its
  course is the sequence of the states in which the turns of the endless loop start (one state again and again, where it waits). The
  calculus \<open>may\<close> is about the
  outcome if there is one, \<open>forever_runs\<close> and \<open>no_return\<close> about when there is one.
\<close>

section \<open>Statements\<close>

datatype ('s, 'a) course = Ends "'a result" 's | Goes_on "nat \<Rightarrow> 's"

type_synonym ('s, 'a) run = "'s \<Rightarrow> ('s, 'a) course"

abbreviation endless :: "('s, 'a) course \<Rightarrow> bool" where
  "endless r \<equiv> \<exists>S. r = Goes_on S"

definition sure :: "('s, 'a) act \<Rightarrow> ('s, 'a) run" where
  "sure m = (\<lambda>A. case m A of (x, B) \<Rightarrow> Ends x B)"

definition run_bind :: "('s, 'a) run \<Rightarrow> ('a \<Rightarrow> ('s, 'b) run) \<Rightarrow> ('s, 'b) run" where
  "run_bind m f = (\<lambda>A. (case m A of
     Goes_on S \<Rightarrow> Goes_on S
   | Ends x B \<Rightarrow> (case x of Ok y \<Rightarrow> f y B | Throw e \<Rightarrow> Ends (Throw e) B | Ub \<Rightarrow> Ends Ub B)))"

definition run_scoped :: "('s, 'a) run \<Rightarrow> ('s, 'b) run \<Rightarrow> ('s, 'a) run" where
  "run_scoped m d = (\<lambda>A. (case m A of
     Goes_on S \<Rightarrow> Goes_on S
   | Ends x B \<Rightarrow>
       if x = Ub then Ends Ub B
       else (case d B of
          Goes_on S \<Rightarrow> Goes_on S
        | Ends y C \<Rightarrow> (case y of Ok _ \<Rightarrow> Ends x C | _ \<Rightarrow> Ends Ub C))))"

definition run_caught :: "('s, 'a) run \<Rightarrow> (exn \<Rightarrow> ('s, 'a) run) \<Rightarrow> ('s, 'a) run" where
  "run_caught m f = (\<lambda>A. (case m A of
     Goes_on S \<Rightarrow> Goes_on S
   | Ends x B \<Rightarrow> (case x of Throw e \<Rightarrow> f e B | _ \<Rightarrow> Ends x B)))"

text \<open>\<open>auto s = open();\<close> in a function that may not return.\<close>

definition run_socket ::
  "'w nng \<Rightarrow> ('w st \<Rightarrow> i32 result \<times> 'w st) \<Rightarrow> (i32 \<Rightarrow> ('w prog, 'a) run) \<Rightarrow> ('w prog, 'a) run" where
  "run_socket nng opn m =
     run_bind (sure (on o_sock o_sock_update (m_acquire 0 opn))) (\<lambda>_.
     run_scoped (run_bind (sure (held_by o_sock 0)) m) (sure (on_sock nng (Dtor 0))))"

primrec turns :: "('s, unit) act \<Rightarrow> nat \<Rightarrow> ('s, unit) act" where
  "turns m 0 = ret ()"
| "turns m (Suc n) = bind (turns m n) (\<lambda>_. m)"

text \<open>\<open>while(true) m;\<close> It ends when a turn does not end well.\<close>

definition forever :: "('s, unit) act \<Rightarrow> ('s, 'a) run" where
  "forever m A =
     (case while_option (\<lambda>(x, _). x = Ok ()) (\<lambda>(_, B). m B) (Ok (), A) of
        None \<Rightarrow> Goes_on (\<lambda>n. snd (turns m n A))
      | Some (x, B) \<Rightarrow> Ends (case x of Throw e \<Rightarrow> Throw e | _ \<Rightarrow> Ub) B)"

section \<open>When a loop ends\<close>

lemma turns_funpow:
  "fst (turns m n A) = Ok () \<Longrightarrow> ((\<lambda>(_, B). m B) ^^ n) (Ok (), A) = turns m n A"
proof (induction n)
  case (Suc n)
  obtain x B where t: "turns m n A = (x, B)" by fastforce
  with Suc.prems have "x = Ok ()" by (cases x) (auto simp: bind_def)
  with Suc t show ?case by (simp add: bind_def)
qed (simp add: ret_def)

text \<open>A loop whose turns all end well does not end, and one that does not end makes any number of turns.\<close>

lemma forever_endless:
  fixes m :: "('s, unit) act"
  shows "endless (forever m A :: ('s, 'a) course) \<longleftrightarrow> while_option (\<lambda>(x, _). x = Ok ()) (\<lambda>(_, B). m B) (Ok (), A) = None"
    and "endless (forever m A :: ('s, 'a) course) \<longleftrightarrow> (forever m A :: ('s, 'a) course) = Goes_on (\<lambda>n. snd (turns m n A))"
  by (auto simp: forever_def split: option.splits prod.splits)

lemma forever_runs: "endless (forever m A) \<longleftrightarrow> (\<forall>n. fst (turns m n A) = Ok ())"
  unfolding forever_endless(1)
proof
  assume "while_option (\<lambda>(x, _). x = Ok ()) (\<lambda>(_, B). m B) (Ok (), A) = None"
  then have ok: "case ((\<lambda>(_, B). m B) ^^ n) (Ok (), A) of (x, _) \<Rightarrow> x = Ok ()" for n
    unfolding while_option_def by (auto split: if_splits prod.splits)
  show "\<forall>n. fst (turns m n A) = Ok ()"
  proof
    fix n show "fst (turns m n A) = Ok ()"
    proof (induction n)
      case (Suc n)
      then have "((\<lambda>(_, B). m B) ^^ n) (Ok (), A) = turns m n A" by (rule turns_funpow)
      with Suc ok [of "Suc n"] show ?case by (cases "turns m n A") (auto simp: bind_def)
    qed (simp add: ret_def)
  qed
next
  assume "\<forall>n. fst (turns m n A) = Ok ()"
  moreover from this have "((\<lambda>(_, B). m B) ^^ n) (Ok (), A) = turns m n A" for n by (simp add: turns_funpow)
  ultimately show "while_option (\<lambda>(x, _). x = Ok ()) (\<lambda>(_, B). m B) (Ok (), A) = None"
    by (simp add: while_option_def split_beta)
qed

lemma forever_invariant:
  assumes "\<And>B. I B \<Longrightarrow> \<exists>C. m B = (Ok (), C) \<and> I C" "I A"
  shows "\<exists>S. forever m A = (Goes_on S :: ('s, 'a) course) \<and> (\<forall>n. I (S n))"
proof -
  let ?r = "forever m A :: ('s, 'a) course"
  have all: "\<exists>B. turns m n A = (Ok (), B) \<and> I B" for n
  proof (induction n)
    case (Suc n)
    then obtain B where "turns m n A = (Ok (), B)" "I B" by blast
    with assms(1) [of B] show ?case by (auto simp: bind_def)
  qed (simp add: ret_def assms(2))
  from all have "fst (turns m n A) = Ok ()" for n by (metis fst_conv)
  then have "endless ?r" unfolding forever_runs by blast
  then have "?r = Goes_on (\<lambda>n. snd (turns m n A))" unfolding forever_endless(2) .
  moreover have "I (snd (turns m n A))" for n using all [of n] by (metis snd_conv)
  ultimately show ?thesis by blast
qed

section \<open>What a statement leads to\<close>

text \<open>
  \<open>may m A P E G\<close>: from \<open>A\<close> the statement \<open>m\<close> returns with a state of \<open>P\<close>, throws with a state of \<open>E\<close>, or
  goes on for ever, every turn starting in a state of \<open>G\<close>; it is never undefined.
\<close>

definition may ::
  "('s, 'a) run \<Rightarrow> 's \<Rightarrow> ('a \<Rightarrow> 's \<Rightarrow> bool) \<Rightarrow> (exn \<Rightarrow> 's \<Rightarrow> bool) \<Rightarrow> ('s \<Rightarrow> bool) \<Rightarrow> bool" where
  "may m A P E G \<longleftrightarrow> (case m A of
     Goes_on S \<Rightarrow> (\<forall>n. G (S n))
   | Ends x B \<Rightarrow> (case x of Ok y \<Rightarrow> P y B | Throw e \<Rightarrow> E e B | Ub \<Rightarrow> False))"

named_theorems may_simps \<open>the statement forms\<close>

lemma may_sure [may_simps]: "may (sure m) A P E G \<longleftrightarrow> gives m A P E"
  by (simp add: may_def sure_def gives_def split: prod.splits result.splits)

lemma may_bind [may_simps]: "may (run_bind m f) A P E G \<longleftrightarrow> may m A (\<lambda>x B. may (f x) B P E G) E G"
  by (cases "m A") (auto simp: may_def run_bind_def split: result.split)

lemma may_scoped [may_simps]:
  "may (run_scoped m d) A P E G \<longleftrightarrow>
     may m A (\<lambda>x B. may d B (\<lambda>_. P x) (\<lambda>_ _. False) G) (\<lambda>e B. may d B (\<lambda>_. E e) (\<lambda>_ _. False) G) G"
  by (cases "m A") (auto simp: may_def run_scoped_def split: course.split result.split)

lemma may_caught [may_simps]:
  "may (run_caught m f) A P E G \<longleftrightarrow> may m A P (\<lambda>e B. may (f e) B P E G) G"
  by (cases "m A") (auto simp: may_def run_caught_def split: result.split)

lemma may_mono:
  assumes "may m A P E G" "\<And>x B. P x B \<Longrightarrow> P' x B" "\<And>e B. E e B \<Longrightarrow> E' e B" "\<And>B. G B \<Longrightarrow> G' B"
  shows "may m A P' E' G'"
  using assms(1) by (cases "m A") (auto simp: may_def intro: assms(2-4) split: result.splits)

text \<open>A loop keeps what each turn keeps, and ends by an exception of a turn.\<close>

lemma turns_keep:
  assumes "\<And>B. I B \<Longrightarrow> gives m B (\<lambda>_. I) E" "I A" "\<forall>n. fst (turns m n A) = Ok ()"
  shows "I (snd (turns m n A))"
proof (induction n)
  case (Suc n)
  obtain B where t: "turns m n A = (Ok (), B)" using assms(3) by (metis prod.collapse)
  obtain x C where m: "m B = (x, C)" by fastforce
  with t assms(3) [rule_format, of "Suc n"] have "x = Ok ()" by (simp add: bind_def)
  with m t Suc assms(1) [of B] show ?case by (simp add: bind_def gives_def)
qed (simp add: ret_def assms(2))

lemma may_forever:
  fixes m :: "('s, unit) act"
  assumes "\<And>B. I B \<Longrightarrow> gives m B (\<lambda>_. I) E" "I A" "\<And>B. I B \<Longrightarrow> G B"
  shows "may (forever m :: ('s, 'a) run) A (\<lambda>_ _. False) E G"
proof (cases "while_option (\<lambda>(x, _). x = Ok ()) (\<lambda>(_, B). m B) (Ok (), A)")
  case None
  then have "endless (forever m A :: ('s, 'a) course)" unfolding forever_endless(1) .
  then have "\<forall>n. fst (turns m n A) = Ok ()" unfolding forever_runs .
  from turns_keep [OF assms(1,2) this] have "I (snd (turns m n A))" for n .
  with None show ?thesis by (simp add: may_def forever_def assms(3))
next
  case (Some r)
  let ?J = "\<lambda>(x, B). case x of Ok _ \<Rightarrow> I B | Throw e \<Rightarrow> E e B | Ub \<Rightarrow> False"
  have "?J r"
  proof (rule while_option_rule [OF _ Some])
    fix s :: "unit result \<times> 's" assume "?J s" "case s of (x, _) \<Rightarrow> x = Ok ()"
    with assms(1) [of "snd s"] show "?J (case s of (_, B) \<Rightarrow> m B)"
      by (auto simp: gives_def split: prod.splits result.splits)
  qed (use assms(2) in simp)
  moreover have "\<not> (case r of (x, _) \<Rightarrow> x = Ok ())" by (rule while_option_stop [OF Some])
  ultimately show ?thesis using Some
    by (auto simp: may_def forever_def split: prod.splits result.splits)
qed

section \<open>The objects of a program that may not return\<close>

lemma gives_then: "ends ((=) D) A B \<Longrightarrow> leads D m P E \<Longrightarrow> gives m B (\<lambda>_. ends P A) (\<lambda>_. ends E A)"
  by (rule gives_after [where P = "(=) D"]) auto

text \<open>The same of the objects; the books are kept also in the states in which a turn starts.\<close>

definition may_lead ::
  "shape \<Rightarrow> ('w prog, 'a) run \<Rightarrow> (shape \<Rightarrow> bool) \<Rightarrow> (shape \<Rightarrow> bool) \<Rightarrow> (shape \<Rightarrow> bool) \<Rightarrow> bool" where
  "may_lead D m P E G \<longleftrightarrow> (\<forall>A. shape A = D \<longrightarrow> tidy A \<longrightarrow> may m A (\<lambda>_. ends P A) (\<lambda>_. ends E A) (ends G A))"

lemma may_lead_sure: "leads D m P E \<Longrightarrow> may_lead D (sure m) P E G"
  by (simp add: may_lead_def leads_def may_simps)

lemma may_lead_mono:
  assumes "may_lead D m P E G" "\<And>D'. P D' \<Longrightarrow> P' D'" "\<And>D'. E D' \<Longrightarrow> E' D'" "\<And>D'. G D' \<Longrightarrow> G' D'"
  shows "may_lead D m P' E' G'"
  using assms unfolding may_lead_def ends_def by (blast intro: may_mono)

lemma may_after:
  assumes "ends P A B" "\<And>D. P D \<Longrightarrow> may_lead D m Q E G"
  shows "may m B (\<lambda>_. ends Q A) (\<lambda>_. ends E A) (ends G A)"
proof -
  have "P (shape B)" "tidy B" using assms(1) by (simp_all add: ends_def)
  with assms(2) [of "shape B"] have "may m B (\<lambda>_. ends Q B) (\<lambda>_. ends E B) (ends G B)" by (simp add: may_lead_def)
  then show ?thesis by (rule may_mono) (rule ends_trans [OF assms(1)], assumption)+
qed

lemma may_after_total:
  assumes "ends P A B" "\<And>D. P D \<Longrightarrow> may_lead D m Q never G"
  shows "may m B (\<lambda>_. ends Q A) (\<lambda>_ _. False) (ends G A)"
  using may_after [OF assms] by (simp add: ends_never)

lemma may_lead_bind:
  fixes m :: "('w prog, 'a) run"
  assumes "may_lead D m P E G" "\<And>x D'. P D' \<Longrightarrow> may_lead D' (f x) Q E G"
  shows "may_lead D (run_bind m f) Q E G"
  unfolding may_lead_def may_bind
proof (intro allI impI)
  fix A :: "'w prog" assume "shape A = D" "tidy A"
  with assms(1) have "may m A (\<lambda>_. ends P A) (\<lambda>_. ends E A) (ends G A)" by (simp add: may_lead_def)
  then show "may m A (\<lambda>x B. may (f x) B (\<lambda>_. ends Q A) (\<lambda>_. ends E A) (ends G A)) (\<lambda>_. ends E A) (ends G A)"
    by (rule may_mono) (auto intro: may_after assms(2))
qed

lemma may_lead_scoped:
  fixes m :: "('w prog, 'a) run"
  assumes "may_lead D m P E G" "\<And>D'. P D' \<Longrightarrow> may_lead D' d Q never G" "\<And>D'. E D' \<Longrightarrow> may_lead D' d F never G"
  shows "may_lead D (run_scoped m d) Q F G"
  unfolding may_lead_def may_scoped
proof (intro allI impI)
  fix A :: "'w prog" assume "shape A = D" "tidy A"
  with assms(1) have "may m A (\<lambda>_. ends P A) (\<lambda>_. ends E A) (ends G A)" by (simp add: may_lead_def)
  then show "may m A (\<lambda>x B. may d B (\<lambda>_. ends Q A) (\<lambda>_ _. False) (ends G A))
      (\<lambda>e B. may d B (\<lambda>_. ends F A) (\<lambda>_ _. False) (ends G A)) (ends G A)"
    by (rule may_mono) (assumption | erule may_after_total, erule assms)+
qed

lemma may_lead_caught:
  fixes m :: "('w prog, 'a) run"
  assumes "may_lead D m P E G" "\<And>e D'. E D' \<Longrightarrow> may_lead D' (f e) P F G"
  shows "may_lead D (run_caught m f) P F G"
  unfolding may_lead_def may_caught
proof (intro allI impI)
  fix A :: "'w prog" assume "shape A = D" "tidy A"
  with assms(1) have "may m A (\<lambda>_. ends P A) (\<lambda>_. ends E A) (ends G A)" by (simp add: may_lead_def)
  then show "may m A (\<lambda>_. ends P A) (\<lambda>e B. may (f e) B (\<lambda>_. ends P A) (\<lambda>_. ends F A) (ends G A)) (ends G A)"
    by (rule may_mono) (auto intro: may_after assms(2))
qed

text \<open>A loop over turns that leave the objects as they were.\<close>

lemma may_lead_forever:
  fixes m :: "('w prog, unit) act"
  assumes "leads D m ((=) D) E" "G D"
  shows "may_lead D (forever m) never E G"
  unfolding may_lead_def ends_never
proof (intro allI impI)
  fix A :: "'w prog" assume A: "shape A = D" "tidy A"
  show "may (forever m) A (\<lambda>_ _. False) (\<lambda>_. ends E A) (ends G A)"
  proof (rule may_forever [where I = "ends ((=) D) A"])
    show "ends ((=) D) A A" using A by (simp add: ends_def books_kept_refl)
    fix B assume B: "ends ((=) D) A B"
    then show "gives m B (\<lambda>_. ends ((=) D) A) (\<lambda>_. ends E A)" by (rule gives_then) (rule assms(1))
    from B assms(2) show "ends G A B" by (auto simp: ends_def)
  qed
qed

lemma may_lead_calm:
  "calm D m \<Longrightarrow> E D \<Longrightarrow> (\<And>x. may_lead D (f x) P E G) \<Longrightarrow> may_lead D (run_bind (sure m) f) P E G"
  by (rule may_lead_bind [where P = "(=) D", OF may_lead_sure]) (auto elim: leads_mono)

lemma may_lead_used:
  "leads D (held_by get a) ((=) D) never \<Longrightarrow> (\<And>x. may_lead D (f x) P E G) \<Longrightarrow>
     may_lead D (run_bind (sure (held_by get a)) f) P E G"
  by (rule may_lead_bind [where P = "(=) D", OF may_lead_sure]) (auto intro: leads_total)

lemma may_lead_socket:
  assumes "lawful nng" "D K_sock 0 = None" "opn = (\<lambda>s. check_out src (get_id nng fn [] s))" "fn \<in> set sock_opens"
    and "\<And>k. may_lead (put D K_sock 0 (Some True)) (m k) never ((=) (put D K_sock 0 (Some True))) G"
  shows "may_lead D (run_socket nng opn m) never ((=) D) G"
proof -
  let ?D = "put D K_sock 0 (Some True)"
  have "obtains_handle K_sock ucast opn"
    unfolding assms(3) by (rule obtains_opened [OF assms(1)]) (simp add: opener_def assms(4))
  then have opens: "leads D (on o_sock o_sock_update (m_acquire 0 opn)) ((=) ?D) ((=) D)"
    using assms(2) by (intro sock_class.acquire)
  have "leads ?D (on_sock nng (Dtor 0)) ((=) D) never"
    unfolding socket_exec.simps
    using sock_class.destroy [OF returns_opened [OF assms(1)], of "''nng_close''" ?D 0] assms(2) by simp
  then have "may_lead ?D (sure (on_sock nng (Dtor 0))) ((=) D) never G" by (rule may_lead_sure)
  moreover have "may_lead ?D (run_bind (sure (held_by o_sock 0)) m) never ((=) ?D) G"
    using assms(5) by (intro may_lead_used) simp_all
  ultimately have "may_lead ?D (run_scoped (run_bind (sure (held_by o_sock 0)) m) (sure (on_sock nng (Dtor 0)))) never ((=) D) G"
    by (intro may_lead_scoped [of ?D _ never "(=) ?D"]) auto
  then show ?thesis
    unfolding run_socket_def by (intro may_lead_bind [OF may_lead_sure [OF opens]]) auto
qed

section \<open>A library that does not fail\<close>

text \<open>Every function that reports a status reports success. A statement then throws nothing but what it throws itself.\<close>

definition unfailing :: "'w nng \<Rightarrow> bool" where
  "unfailing nng \<longleftrightarrow>
     (\<forall>fn args x. fst (f_int nng fn args x) = 0 \<and> fst (fst (s_w64 nng fn args x)) = 0 \<and>
        fst (fst (s_id nng fn args x)) = 0 \<and> fst (fst (s_buf nng fn args x)) = 0)"

definition throwless :: "('s \<Rightarrow> 'a result \<times> 't) \<Rightarrow> bool" where
  "throwless m \<longleftrightarrow> (\<forall>A e B. m A \<noteq> (Throw e, B))"

named_theorems throwless_rules \<open>statements that do not throw\<close>

lemma throwless_forms [throwless_rules]:
  "throwless (ret x)"
  "throwless m \<Longrightarrow> (\<And>x. throwless (f x)) \<Longrightarrow> throwless (bind m f)"
  "throwless m \<Longrightarrow> throwless (unwind m d)"
  "throwless m \<Longrightarrow> throwless (scoped m d)"
  "throwless (held_by get a)"
  "throwless g \<Longrightarrow> throwless (by_world g)"
  "throwless (from_world h)" "throwless (to_world w)"
  unfolding throwless_def
  by (auto simp: ret_def bind_def unwind_def scoped_def held_by_def by_world_def from_world_def to_world_def
      split: prod.splits result.splits option.splits)

lemma throwless_on [throwless_rules]: "throwless f \<Longrightarrow> throwless (on get upd f)"
  unfolding throwless_def on_def by (auto split: prod.splits)

lemma throwless_members [throwless_rules]:
  "throwless (m_default a)" "throwless (m_dtor free a)" "throwless acq \<Longrightarrow> throwless (m_acquire a acq)"
  unfolding throwless_def m_default_def m_dtor_def m_acquire_def by (auto split: prod.splits result.splits option.splits)

lemma invoke_fst: "fst (invoke f enc fn args s) = fst (f fn args (st_lib s, st_mem s))"
  by (simp add: invoke_def split: prod.splits)

lemma check_throws: "fst p = 0 \<Longrightarrow> check src p \<noteq> (Throw e, s)" "fst (fst q) = 0 \<Longrightarrow> check_out src q \<noteq> (Throw e, s)"
  by (auto simp: check_def check_out_def split: prod.splits)

lemma throwless_calls:
  assumes "unfailing nng"
  shows "throwless (\<lambda>s. check src (call_int nng fn args s))"
    and "throwless (\<lambda>s. check_out src (get_w64 nng fn args s))"
    and "throwless (\<lambda>s. check_out src (get_id nng fn args s))"
    and "throwless (socket_view_recv_buffer nng k f)"
    and "throwless (socket_view_send_buffer nng k a f)"
    and "throwless (socket_view_send_msg nng k a f)"
proof -
  have i: "fst (call_int nng fn args s) = 0" for fn args s
    using assms by (simp add: unfailing_def call_int_def invoke_fst)
  have w: "fst (fst (get_w64 nng fn args s)) = 0" "fst (fst (get_id nng fn args s)) = 0"
    "fst (fst (get_buf nng fn args s)) = 0" for fn args s
    using assms by (simp_all add: unfailing_def get_w64_def get_id_def get_buf_def invoke_fst)
  have c: "throwless (\<lambda>s. check src (call_int nng fn args s))" "throwless (\<lambda>s. check_out src (get_w64 nng fn args s))"
    "throwless (\<lambda>s. check_out src (get_id nng fn args s))" "throwless (\<lambda>s. check_out src (get_buf nng fn args s))"
    for src fn args
    unfolding throwless_def using i w by (simp_all add: check_throws)
  then show "throwless (\<lambda>s. check src (call_int nng fn args s))" "throwless (\<lambda>s. check_out src (get_w64 nng fn args s))"
    "throwless (\<lambda>s. check_out src (get_id nng fn args s))" by blast+
  show "throwless (socket_view_recv_buffer nng k f)"
    using c(4) unfolding throwless_def socket_view_recv_buffer_def by (auto split: prod.splits result.splits)
  show "throwless (socket_view_send_buffer nng k a f)" "throwless (socket_view_send_msg nng k a f)"
    using i unfolding throwless_def socket_view_send_buffer_def socket_view_send_msg_def
    by (auto split: prod.splits option.splits; metis fst_conv)+
qed

text \<open>Where a statement can only end by an exception, and there is none, it does not end.\<close>

definition run_throwless :: "('s, 'a) run \<Rightarrow> bool" where
  "run_throwless m \<longleftrightarrow> (\<forall>A e B. m A \<noteq> Ends (Throw e) B)"

lemma run_throwless_forms [throwless_rules]:
  "throwless m \<Longrightarrow> run_throwless (sure m)"
  "run_throwless m' \<Longrightarrow> (\<And>x. run_throwless (g x)) \<Longrightarrow> run_throwless (run_bind m' g)"
  "run_throwless m' \<Longrightarrow> run_throwless (run_scoped m' d)"
  unfolding run_throwless_def throwless_def
  by (auto simp: sure_def run_bind_def run_scoped_def split: course.splits prod.splits result.splits if_splits)

lemma run_throwless_forever [throwless_rules]:
  assumes "throwless m"
  shows "run_throwless (forever m)"
  unfolding run_throwless_def
proof (intro allI notI)
  fix A e B assume f: "forever m A = Ends (Throw e) B"
  then obtain z where z: "while_option (\<lambda>(x, _). x = Ok ()) (\<lambda>(_, B). m B) (Ok (), A) = Some z"
    by (auto simp: forever_def split: option.splits)
  moreover obtain x C where "z = (x, C)" by fastforce
  ultimately have w: "while_option (\<lambda>(x, _). x = Ok ()) (\<lambda>(_, B). m B) (Ok (), A) = Some (Throw e, C)"
    using f by (cases x) (auto simp: forever_def)
  have "\<forall>e'. fst (Throw e, C) \<noteq> (Throw e' :: unit result)"
    by (rule while_option_rule [where P = "\<lambda>s. \<forall>e. fst s \<noteq> Throw e", OF _ w])
      (use assms in \<open>auto simp: throwless_def split_beta prod_eq_iff\<close>)
  then show False by simp
qed

lemma no_return:
  assumes "may m A (\<lambda>_ _. False) E G" "run_throwless m"
  shows "\<exists>S. m A = Goes_on S \<and> (\<forall>n. G (S n))"
  using assms unfolding may_def run_throwless_def by (cases "m A") (auto split: result.splits)

end
