(* ===== verification/Reqrep.thy ===== *)
theory Reqrep
  imports Endless Programs
begin

text \<open>
  The programs of \<open>demo/reqrep/reqrep.cpp\<close>: the server around the turns of \<open>Demos\<close>, the client,
  and \<open>main\<close>. What is printed is left out; the client results in the time it prints. \<open>showdate\<close> is defined only for
  a time of which \<open>localtime\<close> and \<open>asctime\<close> can make a text: \<open>dates\<close> says which ones those are.
\<close>

section \<open>The programs\<close>

text \<open>
  The server, whose loop only an exception ends; \<open>clock\<close> says what \<open>time(nullptr)\<close> returns in the turn
  that starts in a state.
\<close>

definition showdate :: "(w64 \<Rightarrow> bool) \<Rightarrow> w64 \<Rightarrow> unit result" where
  "showdate dates now = (if dates now then Ok () else Ub)"

text \<open>The test of the server: eight bytes, which are the request for the date.\<close>

definition date_asked :: "'w nng \<Rightarrow> i32 \<Rightarrow> 'w st \<Rightarrow> bool" where
  "date_asked nng k s =
     (case socket_view_recv_buffer nng k 0 s of
        (Ok v, s') \<Rightarrow> v_size v = 8 \<and>
          (case read_bytes (st_mem s') (v_data v) 8 of None \<Rightarrow> False | Some bs \<Rightarrow> GET64 bs = DATECMD)
      | _ \<Rightarrow> False)"

definition reqrep_server_turn ::
  "'w nng \<Rightarrow> (w64 \<Rightarrow> bool) \<Rightarrow> ('w st \<Rightarrow> w64) \<Rightarrow> i32 \<Rightarrow> ('w prog, unit) act" where
  "reqrep_server_turn nng dates clock k =
     (\<lambda>A. let now = clock (wrld A) in
       if date_asked nng k (wrld A) \<and> showdate dates now = Ub then (Ub, A)
       else on_buf (reqrep_turn nng k now) A)"

definition reqrep_server :: "'w nng \<Rightarrow> (w64 \<Rightarrow> bool) \<Rightarrow> ('w st \<Rightarrow> w64) \<Rightarrow> string \<Rightarrow> ('w prog, i32) run" where
  "reqrep_server nng dates clock url =
     run_socket nng (rep0_open nng) (\<lambda>k.
       run_bind (sure (by_world (socket_view_listen nng k url 0))) (\<lambda>_.
       forever (reqrep_server_turn nng dates clock k)))"

text \<open>The client: the time it got, or \<open>None\<close> for a reply of the wrong size. The array \<open>cmd\<close> is at that address.\<close>

definition put_bytes :: "ptr \<Rightarrow> byte list \<Rightarrow> 'w st \<Rightarrow> 'w st" where
  "put_bytes p bs s = s\<lparr>st_mem := write_bytes (st_mem s) p bs\<rparr>"

definition reqrep_shown :: "(w64 \<Rightarrow> bool) \<Rightarrow> mem \<Rightarrow> view \<Rightarrow> w64 option result" where
  "reqrep_shown dates m v =
     (case reqrep_reply m v of
        Ok (Some now) \<Rightarrow> (case showdate dates now of Ok _ \<Rightarrow> Ok (Some now) | _ \<Rightarrow> Ub)
      | x \<Rightarrow> x)"

definition reqrep_client :: "'w nng \<Rightarrow> (w64 \<Rightarrow> bool) \<Rightarrow> ptr \<Rightarrow> string \<Rightarrow> ('w prog, w64 option) act" where
  "reqrep_client nng dates cmd url =
     with_socket nng (req0_open nng) (\<lambda>k.
       bind (by_world (socket_view_dial nng k url 0)) (\<lambda>_.
       bind (to_world (put_bytes cmd (PUT64 DATECMD))) (\<lambda>_.
       bind (by_world (socket_view_send nng k (view_of_array cmd 8 1) 0)) (\<lambda>_.
       in_scope (on_buf (m_acquire 0 (socket_view_recv_buffer nng k 0))) (on_buf (buffer_dtor nng 0))
         (bind (held_by o_buf 0) (\<lambda>buf A. (reqrep_shown dates (st_mem (wrld A)) buf, A)))))))"

text \<open>
  \<open>main\<close>: the URL is \<open>argv[2]\<close>, which is not counted; it is the null pointer after the last argument
  when there is none.
\<close>

definition reqrep_main ::
  "'w nng \<Rightarrow> (w64 \<Rightarrow> bool) \<Rightarrow> ('w st \<Rightarrow> w64) \<Rightarrow> ptr \<Rightarrow> string list \<Rightarrow> ('w prog, i32) run" where
  "reqrep_main nng dates clock cmd argv =
     run_caught
       (if 1 < length argv \<and> argv ! 1 = ''client'' then
          if length argv = 2 then (\<lambda>A. Ends Ub A)
          else sure (bind (reqrep_client nng dates cmd (argv ! 2)) (\<lambda>_. ret 0))
        else if 1 < length argv \<and> argv ! 1 = ''server'' then
          if length argv = 2 then (\<lambda>A. Ends Ub A)
          else run_bind (reqrep_server nng dates clock (argv ! 2)) (\<lambda>_. sure (ret 0))
        else sure (ret 1))
       (\<lambda>_. sure (ret 1))"

section \<open>Their objects\<close>

lemma calm_put_bytes: "calm D (to_world (put_bytes p bs))"
  unfolding leads_def
proof (intro allI impI)
  fix A :: "'a prog" assume A: "shape A = D" "tidy A"
  have "ends ((=) (shape A)) A (A\<lparr>wrld := put_bytes p bs (wrld A)\<rparr>)"
    using A(2) by (intro ends_same books_kept_silent [of _ _ "[]"])
      (auto simp: tidy_def put_bytes_def dom_write_bytes simp del: refs.simps)
  with A(1) show "gives (to_world (put_bytes p bs)) A (\<lambda>_. ends ((=) D) A) (\<lambda>_. ends ((=) D) A)"
    by (simp add: gives_def to_world_def by_world_def)
qed

text \<open>The bytes of a buffer can be read.\<close>

lemma buffer_readable:
  assumes "tidy A" "o_buf A a = Some v" "v_size v = 8"
  shows "\<exists>bs. read_bytes (st_mem (wrld A)) (v_data v) 8 = Some bs"
proof -
  have "unat (8 :: w64) = 8" by simp
  moreover have "view_bytes (st_mem (wrld A)) v \<noteq> None"
    using assms(1,2) view_bytes_mapped unfolding tidy_def by blast
  ultimately show ?thesis using assms(3) by (auto simp: view_bytes_def)
qed

text \<open>A turn, as a statement of the program: the answer, and the turn.\<close>

definition answer :: "'w nng \<Rightarrow> i32 \<Rightarrow> w64 \<Rightarrow> view \<Rightarrow> ('w prog, unit) act" where
  "answer nng k now v =
     (\<lambda>A. if v_size v = 8 then
            (case read_bytes (st_mem (wrld A)) (v_data v) 8 of
               None \<Rightarrow> (Ub, A)
             | Some bs \<Rightarrow>
                 if GET64 bs = DATECMD then
                   bind (to_world (put_bytes (v_data v) (PUT64 now))) (\<lambda>_.
                     on_buf (socket_view_send_buffer nng k 0 0)) A
                 else ret () A)
          else ret () A)"

lemma turn_statement:
  "gives (on_buf (reqrep_turn nng k now)) A P E =
    gives (bind (on_buf (m_acquire 0 (socket_view_recv_buffer nng k 0))) (\<lambda>_.
      scoped (bind (held_by o_buf 0) (answer nng k now)) (on_buf (buffer_dtor nng 0)))) A P E"
proof -
  obtain x s where r: "socket_view_recv_buffer nng k 0 (wrld A) = (x, s)" by fastforce
  show ?thesis
  proof (cases x)
    case (Ok v)
    let ?S = "(o_buf A)(0 \<mapsto> v)"
    let ?B = "A\<lparr>o_buf := ?S, wrld := s\<rparr>"
    have "gives (on_buf (reqrep_turn nng k now)) A P E = gives (scoped (answer nng k now v) (on_buf (buffer_dtor nng 0))) ?B P E"
    proof (cases "read_bytes (st_mem s) (v_data v) 8")
      case None
      then show ?thesis using r Ok
        by (simp add: gives_def on_def reqrep_turn_def end_of_scope_def answer_def scoped_def ret_def buffer_dtor_def)
    next
      case (Some bs)
      obtain y S2 s2 where "socket_view_send_buffer nng k 0 0 (?S, put_bytes (v_data v) (PUT64 now) s) = (y, S2, s2)"
        by (metis prod_cases3)
      moreover obtain z S3 s3 where "buffer_dtor nng 0 (S2, s2) = (z, S3, s3)" by (metis prod_cases3)
      moreover obtain z' S' s' where "buffer_dtor nng 0 (?S, s) = (z', S', s')" by (metis prod_cases3)
      ultimately show ?thesis using r Ok Some
        by (cases y; cases z; cases z'; cases "v_size v = 8"; cases "GET64 bs = DATECMD";
            simp add: gives_def on_def reqrep_turn_def end_of_scope_def answer_def scoped_def bind_def ret_def
              to_world_def by_world_def put_bytes_def)
    qed
    moreover have "on_buf (m_acquire 0 (socket_view_recv_buffer nng k 0)) A = (Ok None, ?B)"
      using r Ok by (simp add: on_def m_acquire_def)
    moreover have "held_by o_buf 0 ?B = (Ok v, ?B)" by (simp add: held_by_def)
    ultimately show ?thesis by (simp add: gives_simps) (simp add: gives_def scoped_def)
  qed (use r in \<open>auto simp: gives_def on_def reqrep_turn_def bind_def m_acquire_def\<close>)
qed

lemma slack_answer:
  assumes "lawful nng" "D K_buf = [0 \<mapsto> b]"
  shows "slack K_buf 0 D (bind (held_by o_buf 0) (answer nng k now))"
  unfolding slack_def leads_def
proof (intro allI impI)
  fix A :: "'a prog" assume A: "shape A = D" "tidy A"
  then obtain v where v: "o_buf A 0 = Some v" using buffer_store(2) [of A 0 b] assms(2) by auto
  let ?P = "\<lambda>D'. \<exists>b. D' = put D K_buf 0 (Some b)"
  have same: "?P D" using assms(2) by (intro exI [of _ b]) (auto simp: put_def fun_eq_iff)
  have send: "leads D (on_buf (socket_view_send_buffer nng k 0 0)) ?P ?P"
    using same by (intro leads_mono [OF send_buffer [of nng D, OF assms]]) auto
  have reply: "leads D (bind (to_world (put_bytes (v_data v) (PUT64 now))) (\<lambda>_. on_buf (socket_view_send_buffer nng k 0 0))) ?P ?P"
    using same by (intro leads_bind [where P = "(=) D"] leads_mono [OF calm_put_bytes]) (auto intro: send)
  have idle: "gives (ret ()) A (\<lambda>_. ends ?P A) (\<lambda>_. ends ?P A)"
    using A same by (simp add: gives_simps ends_def books_kept_refl)
  have "gives (answer nng k now v) A (\<lambda>_. ends ?P A) (\<lambda>_. ends ?P A)"
  proof (cases "v_size v = 8")
    case True
    from buffer_readable [OF A(2) v True] obtain bs where
      "read_bytes (st_mem (wrld A)) (v_data v) 8 = Some bs" by blast
    with True reply A idle show ?thesis unfolding leads_def answer_def gives_def by simp
  next
    case False
    with idle show ?thesis unfolding answer_def gives_def by simp
  qed
  with v show "gives (bind (held_by o_buf 0) (answer nng k now)) A (\<lambda>_. ends ?P A) (\<lambda>_. ends ?P A)"
    by (simp add: gives_simps) (simp add: gives_def held_by_def)
qed

text \<open>The scope of a buffer that is received.\<close>

lemma received_scope:
  assumes "lawful nng" "D K_buf = Map.empty" "\<And>b. slack K_buf 0 (put D K_buf 0 (Some b)) m"
  shows "calm D (in_scope (on_buf (m_acquire 0 (socket_view_recv_buffer nng k f))) (on_buf (buffer_dtor nng 0)) m)"
  unfolding in_scope_def
proof (rule leads_bind [OF receive_buffer [of nng D, OF assms(1,2)]])
  fix x D' assume "\<exists>b. D' = put D K_buf 0 (Some b)"
  then obtain b where D': "D' = put D K_buf 0 (Some b)" by blast
  have out: "leads D1 (on_buf (buffer_dtor nng 0)) ((=) D) never" if d: "\<exists>b. D1 = put D' K_buf 0 (Some b)" for D1
  proof -
    from d obtain b where "D1 = put D K_buf 0 (Some b)" using D' by auto
    with free_buffer [of D1 0 b nng] assms(2) show ?thesis by simp
  qed
  show "leads D' (scoped m (on_buf (buffer_dtor nng 0))) ((=) D) ((=) D)"
    using assms(3) [of b] unfolding D' [symmetric] slack_def by (rule leads_scoped) (erule out)+
qed

lemma calm_turn:
  assumes "lawful nng" "\<forall>s. dates (clock s)" "D K_buf = Map.empty"
  shows "calm D (reqrep_server_turn nng dates clock k)"
proof -
  have "calm D (on_buf (reqrep_turn nng k now))" for now
    using received_scope [of nng D "bind (held_by o_buf 0) (answer nng k now)" k 0, OF assms(1,3) slack_answer [OF assms(1)]] assms(3)
    unfolding leads_def turn_statement by (simp add: in_scope_def)
  then show ?thesis using assms(2) unfolding leads_def reqrep_server_turn_def gives_def showdate_def by simp
qed

text \<open>A client for which every time has a text is never undefined.\<close>

lemma reply_defined:
  assumes "D K_buf = [0 \<mapsto> b]"
  shows "calm D (bind (held_by o_buf 0) (\<lambda>buf A. (reqrep_shown (\<lambda>_. True) (st_mem (wrld A)) buf, A)))"
  unfolding leads_def
proof (intro allI impI)
  fix A :: "'a prog" assume A: "shape A = D" "tidy A"
  then obtain v where v: "o_buf A 0 = Some v" using buffer_store(2) [of A 0 b] assms by auto
  then have "\<exists>x. reqrep_shown (\<lambda>_. True) (st_mem (wrld A)) v = Ok x"
    using buffer_readable [OF A(2) v] by (auto simp: reqrep_shown_def reqrep_reply_def showdate_def)
  then show "gives (bind (held_by o_buf 0) (\<lambda>buf A. (reqrep_shown (\<lambda>_. True) (st_mem (wrld A)) buf, A))) A
      (\<lambda>_. ends ((=) D) A) (\<lambda>_. ends ((=) D) A)"
    using A v by (auto simp: gives_def bind_def held_by_def ends_def books_kept_refl)
qed

lemma calm_reqrep_client:
  assumes "lawful nng"
  shows "calm (\<lambda>_. Map.empty) (reqrep_client nng (\<lambda>_. True) cmd url)"
  unfolding reqrep_client_def
  by (intro calm_socket [OF assms] calm_bind calm_world(1) quiet_methods(10) [OF assms] quiet_send [OF assms] calm_put_bytes
      received_scope [OF assms] calm_slack [OF reply_defined]) (auto simp: put_def)

text \<open>\<open>restricts d m m'\<close>: \<open>m\<close> is \<open>m'\<close>, but undefined for a result that is not in \<open>d\<close>.\<close>

definition restricts :: "('a \<Rightarrow> bool) \<Rightarrow> ('s, 'a) act \<Rightarrow> ('s, 'a) act \<Rightarrow> bool" where
  "restricts d m m' \<longleftrightarrow> (\<forall>A. case m' A of (x, B) \<Rightarrow>
     (case x of Ok y \<Rightarrow> if d y then m A = (Ok y, B) else fst (m A) = Ub | Throw e \<Rightarrow> m A = (Throw e, B) | Ub \<Rightarrow> fst (m A) = Ub))"

lemma restricts_bind:
  assumes "\<And>x. restricts d (f x) (g x)"
  shows "restricts d (bind m f) (bind m g)"
  unfolding restricts_def
proof
  fix A
  obtain x B where m: "m A = (x, B)" by fastforce
  show "case bind m g A of (x, B) \<Rightarrow>
     (case x of Ok y \<Rightarrow> if d y then bind m f A = (Ok y, B) else fst (bind m f A) = Ub
      | Throw e \<Rightarrow> bind m f A = (Throw e, B) | Ub \<Rightarrow> fst (bind m f A) = Ub)"
  proof (cases x)
    case (Ok y)
    with m have "bind m f A = f y B" "bind m g A = g y B" by (simp_all add: bind_def)
    with assms [of y, unfolded restricts_def, rule_format, of B] show ?thesis by (simp only:)
  qed (simp_all add: bind_def m)
qed

lemma restricts_scoped:
  assumes "restricts d m m'"
  shows "restricts d (scoped m e) (scoped m' e)"
  unfolding restricts_def
proof
  fix A
  obtain x B where m': "m' A = (x, B)" by fastforce
  obtain z C where e: "e B = (z, C)" by fastforce
  obtain x' B' where m: "m A = (x', B')" by fastforce
  from assms m' m e show "case scoped m' e A of (x, B) \<Rightarrow>
     (case x of Ok y \<Rightarrow> if d y then scoped m e A = (Ok y, B) else fst (scoped m e A) = Ub
      | Throw e' \<Rightarrow> scoped m e A = (Throw e', B) | Ub \<Rightarrow> fst (scoped m e A) = Ub)"
    unfolding restricts_def by (cases x; cases z) (auto simp: scoped_def dest!: spec [of _ A] split: if_splits)
qed

lemma client_restricts:
  "restricts (\<lambda>y. case y of Some now \<Rightarrow> dates now | None \<Rightarrow> True)
     (reqrep_client nng dates cmd url) (reqrep_client nng (\<lambda>_. True) cmd url)"
proof -
  have "restricts (\<lambda>y. case y of Some now \<Rightarrow> dates now | None \<Rightarrow> True)
      (\<lambda>A. (reqrep_shown dates (st_mem (wrld A)) buf, A)) (\<lambda>A. (reqrep_shown (\<lambda>_. True) (st_mem (wrld A)) buf, A))" for buf
    by (auto simp: restricts_def reqrep_shown_def showdate_def split: result.split option.split)
  then show ?thesis
    unfolding reqrep_client_def with_socket_def in_scope_def by (intro restricts_bind restricts_scoped)
qed

text \<open>The shape of a server between its turns: an open socket.\<close>

definition one_socket :: shape where
  "one_socket = put (\<lambda>_. Map.empty) K_sock 0 (Some True)"

lemma leads_reqrep_server:
  assumes "lawful nng" "\<forall>s. dates (clock s)"
  shows "may_lead (\<lambda>_. Map.empty) (reqrep_server nng dates clock url) never ((=) (\<lambda>_. Map.empty)) ((=) one_socket)"
proof -
  have "quiet (socket_view_listen nng k url 0)" for k
    unfolding socket_view_listen_def by (rule quiet_calls [OF assms(1)]) (simp add: class_fns_def handle_fns_def)
  then show ?thesis
    unfolding reqrep_server_def one_socket_def
    by (intro may_lead_socket [OF assms(1) _ rep0_open_def] may_lead_calm calm_world(1) may_lead_forever
        calm_turn [where dates = dates and clock = clock, OF assms]) (simp_all add: sock_opens_def)
qed

text \<open>What that says of the handles: the one of the socket is out, and no other.\<close>

definition only_socket :: "'w st \<Rightarrow> 'w prog \<Rightarrow> bool" where
  "only_socket s A \<longleftrightarrow>
     (\<exists>h. h \<noteq> 0 \<and> A = (program_start (wrld A))\<lparr>o_sock := [0 \<mapsto> h], written := written A\<rparr>) \<and>
     (\<forall>k. proper (events (class_ev k) (new_calls s (wrld A))) {#} \<and>
          live (events (class_ev k) (new_calls s (wrld A))) {#} = owned (refs k A))"

lemma ends_one_socket:
  assumes "ends ((=) one_socket) (program_start s) A"
  shows "only_socket s A"
proof -
  have sh: "shape A k i = (if k = K_sock \<and> i = 0 then Some True else None)" for k i
    using assms by (auto simp: ends_def one_socket_def put_def eq_commute [of _ "shape A"])
  have b: "books_kept (program_start s) A" using assms by (simp add: ends_def)
  have r: "refs k A = Map.empty" if "k \<noteq> K_sock" for k
    using sh [of k] that by (auto simp: shape_def fun_eq_iff)
  have at: "map_option (\<lambda>h. h \<noteq> 0) (o_sock A i) = (if i = 0 then Some True else None)" for i
    using sh [of K_sock i] by (auto simp: shape_def option.map_comp comp_def ucast_id_null)
  then obtain h where h: "o_sock A 0 = Some h" "h \<noteq> 0" using at [of 0] by (cases "o_sock A 0") auto
  have "o_sock A = [0 \<mapsto> h]"
  proof
    fix i show "o_sock A i = [0 \<mapsto> h] i" using at [of i] h by (cases "i = 0") auto
  qed
  moreover have "o_buf A = Map.empty" "o_ctx A = Map.empty" using r [of K_buf] r [of K_ctx] by (auto simp: fun_eq_iff)
  ultimately have "A = (program_start (wrld A))\<lparr>o_sock := [0 \<mapsto> h], written := written A\<rparr>"
    using r [of K_url] r [of K_client] r [of K_aio] r [of K_req] r [of K_res] r [of K_msg] r [of K_server]
      r [of K_handler] r [of K_thread]
    by (intro prog.equality) (simp_all add: program_start_def)
  with h(2) books_from_start [OF b, of s] start_refs [of _ s] show ?thesis
    unfolding only_socket_def by (auto simp: program_start_def simp del: refs.simps)
qed

section \<open>Properties\<close>

text \<open>C20: The program of the demo, whichever way it is called, when the clock shows times that have a text. Called with neither
  \<open>client\<close> nor \<open>server\<close> it returns 1; when the URL is missing it is undefined. As a client it returns 0 when the client
  does, for a reply of any size, and 1 exactly when nng reports an error, and then has given back its socket and the memory of every buffer; it is
  undefined exactly when the number it received is a time without a text, which \<open>showdate\<close> cannot print. As a server it goes on
  for ever, its socket being all there is whenever a turn starts, or it returns 1 after an exception, and has given back everything.\<close>

theorem reqrep_main_settles:
  assumes "lawful nng" "\<forall>s. dates (clock s)"
  shows "let r = reqrep_main nng dates clock cmd argv (program_start s) in
    if length argv \<le> 1 \<or> argv ! 1 \<notin> {''client'', ''server''} then r = Ends (Ok 1) (program_start s)
    else if length argv = 2 then r = Ends Ub (program_start s)
    else if argv ! 1 = ''client'' then
      (case reqrep_client nng (\<lambda>_. True) cmd (argv ! 2) (program_start s) of (x, A) \<Rightarrow>
        settled s A \<and>
        (case x of
           Ok None \<Rightarrow> r = Ends (Ok 0) A
         | Ok (Some now) \<Rightarrow> if dates now then r = Ends (Ok 0) A else (\<exists>B. r = Ends Ub B)
         | Throw _ \<Rightarrow> r = Ends (Ok 1) A
         | Ub \<Rightarrow> False))
    else
      (case reqrep_server nng dates clock (argv ! 2) (program_start s) of
         Goes_on S \<Rightarrow> r = Goes_on S \<and> (\<forall>n. only_socket s (S n))
       | Ends x A \<Rightarrow> (\<exists>e. x = Throw e) \<and> r = Ends (Ok 1) A \<and> settled s A)"
proof -
  let ?A = "program_start s"
  have client: "gives (reqrep_client nng (\<lambda>_. True) cmd url) ?A (\<lambda>_. settled s) (\<lambda>_. settled s)" for url
    using calm_reqrep_client [OF assms(1), of cmd url] start_shape unfolding leads_def
    by (blast intro: gives_mono ends_settled)
  have server: "may (reqrep_server nng dates clock url) ?A (\<lambda>_ _. False) (\<lambda>_. settled s) (only_socket s)" for url
    using leads_reqrep_server [where dates = dates and clock = clock, OF assms, of url] start_shape unfolding may_lead_def ends_never
    by (blast intro: may_mono ends_settled ends_one_socket)
  consider "length argv \<le> 1 \<or> argv ! 1 \<notin> {''client'', ''server''}" | "\<not> length argv \<le> 1" "argv ! 1 \<in> {''client'', ''server''}" "length argv = 2"
    | "2 < length argv" "argv ! 1 = ''client''" | "2 < length argv" "argv ! 1 = ''server''" by fastforce
  then show ?thesis
  proof cases
    case 3
    obtain x A where c: "reqrep_client nng (\<lambda>_. True) cmd (argv ! 2) ?A = (x, A)" by fastforce
    with client [of "argv ! 2"] have x: "x \<noteq> Ub" "settled s A" by (auto simp: gives_def split: result.splits)
    obtain y B where d: "reqrep_client nng dates cmd (argv ! 2) ?A = (y, B)" by fastforce
    have "if \<exists>now. x = Ok (Some now) \<and> \<not> dates now then y = Ub else (y, B) = (x, A)"
      using client_restricts [of dates nng cmd "argv ! 2", unfolded restricts_def, rule_format, of ?A] c d x(1)
      by (auto split: result.splits option.splits if_splits)
    with 3 c d x show ?thesis
      by (auto simp: reqrep_main_def run_caught_def sure_def bind_def ret_def split: result.splits option.splits if_splits)
  next
    case 4
    then show ?thesis using server [of "argv ! 2"]
      by (auto simp: reqrep_main_def run_caught_def run_bind_def sure_def ret_def may_def split: course.splits result.splits)
  qed (auto simp: reqrep_main_def run_caught_def sure_def ret_def)
qed

theorem reqrep_main_settles_witness:
  "case reqrep_main web_nng (\<lambda>n. n < 2 ^ 32) (\<lambda>_. 99) 32 [''reqrep'', ''server'', ''inproc://x''] (program_start (start ())) of
     Goes_on S \<Rightarrow> only_socket (start ()) (S 7) | Ends x A \<Rightarrow> x = Ok 1 \<and> settled (start ()) A"
  using reqrep_main_settles [OF web_nng_lawful, where clock = "\<lambda>_. 99" and cmd = 32 and s = "start ()"
      and dates = "\<lambda>n. n < 2 ^ 32" and argv = "[''reqrep'', ''server'', ''inproc://x'']"]
  by (cases "reqrep_server web_nng (\<lambda>n. n < 2 ^ 32) (\<lambda>_. 99) ''inproc://x'' (program_start (start ()))") auto

end
