(* ===== verification/Rest_Main.thy ===== *)
theory Rest_Main
  imports Reqrep Perf
begin

text \<open>
  The rest of \<open>demo/rest/server.cpp\<close>: \<open>inproc_server\<close>, the thread that answers with ROT13, around the
  turns of \<open>Demos\<close>; and \<open>main\<close>, which starts that thread and the gateway. Leaving \<open>main\<close> destroys
  the thread object, and so waits for the thread.
\<close>

section \<open>The programs\<close>

definition rot13_server :: "'w nng \<Rightarrow> ('w prog, unit flow) run" where
  "rot13_server nng =
     run_socket nng (rep0_open nng) (\<lambda>k.
       run_bind (sure (by_world (socket_view_listen nng k ''inproc://rot13'' 0))) (\<lambda>_.
       forever (on o_msg o_msg_update (rot13_turn nng k))))"

definition inproc_server :: "'w nng \<Rightarrow> ('w prog, unit flow) run" where
  "inproc_server nng = run_caught (rot13_server nng) (\<lambda>_. sure (ret (Exits 1)))"

text \<open>
  \<open>~thread\<close>, for the object at address 0: \<open>nng_thread_destroy\<close> waits for the function of the
  thread to return; \<open>joins\<close> says in which states of the library it does not wait for ever.
\<close>

definition join_thread :: "'w nng \<Rightarrow> ('w \<Rightarrow> bool) \<Rightarrow> ('w prog, ptr option) run" where
  "join_thread nng joins =
     (\<lambda>A. if o_thread A 0 \<noteq> None \<and> o_thread A 0 \<noteq> Some 0 \<and> \<not> joins (st_lib (wrld A)) then Goes_on (\<lambda>_. A)
          else sure (on_thread nng (Dtor 0)) A)"

definition with_thread ::
  "'w nng \<Rightarrow> ('w \<Rightarrow> bool) \<Rightarrow> ptr \<Rightarrow> ptr \<Rightarrow> ('w prog, 'a) run \<Rightarrow> ('w prog, 'a) run" where
  "with_thread nng joins f arg m =
     run_bind (sure (on_thread nng (Acquire 0 (Thread_create f arg)))) (\<lambda>_. run_scoped m (join_thread nng joins))"

text \<open>The port: \<open>getenv("PORT")\<close> as a number, cut to 16 bits, or 8888.\<close>

definition rest_port :: "string option \<Rightarrow> ('s, 16 word) act" where
  "rest_port env =
     (case env of
        None \<Rightarrow> ret 8888
      | Some t \<Rightarrow>
          (case atoi t of
             None \<Rightarrow> (\<lambda>A. (Ub, A))
           | Some n \<Rightarrow> ret (if (ucast n :: 16 word) = 0 then 8888 else ucast n)))"

text \<open>
  \<open>main\<close>: the object \<open>server\<close> has address 1, the result of \<open>rest_start\<close> that is moved into it
  address 0; \<open>thr\<close> is the address of \<open>inproc_server\<close>.
\<close>

definition rest_gateway ::
  "'w nng \<Rightarrow> (mem \<Rightarrow> ptr \<Rightarrow> string) \<Rightarrow> ptr \<Rightarrow> string option \<Rightarrow> ('w prog, i32) act" where
  "rest_gateway nng u_path cb env =
     bind (rest_port env) (\<lambda>port.
     bind (in_scope (rest_start nng u_path cb port) (on_server nng (Dtor 0)) (on_server nng (Move_assign 1 0)))
       (\<lambda>_. ret 0))"

definition rest_main ::
  "'w nng \<Rightarrow> (mem \<Rightarrow> ptr \<Rightarrow> string) \<Rightarrow> ptr \<Rightarrow> ptr \<Rightarrow> ('w \<Rightarrow> bool) \<Rightarrow> string option \<Rightarrow> ('w prog, i32) run" where
  "rest_main nng u_path cb thr joins env =
     run_caught
       (run_bind (sure (on_server nng (Default 1))) (\<lambda>_.
        run_scoped
          (with_thread nng joins thr null
             (sure (rest_gateway nng u_path cb env)))
          (sure (on_server nng (Dtor 1)))))
       (\<lambda>_. sure (ret 1))"

section \<open>The ROT13 server\<close>

text \<open>The bodies of the messages are ASCII, and can be read where \<open>nng_msg_body\<close> says they are.\<close>

definition plain_bodies :: "'w nng \<Rightarrow> bool" where
  "plain_bodies nng \<longleftrightarrow>
     (\<forall>m s. case msg_body_data nng m s of (d, s1) \<Rightarrow> (case msg_body_size nng m s1 of (n, s2) \<Rightarrow>
        \<exists>bs. read_bytes (st_mem s2) d (unat n) = Some bs \<and> (\<forall>b\<in>set bs. b < 128)))"

lemma rot13_plain: "\<forall>b\<in>set bs. b < 128 \<Longrightarrow> rot13_bytes bs \<noteq> None"
proof -
  assume a: "\<forall>b\<in>set bs. b < 128"
  have "those (map rot13_byte xs) \<noteq> None" if "\<forall>b\<in>set xs. b < 128" for xs
    using that by (induction xs) (auto simp: rot13_byte_def)
  moreover have "set (take n bs) \<subseteq> set bs" for n by (rule set_take_subset)
  ultimately have "those (map rot13_byte (take n bs)) \<noteq> None" for n using a by blast
  then show ?thesis by (simp add: rot13_bytes_def Let_def)
qed

text \<open>A turn, as a statement of the program.\<close>

definition transform :: "'w nng \<Rightarrow> i32 \<Rightarrow> ptr \<Rightarrow> ('w prog, unit) act" where
  "transform nng k m =
     (\<lambda>A. case msg_body_data nng m (wrld A) of (d, s1) \<Rightarrow> (case msg_body_size nng m s1 of (n, s2) \<Rightarrow>
        (case Option.bind (read_bytes (st_mem s2) d (unat n)) rot13_bytes of
           None \<Rightarrow> (Ub, A)
         | Some ys \<Rightarrow>
             bind (to_world (put_bytes d ys)) (\<lambda>_. on o_msg o_msg_update (socket_view_send_msg nng k 0 0)) (A\<lparr>wrld := s2\<rparr>))))"

lemma rot13_statement:
  "gives (on o_msg o_msg_update (rot13_turn nng k)) A P E =
    gives (bind (on o_msg o_msg_update (m_acquire 0 (socket_view_recv_msg nng k 0))) (\<lambda>_.
      scoped (bind (held_by o_msg 0) (transform nng k)) (on_msg nng (Dtor 0)))) A P E"
proof -
  obtain x s where r: "socket_view_recv_msg nng k 0 (wrld A) = (x, s)" by fastforce
  show ?thesis
  proof (cases x)
    case (Ok m)
    let ?S = "(o_msg A)(0 \<mapsto> m)"
    let ?B = "A\<lparr>o_msg := ?S, wrld := s\<rparr>"
    obtain d s1 n s2 where body: "msg_body_data nng m s = (d, s1)" "msg_body_size nng m s1 = (n, s2)" by fastforce
    have "gives (on o_msg o_msg_update (rot13_turn nng k)) A P E = gives (scoped (transform nng k m) (on_msg nng (Dtor 0))) ?B P E"
    proof (cases "Option.bind (read_bytes (st_mem s2) d (unat n)) rot13_bytes")
      case None
      with r Ok body show ?thesis by (simp add: gives_def on_def rot13_turn_def transform_def scoped_def)
    next
      case (Some ys)
      obtain y S3 s3 where send: "socket_view_send_msg nng k 0 0 (?S, put_bytes d ys s2) = (y, S3, s3)" by (metis prod_cases3)
      then have "S3 0 \<noteq> None" by (auto simp: socket_view_send_msg_def m_release_def split: prod.splits if_splits)
      then obtain s4 where "msg_exec nng (Dtor 0) (S3, s3) = (Ok None, S3(0 := None), s4)" by (auto simp: m_dtor_def)
      with send r Ok body Some show ?thesis
        by (cases y) (simp_all add: gives_def on_def rot13_turn_def transform_def scoped_def bind_def to_world_def by_world_def
            put_bytes_def del: msg_exec.simps)
    qed
    moreover have "on o_msg o_msg_update (m_acquire 0 (socket_view_recv_msg nng k 0)) A = (Ok None, ?B)"
      using r Ok by (simp add: on_def m_acquire_def)
    moreover have "held_by o_msg 0 ?B = (Ok m, ?B)" by (simp add: held_by_def)
    ultimately show ?thesis by (simp add: gives_simps del: msg_exec.simps) (simp add: gives_def scoped_def)
  qed (use r in \<open>auto simp: gives_def on_def rot13_turn_def bind_def m_acquire_def\<close>)
qed

lemma slack_transform:
  assumes "lawful nng" "plain_bodies nng" "D K_msg 0 = Some True"
  shows "slack K_msg 0 D (bind (held_by o_msg 0) (transform nng k))"
proof (rule slack_after(2))
  fix m
  show "slack K_msg 0 D (transform nng k m)"
    unfolding slack_def leads_def
  proof (intro allI impI)
    fix A :: "'a prog" assume A: "shape A = D" "tidy A"
    obtain d s1 n s2 where body: "msg_body_data nng m (wrld A) = (d, s1)" "msg_body_size nng m s1 = (n, s2)" by fastforce
    obtain bs where "read_bytes (st_mem s2) d (unat n) = Some bs" "\<forall>b\<in>set bs. b < 128"
      using assms(2) [unfolded plain_bodies_def, THEN spec, THEN spec, of m "wrld A"] body by auto
    then obtain ys where ys: "Option.bind (read_bytes (st_mem s2) d (unat n)) rot13_bytes = Some ys"
      using rot13_plain [of bs] by auto
    have "calm D (from_world (msg_body_data nng m))" "calm D (from_world (msg_body_size nng m))"
      unfolding msg_body_data_def msg_body_size_def
      by (intro calm_world quiet_calls [OF assms(1)]; simp add: class_fns_def handle_fns_def)+
    then have "calm D (bind (from_world (msg_body_data nng m)) (\<lambda>_. from_world (msg_body_size nng m)))" by (rule calm_bind)
    then have "gives (bind (from_world (msg_body_data nng m)) (\<lambda>_. from_world (msg_body_size nng m))) A
        (\<lambda>_. ends ((=) D) A) (\<lambda>_. ends ((=) D) A)"
      using A unfolding leads_def by blast
    with body have read: "ends ((=) D) A (A\<lparr>wrld := s2\<rparr>)"
      by (simp add: gives_def bind_def from_world_def by_world_def)
    let ?P = "\<lambda>D'. \<exists>b. D' = put D K_msg 0 (Some b)"
    have same: "?P D" using assms(3) by (metis put_simps(3))
    have store: "leads D (to_world (put_bytes d ys)) ((=) D) ?P"
      by (rule leads_mono [OF calm_put_bytes], assumption) (erule subst, rule same)
    have send: "leads D (on o_msg o_msg_update (socket_view_send_msg nng k 0 0)) ?P ?P"
      using slack_send [of nng D 0, OF assms(1,3)] unfolding slack_def .
    have "leads D (bind (to_world (put_bytes d ys)) (\<lambda>_. on o_msg o_msg_update (socket_view_send_msg nng k 0 0))) ?P ?P"
      by (rule leads_bind [OF store]) (erule subst, rule send)
    then have "gives (bind (to_world (put_bytes d ys)) (\<lambda>_. on o_msg o_msg_update (socket_view_send_msg nng k 0 0)))
        (A\<lparr>wrld := s2\<rparr>) (\<lambda>_. ends ?P A) (\<lambda>_. ends ?P A)"
      by (rule gives_then [OF read])
    with body ys show "gives (transform nng k m) A (\<lambda>_. ends ?P A) (\<lambda>_. ends ?P A)"
      by (simp add: gives_def transform_def)
  qed
qed (use assms(3) in simp)

lemma calm_rot13:
  assumes "lawful nng" "plain_bodies nng" "D K_msg 0 = None"
  shows "calm D (on o_msg o_msg_update (rot13_turn nng k))"
proof -
  have "calm D (in_scope (on o_msg o_msg_update (m_acquire 0 (socket_view_recv_msg nng k 0))) (on_msg nng (Dtor 0))
      (bind (held_by o_msg 0) (transform nng k)))"
    using slack_transform [OF assms(1,2), of "put D K_msg 0 (Some True)" k] assms(1,3) by (intro scopes(7)) simp_all
  then show ?thesis unfolding leads_def rot13_statement in_scope_def by simp
qed

lemma leads_rot13_server:
  assumes "lawful nng" "plain_bodies nng"
  shows "may_lead (\<lambda>_. Map.empty) (rot13_server nng) never ((=) (\<lambda>_. Map.empty)) ((=) one_socket)"
proof -
  have "quiet (socket_view_listen nng k url 0)" for k url
    unfolding socket_view_listen_def by (rule quiet_calls [OF assms(1)]) (simp add: class_fns_def handle_fns_def)
  then have listen: "calm D (by_world (socket_view_listen nng k url 0))" for D k url by (rule calm_world(1))
  let ?D = "put (\<lambda>_. Map.empty) K_sock 0 (Some True)"
  have loop: "may_lead ?D (run_bind (sure (by_world (socket_view_listen nng k ''inproc://rot13'' 0))) (\<lambda>_.
      forever (on o_msg o_msg_update (rot13_turn nng k)) :: ('a prog, unit flow) run)) never ((=) ?D) ((=) one_socket)" for k
    by (rule may_lead_calm [OF listen], rule refl, rule may_lead_forever, rule calm_rot13 [OF assms]) (simp_all add: one_socket_def)
  show ?thesis
    unfolding rot13_server_def by (rule may_lead_socket [OF assms(1) _ rep0_open_def _ loop]) (simp_all add: sock_opens_def)
qed

lemma leads_inproc_server:
  assumes "lawful nng" "plain_bodies nng"
  shows "may_lead (\<lambda>_. Map.empty) (inproc_server nng) ((=) (\<lambda>_. Map.empty)) never ((=) one_socket)"
proof -
  have "may_lead (\<lambda>_. Map.empty) (rot13_server nng) ((=) (\<lambda>_. Map.empty)) ((=) (\<lambda>_. Map.empty)) ((=) one_socket)"
    by (rule may_lead_mono [OF leads_rot13_server [OF assms]]) simp_all
  then show ?thesis
    unfolding inproc_server_def by (rule may_lead_caught) (intro may_lead_sure leads_ret, assumption)
qed

text \<open>It does not return.\<close>

lemma forever_no_value: "forever m A \<noteq> Ends (Ok x) B"
  by (auto simp: forever_def split: option.splits prod.splits result.splits)

lemma inproc_result: "inproc_server nng A = Ends (Ok x) B \<Longrightarrow> x = Exits 1"
  by (auto simp: forever_no_value inproc_server_def rot13_server_def run_caught_def run_socket_def run_bind_def run_scoped_def sure_def ret_def
      split: course.splits prod.splits result.splits if_splits)

section \<open>Starting the gateway in \<open>main\<close>\<close>

lemma join_waits:
  assumes "shape A K_thread 0 = Some True" "\<not> joins (st_lib (wrld A))"
  shows "join_thread nng joins A = Goes_on (\<lambda>_. A)"
  using assms by (auto simp: join_thread_def shape_def)

lemma port_calm: "(case env of None \<Rightarrow> True | Some t \<Rightarrow> atoi t \<noteq> None) \<Longrightarrow> calm D (rest_port env)"
  unfolding rest_port_def by (cases env) (auto split: option.splits)

lemma gateway_leads:
  assumes "lawful nng" "case env of None \<Rightarrow> True | Some t \<Rightarrow> atoi t \<noteq> None"
    and "D K_url 0 = None" "D K_sock 1 = Some False" "D K_sock 2 = None" "D K_server 0 = None" "D K_server 1 = Some False"
      "D K_handler 0 = None" "D K_thread 0 = Some True"
  shows "leads D (rest_gateway nng u_path cb env) (\<lambda>D'. D' K_thread 0 = Some True) (\<lambda>D'. D' K_thread 0 = Some True)"
proof -
  let ?P = "\<lambda>D'. D' K_thread 0 = Some True"
  define D1 where "D1 = put (put D K_sock 1 (Some True)) K_server 0 (Some True)"
  define D2 where "D2 = put (put D1 K_server 1 (Some True)) K_server 0 (Some False)"
  have port: "leads D (rest_port env) ((=) D) ?P"
    using assms(9) by (intro leads_mono [OF port_calm [OF assms(2)]]) auto
  have up: "leads D (rest_start nng u_path cb p) ((=) D1) ?P" for p
    using assms unfolding D1_def by (intro leads_mono [OF rest_start_leads]) auto
  have "leads D1 (on_server nng (Move_assign 1 0)) ((=) D2) never"
    unfolding http_server_exec.simps D2_def using assms(7)
    by (intro server_class.move_into_null) (auto simp: m_move_assign_def D1_def)
  moreover have "leads D2 (on_server nng (Dtor 0)) ((=) (put D2 K_server 0 None)) never"
    unfolding http_server_exec.simps by (intro server_class.destroy returns_taker assms(1)) (auto simp: taker_def D2_def)
  then have "leads D2 (on_server nng (Dtor 0)) ?P never"
    using assms(9) by (elim leads_mono) (auto simp: D2_def D1_def)
  ultimately have "leads D1 (scoped (on_server nng (Move_assign 1 0)) (on_server nng (Dtor 0))) ?P ?P"
    by (intro leads_scoped [where P = "(=) D2" and E = never]) auto
  then have "leads D (in_scope (rest_start nng u_path cb p) (on_server nng (Dtor 0)) (on_server nng (Move_assign 1 0))) ?P ?P" for p
    unfolding in_scope_def by (intro leads_seq [OF up])
  then have "leads D (bind (in_scope (rest_start nng u_path cb p) (on_server nng (Dtor 0)) (on_server nng (Move_assign 1 0)))
      (\<lambda>_. ret 0)) ?P ?P" for p
    by (rule leads_bind) (rule leads_ret)
  then show ?thesis unfolding rest_gateway_def by (intro leads_seq [OF port])
qed

text \<open>The objects of \<open>main\<close> once the thread runs.\<close>

definition main_objects :: shape where
  "main_objects = put (put (put (\<lambda>_. Map.empty) K_sock req_sock (Some False)) K_server 1 (Some False)) K_thread 0 (Some True)"

lemma thread_created:
  fixes A :: "'w prog"
  assumes "get_w64 nng ''nng_thread_create'' [VW thr, VW null] (wrld A) = ((r, t), s1)" "o_thread A = Map.empty"
  shows "on_thread nng (Acquire 0 (Thread_create thr null)) A =
    (if r = 0 then (Ok None, A\<lparr>o_thread := [0 \<mapsto> t], wrld := s1\<rparr>)
     else (Throw (exception r ''nng_thread_create''), A\<lparr>wrld := s1\<rparr>))"
  using assms by (simp add: on_def m_acquire_def check_out_def)

lemma main_started:
  fixes A :: "'w prog"
  assumes "lawful nng" "get_w64 nng ''nng_thread_create'' [VW thr, VW null] s = ((0, t), s1)"
    and "A = (program_start s)\<lparr>o_sock := [req_sock \<mapsto> 0]\<rparr>"
  shows "ends ((=) main_objects) A (A\<lparr>o_server := [1 \<mapsto> 0], o_thread := [0 \<mapsto> t], wrld := s1\<rparr>)"
proof -
  define D0 where "D0 = put (\<lambda>_. Map.empty) K_sock req_sock (Some False)"
  define D1 where "D1 = put D0 K_server 1 (Some False)"
  let ?B = "A\<lparr>o_server := [1 \<mapsto> 0]\<rparr>"
  have "leads D0 (on_server nng (Default 1)) ((=) D1) never"
    unfolding http_server_exec.simps D1_def by (rule server_class.construct_null) (simp add: D0_def)
  moreover have "on_server nng (Default 1) A = (Ok None, ?B)"
    by (simp add: assms(3) on_def m_default_def program_start_def)
  ultimately have "ends ((=) D1) A ?B"
    using globals_start(1,2) [of s] assms(3) unfolding leads_def D0_def by (auto simp: gives_def dest!: spec [of _ A])
  moreover have "leads D1 (on_thread nng (Acquire 0 (Thread_create thr null))) ((=) main_objects) ((=) D1)"
    unfolding thread_exec.simps main_objects_def D1_def D0_def
    by (rule thread_class.acquire, rule obtains_giver [OF assms(1)]) (simp_all add: giver_def)
  ultimately have "gives (on_thread nng (Acquire 0 (Thread_create thr null))) ?B
      (\<lambda>_. ends ((=) main_objects) A) (\<lambda>_. ends ((=) D1) A)"
    by (rule gives_then)
  then show ?thesis
    using thread_created [of nng thr ?B 0 t s1] assms(2,3) by (simp add: gives_def program_start_def)
qed

section \<open>Properties\<close>

text \<open>C24: The ROT13 server never returns; it runs, its socket being all there is whenever it waits for the next
  message, or it exits with 1 after an error of nng, and then it has closed
  its socket and freed every message. With requests in ASCII it is never undefined.\<close>

theorem inproc_server_settles:
  assumes "lawful nng" "plain_bodies nng"
  shows "case inproc_server nng (program_start s) of
      Goes_on S \<Rightarrow> \<forall>n. only_socket s (S n)
    | Ends x A \<Rightarrow> x = Ok (Exits 1) \<and> settled s A"
proof -
  have "may (inproc_server nng) (program_start s) (\<lambda>_. ends ((=) (\<lambda>_. Map.empty)) (program_start s)) (\<lambda>_ _. False)
      (ends ((=) one_socket) (program_start s))"
    using leads_inproc_server [OF assms] start_shape unfolding may_lead_def ends_never by blast
  then show ?thesis
    using inproc_result [of nng "program_start s"]
    by (auto simp: may_def intro: ends_settled ends_one_socket split: course.splits result.splits)
qed

lemma web_nng_plain: "plain_bodies web_nng"
  by (simp add: plain_bodies_def msg_body_data_def msg_body_size_def call_simps invoke_def web_nng_simps read_bytes_def)

theorem inproc_server_settles_witness:
  "case inproc_server web_nng (program_start (start ())) of
     Goes_on S \<Rightarrow> \<forall>n. only_socket (start ()) (S n) | Ends x A \<Rightarrow> x = Ok (Exits 1) \<and> settled (start ()) A"
  by (rule inproc_server_settles [OF web_nng_lawful web_nng_plain])

text \<open>C22: \<open>main\<close>, when the variable \<open>PORT\<close> is not set or holds a number that fits an \<open>int\<close>, returns only when the
  thread cannot be created, with 1 and nothing done. Once there is the
  thread it does not return, whatever starting the gateway leads to, an exception included: it waits, in the state in
  which the gateway was started or failed to start, in the destructor of the
  thread object for \<open>inproc_server\<close>, which does not return. So that the gateway runs at all
  rests on this wait, and an error of \<open>rest_start\<close> is never reported.\<close>

theorem rest_main_never_returns:
  assumes "lawful nng" "case env of None \<Rightarrow> True | Some t \<Rightarrow> atoi t \<noteq> None"
    and "\<forall>w. joins w \<longrightarrow> (\<exists>A B. inproc_server nng A = Ends (Ok (On ())) B)"
    and "get_w64 nng ''nng_thread_create'' [VW thr, VW null] s = ((r, t), s1)"
  shows "let A = (program_start s)\<lparr>o_sock := [req_sock \<mapsto> 0]\<rparr> in
    if r = 0 then (case rest_gateway nng u_path cb env (A\<lparr>o_server := [1 \<mapsto> 0], o_thread := [0 \<mapsto> t], wrld := s1\<rparr>) of
        (x, C) \<Rightarrow> x \<noteq> Ub \<and> rest_main nng u_path cb thr joins env A = Goes_on (\<lambda>_. C))
    else rest_main nng u_path cb thr joins env A = Ends (Ok 1) (A\<lparr>wrld := s1\<rparr>)"
proof -
  let ?A = "(program_start s)\<lparr>o_sock := [req_sock \<mapsto> 0]\<rparr>"
  let ?body = "rest_gateway nng u_path cb env"
  let ?B = "?A\<lparr>o_server := [1 \<mapsto> 0]\<rparr>"
  have default: "on_server nng (Default 1) ?A = (Ok None, ?B)"
    by (simp add: on_def m_default_def program_start_def)
  have create: "on_thread nng (Acquire 0 (Thread_create thr null)) ?B =
      (if r = 0 then (Ok None, ?B\<lparr>o_thread := [0 \<mapsto> t], wrld := s1\<rparr>)
       else (Throw (exception r ''nng_thread_create''), ?B\<lparr>wrld := s1\<rparr>))"
    using assms(4) by (intro thread_created) (simp_all add: program_start_def)
  show ?thesis
  proof (cases "r = 0")
    case False
    with default create show ?thesis
      by (simp add: rest_main_def with_thread_def run_caught_def run_bind_def run_scoped_def sure_def ret_def
          on_def m_dtor_def program_start_def del: fun_upd_apply) (auto simp: program_start_def)
  next
    case True
    have "gives ?body (?B\<lparr>o_thread := [0 \<mapsto> t], wrld := s1\<rparr>)
        (\<lambda>_. ends (\<lambda>D'. D' K_thread 0 = Some True) ?A) (\<lambda>_. ends (\<lambda>D'. D' K_thread 0 = Some True) ?A)"
      using main_started [OF assms(1) assms(4) [unfolded True] refl]
      by (rule gives_then) (rule gateway_leads [OF assms(1,2)], simp_all add: main_objects_def)
    moreover have "\<not> joins w" for w using assms(3) inproc_result by fastforce
    moreover obtain x C where body: "?body (?B\<lparr>o_thread := [0 \<mapsto> t], wrld := s1\<rparr>) = (x, C)" by fastforce
    ultimately have "x \<noteq> Ub" "join_thread nng joins C = Goes_on (\<lambda>_. C)"
      by (auto simp: gives_def ends_def join_waits split: result.splits)
    with default create True body show ?thesis
      by (simp add: rest_main_def with_thread_def run_caught_def run_bind_def run_scoped_def sure_def del: http_server_exec.simps thread_exec.simps)
  qed
qed

theorem rest_main_never_returns_witness:
  "\<exists>C. rest_main web_nng (\<lambda>_ _. ''/api'') 99 7 (\<lambda>_. False) (Some ''5'') ((program_start (start ()))\<lparr>o_sock := [req_sock \<mapsto> 0]\<rparr>) = Goes_on (\<lambda>_. C)"
proof -
  obtain s1 where "get_w64 web_nng ''nng_thread_create'' [VW 7, VW null] (start ()) = ((0, 7), s1)"
    by (simp add: call_simps invoke_def web_nng_simps)
  from rest_main_never_returns [OF web_nng_lawful _ _ this, where env = "Some ''5''" and joins = "\<lambda>_. False" and cb = 99
      and u_path = "\<lambda>_ _. ''/api''"] five(2)
  show ?thesis by (simp add: Let_def split: prod.splits) blast
qed

end
