(* ===== verification/Mains.thy ===== *)
theory Mains
  imports Rest_Main Servers
begin

text \<open>
  The \<open>main\<close> functions that are left: those of the timer servers (\<open>demo/async/server.cpp\<close>,
  \<open>demo/raw/raw.cpp\<close>), which go to sleep for ever once their items run, and those of
  \<open>perf/inproc_lat.cpp\<close> and \<open>perf/inproc_thr.cpp\<close>, which run one side of a measurement in a thread.
  The callbacks of the items and the other side run next to them; what they do is in \<open>Servers\<close> and \<open>Perf\<close>.
\<close>

section \<open>The timer servers\<close>

text \<open>\<open>server_cb\<close> for each item, in order, from the next one on.\<close>

primrec start_items ::
  "(nat \<Rightarrow> 'w fleet \<Rightarrow> unit callback \<times> 'w fleet) \<Rightarrow> nat \<Rightarrow> 'w fleet \<Rightarrow> unit callback \<times> 'w fleet" where
  "start_items step 0 F = (Next (), F)"
| "start_items step (Suc r) F =
     (case step (fl_next F) F of
        (Next _, F') \<Rightarrow> start_items step r (F'\<lparr>fl_next := Suc (fl_next F)\<rparr>)
      | (x, F') \<Rightarrow> (x, F'))"

definition serving ::
  "'w nng \<Rightarrow> (nat \<Rightarrow> 'w fleet \<Rightarrow> unit callback \<times> 'w fleet) \<Rightarrow> nat \<Rightarrow> ('w prog, i32 flow) run" where
  "serving nng step n =
     (\<lambda>A. case start_items step n (fleet_start A) of
        (Next _, F) \<Rightarrow> forever (to_world (nng_msleep nng 3600000)) (fl_prog F)
      | (Exit _, F) \<Rightarrow> Ends (Ok (Exits 1)) (fl_prog F)
      | (Stuck, F) \<Rightarrow> Ends Ub (fl_prog F))"

text \<open>\<open>cb\<close> is the address of \<open>server_cb\<close>, \<open>addr\<close> the addresses of the items. The result is what \<open>main\<close> returns after it, if it could.\<close>

definition async_server :: "'w nng \<Rightarrow> ptr \<Rightarrow> (nat \<Rightarrow> ptr) \<Rightarrow> string \<Rightarrow> nat \<Rightarrow> ('w prog, i32 flow) run" where
  "async_server nng cb addr url n =
     run_bind (sure (async_server_up nng cb addr url n)) (\<lambda>_. serving nng (run_async nng) n)"

definition raw_server :: "'w nng \<Rightarrow> ptr \<Rightarrow> (nat \<Rightarrow> ptr) \<Rightarrow> string \<Rightarrow> nat \<Rightarrow> ('w prog, i32 flow) run" where
  "raw_server nng cb addr url n =
     run_bind (sure (raw_server_up nng cb addr url n)) (\<lambda>_. serving nng (run_raw nng) n)"

definition async_server_main :: "'w nng \<Rightarrow> ptr \<Rightarrow> (nat \<Rightarrow> ptr) \<Rightarrow> string list \<Rightarrow> ('w prog, i32 flow) run" where
  "async_server_main nng cb addr argv =
     (if length argv \<noteq> 2 then sure (ret (On 1))
      else run_caught (async_server nng cb addr (argv ! 1) 128) (\<lambda>_. sure (ret (On 1))))"

definition raw_main :: "'w nng \<Rightarrow> ptr \<Rightarrow> (nat \<Rightarrow> ptr) \<Rightarrow> string list \<Rightarrow> ('w prog, i32 flow) run" where
  "raw_main nng cb addr argv =
     (if length argv < 3 then sure (ret (On 1))
      else run_caught
        (if argv ! 2 = ''-s'' then raw_server nng cb addr (argv ! 1) 32
         else sure (bind (raw_client nng (argv ! 1) (argv ! 2)) (\<lambda>_. ret (On 0))))
        (\<lambda>_. sure (ret (On 1))))"

section \<open>Both sides of a measurement\<close>





section \<open>The items are started\<close>

lemma disturb_same: "disturb (st_lib (wrld (fl_prog F))) (st_mem (wrld (fl_prog F))) F = F"
  by (simp add: disturb_def)

lemma items_started:
  assumes "\<And>k a S s. \<exists>s'. cb k a INIT (S, s) = (Next RECV, S, s')"
    and "\<And>A M s. ep (A\<lparr>o_msg := M, wrld := s\<rparr>) = ep A"
    and "serves (run_item cb ep) n F0 c F" "fl_next F + r = n" "\<And>i. fl_next F \<le> i \<Longrightarrow> fl_state F i = INIT"
    and "\<And>i. i < n \<Longrightarrow> ep (fl_prog F) i \<noteq> None \<and> o_aio (fl_prog F) i \<noteq> None"
  shows "\<exists>F'. start_items (run_item cb ep) r F = (Next (), F') \<and> serves (run_item cb ep) n F0 c F' \<and> fl_next F' = n"
  using assms(3-6)
proof (induction r arbitrary: F)
  case 0
  then show ?case by simp
next
  case (Suc r)
  let ?i = "fl_next F"
  have i: "?i < n" using Suc.prems(2) by simp
  obtain k a where ka: "ep (fl_prog F) ?i = Some k" "o_aio (fl_prog F) ?i = Some a" using Suc.prems(4) [OF i] by blast
  let ?S = "\<lambda>b. if b = work_msg then o_msg (fl_prog F) ?i else None"
  obtain s' where cb: "cb k a INIT (?S, wrld (fl_prog F)) = (Next RECV, ?S, s')" using assms(1) by blast
  have ini: "fl_state F ?i = INIT" using Suc.prems(3) by simp
  define F1 where "F1 = F\<lparr>fl_prog := (fl_prog F)\<lparr>o_msg := (o_msg (fl_prog F))(?i := o_msg (fl_prog F) ?i), wrld := s'\<rparr>,
      fl_state := (fl_state F)(?i := RECV)\<rparr>"
  have run: "run_item cb ep ?i F = (Next (), F1)"
    using ka cb ini by (simp add: run_item_def F1_def Let_def)
  have "serves (run_item cb ep) n F0 c (F1\<lparr>fl_next := Suc ?i\<rparr>)"
    using serves.start_item [OF Suc.prems(1) i, of "st_lib (wrld (fl_prog F))" "st_mem (wrld (fl_prog F))" F1] run
    by (simp only: disturb_same simp_thms)
  moreover have "fl_next (F1\<lparr>fl_next := Suc ?i\<rparr>) + r = n" using Suc.prems(2) by simp
  moreover have "fl_state (F1\<lparr>fl_next := Suc ?i\<rparr>) j = INIT" if "fl_next (F1\<lparr>fl_next := Suc ?i\<rparr>) \<le> j" for j
    using Suc.prems(3) [of j] that by (simp add: F1_def)
  moreover have "ep (fl_prog (F1\<lparr>fl_next := Suc ?i\<rparr>)) j \<noteq> None \<and> o_aio (fl_prog (F1\<lparr>fl_next := Suc ?i\<rparr>)) j \<noteq> None" if "j < n" for j
    using Suc.prems(4) [OF that] assms(2) [where A = "fl_prog F" and M = "o_msg (fl_prog F)" and s = s'] by (simp add: F1_def)
  ultimately show ?case using Suc.IH [of "F1\<lparr>fl_next := Suc ?i\<rparr>"] run by simp
qed

text \<open>Sleeping does not end.\<close>

lemma sleeps: "forever (to_world f) A = Goes_on (\<lambda>k. snd (turns (to_world f) k A))"
proof -
  have "endless (forever (to_world f) A :: ('a prog, 'b) course)"
    using forever_invariant [of "\<lambda>_. True" "to_world f" A] by (auto simp: to_world_def by_world_def)
  then show ?thesis unfolding forever_endless(2) .
qed

text \<open>
  What the main thread of a server comes to. The server is up, all its items have been started, and it sleeps, hour after hour,
  from that state on; or it is over with 1 and everything given back, for an exception while it was brought up.
\<close>

definition up_or_over ::
  "'w nng \<Rightarrow> (nat \<Rightarrow> 'w fleet \<Rightarrow> unit callback \<times> 'w fleet) \<Rightarrow> ('w prog, unit) act \<Rightarrow> nat \<Rightarrow> 'w st \<Rightarrow>
     ('w prog, i32 flow) course \<Rightarrow> bool" where
  "up_or_over nng step up n s r \<longleftrightarrow>
     (case r of
        Goes_on S \<Rightarrow> \<exists>A F. up (program_start s) = (Ok (), A) \<and> serves step n (fleet_start A) (\<lambda>_. 0) F \<and> fl_next F = n \<and>
          (\<forall>k. S k = snd (turns (to_world (nng_msleep nng 3600000)) k (fl_prog F)))
      | Ends x A \<Rightarrow> x = Ok (On 1) \<and> settled s A \<and> (\<exists>e. up (program_start s) = (Throw e, A)))"

lemma serving_up:
  assumes "leads (\<lambda>_. Map.empty) up ((=) (staffed c opened n)) ((=) (\<lambda>_. Map.empty))"
    and "\<And>k a S s. \<exists>s'. cb k a INIT (S, s) = (Next RECV, S, s')"
    and "\<And>A M s. ep (A\<lparr>o_msg := M, wrld := s\<rparr>) = ep A"
    and "\<And>A i. o_sock A 0 \<noteq> None \<Longrightarrow> (c \<Longrightarrow> o_ctx A i \<noteq> None) \<Longrightarrow> ep A i \<noteq> None"
  shows "up_or_over nng (run_item cb ep) up n s
    (run_caught (run_bind (sure up) (\<lambda>_. serving nng (run_item cb ep) n)) (\<lambda>_. sure (ret (On 1))) (program_start s))"
proof -
  obtain x A where up: "up (program_start s) = (x, A)" by fastforce
  have g: "gives up (program_start s) (\<lambda>_. ends ((=) (staffed c opened n)) (program_start s))
      (\<lambda>_. ends ((=) (\<lambda>_. Map.empty)) (program_start s))"
    using assms(1) start_shape unfolding leads_def by blast
  show ?thesis
  proof (cases x)
    case (Ok y)
    have "up (program_start s) = (Ok (), A)" using up Ok by simp
    note here = comes_up_ok [OF leads_comes_up [OF assms(1)] this]
    have "\<exists>F'. start_items (run_item cb ep) n (fleet_start A) = (Next (), F') \<and>
        serves (run_item cb ep) n (fleet_start A) (\<lambda>_. 0) F' \<and> fl_next F' = n"
      using here assms(4)
      by (intro items_started [where cb = cb and ep = ep] assms(2,3) serves.up) (auto simp: fleet_start_def)
    with up Ok show ?thesis
      by (auto simp: up_or_over_def run_caught_def run_bind_def sure_def serving_def sleeps)
  next
    case (Throw e)
    with up g have "settled s A" by (auto simp: gives_def intro: ends_settled)
    with up Throw show ?thesis by (simp add: up_or_over_def run_caught_def run_bind_def sure_def ret_def)
  qed (use up g in \<open>simp add: gives_def\<close>)
qed

lemma init_starts:
  "\<exists>s'. async_server_cb nng k a INIT (S, s) = (Next RECV, S, s')"
  "\<exists>s'. raw_server_cb nng k a INIT (S, s) = (Next RECV, S, s')"
  by (simp_all add: async_server_cb_def raw_server_cb_def)

section \<open>The thread object\<close>









section \<open>No failure, no end\<close>






lemma mains_up:
  assumes "lawful nng"
  shows "up_or_over nng (run_async nng) (async_server_up nng cb addr url n) n s
      (run_caught (async_server nng cb addr url n) (\<lambda>_. sure (ret (On 1))) (program_start s))"
    and "up_or_over nng (run_raw nng) (raw_server_up nng cb addr url n) n s
      (run_caught (raw_server nng cb addr url n) (\<lambda>_. sure (ret (On 1))) (program_start s))"
  unfolding async_server_def raw_server_def run_async_def run_raw_def
  by (rule serving_up [where c = True, OF servers_lead(1) [OF assms]], rule init_starts, simp_all)
    (rule serving_up [where c = False, OF servers_lead(2) [OF assms]], rule init_starts, simp_all)

section \<open>Properties\<close>

text \<open>C21: The programs of the timer servers. A wrong number of arguments ends them at once, with 1. When the server cannot be
  brought up, for an error of nng, they end with 1 and have
  given everything back; otherwise the main thread never returns: it goes to sleep, for ever, in the state in which all items
  have been started, one of those \<open>async_items_share\<close> and \<open>raw_items_share\<close> speak about. It is a callback, if any, that ends
  the process, with \<open>exit(1)\<close>.\<close>

theorem server_mains_run:
  assumes "lawful nng"
  shows "(if length argv = 2 then up_or_over nng (run_async nng) (async_server_up nng cb addr (argv ! 1) 128) 128 s
        (async_server_main nng cb addr argv (program_start s))
      else async_server_main nng cb addr argv (program_start s) = Ends (Ok (On 1)) (program_start s)) \<and>
    (if length argv < 3 then raw_main nng cb addr argv (program_start s) = Ends (Ok (On 1)) (program_start s)
      else argv ! 2 = ''-s'' \<longrightarrow> up_or_over nng (run_raw nng) (raw_server_up nng cb addr (argv ! 1) 32) 32 s
        (raw_main nng cb addr argv (program_start s)))"
  using mains_up [OF assms] by (simp add: async_server_main_def raw_main_def sure_def ret_def)

theorem server_mains_run_witness:
  "up_or_over web_nng (run_async web_nng) (async_server_up web_nng 7 (\<lambda>i. 8 * of_nat i) ''inproc://x'' 128) 128 (start ())
     (async_server_main web_nng 7 (\<lambda>i. 8 * of_nat i) [''server'', ''inproc://x''] (program_start (start ())))"
  using server_mains_run [OF web_nng_lawful, where argv = "[''server'', ''inproc://x'']" and cb = 7
      and addr = "\<lambda>i. 8 * of_nat i" and s = "start ()"] by simp







end
