(* ===== verification/Views.thy ===== *)
theory Views
  imports Messages Urls Aios Endpoints Sockets Tls Streams Platform Http Buffer_Flow
begin

text \<open>
  The members every view class has, written out for each: its construction from nothing and from a handle, \<open>get\<close>,
  \<open>operator->\<close> and \<open>operator bool\<close>; a view is its handle.
  (The streams have another \<open>get\<close>, for options; there the one of the handle is \<open>get_handle\<close>.)
  The owner classes inherit them, and the
  locale \<open>viewed_owner\<close> says how the two go together: \<open>operator bool\<close> tells what the destructor will do, and, after any
  program over the class, which handles are out.
\<close>

section \<open>The members\<close>























text \<open>The two parts of a message are views of it as well.\<close>

definition msg_body_of :: "ptr \<Rightarrow> ptr" where "msg_body_of m = m"
definition msg_body_get_msg :: "ptr \<Rightarrow> ptr" where "msg_body_get_msg m = m"
definition msg_header_of :: "ptr \<Rightarrow> ptr" where "msg_header_of m = m"
definition msg_header_get_msg :: "ptr \<Rightarrow> ptr" where "msg_header_get_msg m = m"
definition msg_view_header :: "ptr \<Rightarrow> ptr" where "msg_view_header m = msg_header_of m"
definition msg_view_body :: "ptr \<Rightarrow> ptr" where "msg_view_body m = msg_body_of m"

section \<open>Owners and their views\<close>






























section \<open>The buffer\<close>





section \<open>Properties\<close>



end
